(* ===== verification/Prelude.thy ===== *)
theory Prelude
  imports Main "HOL-Library.AList"
begin

text \<open>
  Shared vocabulary of the development: the development's theorem collections, string maps
  (Go's \<open>map[string]string\<close>) as association lists, the functions of \<open>strconv\<close> and \<open>strings\<close>
  the operator uses, the codec interface that every encode/decode pair of the operator
  implements, and the transition-system interface that the state machines implement.
\<close>

named_theorems gomap_simps \<open>reading a string map after a write\<close>
named_theorems str_simps \<open>equations of the string functions\<close>
named_theorems io_simps \<open>running a computation of the effect monad\<close>
named_theorems handler_defs \<open>the definitions of the handlers\<close>

section \<open>String maps\<close>

text \<open>
  A \<open>map[string]string\<close> is an association list with distinct keys. Reading a missing key
  gives the empty string, as in Go; \<open>len\<close> is the length of the list. A nil map and an empty
  map are both the empty list: the code reads both alike, and it tests for nil before
  every assignment to a map that can be nil.
\<close>

type_synonym smap = "(string \<times> string) list"

definition mget :: "smap \<Rightarrow> string \<Rightarrow> string" where
  "mget m k = (case map_of m k of None \<Rightarrow> [] | Some v \<Rightarrow> v)"

definition mput :: "string \<Rightarrow> string \<Rightarrow> smap \<Rightarrow> smap" where
  "mput k v m = AList.update k v m"

definition mdel :: "string \<Rightarrow> smap \<Rightarrow> smap" where
  "mdel k m = AList.delete k m"

definition mhas :: "smap \<Rightarrow> string \<Rightarrow> bool" where
  "mhas m k \<longleftrightarrow> map_of m k \<noteq> None"

lemma mget_Nil [simp, gomap_simps]: "mget [] k = []"
  by (simp add: mget_def)

lemma map_of_mput [gomap_simps]: "map_of (mput k v m) k' = (if k' = k then Some v else map_of m k')"
  by (simp add: mput_def update_conv')

lemma mget_mput [simp, gomap_simps]: "mget (mput k v m) k' = (if k' = k then v else mget m k')"
  by (simp add: mget_def mput_def update_conv')

lemma mget_mdel [simp, gomap_simps]: "mget (mdel k m) k' = (if k' = k then [] else mget m k')"
  by (simp add: mget_def mdel_def delete_conv')

lemma mhas_mput [simp, gomap_simps]: "mhas (mput k v m) k' \<longleftrightarrow> k' = k \<or> mhas m k'"
  by (simp add: mhas_def mput_def update_conv')

lemma mhas_mdel [simp, gomap_simps]: "mhas (mdel k m) k' \<longleftrightarrow> k' \<noteq> k \<and> mhas m k'"
  by (simp add: mhas_def mdel_def delete_conv')

lemma mput_not_Nil [simp]: "mput k v m \<noteq> []"
  by (cases m) (auto simp: mput_def)

text \<open>\<open>client.MatchingLabels\<close>: every pair of the selector is a label of the object.\<close>

definition matches :: "smap \<Rightarrow> smap \<Rightarrow> bool" where
  "matches sel labels \<longleftrightarrow> (\<forall>(k, v) \<in> set sel. map_of labels k = Some v)"

section \<open>strconv: decimal integers\<close>

fun digits10 :: "nat \<Rightarrow> string" where
  "digits10 n = (if n < 10 then [char_of (48 + n)] else digits10 (n div 10) @ [char_of (48 + n mod 10)])"

declare digits10.simps [simp del]

definition is_digit :: "char \<Rightarrow> bool" where
  "is_digit c \<longleftrightarrow> 48 \<le> (of_char c :: nat) \<and> (of_char c :: nat) \<le> 57"

definition digit_val :: "char \<Rightarrow> nat" where
  "digit_val c = of_char c - 48"

definition nat_of_digits :: "string \<Rightarrow> nat" where
  "nat_of_digits s = foldl (\<lambda>a c. 10 * a + digit_val c) 0 s"

text \<open>\<open>strconv.Itoa\<close> and the verb \<open>%d\<close>.\<close>

definition itoa :: "int \<Rightarrow> string" where
  "itoa i = (if i < 0 then CHR ''-'' # digits10 (nat (- i)) else digits10 (nat i))"

definition int64_min :: int where "int64_min = - (2 ^ 63)"

definition int64_max :: int where "int64_max = 2 ^ 63 - 1"

text \<open>
  \<open>strconv.Atoi\<close> on a 64-bit platform: an optional sign, at least one digit, digits only,
  and a value of an \<open>int64\<close>; everything else is an error.
\<close>

definition atoi_digits :: "bool \<Rightarrow> string \<Rightarrow> int option" where
  "atoi_digits neg s =
     (if s = [] \<or> \<not> list_all is_digit s then None
      else let v = (if neg then - int (nat_of_digits s) else int (nat_of_digits s))
           in if int64_min \<le> v \<and> v \<le> int64_max then Some v else None)"

fun atoi :: "string \<Rightarrow> int option" where
  "atoi [] = None"
| "atoi (c # s) =
     (if c = CHR ''-'' then atoi_digits True s
      else if c = CHR ''+'' then atoi_digits False s
      else atoi_digits False (c # s))"

lemma of_char_of_digit: "n < 10 \<Longrightarrow> (of_char (char_of (48 + n)) :: nat) = 48 + n"
  by (simp add: of_char_of)

lemma digit_char: "n < 10 \<Longrightarrow> is_digit (char_of (48 + n)) \<and> digit_val (char_of (48 + n)) = n"
  by (simp add: is_digit_def digit_val_def of_char_of_digit)

lemma digits10_digits: "list_all is_digit (digits10 n)"
proof (induction n rule: digits10.induct)
  case (1 n)
  then show ?case
    by (subst digits10.simps) (simp add: digit_char)
qed

lemma digits10_not_Nil [simp]: "digits10 n \<noteq> []"
  by (subst digits10.simps) simp

lemma nat_of_digits_snoc [simp]: "nat_of_digits (s @ [c]) = 10 * nat_of_digits s + digit_val c"
  by (simp add: nat_of_digits_def)

lemma nat_of_digits10: "nat_of_digits (digits10 n) = n"
proof (induction n rule: digits10.induct)
  case (1 n)
  show ?case
  proof (cases "n < 10")
    case True
    then show ?thesis
      by (subst digits10.simps) (simp add: digit_char nat_of_digits_def)
  next
    case False
    with 1 have "nat_of_digits (digits10 (n div 10)) = n div 10" by simp
    with False show ?thesis
      by (subst digits10.simps) (simp add: digit_char)
  qed
qed

lemma digits10_hd_digit: "digits10 n = c # s \<Longrightarrow> is_digit c"
  using digits10_digits [of n] by simp

lemma atoi_itoa:
  assumes "int64_min \<le> i" and "i \<le> int64_max"
  shows "atoi (itoa i) = Some i"
proof (cases "i < 0")
  case True
  then show ?thesis
    using assms by (simp add: itoa_def atoi_digits_def digits10_digits nat_of_digits10)
next
  case False
  then obtain c s where cs: "digits10 (nat i) = c # s"
    by (metis digits10_not_Nil list.exhaust)
  from cs have "is_digit c" by (rule digits10_hd_digit)
  then have "c \<noteq> CHR ''-''" and "c \<noteq> CHR ''+''" by (auto simp: is_digit_def)
  then have "atoi (itoa i) = atoi_digits False (digits10 (nat i))"
    using False cs by (simp add: itoa_def)
  then show ?thesis
    using False assms by (simp add: atoi_digits_def digits10_digits nat_of_digits10)
qed

section \<open>strings: prefixes, joining and splitting\<close>

fun hasPrefix :: "string \<Rightarrow> string \<Rightarrow> bool" where
  "hasPrefix s [] = True"
| "hasPrefix [] (p # ps) = False"
| "hasPrefix (c # s) (p # ps) = (c = p \<and> hasPrefix s ps)"

definition trimPrefix :: "string \<Rightarrow> string \<Rightarrow> string" where
  "trimPrefix s p = (if hasPrefix s p then drop (length p) s else s)"

definition hasSuffix :: "string \<Rightarrow> string \<Rightarrow> bool" where
  "hasSuffix s p = hasPrefix (rev s) (rev p)"

definition trimSuffix :: "string \<Rightarrow> string \<Rightarrow> string" where
  "trimSuffix s p = (if hasSuffix s p then take (length s - length p) s else s)"

fun str_contains :: "string \<Rightarrow> string \<Rightarrow> bool" where
  "str_contains [] p = (p = [])"
| "str_contains (c # s) p = (hasPrefix (c # s) p \<or> str_contains s p)"

text \<open>\<open>strings.Join\<close>, and the loops of the pod builder that write a separator before every element but the first.\<close>

fun join :: "string \<Rightarrow> string list \<Rightarrow> string" where
  "join sep [] = []"
| "join sep [x] = x"
| "join sep (x # y # xs) = x @ sep @ join sep (y # xs)"

text \<open>
  \<open>strings.Split\<close> for a separator that is not empty: the text before the first occurrence,
  then the split of what follows it.
\<close>

function split_from :: "string \<Rightarrow> string \<Rightarrow> string \<Rightarrow> string list" where
  "split_from sep acc s =
     (if s = [] \<or> sep = [] then [rev acc @ s]
      else if hasPrefix s sep then rev acc # split_from sep [] (drop (length sep) s)
      else split_from sep (hd s # acc) (tl s))"
  by pat_completeness auto
termination
  by (relation "measure (\<lambda>(sep, acc, s). length s)") (auto simp: neq_Nil_conv)

declare split_from.simps [simp del]

definition split :: "string \<Rightarrow> string \<Rightarrow> string list" where
  "split sep s = split_from sep [] s"

lemma hasPrefix_append [simp, str_simps]: "hasPrefix (p @ s) p"
  by (induction p) auto

lemma hasPrefix_iff: "hasPrefix s p \<longleftrightarrow> (\<exists>r. s = p @ r)"
  by (induction s p rule: hasPrefix.induct) auto

lemma trimPrefix_append [simp, str_simps]: "trimPrefix (p @ s) p = s"
  by (simp add: trimPrefix_def)

lemma trimSuffix_append [simp, str_simps]: "trimSuffix (s @ p) p = s"
  by (simp add: trimSuffix_def hasSuffix_def)

lemma join_Cons: "xs \<noteq> [] \<Longrightarrow> join sep (x # xs) = x @ sep @ join sep xs"
  by (cases xs) auto

lemma join_snoc: "xs \<noteq> [] \<Longrightarrow> join sep (xs @ [x]) = join sep xs @ sep @ x"
proof (induction xs)
  case (Cons y ys)
  then show ?case by (cases ys) (auto simp: join_Cons)
qed simp

text \<open>
  Splitting undoes joining when no element contains the first character of the separator.
\<close>

lemma split_from_no_sep:
  assumes "c \<notin> set x"
  shows "split_from (c # sep) acc x = [rev acc @ x]"
  using assms
proof (induction x arbitrary: acc)
  case Nil
  then show ?case by (simp add: split_from.simps)
next
  case (Cons a x)
  then show ?case by (subst split_from.simps) auto
qed

lemma split_from_sep:
  assumes "c \<notin> set x"
  shows "split_from (c # sep) acc (x @ (c # sep) @ s) = (rev acc @ x) # split_from (c # sep) [] s"
  using assms
proof (induction x arbitrary: acc)
  case Nil
  then show ?case by (subst split_from.simps) simp
next
  case (Cons a x)
  then show ?case by (subst split_from.simps) auto
qed

lemma split_join:
  assumes "xs \<noteq> []" and "\<forall>x \<in> set xs. c \<notin> set x"
  shows "split (c # sep) (join (c # sep) xs) = xs"
  using assms
proof (induction xs)
  case (Cons x xs)
  show ?case
  proof (cases "xs = []")
    case True
    with Cons.prems show ?thesis by (simp add: split_def split_from_no_sep)
  next
    case False
    with Cons have "split_from (c # sep) [] (join (c # sep) xs) = xs" by (simp add: split_def)
    with False Cons.prems show ?thesis
      using split_from_sep [of c x sep "[]" "join (c # sep) xs"] by (simp add: split_def join_Cons)
  qed
qed simp

section \<open>Encode and decode\<close>

text \<open>
  The operator hands values from one process to another as text: annotations, environment
  variables, file names. A codec is a pair of functions with the domain on which decoding
  undoes encoding.
\<close>

locale codec =
  fixes enc :: "'a \<Rightarrow> 'b" and dec :: "'b \<Rightarrow> 'c" and ret :: "'a \<Rightarrow> 'c" and good :: "'a \<Rightarrow> bool"
  assumes dec_enc: "good x \<Longrightarrow> dec (enc x) = ret x"
    and ret_inj: "ret x = ret y \<Longrightarrow> x = y"
begin

lemma enc_inj: "good x \<Longrightarrow> good y \<Longrightarrow> enc x = enc y \<Longrightarrow> x = y"
  by (metis dec_enc ret_inj)

lemma enc_inj_on: "inj_on enc {x. good x}"
  by (rule inj_onI) (auto intro: enc_inj)

end

interpretation itoa_codec: codec itoa atoi Some "\<lambda>i. int64_min \<le> i \<and> i \<le> int64_max"
  by unfold_locales (auto intro: atoi_itoa)

interpretation comma_codec: codec "join '',''" "split '',''" id
    "\<lambda>xs. xs \<noteq> [] \<and> (\<forall>x \<in> set xs. CHR '','' \<notin> set x)"
  by unfold_locales (auto intro: split_join)

interpretation bars_codec: codec "join ''|||''" "split ''|||''" id
    "\<lambda>xs. xs \<noteq> [] \<and> (\<forall>x \<in> set xs. CHR ''|'' \<notin> set x)"
  by unfold_locales (auto intro: split_join)

section \<open>Transition systems\<close>

text \<open>
  A state machine of the operator is an initial-state predicate and a step relation; an
  inductive invariant holds in every reachable state.
\<close>

inductive reachable :: "('s \<Rightarrow> bool) \<Rightarrow> ('s \<Rightarrow> 's \<Rightarrow> bool) \<Rightarrow> 's \<Rightarrow> bool"
  for init :: "'s \<Rightarrow> bool" and step :: "'s \<Rightarrow> 's \<Rightarrow> bool"
where
  reach_init: "init s \<Longrightarrow> reachable init step s"
| reach_step: "reachable init step s \<Longrightarrow> step s s' \<Longrightarrow> reachable init step s'"

locale invariant_system =
  fixes init :: "'s \<Rightarrow> bool" and step :: "'s \<Rightarrow> 's \<Rightarrow> bool" and inv :: "'s \<Rightarrow> bool"
  assumes inv_init: "init s \<Longrightarrow> inv s"
    and inv_step: "inv s \<Longrightarrow> step s s' \<Longrightarrow> inv s'"
begin

lemma inv_reachable: "reachable init step s \<Longrightarrow> inv s"
  by (induction rule: reachable.induct) (auto intro: inv_init inv_step)

end

end
