(* ===== verification/Io.thy ===== *)
theory Io
  imports Prelude "HOL-Library.State_Monad"
begin

text \<open>
  The effects of the operator. A program that talks to the Kubernetes API, to an agent, to
  the clock or to the operating system is a state monad over the log of the interactions it
  has had so far: each interaction is an event that carries the request and the reply. The
  reply comes from a parameter, a function of the log so far, so that a theorem about a program
  holds for every behaviour of its environment, the answers changing over time included.
  The Hoare-style predicate \<open>io_post\<close> bounds the result and the events a program adds.
\<close>

type_synonym ('e, 'a) io = "('e list, 'a) state"

text \<open>One interaction: the environment answers, and the event with the answer is logged.\<close>

definition ask :: "('e list \<Rightarrow> 'r) \<Rightarrow> ('r \<Rightarrow> 'e) \<Rightarrow> ('e, 'r) io" where
  "ask ans ev = State (\<lambda>t. (ans t, t @ [ev (ans t)]))"

text \<open>Running a program from an empty log: its result and its events.\<close>

definition outcome :: "('e, 'a) io \<Rightarrow> 'a" where
  "outcome m = fst (run_state m [])"

definition events :: "('e, 'a) io \<Rightarrow> 'e list" where
  "events m = snd (run_state m [])"

fun forEach :: "'a list \<Rightarrow> ('a \<Rightarrow> ('e, unit) io) \<Rightarrow> ('e, unit) io" where
  "forEach [] f = State_Monad.return ()"
| "forEach (x # xs) f = do { _ \<leftarrow> f x; forEach xs f }"

section \<open>Running\<close>

lemma run_return [io_simps]: "run_state (State_Monad.return x) t = (x, t)"
  by (simp add: State_Monad.return_def)

lemma run_bind [io_simps]:
  "run_state (State_Monad.bind m f) t = run_state (f (fst (run_state m t))) (snd (run_state m t))"
  by (simp add: State_Monad.bind_def split_beta)

lemma run_ask [io_simps]: "run_state (ask ans ev) t = (ans t, t @ [ev (ans t)])"
  by (simp add: ask_def)

lemma run_if [io_simps]: "run_state (if b then m else m') t = (if b then run_state m t else run_state m' t)"
  by simp

section \<open>Postconditions on results and events\<close>

definition io_post :: "('e, 'a) io \<Rightarrow> ('a \<Rightarrow> 'e list \<Rightarrow> bool) \<Rightarrow> bool" where
  "io_post m Q \<longleftrightarrow> (\<forall>t. \<exists>d. snd (run_state m t) = t @ d \<and> Q (fst (run_state m t)) d)"

named_theorems io_rules \<open>rules that compute a postcondition along a program\<close>

lemma io_post_return [io_rules]: "Q x [] \<Longrightarrow> io_post (State_Monad.return x) Q"
  by (simp add: io_post_def run_return)

lemma io_post_ask [io_rules]: "(\<And>r. Q r [ev r]) \<Longrightarrow> io_post (ask ans ev) Q"
  by (simp add: io_post_def run_ask)

lemma io_post_bind [io_rules]:
  assumes "io_post m (\<lambda>r d. io_post (f r) (\<lambda>r' d'. Q r' (d @ d')))"
  shows "io_post (State_Monad.bind m f) Q"
  unfolding io_post_def
proof
  fix t
  from assms obtain d where d: "snd (run_state m t) = t @ d"
    and f: "io_post (f (fst (run_state m t))) (\<lambda>r' d'. Q r' (d @ d'))"
    unfolding io_post_def [of m] by metis
  from f obtain d' where "snd (run_state (f (fst (run_state m t))) (t @ d)) = (t @ d) @ d'"
    and "Q (fst (run_state (f (fst (run_state m t))) (t @ d))) (d @ d')"
    unfolding io_post_def by blast
  with d show "\<exists>d. snd (run_state (m \<bind> f) t) = t @ d \<and> Q (fst (run_state (m \<bind> f) t)) d"
    by (auto simp: split_beta)
qed

lemma io_post_if [io_rules]:
  "(b \<Longrightarrow> io_post m Q) \<Longrightarrow> (\<not> b \<Longrightarrow> io_post m' Q) \<Longrightarrow> io_post (if b then m else m') Q"
  by simp

lemma io_post_option [io_rules]:
  "(x = None \<Longrightarrow> io_post m Q) \<Longrightarrow> (\<And>y. x = Some y \<Longrightarrow> io_post (f y) Q) \<Longrightarrow>
   io_post (case x of None \<Rightarrow> m | Some y \<Rightarrow> f y) Q"
  by (cases x) auto

lemma io_post_sum [io_rules]:
  "(\<And>e. x = Inl e \<Longrightarrow> io_post (f e) Q) \<Longrightarrow> (\<And>y. x = Inr y \<Longrightarrow> io_post (g y) Q) \<Longrightarrow>
   io_post (case x of Inl e \<Rightarrow> f e | Inr y \<Rightarrow> g y) Q"
  by (cases x) auto

lemma io_post_prod [io_rules]:
  "(\<And>a b. x = (a, b) \<Longrightarrow> io_post (f a b) Q) \<Longrightarrow> io_post (case x of (a, b) \<Rightarrow> f a b) Q"
  by (cases x) auto

lemma io_post_let [io_rules]: "io_post (f x) Q \<Longrightarrow> io_post (Let x f) Q"
  by (simp add: Let_def)

lemma io_post_mono: "io_post m Q \<Longrightarrow> (\<And>r d. Q r d \<Longrightarrow> R r d) \<Longrightarrow> io_post m R"
  by (fastforce simp: io_post_def)

lemma io_post_conj: "io_post m Q \<Longrightarrow> io_post m R \<Longrightarrow> io_post m (\<lambda>r d. Q r d \<and> R r d)"
  unfolding io_post_def by (metis same_append_eq)

lemma io_post_run: "io_post m Q \<Longrightarrow> Q (outcome m) (events m)"
  unfolding io_post_def outcome_def events_def by (metis append_Nil)

lemma io_post_at: "io_post m Q \<Longrightarrow> \<exists>d. snd (run_state m t) = t @ d \<and> Q (fst (run_state m t)) d"
  by (simp add: io_post_def)

text \<open>A property of single events, and a property of the result, along a program.\<close>

definition all_events :: "('e \<Rightarrow> bool) \<Rightarrow> ('e, 'a) io \<Rightarrow> bool" where
  "all_events P m \<longleftrightarrow> io_post m (\<lambda>r d. list_all P d)"

lemma io_post_forEach:
  assumes "\<And>x. x \<in> set xs \<Longrightarrow> io_post (f x) (\<lambda>r d. list_all P d)"
  shows "io_post (forEach xs f) (\<lambda>r d. list_all P d)"
  using assms
proof (induction xs)
  case Nil
  then show ?case by (auto intro: io_rules)
next
  case (Cons x xs)
  have step: "io_post (forEach xs f) (\<lambda>r' d'. list_all P (d @ d'))" if "list_all P d" for d
    by (rule io_post_mono [OF Cons.IH]) (use Cons.prems that in auto)
  have "io_post (f x) (\<lambda>r d. io_post (forEach xs f) (\<lambda>r' d'. list_all P (d @ d')))"
    by (rule io_post_mono [OF Cons.prems [OF list.set_intros(1)]]) (rule step)
  then show ?case by (simp add: io_post_bind)
qed

text \<open>The events of interest of a log, in order.\<close>

lemma io_post_filter_forEach:
  assumes "\<And>x. x \<in> set xs \<Longrightarrow> io_post (f x) (\<lambda>r d. filter P d = [])"
  shows "io_post (forEach xs f) (\<lambda>r d. filter P d = [])"
proof -
  have eq: "(filter P d = []) = list_all (\<lambda>e. \<not> P e) d" for d
    by (auto simp: filter_empty_conv list_all_iff)
  show ?thesis
    using assms unfolding eq by (rule io_post_forEach)
qed

section \<open>Orders and numbers of events\<close>

text \<open>No event of the second kind happens before one of the first kind.\<close>

fun guardedBy :: "('e \<Rightarrow> bool) \<Rightarrow> ('e \<Rightarrow> bool) \<Rightarrow> 'e list \<Rightarrow> bool" where
  "guardedBy G P [] \<longleftrightarrow> True"
| "guardedBy G P (e # d) \<longleftrightarrow> G e \<or> (\<not> P e \<and> guardedBy G P d)"

lemma guardedBy_skip: "list_all (\<lambda>e. \<not> P e) d \<Longrightarrow> guardedBy G P d' \<Longrightarrow> guardedBy G P (d @ d')"
  by (induction d) auto

lemma guardedBy_none: "list_all (\<lambda>e. \<not> P e) d \<Longrightarrow> guardedBy G P d"
  by (induction d) auto

definition count :: "('e \<Rightarrow> bool) \<Rightarrow> 'e list \<Rightarrow> nat" where
  "count P d = length (filter P d)"

lemma count_simps [simp]:
  "count P [] = 0" "count P (e # d) = (if P e then Suc (count P d) else count P d)"
  "count P (d @ d') = count P d + count P d'"
  by (simp_all add: count_def)

end
