(* ===== verification/GoTime.thy ===== *)
theory GoTime
  imports Io
begin

text \<open>
  The part of Go's package \<open>time\<close> the operator uses. A \<open>time.Duration\<close> is an \<open>int64\<close> number of
  nanoseconds, here an \<open>int\<close> whose saturation is written out; a \<open>time.Time\<close> is a number of
  nanoseconds since the epoch, or the zero time, which \<open>None\<close> stands for.
\<close>

type_synonym duration = int
type_synonym gtime = "int option"

abbreviation (input) nanosecond :: duration where "nanosecond \<equiv> 1"
abbreviation (input) millisecond :: duration where "millisecond \<equiv> 1000000"
abbreviation (input) second :: duration where "second \<equiv> 1000000000"
abbreviation (input) minute :: duration where "minute \<equiv> 60 * second"

text \<open>
  \<open>time.Time.Sub\<close> saturates at the bounds of \<open>int64\<close>; the zero time lies more than 292 years
  before every time of the clock.
\<close>

definition clamp64 :: "int \<Rightarrow> int" where
  "clamp64 x = (if x < int64_min then int64_min else if int64_max < x then int64_max else x)"

definition time_since :: "int \<Rightarrow> gtime \<Rightarrow> duration" where
  "time_since now t = (case t of None \<Rightarrow> int64_max | Some u \<Rightarrow> clamp64 (now - u))"

definition isZero :: "gtime \<Rightarrow> bool" where
  "isZero t \<longleftrightarrow> t = None"

text \<open>\<open>t.After(u)\<close>; the zero time is before every other time.\<close>

fun time_after :: "gtime \<Rightarrow> gtime \<Rightarrow> bool" where
  "time_after None u = False"
| "time_after (Some a) None = True"
| "time_after (Some a) (Some b) = (b < a)"

text \<open>The two's complement reading of an \<open>int64\<close> or \<open>int32\<close> computation.\<close>

definition wrap :: "nat \<Rightarrow> int \<Rightarrow> int" where
  "wrap n x = (x + 2 ^ (n - 1)) mod 2 ^ n - 2 ^ (n - 1)"

text \<open>\<open>time.Duration(n) * unit\<close>\<close>

definition times_dur :: "int \<Rightarrow> duration \<Rightarrow> duration" where
  "times_dur n u = wrap 64 (n * u)"

lemma wrap_id: "0 < n \<Longrightarrow> - (2 ^ (n - 1)) \<le> x \<Longrightarrow> x < 2 ^ (n - 1) \<Longrightarrow> wrap n x = x"
  by (cases n) (auto simp: wrap_def)

lemma wrap_range: "0 < n \<Longrightarrow> - (2 ^ (n - 1)) \<le> wrap n x \<and> wrap n x < 2 ^ (n - 1)"
proof -
  assume "0 < n"
  then obtain k where k: "n = Suc k" by (cases n) auto
  have "0 \<le> (x + 2 ^ k) mod 2 ^ Suc k" "(x + 2 ^ k) mod 2 ^ Suc k < 2 ^ Suc k" by simp_all
  then show ?thesis by (simp add: wrap_def k)
qed

lemma time_after_irrefl [simp]: "\<not> time_after t t"
  by (cases t) auto

lemma time_after_trans: "time_after a b \<Longrightarrow> time_after b c \<Longrightarrow> time_after a c"
  by (cases a; cases b; cases c) auto

lemma time_after_total: "\<not> time_after a b \<Longrightarrow> \<not> time_after b a \<Longrightarrow> a = b"
  by (cases a; cases b) auto

section \<open>Duration.String\<close>

text \<open>\<open>fmtFrac\<close>: the fraction with its point, trailing zeros dropped, nothing when it is zero.\<close>

fun fmtFrac_digits :: "nat \<Rightarrow> nat \<Rightarrow> string" where
  "fmtFrac_digits 0 v = []"
| "fmtFrac_digits (Suc p) v = fmtFrac_digits p (v div 10) @ [char_of (48 + v mod 10)]"

definition fmtFrac :: "nat \<Rightarrow> nat \<Rightarrow> string" where
  "fmtFrac prec v =
     (if v = 0 then [] else CHR ''.'' # rev (dropWhile (\<lambda>c. c = CHR ''0'') (rev (fmtFrac_digits prec v))))"

definition dur_string_pos :: "nat \<Rightarrow> string" where
  "dur_string_pos u =
     (if u = 0 then ''0s''
      else if u < 1000 then digits10 u @ ''ns''
      else if u < 1000000 then digits10 (u div 1000) @ fmtFrac 3 (u mod 1000) @ [CHR 0xC2, CHR 0xB5] @ ''s''
      else if u < 1000000000 then digits10 (u div 1000000) @ fmtFrac 6 (u mod 1000000) @ ''ms''
      else let s = u div 1000000000; m = s div 60; h = m div 60;
               secs = digits10 (s mod 60) @ fmtFrac 9 (u mod 1000000000) @ ''s''
           in if m = 0 then secs
              else if h = 0 then digits10 m @ ''m'' @ secs
              else digits10 h @ ''h'' @ digits10 (m mod 60) @ ''m'' @ secs)"

definition dur_string :: "duration \<Rightarrow> string" where
  "dur_string d = (if d < 0 then CHR ''-'' # dur_string_pos (nat (- d)) else dur_string_pos (nat d))"

section \<open>ParseDuration\<close>

text \<open>
  \<open>leadingInt\<close>: the digits at the front as a number, an error over \<open>1<<63\<close>; \<open>leadingFraction\<close>
  keeps the digits that fit an \<open>int64\<close>, with the power of ten they are counted in.
\<close>

fun leadingInt :: "nat \<Rightarrow> string \<Rightarrow> (nat \<times> string) option" where
  "leadingInt x [] = Some (x, [])"
| "leadingInt x (c # s) =
     (if \<not> is_digit c then Some (x, c # s)
      else if x > 2 ^ 63 div 10 then None
      else if 10 * x + digit_val c > 2 ^ 63 then None
      else leadingInt (10 * x + digit_val c) s)"

fun leadingFraction :: "nat \<Rightarrow> nat \<Rightarrow> bool \<Rightarrow> string \<Rightarrow> nat \<times> nat \<times> string" where
  "leadingFraction x scale ov [] = (x, scale, [])"
| "leadingFraction x scale ov (c # s) =
     (if \<not> is_digit c then (x, scale, c # s)
      else if ov then leadingFraction x scale True s
      else if x > (2 ^ 63 - 1) div 10 then leadingFraction x scale True s
      else if 10 * x + digit_val c > 2 ^ 63 then leadingFraction x scale True s
      else leadingFraction (10 * x + digit_val c) (10 * scale) False s)"

definition unit_of :: "string \<Rightarrow> nat option" where
  "unit_of u =
     (if u = ''ns'' then Some 1
      else if u = ''us'' \<or> u = [CHR 0xC2, CHR 0xB5] @ ''s'' \<or> u = [CHR 0xCE, CHR 0xBC] @ ''s'' then Some 1000
      else if u = ''ms'' then Some 1000000
      else if u = ''s'' then Some 1000000000
      else if u = ''m'' then Some 60000000000
      else if u = ''h'' then Some 3600000000000
      else None)"

text \<open>
  The loop of \<open>ParseDuration\<close> over the components, each a number with a unit. The fraction
  is \<open>f * unit / scale\<close> rounded down; Go computes it in \<open>float64\<close>, which agrees for the fractions
  a configuration holds. The string gets shorter in every turn, since a unit is not empty.
\<close>

function parse_components :: "nat \<Rightarrow> string \<Rightarrow> nat option" where
  "parse_components d s =
     (if s = [] then Some d
      else if \<not> (hd s = CHR ''.'' \<or> is_digit (hd s)) then None
      else case leadingInt 0 s of
        None \<Rightarrow> None
      | Some (v, s1) \<Rightarrow>
          (let pre = length s1 \<noteq> length s;
               (f, scale, s2, post) =
                 (if s1 \<noteq> [] \<and> hd s1 = CHR ''.''
                  then (let (f, scale, s2) = leadingFraction 0 1 False (tl s1)
                        in (f, scale, s2, length s2 \<noteq> length (tl s1)))
                  else (0, 1, s1, False));
               u = takeWhile (\<lambda>c. \<not> (c = CHR ''.'' \<or> is_digit c)) s2;
               s3 = drop (length u) s2
           in if (\<not> pre \<and> \<not> post) \<or> u = [] \<or> \<not> length s3 < length s then None
              else case unit_of u of
                None \<Rightarrow> None
              | Some k \<Rightarrow>
                  if v > 2 ^ 63 div k then None
                  else let v' = v * k + (f * k) div scale
                       in if v' > 2 ^ 63 then None
                          else if d + v' > 2 ^ 63 then None
                          else parse_components (d + v') s3))"
  by pat_completeness auto
termination
  by (relation "measure (\<lambda>(d, s). length s)") auto

declare parse_components.simps [simp del]

definition parseDuration_abs :: "bool \<Rightarrow> string \<Rightarrow> duration option" where
  "parseDuration_abs neg s =
     (if s = ''0'' then Some 0
      else if s = [] then None
      else case parse_components 0 s of
        None \<Rightarrow> None
      | Some d \<Rightarrow> if neg then Some (- int d)
                  else if d > 2 ^ 63 - 1 then None else Some (int d))"

fun parseDuration :: "string \<Rightarrow> duration option" where
  "parseDuration [] = None"
| "parseDuration (c # s) =
     (if c = CHR ''-'' then parseDuration_abs True s
      else if c = CHR ''+'' then parseDuration_abs False s
      else parseDuration_abs False (c # s))"

section \<open>RFC 3339\<close>

text \<open>The civil date of a day number counted from 1970-01-01, in the proleptic Gregorian calendar.\<close>

definition civil_of_days :: "int \<Rightarrow> int \<times> int \<times> int" where
  "civil_of_days z0 =
     (let z = z0 + 719468; era = z div 146097; doe = z mod 146097;
          yoe = (doe - doe div 1460 + doe div 36524 - doe div 146096) div 365;
          doy = doe - (365 * yoe + yoe div 4 - yoe div 100);
          mp = (5 * doy + 2) div 153;
          d = doy - (153 * mp + 2) div 5 + 1;
          m = (if mp < 10 then mp + 3 else mp - 9)
      in (yoe + era * 400 + (if m \<le> 2 then 1 else 0), m, d))"

definition pad :: "nat \<Rightarrow> int \<Rightarrow> string" where
  "pad n i = (let s = digits10 (nat i) in replicate (n - length s) CHR ''0'' @ s)"

definition format_rfc3339 :: "int \<Rightarrow> string" where
  "format_rfc3339 ns =
     (let s = ns div 1000000000; (y, m, d) = civil_of_days (s div 86400); r = s mod 86400
      in pad 4 y @ ''-'' @ pad 2 m @ ''-'' @ pad 2 d @ ''T'' @
         pad 2 (r div 3600) @ '':'' @ pad 2 (r div 60 mod 60) @ '':'' @ pad 2 (r mod 60) @ ''Z'')"

end
