(* ===== verification/Types.thy ===== *)
theory Types
  imports GoTime
begin

text \<open>
  The data of the operator: the MigratableApp resource of \<open>api/v1alpha1/migratableapp_types.go\<close>,
  the parts of the Kubernetes core types the code reads or writes, and the messages of the agent's
  RPC service. A struct is a record with the Go field names; where two structs share a field
  name, the field of the lesser one carries a prefix. A pointer that may be nil is an option.
  Go's \<open>int\<close> is an \<open>int\<close> and \<open>int32\<close> is an \<open>int\<close> whose wrap-around the operations write out.
\<close>

section \<open>Kubernetes core types\<close>

record ownerReference =
  or_Kind :: string
  or_Name :: string
  or_Controller :: bool

record objectMeta =
  Name :: string
  GenerateName :: string
  Namespace :: string
  Labels :: smap
  Annotations :: smap
  OwnerReferences :: "ownerReference list"
  CreationTimestamp :: gtime
  DeletionTimestamp :: gtime
  Finalizers :: "string list"

definition emptyMeta :: objectMeta where
  "emptyMeta = \<lparr>Name = [], GenerateName = [], Namespace = [], Labels = [], Annotations = [],
     OwnerReferences = [], CreationTimestamp = None, DeletionTimestamp = None, Finalizers = []\<rparr>"

text \<open>An environment variable has a literal value or names a field of the pod (Downward API).\<close>

datatype envSource = Literal string | FieldRef string

record envVar =
  ev_Name :: string
  ev_Source :: envSource

record volumeMount =
  vm_Name :: string
  MountPath :: string
  vm_ReadOnly :: bool

record securityContext =
  Privileged :: "bool option"
  CapabilitiesAdd :: "string list option"

record container =
  c_Name :: string
  Image :: string
  ImagePullPolicy :: string
  Command :: "string list"
  Args :: "string list"
  WorkingDir :: string
  Env :: "envVar list"
  EnvFromSecrets :: "(string \<times> bool) list"
  Ports :: "(string \<times> int) list"
  VolumeMounts :: "volumeMount list"
  SecurityContext :: "securityContext option"

definition emptyContainer :: container where
  "emptyContainer = \<lparr>c_Name = [], Image = [], ImagePullPolicy = [], Command = [], Args = [],
     WorkingDir = [], Env = [], EnvFromSecrets = [], Ports = [], VolumeMounts = [], SecurityContext = None\<rparr>"

text \<open>The volume sources the operator adds, and any other one of the user.\<close>

datatype volumeSource = EmptyDir | DownwardAPI "(string \<times> string) list" | OtherSource string

record volume =
  v_Name :: string
  v_Source :: volumeSource

text \<open>
  Affinity: the required pod anti-affinity terms (label selector and topology key), the
  preferred node terms (weight and one match expression: key, operator, values), each
  present or not.
\<close>

record affinity =
  PodAntiAffinityRequired :: "(smap \<times> string) list option"
  NodeAffinityPreferred :: "(int \<times> string \<times> string \<times> string list) list option"

record podSpec =
  Containers :: "container list"
  InitContainers :: "container list"
  Volumes :: "volume list"
  ShareProcessNamespace :: "bool option"
  Affinity :: "affinity option"
  NodeSelector :: smap
  NodeName :: string

definition emptyPodSpec :: podSpec where
  "emptyPodSpec = \<lparr>Containers = [], InitContainers = [], Volumes = [], ShareProcessNamespace = None,
     Affinity = None, NodeSelector = [], NodeName = []\<rparr>"

datatype podPhase = PodPending | PodRunning | PodSucceeded | PodFailed | PodUnknown

record podStatus =
  ps_Phase :: podPhase
  PodIP :: string
  ps_Message :: string
  ContainerReady :: "bool list"

definition emptyPodStatus :: podStatus where
  "emptyPodStatus = \<lparr>ps_Phase = PodUnknown, PodIP = [], ps_Message = [], ContainerReady = []\<rparr>"

record pod =
  p_Meta :: objectMeta
  p_Spec :: podSpec
  p_Status :: podStatus

record node =
  n_Name :: string
  Unschedulable :: bool

record secret =
  s_Meta :: objectMeta
  s_Data :: smap
  s_Type :: string

record replicaSet =
  rs_OwnerReferences :: "ownerReference list"

record deployment =
  d_Name :: string
  d_Namespace :: string
  Replicas :: "int option"

abbreviation pName :: "pod \<Rightarrow> string" where "pName p \<equiv> Name (p_Meta p)"
abbreviation pNamespace :: "pod \<Rightarrow> string" where "pNamespace p \<equiv> Namespace (p_Meta p)"
abbreviation pLabels :: "pod \<Rightarrow> smap" where "pLabels p \<equiv> Labels (p_Meta p)"
abbreviation pAnnotations :: "pod \<Rightarrow> smap" where "pAnnotations p \<equiv> Annotations (p_Meta p)"
abbreviation pNodeName :: "pod \<Rightarrow> string" where "pNodeName p \<equiv> NodeName (p_Spec p)"
abbreviation pPhase :: "pod \<Rightarrow> podPhase" where "pPhase p \<equiv> ps_Phase (p_Status p)"
abbreviation pIP :: "pod \<Rightarrow> string" where "pIP p \<equiv> PodIP (p_Status p)"

text \<open>\<open>pod.DeletionTimestamp != nil\<close>\<close>

definition terminating :: "pod \<Rightarrow> bool" where
  "terminating p \<longleftrightarrow> DeletionTimestamp (p_Meta p) \<noteq> None"

definition annotate :: "string \<Rightarrow> string \<Rightarrow> pod \<Rightarrow> pod" where
  "annotate k v p = p\<lparr>p_Meta := (p_Meta p)\<lparr>Annotations := mput k v (Annotations (p_Meta p))\<rparr>\<rparr>"

section \<open>MigratableApp: the specification\<close>

record deadlineSchedulerConfig =
  DryRun :: bool
  DeadlineSeconds :: int
  BandwidthMBps :: int
  ScanIntervalMs :: int
  TFreezeMs :: int
  TMarginMs :: int

record checkpointPolicy =
  Interval :: string
  AutoAdjust :: bool
  MemoryThresholdMB :: int
  MaxCheckpointChainDepth :: int
  DeadlineScheduler :: deadlineSchedulerConfig

record preDumpQuiesce =
  TargetPodSelector :: smap
  DrainSeconds :: int
  Action :: string

record migrationPolicy =
  Strategy :: string
  AutoMigrate :: bool
  TargetNodeSelector :: smap
  PreferOnDemand :: bool
  MigrationTimeoutSeconds :: int
  PreDumpQuiesce :: "preDumpQuiesce option"

record detectionMethod =
  dm_Type :: string
  dm_Enabled :: bool
  CloudType :: string
  PollIntervalSeconds :: int

record spotInterruptionHandling =
  sih_Enabled :: bool
  DetectionMethods :: "detectionMethod list"

record storageConfig =
  sc_Type :: string
  Bucket :: string
  Endpoint :: string
  DownloadEndpoint :: string
  Region :: string
  CredentialsSecret :: string
  ExpressOneZone :: bool
  AsyncPrefetch :: bool
  PrefetchWorkers :: int
  DirectUpload :: bool
  SemiSyncIOV :: "bool option"
  HotIOVSeed :: "bool option"
  LogUpload :: bool
  Compress :: bool
  CompressLevel :: int
  CompressWorkers :: int

record podTemplateSpec =
  t_Labels :: smap
  t_Annotations :: smap
  t_Spec :: podSpec

record migratableAppSpec =
  Template :: podTemplateSpec
  CheckpointPolicy :: checkpointPolicy
  MigrationPolicy :: migrationPolicy
  SpotInterruptionHandling :: spotInterruptionHandling
  Storage :: storageConfig

section \<open>MigratableApp: the status\<close>

text \<open>
  \<open>MigrationStage\<close> is a string in Go; the constants are constructors, the empty string is
  \<open>StageIdle\<close> and any other string is \<open>StageUnknown\<close>.
\<close>

datatype migrationStage =
    StageIdle | StagePreCheckpointing | StageQuiescing | StageDumping | StageUploaded
  | StageRestoring | StageRestoreFailed | StageFinalDumpFailed | StageFailed | StageUnknown string

record migrationStatusInfo =
  Stage :: migrationStage
  RetryCount :: int
  MaxRetries :: int
  LastError :: string
  LastTransitionTime :: gtime
  UploadedDumpID :: string
  UploadedS3Prefix :: string
  UploadedPipeInodes :: smap
  PreviousNode :: string
  CurrentTargetPod :: string
  MigrationReason :: string
  PageServerAddr :: string
  PageServerPort :: int

definition emptyMigration :: migrationStatusInfo where
  "emptyMigration = \<lparr>Stage = StageIdle, RetryCount = 0, MaxRetries = 0, LastError = [],
     LastTransitionTime = None, UploadedDumpID = [], UploadedS3Prefix = [], UploadedPipeInodes = [],
     PreviousNode = [], CurrentTargetPod = [], MigrationReason = [], PageServerAddr = [], PageServerPort = 0\<rparr>"

record migrationRecord =
  FromNode :: string
  ToNode :: string
  mr_Timestamp :: gtime
  mr_Reason :: string
  mr_Duration :: string
  Success :: bool
  mr_Message :: string

record checkpointStatus =
  LastCheckpointID :: string
  LastCheckpointTime :: gtime
  CheckpointChainDepth :: int
  TotalCheckpointSize :: string
  CheckpointChainRoot :: string

record migratableAppStatus =
  Phase :: string
  Generation :: int
  CurrentNode :: string
  CurrentPodName :: string
  MigrationHistory :: "migrationRecord list"
  CheckpointStatus :: checkpointStatus
  Migration :: migrationStatusInfo
  Conditions :: "(string \<times> string) list"
  LastUpdateTime :: gtime

record migratableApp =
  m_Meta :: objectMeta
  Spec :: migratableAppSpec
  Status :: migratableAppStatus

type_synonym mapp = migratableApp

abbreviation mName :: "mapp \<Rightarrow> string" where "mName m \<equiv> Name (m_Meta m)"
abbreviation mNamespace :: "mapp \<Rightarrow> string" where "mNamespace m \<equiv> Namespace (m_Meta m)"
abbreviation mStage :: "mapp \<Rightarrow> migrationStage" where "mStage m \<equiv> Stage (Migration (Status m))"
abbreviation mMigration :: "mapp \<Rightarrow> migrationStatusInfo" where "mMigration m \<equiv> Migration (Status m)"
abbreviation mPhase :: "mapp \<Rightarrow> string" where "mPhase m \<equiv> Phase (Status m)"
abbreviation mCheckpoint :: "mapp \<Rightarrow> checkpointStatus" where "mCheckpoint m \<equiv> CheckpointStatus (Status m)"

definition setMeta :: "(objectMeta \<Rightarrow> objectMeta) \<Rightarrow> mapp \<Rightarrow> mapp" where
  "setMeta f m = m\<lparr>m_Meta := f (m_Meta m)\<rparr>"

definition setStatus :: "(migratableAppStatus \<Rightarrow> migratableAppStatus) \<Rightarrow> mapp \<Rightarrow> mapp" where
  "setStatus f m = m\<lparr>Status := f (Status m)\<rparr>"

definition setMigration :: "(migrationStatusInfo \<Rightarrow> migrationStatusInfo) \<Rightarrow> mapp \<Rightarrow> mapp" where
  "setMigration f m = setStatus (\<lambda>s. s\<lparr>Migration := f (Migration s)\<rparr>) m"

definition setCheckpoint :: "(checkpointStatus \<Rightarrow> checkpointStatus) \<Rightarrow> mapp \<Rightarrow> mapp" where
  "setCheckpoint f m = setStatus (\<lambda>s. s\<lparr>CheckpointStatus := f (CheckpointStatus s)\<rparr>) m"

lemmas mapp_defs = setMeta_def setStatus_def setMigration_def setCheckpoint_def

section \<open>Messages of the agent's RPC service\<close>

record preCheckpointRequest =
  pcq_ParentDumpId :: string
  UploadToS3 :: bool

record preCheckpointResponse =
  pcr_DumpId :: string
  pcr_Timestamp :: int
  SizeBytes :: int
  PagesDumped :: int

record finalDumpRequest =
  fdq_PageServerAddr :: string
  fdq_PageServerPort :: int
  fdq_ParentDumpId :: string
  LeaveRunning :: bool
  fdq_MigrationStrategy :: string

record finalDumpResponse =
  DumpId :: string
  fdr_Timestamp :: int
  MetadataSizeBytes :: int
  ExternalMounts :: smap
  PageServerPid :: int
  PipeInodes :: smap

record restoreRequest =
  rq_DumpId :: string
  rq_S3Bucket :: string
  rq_S3Prefix :: string
  UseLazyPages :: bool
  rq_PageServerPort :: int
  SourceAddr :: string
  rq_ExternalMounts :: smap
  rq_MigrationStrategy :: string
  rq_PipeInodes :: smap

record restoreResponse =
  rr_Success :: bool
  NewPid :: int
  rr_Timestamp :: int
  DurationMs :: int

record statusResponse =
  sr_Mode :: string
  MainProcessPid :: int
  sr_LastCheckpointId :: string
  sr_ChainDepth :: int
  sr_NodeName :: string
  sr_PodName :: string
  UptimeSeconds :: int
  LazyPagesActive :: bool

record pageServerStatusResponse =
  IsAlive :: bool
  ExitCode :: int
  StatusMessage :: string

end
