(* ===== verification/World.thy ===== *)
theory World
  imports Types
begin

text \<open>
  The environment of the controller, the scheduler, the webhook and the node monitor: the
  Kubernetes API server, the agents behind their RPC service, the object store, the instance
  metadata service and the clock. None of it is code of the repository; a \<open>world\<close> gives the
  answer to each request from the log of events so far, and the programs take it as a parameter.
\<close>

section \<open>Replies and events\<close>

text \<open>An error of the API server, of an RPC or of a client library, with its message.\<close>

datatype kerr = NotFound string | Conflict string | AlreadyExists string | OtherErr string

fun errMsg :: "kerr \<Rightarrow> string" where
  "errMsg (NotFound s) = s"
| "errMsg (Conflict s) = s"
| "errMsg (AlreadyExists s) = s"
| "errMsg (OtherErr s) = s"

fun isNotFound :: "kerr \<Rightarrow> bool" where
  "isNotFound (NotFound s) = True"
| "isNotFound _ = False"

fun isConflict :: "kerr \<Rightarrow> bool" where
  "isConflict (Conflict s) = True"
| "isConflict _ = False"

fun isAlreadyExists :: "kerr \<Rightarrow> bool" where
  "isAlreadyExists (AlreadyExists s) = True"
| "isAlreadyExists _ = False"

text \<open>\<open>fmt.Errorf("...: %w", err)\<close> keeps the kind of the wrapped error for \<open>errors.As\<close>.\<close>

fun wrapErr :: "string \<Rightarrow> kerr \<Rightarrow> kerr" where
  "wrapErr p (NotFound s) = NotFound (p @ s)"
| "wrapErr p (Conflict s) = Conflict (p @ s)"
| "wrapErr p (AlreadyExists s) = AlreadyExists (p @ s)"
| "wrapErr p (OtherErr s) = OtherErr (p @ s)"

text \<open>A namespaced name: the namespace first.\<close>

type_synonym key = "string \<times> string"

record s3Config =
  s3_Region :: string
  s3_AccessKey :: string
  s3_SecretKey :: string
  s3_Endpoint :: "string option"
  s3_ForcePathStyle :: bool

text \<open>A response of an HTTP server: its status code, and its body or the error of reading it.\<close>

record httpResponse =
  StatusCode :: int
  Body :: "kerr + string"

datatype event =
    EGetMapp key "kerr + mapp"
  | EApiGetMapp key "kerr + mapp"
  | EListMapps "kerr + mapp list"
  | EStatusUpdate mapp "kerr + mapp"
  | EUpdateMapp mapp "kerr + mapp"
  | ECreateMapp mapp "kerr + mapp"
  | EGetPod key "kerr + pod"
  | EListPods string smap "kerr + pod list"
  | EListPodsOnNode string smap "kerr + pod list"
  | ECreatePod pod "kerr + pod"
  | EUpdatePod pod "kerr + pod"
  | EDeletePod pod "kerr option"
  | EGetNode string "kerr + node"
  | EUpdateNode node "kerr + node"
  | EGetSecret key "kerr + secret"
  | ECreateSecret secret "kerr + secret"
  | EGetConfigMap key "kerr + smap"
  | EGetReplicaSet key "kerr + replicaSet"
  | EGetDeployment key "kerr + deployment"
  | EUpdateDeployment deployment "kerr + deployment"
  | EDial string "kerr option"
  | EPreCheckpoint string preCheckpointRequest "kerr + preCheckpointResponse"
  | EFinalDump string finalDumpRequest "kerr + finalDumpResponse"
  | ERestore string restoreRequest "kerr + restoreResponse"
  | EGetStatus string "kerr + statusResponse"
  | ECheckPageServer string int "kerr + pageServerStatusResponse"
  | ES3Session s3Config "kerr option"
  | ES3List string string "kerr + string list"
  | ES3Delete string "string list" "kerr option"
  | EHttp string string smap "kerr + httpResponse"
  | EPutLog string "kerr option"
  | ENow int
  | ESleep duration

record world =
  w_getMapp :: "event list \<Rightarrow> key \<Rightarrow> (kerr + mapp)"
  w_apiGetMapp :: "event list \<Rightarrow> key \<Rightarrow> (kerr + mapp)"
  w_listMapps :: "event list \<Rightarrow> (kerr + mapp list)"
  w_statusUpdate :: "event list \<Rightarrow> mapp \<Rightarrow> (kerr + mapp)"
  w_updateMapp :: "event list \<Rightarrow> mapp \<Rightarrow> (kerr + mapp)"
  w_createMapp :: "event list \<Rightarrow> mapp \<Rightarrow> (kerr + mapp)"
  w_getPod :: "event list \<Rightarrow> key \<Rightarrow> (kerr + pod)"
  w_listPods :: "event list \<Rightarrow> string \<Rightarrow> smap \<Rightarrow> (kerr + pod list)"
  w_listPodsOnNode :: "event list \<Rightarrow> string \<Rightarrow> smap \<Rightarrow> (kerr + pod list)"
  w_createPod :: "event list \<Rightarrow> pod \<Rightarrow> (kerr + pod)"
  w_updatePod :: "event list \<Rightarrow> pod \<Rightarrow> (kerr + pod)"
  w_deletePod :: "event list \<Rightarrow> pod \<Rightarrow> (kerr option)"
  w_getNode :: "event list \<Rightarrow> string \<Rightarrow> (kerr + node)"
  w_updateNode :: "event list \<Rightarrow> node \<Rightarrow> (kerr + node)"
  w_getSecret :: "event list \<Rightarrow> key \<Rightarrow> (kerr + secret)"
  w_createSecret :: "event list \<Rightarrow> secret \<Rightarrow> (kerr + secret)"
  w_getConfigMap :: "event list \<Rightarrow> key \<Rightarrow> (kerr + smap)"
  w_getReplicaSet :: "event list \<Rightarrow> key \<Rightarrow> (kerr + replicaSet)"
  w_getDeployment :: "event list \<Rightarrow> key \<Rightarrow> (kerr + deployment)"
  w_updateDeployment :: "event list \<Rightarrow> deployment \<Rightarrow> (kerr + deployment)"
  w_dial :: "event list \<Rightarrow> string \<Rightarrow> (kerr option)"
  w_rpcPreCheckpoint :: "event list \<Rightarrow> string \<Rightarrow> preCheckpointRequest \<Rightarrow> (kerr + preCheckpointResponse)"
  w_rpcFinalDump :: "event list \<Rightarrow> string \<Rightarrow> finalDumpRequest \<Rightarrow> (kerr + finalDumpResponse)"
  w_rpcRestore :: "event list \<Rightarrow> string \<Rightarrow> restoreRequest \<Rightarrow> (kerr + restoreResponse)"
  w_rpcGetStatus :: "event list \<Rightarrow> string \<Rightarrow> (kerr + statusResponse)"
  w_rpcCheckPageServer :: "event list \<Rightarrow> string \<Rightarrow> int \<Rightarrow> (kerr + pageServerStatusResponse)"
  w_s3Session :: "event list \<Rightarrow> s3Config \<Rightarrow> (kerr option)"
  w_s3List :: "event list \<Rightarrow> string \<Rightarrow> string \<Rightarrow> (kerr + string list)"
  w_s3Delete :: "event list \<Rightarrow> string \<Rightarrow> string list \<Rightarrow> (kerr option)"
  w_httpDo :: "event list \<Rightarrow> string \<Rightarrow> string \<Rightarrow> smap \<Rightarrow> (kerr + httpResponse)"
  w_putLog :: "event list \<Rightarrow> string \<Rightarrow> (kerr option)"
  w_start :: int
  w_latency :: "event list \<Rightarrow> nat"

type_synonym 'a prog = "(event, 'a) io"

section \<open>Requests\<close>

definition getMapp :: "world \<Rightarrow> key \<Rightarrow> (kerr + mapp) prog" where
  "getMapp w k = ask (\<lambda>t. w_getMapp w t k) (EGetMapp k)"

definition apiGetMapp :: "world \<Rightarrow> key \<Rightarrow> (kerr + mapp) prog" where
  "apiGetMapp w k = ask (\<lambda>t. w_apiGetMapp w t k) (EApiGetMapp k)"

definition listMapps :: "world \<Rightarrow> (kerr + mapp list) prog" where
  "listMapps w = ask (\<lambda>t. w_listMapps w t) EListMapps"

definition statusUpdate :: "world \<Rightarrow> mapp \<Rightarrow> (kerr + mapp) prog" where
  "statusUpdate w x = ask (\<lambda>t. w_statusUpdate w t x) (EStatusUpdate x)"

definition updateMapp :: "world \<Rightarrow> mapp \<Rightarrow> (kerr + mapp) prog" where
  "updateMapp w x = ask (\<lambda>t. w_updateMapp w t x) (EUpdateMapp x)"

definition createMapp :: "world \<Rightarrow> mapp \<Rightarrow> (kerr + mapp) prog" where
  "createMapp w x = ask (\<lambda>t. w_createMapp w t x) (ECreateMapp x)"

definition getPod :: "world \<Rightarrow> key \<Rightarrow> (kerr + pod) prog" where
  "getPod w k = ask (\<lambda>t. w_getPod w t k) (EGetPod k)"

definition listPods :: "world \<Rightarrow> string \<Rightarrow> smap \<Rightarrow> (kerr + pod list) prog" where
  "listPods w x y = ask (\<lambda>t. w_listPods w t x y) (EListPods x y)"

definition listPodsOnNode :: "world \<Rightarrow> string \<Rightarrow> smap \<Rightarrow> (kerr + pod list) prog" where
  "listPodsOnNode w x y = ask (\<lambda>t. w_listPodsOnNode w t x y) (EListPodsOnNode x y)"

definition createPod :: "world \<Rightarrow> pod \<Rightarrow> (kerr + pod) prog" where
  "createPod w x = ask (\<lambda>t. w_createPod w t x) (ECreatePod x)"

definition updatePod :: "world \<Rightarrow> pod \<Rightarrow> (kerr + pod) prog" where
  "updatePod w x = ask (\<lambda>t. w_updatePod w t x) (EUpdatePod x)"

definition deletePod :: "world \<Rightarrow> pod \<Rightarrow> (kerr option) prog" where
  "deletePod w x = ask (\<lambda>t. w_deletePod w t x) (EDeletePod x)"

definition getNode :: "world \<Rightarrow> string \<Rightarrow> (kerr + node) prog" where
  "getNode w x = ask (\<lambda>t. w_getNode w t x) (EGetNode x)"

definition updateNode :: "world \<Rightarrow> node \<Rightarrow> (kerr + node) prog" where
  "updateNode w x = ask (\<lambda>t. w_updateNode w t x) (EUpdateNode x)"

definition getSecret :: "world \<Rightarrow> key \<Rightarrow> (kerr + secret) prog" where
  "getSecret w k = ask (\<lambda>t. w_getSecret w t k) (EGetSecret k)"

definition createSecret :: "world \<Rightarrow> secret \<Rightarrow> (kerr + secret) prog" where
  "createSecret w x = ask (\<lambda>t. w_createSecret w t x) (ECreateSecret x)"

definition getConfigMap :: "world \<Rightarrow> key \<Rightarrow> (kerr + smap) prog" where
  "getConfigMap w k = ask (\<lambda>t. w_getConfigMap w t k) (EGetConfigMap k)"

definition getReplicaSet :: "world \<Rightarrow> key \<Rightarrow> (kerr + replicaSet) prog" where
  "getReplicaSet w k = ask (\<lambda>t. w_getReplicaSet w t k) (EGetReplicaSet k)"

definition getDeployment :: "world \<Rightarrow> key \<Rightarrow> (kerr + deployment) prog" where
  "getDeployment w k = ask (\<lambda>t. w_getDeployment w t k) (EGetDeployment k)"

definition updateDeployment :: "world \<Rightarrow> deployment \<Rightarrow> (kerr + deployment) prog" where
  "updateDeployment w x = ask (\<lambda>t. w_updateDeployment w t x) (EUpdateDeployment x)"

definition dial :: "world \<Rightarrow> string \<Rightarrow> (kerr option) prog" where
  "dial w x = ask (\<lambda>t. w_dial w t x) (EDial x)"

definition rpcPreCheckpoint :: "world \<Rightarrow> string \<Rightarrow> preCheckpointRequest \<Rightarrow> (kerr + preCheckpointResponse) prog" where
  "rpcPreCheckpoint w x y = ask (\<lambda>t. w_rpcPreCheckpoint w t x y) (EPreCheckpoint x y)"

definition rpcFinalDump :: "world \<Rightarrow> string \<Rightarrow> finalDumpRequest \<Rightarrow> (kerr + finalDumpResponse) prog" where
  "rpcFinalDump w x y = ask (\<lambda>t. w_rpcFinalDump w t x y) (EFinalDump x y)"

definition rpcRestore :: "world \<Rightarrow> string \<Rightarrow> restoreRequest \<Rightarrow> (kerr + restoreResponse) prog" where
  "rpcRestore w x y = ask (\<lambda>t. w_rpcRestore w t x y) (ERestore x y)"

definition rpcGetStatus :: "world \<Rightarrow> string \<Rightarrow> (kerr + statusResponse) prog" where
  "rpcGetStatus w x = ask (\<lambda>t. w_rpcGetStatus w t x) (EGetStatus x)"

definition rpcCheckPageServer :: "world \<Rightarrow> string \<Rightarrow> int \<Rightarrow> (kerr + pageServerStatusResponse) prog" where
  "rpcCheckPageServer w x y = ask (\<lambda>t. w_rpcCheckPageServer w t x y) (ECheckPageServer x y)"

definition s3Session :: "world \<Rightarrow> s3Config \<Rightarrow> (kerr option) prog" where
  "s3Session w x = ask (\<lambda>t. w_s3Session w t x) (ES3Session x)"

definition s3List :: "world \<Rightarrow> string \<Rightarrow> string \<Rightarrow> (kerr + string list) prog" where
  "s3List w x y = ask (\<lambda>t. w_s3List w t x y) (ES3List x y)"

definition s3Delete :: "world \<Rightarrow> string \<Rightarrow> string list \<Rightarrow> (kerr option) prog" where
  "s3Delete w x y = ask (\<lambda>t. w_s3Delete w t x y) (ES3Delete x y)"

definition httpDo :: "world \<Rightarrow> string \<Rightarrow> string \<Rightarrow> smap \<Rightarrow> (kerr + httpResponse) prog" where
  "httpDo w x y z = ask (\<lambda>t. w_httpDo w t x y z) (EHttp x y z)"

definition putLog :: "world \<Rightarrow> string \<Rightarrow> (kerr option) prog" where
  "putLog w x = ask (\<lambda>t. w_putLog w t x) (EPutLog x)"

section \<open>The clock\<close>

text \<open>
  The clock is monotonic: it advances with every event, by some latency, and by at least the
  duration of a sleep.
\<close>

fun slept :: "event \<Rightarrow> int" where
  "slept (ESleep d) = max 0 d"
| "slept _ = 0"

fun clock_rev :: "world \<Rightarrow> event list \<Rightarrow> int" where
  "clock_rev w [] = w_start w"
| "clock_rev w (e # r) = clock_rev w r + slept e + int (w_latency w (rev (e # r)))"

definition clock :: "world \<Rightarrow> event list \<Rightarrow> int" where
  "clock w t = clock_rev w (rev t)"

definition now :: "world \<Rightarrow> int prog" where
  "now w = ask (clock w) ENow"

definition metav1_Now :: "world \<Rightarrow> gtime prog" where
  "metav1_Now w = do { t \<leftarrow> now w; State_Monad.return (Some t) }"

definition sleep :: "duration \<Rightarrow> unit prog" where
  "sleep d = ask (\<lambda>t. ()) (\<lambda>_. ESleep d)"

lemma clock_snoc: "clock w (t @ [e]) = clock w t + slept e + int (w_latency w (t @ [e]))"
  by (simp add: clock_def)

lemma clock_mono: "clock w t \<le> clock w (t @ d)"
proof (induction d rule: rev_induct)
  case (snoc e d)
  have "0 \<le> slept e" by (cases e) auto
  with snoc show ?case using clock_snoc [of w "t @ d" e] by simp
qed simp

lemma clock_sleep: "clock w t + max 0 d \<le> clock w (t @ a @ [ESleep d])"
proof -
  have "clock w t \<le> clock w (t @ a)" by (rule clock_mono)
  also have "clock w (t @ a) + max 0 d \<le> clock w ((t @ a) @ [ESleep d])"
    by (simp only: clock_snoc slept.simps)
  finally show ?thesis by simp
qed

section \<open>Rules for postconditions\<close>

text \<open>Whatever the world answers, the event with the answer is the only one added.\<close>

lemmas request_defs = getMapp_def apiGetMapp_def listMapps_def statusUpdate_def updateMapp_def createMapp_def getPod_def listPods_def listPodsOnNode_def createPod_def updatePod_def deletePod_def getNode_def updateNode_def getSecret_def createSecret_def getConfigMap_def getReplicaSet_def getDeployment_def updateDeployment_def dial_def rpcPreCheckpoint_def rpcFinalDump_def rpcRestore_def rpcGetStatus_def rpcCheckPageServer_def s3Session_def s3List_def s3Delete_def httpDo_def putLog_def now_def sleep_def

lemma io_post_getMapp [io_rules]: "(\<And>r. Q r [EGetMapp k r]) \<Longrightarrow> io_post (getMapp w k) Q"
  by (simp add: getMapp_def io_post_ask)

lemma io_post_apiGetMapp [io_rules]: "(\<And>r. Q r [EApiGetMapp k r]) \<Longrightarrow> io_post (apiGetMapp w k) Q"
  by (simp add: apiGetMapp_def io_post_ask)

lemma io_post_listMapps [io_rules]: "(\<And>r. Q r [EListMapps r]) \<Longrightarrow> io_post (listMapps w) Q"
  by (simp add: listMapps_def io_post_ask)

lemma io_post_statusUpdate [io_rules]: "(\<And>r. Q r [EStatusUpdate x r]) \<Longrightarrow> io_post (statusUpdate w x) Q"
  by (simp add: statusUpdate_def io_post_ask)

lemma io_post_updateMapp [io_rules]: "(\<And>r. Q r [EUpdateMapp x r]) \<Longrightarrow> io_post (updateMapp w x) Q"
  by (simp add: updateMapp_def io_post_ask)

lemma io_post_createMapp [io_rules]: "(\<And>r. Q r [ECreateMapp x r]) \<Longrightarrow> io_post (createMapp w x) Q"
  by (simp add: createMapp_def io_post_ask)

lemma io_post_getPod [io_rules]: "(\<And>r. Q r [EGetPod k r]) \<Longrightarrow> io_post (getPod w k) Q"
  by (simp add: getPod_def io_post_ask)

lemma io_post_listPods [io_rules]: "(\<And>r. Q r [EListPods x y r]) \<Longrightarrow> io_post (listPods w x y) Q"
  by (simp add: listPods_def io_post_ask)

lemma io_post_listPodsOnNode [io_rules]: "(\<And>r. Q r [EListPodsOnNode x y r]) \<Longrightarrow> io_post (listPodsOnNode w x y) Q"
  by (simp add: listPodsOnNode_def io_post_ask)

lemma io_post_createPod [io_rules]: "(\<And>r. Q r [ECreatePod x r]) \<Longrightarrow> io_post (createPod w x) Q"
  by (simp add: createPod_def io_post_ask)

lemma io_post_updatePod [io_rules]: "(\<And>r. Q r [EUpdatePod x r]) \<Longrightarrow> io_post (updatePod w x) Q"
  by (simp add: updatePod_def io_post_ask)

lemma io_post_deletePod [io_rules]: "(\<And>r. Q r [EDeletePod x r]) \<Longrightarrow> io_post (deletePod w x) Q"
  by (simp add: deletePod_def io_post_ask)

lemma io_post_getNode [io_rules]: "(\<And>r. Q r [EGetNode x r]) \<Longrightarrow> io_post (getNode w x) Q"
  by (simp add: getNode_def io_post_ask)

lemma io_post_updateNode [io_rules]: "(\<And>r. Q r [EUpdateNode x r]) \<Longrightarrow> io_post (updateNode w x) Q"
  by (simp add: updateNode_def io_post_ask)

lemma io_post_getSecret [io_rules]: "(\<And>r. Q r [EGetSecret k r]) \<Longrightarrow> io_post (getSecret w k) Q"
  by (simp add: getSecret_def io_post_ask)

lemma io_post_createSecret [io_rules]: "(\<And>r. Q r [ECreateSecret x r]) \<Longrightarrow> io_post (createSecret w x) Q"
  by (simp add: createSecret_def io_post_ask)

lemma io_post_getConfigMap [io_rules]: "(\<And>r. Q r [EGetConfigMap k r]) \<Longrightarrow> io_post (getConfigMap w k) Q"
  by (simp add: getConfigMap_def io_post_ask)

lemma io_post_getReplicaSet [io_rules]: "(\<And>r. Q r [EGetReplicaSet k r]) \<Longrightarrow> io_post (getReplicaSet w k) Q"
  by (simp add: getReplicaSet_def io_post_ask)

lemma io_post_getDeployment [io_rules]: "(\<And>r. Q r [EGetDeployment k r]) \<Longrightarrow> io_post (getDeployment w k) Q"
  by (simp add: getDeployment_def io_post_ask)

lemma io_post_updateDeployment [io_rules]: "(\<And>r. Q r [EUpdateDeployment x r]) \<Longrightarrow> io_post (updateDeployment w x) Q"
  by (simp add: updateDeployment_def io_post_ask)

lemma io_post_dial [io_rules]: "(\<And>r. Q r [EDial x r]) \<Longrightarrow> io_post (dial w x) Q"
  by (simp add: dial_def io_post_ask)

lemma io_post_rpcPreCheckpoint [io_rules]: "(\<And>r. Q r [EPreCheckpoint x y r]) \<Longrightarrow> io_post (rpcPreCheckpoint w x y) Q"
  by (simp add: rpcPreCheckpoint_def io_post_ask)

lemma io_post_rpcFinalDump [io_rules]: "(\<And>r. Q r [EFinalDump x y r]) \<Longrightarrow> io_post (rpcFinalDump w x y) Q"
  by (simp add: rpcFinalDump_def io_post_ask)

lemma io_post_rpcRestore [io_rules]: "(\<And>r. Q r [ERestore x y r]) \<Longrightarrow> io_post (rpcRestore w x y) Q"
  by (simp add: rpcRestore_def io_post_ask)

lemma io_post_rpcGetStatus [io_rules]: "(\<And>r. Q r [EGetStatus x r]) \<Longrightarrow> io_post (rpcGetStatus w x) Q"
  by (simp add: rpcGetStatus_def io_post_ask)

lemma io_post_rpcCheckPageServer [io_rules]: "(\<And>r. Q r [ECheckPageServer x y r]) \<Longrightarrow> io_post (rpcCheckPageServer w x y) Q"
  by (simp add: rpcCheckPageServer_def io_post_ask)

lemma io_post_s3Session [io_rules]: "(\<And>r. Q r [ES3Session x r]) \<Longrightarrow> io_post (s3Session w x) Q"
  by (simp add: s3Session_def io_post_ask)

lemma io_post_s3List [io_rules]: "(\<And>r. Q r [ES3List x y r]) \<Longrightarrow> io_post (s3List w x y) Q"
  by (simp add: s3List_def io_post_ask)

lemma io_post_s3Delete [io_rules]: "(\<And>r. Q r [ES3Delete x y r]) \<Longrightarrow> io_post (s3Delete w x y) Q"
  by (simp add: s3Delete_def io_post_ask)

lemma io_post_httpDo [io_rules]: "(\<And>r. Q r [EHttp x y z r]) \<Longrightarrow> io_post (httpDo w x y z) Q"
  by (simp add: httpDo_def io_post_ask)

lemma io_post_putLog [io_rules]: "(\<And>r. Q r [EPutLog x r]) \<Longrightarrow> io_post (putLog w x) Q"
  by (simp add: putLog_def io_post_ask)

lemma io_post_now [io_rules]: "(\<And>r. Q r [ENow r]) \<Longrightarrow> io_post (now w) Q"
  by (simp add: now_def io_post_ask)

lemma io_post_metav1_Now [io_rules]: "(\<And>r. Q (Some r) [ENow r]) \<Longrightarrow> io_post (metav1_Now w) Q"
  unfolding metav1_Now_def by (intro io_rules) simp

lemma io_post_sleep [io_rules]: "Q () [ESleep d] \<Longrightarrow> io_post (sleep d) Q"
  by (simp add: sleep_def io_post_ask)

section \<open>Results of a reconcile\<close>

record ctrlResult =
  Requeue :: bool
  RequeueAfter :: duration

definition noRequeue :: ctrlResult where
  "noRequeue = \<lparr>Requeue = False, RequeueAfter = 0\<rparr>"

definition requeue :: ctrlResult where
  "requeue = \<lparr>Requeue = True, RequeueAfter = 0\<rparr>"

definition requeueAfter :: "duration \<Rightarrow> ctrlResult" where
  "requeueAfter d = \<lparr>Requeue = False, RequeueAfter = d\<rparr>"

type_synonym result = "kerr + ctrlResult"

section \<open>What a log says\<close>

text \<open>The status writes of a log, in order, and the ones the API server accepted.\<close>

fun statusWrite :: "event \<Rightarrow> mapp option" where
  "statusWrite (EStatusUpdate m r) = Some m"
| "statusWrite _ = None"

fun acceptedWrite :: "event \<Rightarrow> mapp option" where
  "acceptedWrite (EStatusUpdate m (Inr m')) = Some m"
| "acceptedWrite _ = None"

definition statusWrites :: "event list \<Rightarrow> mapp list" where
  "statusWrites t = List.map_filter statusWrite t"

definition acceptedWrites :: "event list \<Rightarrow> mapp list" where
  "acceptedWrites t = List.map_filter acceptedWrite t"

lemma statusWrites_simps [simp]:
  "statusWrites [] = []"
  "statusWrites (e # t) = (case statusWrite e of None \<Rightarrow> statusWrites t | Some m \<Rightarrow> m # statusWrites t)"
  "statusWrites (t @ t') = statusWrites t @ statusWrites t'"
  by (auto simp: statusWrites_def List.map_filter_def split: option.splits)

lemma acceptedWrites_simps [simp]:
  "acceptedWrites [] = []"
  "acceptedWrites (e # t) = (case acceptedWrite e of None \<Rightarrow> acceptedWrites t | Some m \<Rightarrow> m # acceptedWrites t)"
  "acceptedWrites (t @ t') = acceptedWrites t @ acceptedWrites t'"
  by (auto simp: acceptedWrites_def List.map_filter_def split: option.splits)

lemma acceptedWrites_subset: "set (acceptedWrites t) \<subseteq> set (statusWrites t)"
proof (induction t)
  case (Cons e t)
  have "acceptedWrite e = Some m \<Longrightarrow> statusWrite e = Some m" for m
    by (induction e rule: acceptedWrite.induct) auto
  with Cons show ?case by (auto split: option.splits)
qed simp

end
