(* ===== verification/PodBuilder.thy ===== *)
theory PodBuilder
  imports World
begin

text \<open>
  \<open>pkg/controller/pod_builder.go\<close>: the pods the controller creates. The process environment
  of the operator is the parameter \<open>getenv\<close>, which gives the empty string for an unset variable.
\<close>

section \<open>Building pods\<close>

definition AgentPort :: int where "AgentPort = 8080"

definition WorkDir :: string where "WorkDir = ''/tmp/.criu-checkpoints''"

type_synonym genv = "string \<Rightarrow> string"

definition getAgentImage :: "genv \<Rightarrow> string" where
  "getAgentImage getenv =
     (if getenv ''AGENT_IMAGE'' \<noteq> [] then getenv ''AGENT_IMAGE'' else ''criu-agent:latest'')"

record podBuilder =
  pb_mapp :: mapp
  awsAccessKey :: string
  awsSecretKey :: string

definition NewPodBuilder :: "mapp \<Rightarrow> podBuilder" where
  "NewPodBuilder m = \<lparr>pb_mapp = m, awsAccessKey = [], awsSecretKey = []\<rparr>"

definition NewPodBuilderWithCredentials :: "mapp \<Rightarrow> string \<Rightarrow> string \<Rightarrow> podBuilder" where
  "NewPodBuilderWithCredentials m ak sk = \<lparr>pb_mapp = m, awsAccessKey = ak, awsSecretKey = sk\<rparr>"

definition formatBool :: "bool \<Rightarrow> string" where
  "formatBool b = (if b then ''true'' else ''false'')"

definition lit :: "string \<Rightarrow> string \<Rightarrow> envVar" where
  "lit n v = \<lparr>ev_Name = n, ev_Source = Literal v\<rparr>"

definition fieldRef :: "string \<Rightarrow> string \<Rightarrow> envVar" where
  "fieldRef n p = \<lparr>ev_Name = n, ev_Source = FieldRef p\<rparr>"

text \<open>\<open>BuildAgentContainer\<close>, first part: the variables every agent gets.\<close>

definition agentEnvBase :: "storageConfig \<Rightarrow> envVar list" where
  "agentEnvBase st =
     [fieldRef ''POD_NAME'' ''metadata.name'',
      fieldRef ''POD_NAMESPACE'' ''metadata.namespace'',
      fieldRef ''NODE_NAME'' ''spec.nodeName'',
      lit ''S3_BUCKET'' (Bucket st),
      lit ''S3_ENDPOINT'' (Endpoint st),
      lit ''S3_REGION'' (Region st),
      lit ''DOWNLOAD_ENDPOINT'' (DownloadEndpoint st),
      lit ''EXPRESS_ONE_ZONE'' (formatBool (ExpressOneZone st)),
      lit ''ASYNC_PREFETCH'' (formatBool (AsyncPrefetch st)),
      lit ''DIRECT_UPLOAD'' (formatBool (DirectUpload st)),
      lit ''STORAGE_TYPE'' (sc_Type st),
      lit ''LOG_UPLOAD'' (formatBool (LogUpload st))]"

text \<open>Second part: prefetch and compression tuning.\<close>

definition agentEnvTuning :: "storageConfig \<Rightarrow> envVar list" where
  "agentEnvTuning st =
     (if PrefetchWorkers st > 0 then [lit ''PREFETCH_WORKERS'' (itoa (PrefetchWorkers st))] else []) @
     (if SemiSyncIOV st = Some False then [lit ''NO_SEMI_SYNC_IOV'' ''true''] else []) @
     (if HotIOVSeed st = Some False then [lit ''NO_HOT_VMA_SEED'' ''true''] else []) @
     (if Compress st
      then [lit ''CRIU_COMPRESS'' ''true''] @
           (if CompressLevel st > 0 then [lit ''CRIU_COMPRESS_LEVEL'' (itoa (CompressLevel st))] else []) @
           (if CompressWorkers st > 0 then [lit ''CRIU_COMPRESS_WORKERS'' (itoa (CompressWorkers st))] else [])
      else [])"

text \<open>Third part: generation, source address, the deadline scheduler and the credentials.\<close>

definition agentEnvDeadline :: "deadlineSchedulerConfig \<Rightarrow> envVar list" where
  "agentEnvDeadline ds =
     (if DeadlineSeconds ds > 0 then [lit ''DEADLINE_SECONDS'' (itoa (DeadlineSeconds ds))] else []) @
     (if BandwidthMBps ds > 0 then [lit ''BANDWIDTH_MBPS'' (itoa (BandwidthMBps ds))] else []) @
     (if ScanIntervalMs ds > 0 then [lit ''DEADLINE_SCAN_INTERVAL_MS'' (itoa (ScanIntervalMs ds))] else []) @
     (if TFreezeMs ds > 0 then [lit ''DEADLINE_TFREEZE_MS'' (itoa (TFreezeMs ds))] else []) @
     (if TMarginMs ds > 0 then [lit ''DEADLINE_TMARGIN_MS'' (itoa (TMarginMs ds))] else []) @
     (if DryRun ds then [lit ''DEADLINE_SCHEDULER_DRY_RUN'' ''true''] else [])"

definition quote_path :: "string \<Rightarrow> string" where
  "quote_path k = ''metadata.annotations['' @ [CHR 0x27] @ k @ [CHR 0x27] @ '']''"

definition agentEnv :: "genv \<Rightarrow> podBuilder \<Rightarrow> string \<Rightarrow> envVar list" where
  "agentEnv getenv b mode =
     (let m = pb_mapp b; cp = CheckpointPolicy (Spec m) in
      agentEnvBase (Storage (Spec m)) @
      agentEnvTuning (Storage (Spec m)) @
      [fieldRef ''POD_GENERATION'' (quote_path ''migration.io/generation'')] @
      (if mode = ''restore'' then [fieldRef ''SOURCE_POD_IP'' (quote_path ''migration.io/source-pod-ip'')] else []) @
      [lit ''AUTO_ADJUST'' (formatBool (AutoAdjust cp))] @
      (if getenv ''DISABLE_AUTO_PROFILER'' \<noteq> []
       then [lit ''DISABLE_AUTO_PROFILER'' (getenv ''DISABLE_AUTO_PROFILER'')] else []) @
      agentEnvDeadline (DeadlineScheduler cp) @
      (if awsAccessKey b \<noteq> [] \<and> awsSecretKey b \<noteq> []
       then [lit ''AWS_ACCESS_KEY_ID'' (awsAccessKey b), lit ''AWS_SECRET_ACCESS_KEY'' (awsSecretKey b)] else []))"

definition BuildAgentContainer :: "genv \<Rightarrow> podBuilder \<Rightarrow> string \<Rightarrow> container" where
  "BuildAgentContainer getenv b mode =
     \<lparr>c_Name = ''criu-agent'', Image = getAgentImage getenv, ImagePullPolicy = ''Always'',
      Command = [], Args = [''--mode='' @ mode], WorkingDir = [], Env = agentEnv getenv b mode,
      EnvFromSecrets = [], Ports = [(''grpc'', AgentPort)],
      VolumeMounts = [\<lparr>vm_Name = ''checkpoints'', MountPath = WorkDir, vm_ReadOnly = False\<rparr>,
                      \<lparr>vm_Name = ''podinfo'', MountPath = ''/etc/podinfo'', vm_ReadOnly = True\<rparr>],
      SecurityContext = Some \<lparr>Privileged = Some True, CapabilitiesAdd = None\<rparr>\<rparr>"

text \<open>\<open>c.SecurityContext.Capabilities.Add = append(..., "SYS_PTRACE")\<close>, creating what is nil.\<close>

definition addPtrace :: "securityContext option \<Rightarrow> securityContext" where
  "addPtrace sc =
     (let s = (case sc of None \<Rightarrow> \<lparr>Privileged = None, CapabilitiesAdd = None\<rparr> | Some s \<Rightarrow> s);
          caps = (case CapabilitiesAdd s of None \<Rightarrow> [] | Some l \<Rightarrow> l)
      in s\<lparr>CapabilitiesAdd := Some (caps @ [''SYS_PTRACE''])\<rparr>)"

text \<open>
  The body of the loop over the containers of \<open>buildBasePod\<close> for the application container:
  the command goes to the annotations, \<open>sleep infinity\<close> takes its place.
\<close>

definition saveCommand :: "container \<Rightarrow> smap \<Rightarrow> smap" where
  "saveCommand c ann =
     (let a1 = (if Command c \<noteq> [] then mput ''migration.io/original-command'' (join '','' (Command c)) ann else ann);
          a2 = (if Args c \<noteq> [] then mput ''migration.io/original-args'' (join ''|||'' (Args c)) a1 else a1)
      in if WorkingDir c \<noteq> [] then mput ''migration.io/original-workdir'' (WorkingDir c) a2 else a2)"

definition checkpointsMount :: volumeMount where
  "checkpointsMount = \<lparr>vm_Name = ''checkpoints'', MountPath = ''/tmp/.criu-checkpoints'', vm_ReadOnly = False\<rparr>"

definition modifyApp :: "container \<Rightarrow> smap \<Rightarrow> container \<times> smap" where
  "modifyApp c ann =
     (let c1 = c\<lparr>c_Name := ''app''\<rparr>;
          hasCmd = (Command c1 \<noteq> [] \<or> Args c1 \<noteq> []);
          ann1 = (if hasCmd then saveCommand c1 ann else ann);
          c2 = (if hasCmd then c1\<lparr>Command := [''sleep'', ''infinity''], Args := []\<rparr> else c1);
          c3 = c2\<lparr>SecurityContext := Some (addPtrace (SecurityContext c2))\<rparr>;
          c4 = (if list_ex (\<lambda>vm. vm_Name vm = ''checkpoints'') (VolumeMounts c3) then c3
                else c3\<lparr>VolumeMounts := VolumeMounts c3 @ [checkpointsMount]\<rparr>)
      in (c4, ann1))"

fun modifyContainers :: "nat \<Rightarrow> container list \<Rightarrow> smap \<Rightarrow> container list \<times> smap" where
  "modifyContainers i [] ann = ([], ann)"
| "modifyContainers i (c # cs) ann =
     (let (c', ann') = (if c_Name c = ''app'' \<or> i = 0 then modifyApp c ann else (c, ann));
          (cs', ann'') = modifyContainers (Suc i) cs ann'
      in (c' # cs', ann''))"

definition agentVolumes :: "volume list" where
  "agentVolumes = [\<lparr>v_Name = ''checkpoints'', v_Source = EmptyDir\<rparr>,
                   \<lparr>v_Name = ''podinfo'', v_Source = DownwardAPI [(''annotations'', ''metadata.annotations'')]\<rparr>]"

definition baseMeta :: "mapp \<Rightarrow> int \<Rightarrow> string \<Rightarrow> objectMeta" where
  "baseMeta m generation mode =
     (let labels = mput ''migration.io/app'' (mName m)
                     (mput ''app.kubernetes.io/managed-by'' ''migration-controller'' (t_Labels (Template (Spec m))));
          annotations = mput ''migration.io/app'' (mName m)
                          (mput ''migration.io/mode'' mode
                            (mput ''migration.io/generation'' (itoa generation) (t_Annotations (Template (Spec m)))));
          om = emptyMeta\<lparr>Namespace := mNamespace m, Labels := labels, Annotations := annotations,
                         OwnerReferences := [\<lparr>or_Kind = ''MigratableApp'', or_Name = mName m, or_Controller = True\<rparr>]\<rparr>
      in if generation = 0 then om\<lparr>Name := mName m\<rparr>
         else om\<lparr>GenerateName := mName m @ ''-gen'' @ itoa generation @ ''-''\<rparr>)"

definition buildBasePod :: "genv \<Rightarrow> podBuilder \<Rightarrow> int \<Rightarrow> string \<Rightarrow> pod" where
  "buildBasePod getenv b generation mode =
     (let m = pb_mapp b; om = baseMeta m generation mode; spec = t_Spec (Template (Spec m));
          (cs, ann) = modifyContainers 0 (Containers spec) (Annotations om)
      in \<lparr>p_Meta = om\<lparr>Annotations := ann\<rparr>,
          p_Spec = spec\<lparr>Containers := cs @ [BuildAgentContainer getenv b mode],
                        Volumes := Volumes spec @ agentVolumes,
                        ShareProcessNamespace := Some True\<rparr>,
          p_Status = emptyPodStatus\<rparr>)"

definition pidBoosterInit :: container where
  "pidBoosterInit = emptyContainer\<lparr>c_Name := ''pid-booster'', Image := ''busybox:latest'',
     Command := [''/bin/sh'', ''-c''], Args := [''for i in $(seq 1 150); do /bin/true & done; wait'']\<rparr>"

definition BuildNormalPod :: "genv \<Rightarrow> podBuilder \<Rightarrow> int \<Rightarrow> pod" where
  "BuildNormalPod getenv b generation =
     (let p = buildBasePod getenv b generation ''normal'' in
      if generation = 0
      then p\<lparr>p_Spec := (p_Spec p)\<lparr>InitContainers := InitContainers (p_Spec p) @ [pidBoosterInit]\<rparr>\<rparr>
      else p)"

definition emptyAffinity :: affinity where
  "emptyAffinity = \<lparr>PodAntiAffinityRequired = None, NodeAffinityPreferred = None\<rparr>"

definition restoreAffinity :: "mapp \<Rightarrow> affinity option \<Rightarrow> affinity" where
  "restoreAffinity m aff =
     (let a = (case aff of None \<Rightarrow> emptyAffinity | Some a \<Rightarrow> a);
          a1 = a\<lparr>PodAntiAffinityRequired := Some [([(''migration.io/app'', mName m)], ''kubernetes.io/hostname'')]\<rparr>
      in if PreferOnDemand (MigrationPolicy (Spec m))
         then a1\<lparr>NodeAffinityPreferred := Some [(100, ''node-lifecycle'', ''NotIn'', [''spot''])]\<rparr>
         else a1)"

definition BuildRestorePod ::
  "genv \<Rightarrow> podBuilder \<Rightarrow> int \<Rightarrow> string \<Rightarrow> string \<Rightarrow> string \<Rightarrow> string \<Rightarrow> pod" where
  "BuildRestorePod getenv b generation checkpointID sourceNode s3Prefix sourcePodIP =
     (let m = pb_mapp b; p = buildBasePod getenv b generation ''restore'';
          p1 = annotate ''migration.io/source-pod-ip'' sourcePodIP
                 (annotate ''migration.io/s3-prefix'' s3Prefix
                   (annotate ''migration.io/source-node'' sourceNode
                     (annotate ''migration.io/checkpoint-id'' checkpointID p)));
          spec1 = (p_Spec p1)\<lparr>Affinity := Some (restoreAffinity m (Affinity (p_Spec p1)))\<rparr>;
          spec2 = (if TargetNodeSelector (MigrationPolicy (Spec m)) \<noteq> []
                   then spec1\<lparr>NodeSelector := TargetNodeSelector (MigrationPolicy (Spec m))\<rparr> else spec1)
      in p1\<lparr>p_Spec := spec2\<rparr>)"

section \<open>What the built pods hold\<close>

lemma annotate_simps [simp]:
  "p_Spec (annotate k v p) = p_Spec p"
  "p_Status (annotate k v p) = p_Status p"
  "pAnnotations (annotate k v p) = mput k v (pAnnotations p)"
  "pLabels (annotate k v p) = pLabels p"
  "pName (annotate k v p) = pName p"
  "pNamespace (annotate k v p) = pNamespace p"
  by (simp_all add: annotate_def)

lemma mget_saveCommand:
  "k \<notin> {''migration.io/original-command'', ''migration.io/original-args'', ''migration.io/original-workdir''} \<Longrightarrow>
   mget (saveCommand c ann) k = mget ann k"
  by (simp add: saveCommand_def Let_def)

lemma modifyApp_other_annotations:
  "k \<notin> {''migration.io/original-command'', ''migration.io/original-args'', ''migration.io/original-workdir''} \<Longrightarrow>
   mget (snd (modifyApp c ann)) k = mget ann k"
  by (simp add: modifyApp_def Let_def mget_saveCommand)

lemma modifyContainers_annotations:
  assumes "k \<notin> {''migration.io/original-command'', ''migration.io/original-args'', ''migration.io/original-workdir''}"
  shows "mget (snd (modifyContainers i cs ann)) k = mget ann k"
  using modifyApp_other_annotations [OF assms]
  by (induction cs arbitrary: i ann) (simp_all add: split_beta Let_def)

lemma modifyApp_name [simp]: "c_Name (fst (modifyApp c ann)) = ''app''"
  by (simp add: modifyApp_def Let_def)

lemma length_modifyContainers [simp]: "length (fst (modifyContainers i cs ann)) = length cs"
  by (induction cs arbitrary: i ann) (simp_all add: split_beta Let_def)

text \<open>The names of the containers after the loop: the first one and every one called app are called app.\<close>

lemma modifyContainers_names:
  "map c_Name (fst (modifyContainers (Suc i) cs ann)) = map c_Name cs"
  by (induction cs arbitrary: i ann) (auto simp: split_beta Let_def)

lemma modifyContainers_names0:
  "map c_Name (fst (modifyContainers 0 (c # cs) ann)) = ''app'' # map c_Name cs"
  by (simp add: split_beta Let_def modifyContainers_names)

text \<open>Without another container called app, only the first container is changed.\<close>

lemma modifyContainers_rest:
  "''app'' \<notin> set (map c_Name cs) \<Longrightarrow> modifyContainers (Suc i) cs ann = (cs, ann)"
  by (induction cs arbitrary: i ann) (auto simp: split_beta Let_def)

lemma modifyContainers_single:
  "''app'' \<notin> set (map c_Name cs) \<Longrightarrow>
   modifyContainers 0 (c # cs) ann = (fst (modifyApp c ann) # cs, snd (modifyApp c ann))"
  by (simp add: modifyContainers_rest split_beta Let_def)

lemma buildBasePod_spec:
  "p_Spec (buildBasePod getenv b g mode) =
     (t_Spec (Template (Spec (pb_mapp b))))
       \<lparr>Containers := fst (modifyContainers 0 (Containers (t_Spec (Template (Spec (pb_mapp b)))))
            (Annotations (baseMeta (pb_mapp b) g mode))) @ [BuildAgentContainer getenv b mode],
        Volumes := Volumes (t_Spec (Template (Spec (pb_mapp b)))) @ agentVolumes,
        ShareProcessNamespace := Some True\<rparr>"
  by (simp add: buildBasePod_def Let_def split_beta)

lemma baseMeta_Labels:
  "Labels (baseMeta m g mode) = mput ''migration.io/app'' (mName m)
     (mput ''app.kubernetes.io/managed-by'' ''migration-controller'' (t_Labels (Template (Spec m))))"
  by (simp add: baseMeta_def Let_def)

lemma buildBasePod_meta:
  "pLabels (buildBasePod getenv b g mode) = Labels (baseMeta (pb_mapp b) g mode)"
  "pNamespace (buildBasePod getenv b g mode) = Namespace (baseMeta (pb_mapp b) g mode)"
  "pName (buildBasePod getenv b g mode) = Name (baseMeta (pb_mapp b) g mode)"
  "GenerateName (p_Meta (buildBasePod getenv b g mode)) = GenerateName (baseMeta (pb_mapp b) g mode)"
  "pAnnotations (buildBasePod getenv b g mode) =
     snd (modifyContainers 0 (Containers (t_Spec (Template (Spec (pb_mapp b))))) (Annotations (baseMeta (pb_mapp b) g mode)))"
  by (simp_all add: buildBasePod_def Let_def split_beta)

lemma buildBasePod_annotations:
  assumes "k \<notin> {''migration.io/original-command'', ''migration.io/original-args'', ''migration.io/original-workdir''}"
  shows "mget (pAnnotations (buildBasePod getenv b g mode)) k = mget (Annotations (baseMeta (pb_mapp b) g mode)) k"
  by (simp add: buildBasePod_meta modifyContainers_annotations [OF assms])

end
