(* ===== verification/Client.thy ===== *)
theory Client
  imports PodBuilder
begin

text \<open>
  The controller's side of the agent RPC service (\<open>pkg/controller/client.go\<close>) and the loops that
  wait for a pod or an agent (\<open>waitForPodRunning\<close> of \<open>reconciler.go\<close>, the \<open>waitFor\<close> functions of
  \<open>migration.go\<close>), with the proof that they return.
\<close>

section \<open>AgentClient\<close>

text \<open>A connection is its pod address; requests carry it.\<close>

record agentClient =
  podIP :: string

definition NewAgentClient :: "world \<Rightarrow> pod \<Rightarrow> (kerr + agentClient) prog" where
  "NewAgentClient w p =
     (if pIP p = [] then State_Monad.return (Inl (OtherErr ''pod has no IP address''))
      else let addr = pIP p @ '':8080'' in do {
        err \<leftarrow> dial w addr;
        State_Monad.return
          (case err of
             Some e \<Rightarrow> Inl (wrapErr (''failed to connect to agent at '' @ addr @ '': '') e)
           | None \<Rightarrow> Inr \<lparr>podIP = pIP p\<rparr>)
      })"

definition PreCheckpoint :: "world \<Rightarrow> agentClient \<Rightarrow> string \<Rightarrow> (kerr + preCheckpointResponse) prog" where
  "PreCheckpoint w c parentDumpID =
     rpcPreCheckpoint w (podIP c) \<lparr>pcq_ParentDumpId = parentDumpID, UploadToS3 = True\<rparr>"

definition FinalDump ::
  "world \<Rightarrow> agentClient \<Rightarrow> string \<Rightarrow> int \<Rightarrow> string \<Rightarrow> string \<Rightarrow> (kerr + finalDumpResponse) prog" where
  "FinalDump w c addr port parentDumpID strategy =
     rpcFinalDump w (podIP c)
       \<lparr>fdq_PageServerAddr = addr, fdq_PageServerPort = port, fdq_ParentDumpId = parentDumpID,
        LeaveRunning = False, fdq_MigrationStrategy = strategy\<rparr>"

definition Restore ::
  "world \<Rightarrow> agentClient \<Rightarrow> string \<Rightarrow> string \<Rightarrow> string \<Rightarrow> string \<Rightarrow> smap \<Rightarrow> string \<Rightarrow> smap \<Rightarrow>
   (kerr + restoreResponse) prog" where
  "Restore w c dumpID s3Bucket s3Prefix sourceAddr externalMounts strategy pipeInodes =
     (let useLazyPages = (strategy = ''lazy-storage'' \<or> strategy = ''lazy-direct'' \<or> strategy = ''lazy-hybrid'') in
      rpcRestore w (podIP c)
        \<lparr>rq_DumpId = dumpID, rq_S3Bucket = s3Bucket, rq_S3Prefix = s3Prefix, UseLazyPages = useLazyPages,
         rq_PageServerPort = 9999, SourceAddr = sourceAddr, rq_ExternalMounts = externalMounts,
         rq_MigrationStrategy = strategy, rq_PipeInodes = pipeInodes\<rparr>)"

definition GetStatus :: "world \<Rightarrow> agentClient \<Rightarrow> (kerr + statusResponse) prog" where
  "GetStatus w c = rpcGetStatus w (podIP c)"

definition CheckPageServerStatus :: "world \<Rightarrow> agentClient \<Rightarrow> int \<Rightarrow> (kerr + pageServerStatusResponse) prog" where
  "CheckPageServerStatus w c pid = rpcCheckPageServer w (podIP c) pid"

lemmas client_defs [handler_defs] = NewAgentClient_def PreCheckpoint_def FinalDump_def Restore_def

section \<open>Polling\<close>

lemma poll_progress:
  assumes "0 < d"
  shows "clock w t + d \<le> clock w (((t @ [e1]) @ [e2]) @ [ESleep d])"
  using clock_sleep [of w t d "[e1, e2]"] assms by simp

text \<open>
  The loop \<open>for time.Now().Before(deadline) { ask; decide; time.Sleep(interval) }\<close>. The state of
  the loop is \<open>s\<close>; \<open>decide\<close> returns from the loop (\<open>Inr\<close>) or goes on with a new state (\<open>Inl\<close>).
  It ends because the clock advances by the interval in every turn.
\<close>

function poll :: "world \<Rightarrow> duration \<Rightarrow> int \<Rightarrow> ('s \<Rightarrow> event list \<Rightarrow> 'r) \<Rightarrow> ('s \<Rightarrow> 'r \<Rightarrow> event) \<Rightarrow>
  ('s \<Rightarrow> 'r \<Rightarrow> 's + 'a) \<Rightarrow> 's \<Rightarrow> event list \<Rightarrow> ('s + 'a) \<times> event list" where
  "poll w interval deadline ans ev decide s t =
     (let n = clock w t; t1 = t @ [ENow n] in
      if n < deadline \<and> 0 < interval
      then let r = ans s t1; t2 = t1 @ [ev s r] in
           case decide s r of
             Inr a \<Rightarrow> (Inr a, t2)
           | Inl s' \<Rightarrow> poll w interval deadline ans ev decide s' (t2 @ [ESleep interval])
      else (Inl s, t1))"
  by pat_completeness auto

termination
proof (relation "measure (\<lambda>(w, interval, deadline, ans, ev, decide, s, t). nat (deadline - clock w t))", goal_cases)
  case 1
  then show ?case by simp
next
  case (2 w interval deadline ans ev decide s t n t1 r t2 s')
  then show ?case using poll_progress [of interval w t "ENow n" "ev s r"] by simp
qed

declare poll.simps [simp del]

lemma poll_unfold:
  "poll w interval deadline ans ev decide s t =
     (if clock w t < deadline \<and> 0 < interval
      then case decide s (ans s (t @ [ENow (clock w t)])) of
             Inr a \<Rightarrow> (Inr a, t @ [ENow (clock w t), ev s (ans s (t @ [ENow (clock w t)]))])
           | Inl s' \<Rightarrow> poll w interval deadline ans ev decide s'
               (t @ [ENow (clock w t), ev s (ans s (t @ [ENow (clock w t)])), ESleep interval])
      else (Inl s, t @ [ENow (clock w t)]))"
  by (subst poll.simps) (simp add: Let_def split: sum.split)

text \<open>
  What a poll leaves behind: a result that \<open>decide\<close> gave in a state that the loop invariant
  allows, and events of three kinds only, as many sleeps as fit between now and the deadline.
\<close>

definition sleeps :: "event list \<Rightarrow> nat" where
  "sleeps d = length (filter (\<lambda>e. case e of ESleep _ \<Rightarrow> True | _ \<Rightarrow> False) d)"

lemma poll_post:
  assumes "J s"
    and step: "\<And>s r s'. J s \<Longrightarrow> decide s r = Inl s' \<Longrightarrow> J s'"
    and ev: "\<And>s r. J s \<Longrightarrow> P (ev s r)" and "\<And>n. P (ENow n)" and "P (ESleep interval)"
  shows "\<exists>d. snd (poll w interval deadline ans ev decide s t) = t @ d \<and> list_all P d \<and>
           (case fst (poll w interval deadline ans ev decide s t) of
              Inl s' \<Rightarrow> J s' | Inr a \<Rightarrow> \<exists>s' r. J s' \<and> decide s' r = Inr a)"
  using \<open>J s\<close>
proof (induction "nat (deadline - clock w t)" arbitrary: s t rule: less_induct)
  case less
  let ?p = "poll w interval deadline ans ev decide"
  let ?n = "clock w t" let ?r = "ans s (t @ [ENow ?n])" let ?t = "t @ [ENow ?n, ev s ?r, ESleep interval]"
  show ?case
  proof (cases "?n < deadline \<and> 0 < interval")
    case False
    then have "?p s t = (Inl s, t @ [ENow ?n])" by (subst poll_unfold) auto
    with less.prems assms show ?thesis by simp
  next
    case True
    show ?thesis
    proof (cases "decide s ?r")
      case (Inr a)
      with True have "?p s t = (Inr a, t @ [ENow ?n, ev s ?r])" by (subst poll_unfold) simp
      with Inr less.prems assms show ?thesis by auto
    next
      case (Inl s')
      with True have eq: "?p s t = ?p s' ?t" by (subst poll_unfold) simp
      have "nat (deadline - clock w ?t) < nat (deadline - ?n)"
        using True clock_sleep [of w t interval "[ENow ?n, ev s ?r]"] by simp
      from less.hyps [OF this step [OF less.prems Inl]]
      obtain d where "snd (?p s' ?t) = ?t @ d" "list_all P d"
        "case fst (?p s' ?t) of Inl s' \<Rightarrow> J s' | Inr a \<Rightarrow> \<exists>s' r. J s' \<and> decide s' r = Inr a"
        by blast
      with eq less.prems assms show ?thesis by (intro exI [of _ "[ENow ?n, ev s ?r, ESleep interval] @ d"]) simp
    qed
  qed
qed

lemma poll_sleeps:
  assumes "\<And>s r e. ev s r \<noteq> ESleep e" and "0 < interval"
  shows "\<exists>d. snd (poll w interval deadline ans ev decide s t) = t @ d \<and>
           int (sleeps d) * interval < max 0 (deadline - clock w t) + interval"
proof (induction "nat (deadline - clock w t)" arbitrary: s t rule: less_induct)
  case less
  let ?p = "poll w interval deadline ans ev decide"
  let ?n = "clock w t" let ?r = "ans s (t @ [ENow ?n])" let ?t = "t @ [ENow ?n, ev s ?r, ESleep interval]"
  have ev: "sleeps [ENow ?n, ev s ?r] = 0" using assms(1) [of s ?r] by (simp add: sleeps_def split: event.splits)
  show ?case
  proof (cases "?n < deadline")
    case False
    then have "?p s t = (Inl s, t @ [ENow ?n])" by (subst poll_unfold) auto
    with \<open>0 < interval\<close> show ?thesis by (intro exI [of _ "[ENow ?n]"]) (simp add: sleeps_def)
  next
    case True
    show ?thesis
    proof (cases "decide s ?r")
      case (Inr a)
      with True \<open>0 < interval\<close> have "?p s t = (Inr a, t @ [ENow ?n, ev s ?r])" by (subst poll_unfold) simp
      with ev \<open>0 < interval\<close> show ?thesis by (intro exI [of _ "[ENow ?n, ev s ?r]"]) simp
    next
      case (Inl s')
      with True \<open>0 < interval\<close> have eq: "?p s t = ?p s' ?t" by (subst poll_unfold) simp
      have adv: "?n + interval \<le> clock w ?t"
        using \<open>0 < interval\<close> clock_sleep [of w t interval "[ENow ?n, ev s ?r]"] by simp
      with True \<open>0 < interval\<close> have "nat (deadline - clock w ?t) < nat (deadline - ?n)" by simp
      from less.hyps [OF this] obtain d where d: "snd (?p s' ?t) = ?t @ d"
        "int (sleeps d) * interval < max 0 (deadline - clock w ?t) + interval" by blast
      have "int (sleeps ([ENow ?n, ev s ?r, ESleep interval] @ d)) = int (sleeps d) + 1"
        using ev by (simp add: sleeps_def split: if_splits)
      moreover have "(int (sleeps d) + 1) * interval < max 0 (deadline - ?n) + interval"
        using d(2) adv True \<open>0 < interval\<close>
        by (cases "deadline \<le> clock w ?t") (auto simp: algebra_simps mult_less_0_iff)
      ultimately show ?thesis
        using d(1) eq by (intro exI [of _ "[ENow ?n, ev s ?r, ESleep interval] @ d"]) simp
    qed
  qed
qed

section \<open>The waiting loops\<close>

text \<open>\<open>waitForPodRunning\<close> reads the pod into its argument, so it returns the pod as last read.\<close>

definition podDecision :: "pod \<Rightarrow> kerr + pod \<Rightarrow> pod + (kerr option \<times> pod)" where
  "podDecision p r =
     (case r of
        Inl e \<Rightarrow> Inl p
      | Inr q \<Rightarrow>
          if pPhase q = PodRunning \<and> list_all (\<lambda>ready. ready) (ContainerReady (p_Status q)) then Inr (None, q)
          else if pPhase q = PodFailed then Inr (Some (OtherErr (''pod failed: '' @ ps_Message (p_Status q))), q)
          else Inl q)"

definition waitForPodRunning :: "world \<Rightarrow> pod \<Rightarrow> duration \<Rightarrow> (kerr option \<times> pod) prog" where
  "waitForPodRunning w p timeout = do {
     t0 \<leftarrow> now w;
     r \<leftarrow> State (poll w second (t0 + timeout)
                 (\<lambda>p t. w_getPod w t (pNamespace p, pName p)) (\<lambda>p. EGetPod (pNamespace p, pName p)) podDecision p);
     State_Monad.return
       (case r of Inl p' \<Rightarrow> (Some (OtherErr ''timeout waiting for pod to be running''), p') | Inr res \<Rightarrow> res)
   }"

definition lazyDecision :: "unit \<Rightarrow> kerr + statusResponse \<Rightarrow> unit + unit" where
  "lazyDecision _ r = (case r of Inl e \<Rightarrow> Inl () | Inr st \<Rightarrow> if \<not> LazyPagesActive st then Inr () else Inl ())"

definition waitForLazyPagesCompletion :: "world \<Rightarrow> agentClient \<Rightarrow> duration \<Rightarrow> kerr option prog" where
  "waitForLazyPagesCompletion w c timeout = do {
     t0 \<leftarrow> now w;
     r \<leftarrow> State (poll w (2 * second) (t0 + timeout)
                 (\<lambda>_ t. w_rpcGetStatus w t (podIP c)) (\<lambda>_. EGetStatus (podIP c)) lazyDecision ());
     State_Monad.return
       (case r of Inl _ \<Rightarrow> Some (OtherErr (''lazy-pages did not complete within '' @ dur_string timeout)) | Inr _ \<Rightarrow> None)
   }"

definition pageServerDecision :: "unit \<Rightarrow> kerr + pageServerStatusResponse \<Rightarrow> unit + unit" where
  "pageServerDecision _ r = (case r of Inl e \<Rightarrow> Inl () | Inr st \<Rightarrow> if \<not> IsAlive st then Inr () else Inl ())"

definition waitForPageServerCompletion :: "world \<Rightarrow> agentClient \<Rightarrow> int \<Rightarrow> duration \<Rightarrow> kerr option prog" where
  "waitForPageServerCompletion w c pid timeout = do {
     t0 \<leftarrow> now w;
     r \<leftarrow> State (poll w (2 * second) (t0 + timeout)
                 (\<lambda>_ t. w_rpcCheckPageServer w t (podIP c) pid) (\<lambda>_. ECheckPageServer (podIP c) pid) pageServerDecision ());
     State_Monad.return
       (case r of Inl _ \<Rightarrow> Some (OtherErr (''page-server did not complete within '' @ dur_string timeout)) | Inr _ \<Rightarrow> None)
   }"

text \<open>\<open>waitForPageServerReady\<close> does not connect: it only gives the page server a second.\<close>

definition waitForPageServerReady :: "string \<Rightarrow> int \<Rightarrow> duration \<Rightarrow> kerr option prog" where
  "waitForPageServerReady sourceIP port timeout = do { sleep second; State_Monad.return None }"

section \<open>Events that change nothing\<close>

text \<open>Reads that leave the controller's own copy of the resource alone as well.\<close>

fun readonly :: "event \<Rightarrow> bool" where
  "readonly (EApiGetMapp k r) = True"
| "readonly (EListMapps r) = True"
| "readonly (EGetPod k r) = True"
| "readonly (EListPods n s r) = True"
| "readonly (EGetNode n r) = True"
| "readonly (EGetSecret k r) = True"
| "readonly (EGetReplicaSet k r) = True"
| "readonly (EGetDeployment k r) = True"
| "readonly (EDial a r) = True"
| "readonly (EGetStatus a r) = True"
| "readonly (ECheckPageServer a p r) = True"
| "readonly (ENow n) = True"
| "readonly (ESleep d) = True"
| "readonly _ = False"

lemma readonly_statusWrites: "list_all readonly d \<Longrightarrow> statusWrites d = []"
proof (induction d)
  case (Cons e d)
  then show ?case by (cases e) auto
qed simp

lemma readonly_acceptedWrites: "list_all readonly d \<Longrightarrow> acceptedWrites d = []"
  using acceptedWrites_subset [of d] readonly_statusWrites [of d] by simp

lemma readonly_filter: "list_all readonly d \<Longrightarrow> (\<And>e. P e \<Longrightarrow> \<not> readonly e) \<Longrightarrow> filter P d = []"
  by (auto simp: filter_empty_conv list_all_iff)

lemma readonly_list_all: "list_all readonly d \<Longrightarrow> (\<And>e. readonly e \<Longrightarrow> P e) \<Longrightarrow> list_all P d"
  by (auto simp: list_all_iff)

lemma io_post_State:
  assumes "\<And>t. \<exists>d. snd (f t) = t @ d \<and> Q (fst (f t)) d"
  shows "io_post (State f) Q"
  using assms by (simp add: io_post_def)

lemma io_post_poll:
  assumes "J s" and "\<And>s r s'. J s \<Longrightarrow> decide s r = Inl s' \<Longrightarrow> J s'" and "\<And>s r. readonly (ev s r)"
    and inl: "\<And>s' d. J s' \<Longrightarrow> list_all readonly d \<Longrightarrow> Q (Inl s') d"
    and inr: "\<And>s' r a d. J s' \<Longrightarrow> decide s' r = Inr a \<Longrightarrow> list_all readonly d \<Longrightarrow> Q (Inr a) d"
  shows "io_post (State (poll w interval deadline ans ev decide s)) Q"
proof (rule io_post_State)
  fix t
  let ?p = "poll w interval deadline ans ev decide s t"
  obtain d where d: "snd ?p = t @ d" "list_all readonly d"
      "case fst ?p of Inl s' \<Rightarrow> J s' | Inr a \<Rightarrow> \<exists>s' r. J s' \<and> decide s' r = Inr a"
    using poll_post [of J s decide readonly ev interval w deadline ans t] assms by auto
  then show "\<exists>d. snd ?p = t @ d \<and> Q (fst ?p) d"
    by (cases "fst ?p") (auto intro: inl inr)
qed

lemma io_post_waitForPodRunning [io_rules]:
  assumes "\<And>e q d. list_all readonly d \<Longrightarrow>
      (e = None \<Longrightarrow> pPhase q = PodRunning \<and> list_all (\<lambda>r. r) (ContainerReady (p_Status q))) \<Longrightarrow> Q (e, q) d"
  shows "io_post (waitForPodRunning w p timeout) Q"
  unfolding waitForPodRunning_def
  by (intro io_rules io_post_poll [of "\<lambda>_. True"])
     (auto intro!: assms simp: podDecision_def split: sum.splits if_splits)

lemma io_post_waitForLazyPagesCompletion [io_rules]:
  assumes "\<And>e d. list_all readonly d \<Longrightarrow> Q e d"
  shows "io_post (waitForLazyPagesCompletion w c timeout) Q"
  unfolding waitForLazyPagesCompletion_def
  by (intro io_rules io_post_poll [of "\<lambda>_. True"]) (auto intro!: assms)

lemma io_post_waitForPageServerReady [io_rules]:
  "Q None [ESleep second] \<Longrightarrow> io_post (waitForPageServerReady ip port timeout) Q"
  unfolding waitForPageServerReady_def by (intro io_rules) simp

section \<open>The waits return\<close>

text \<open>
  A wait sleeps less than its timeout and one interval together, whatever the world answers.
\<close>

lemma poll_from_now:
  assumes "\<And>s r e. ev s r \<noteq> ESleep e" and "0 < interval"
  shows "\<exists>d. snd (run_state (State (poll w interval (clock w t + timeout) ans ev decide s)) (t @ [ENow (clock w t)])) =
              (t @ [ENow (clock w t)]) @ d \<and>
            int (sleeps d) * interval < max 0 timeout + interval"
proof -
  let ?t = "t @ [ENow (clock w t)]"
  obtain d where d: "snd (poll w interval (clock w t + timeout) ans ev decide s ?t) = ?t @ d"
      "int (sleeps d) * interval < max 0 (clock w t + timeout - clock w ?t) + interval"
    using poll_sleeps [of ev interval w "clock w t + timeout" ans decide s ?t] assms by blast
  have "clock w t \<le> clock w ?t" by (rule clock_mono)
  with d show ?thesis by (intro exI [of _ d]) auto
qed

end
