(* ===== verification/Pods.thy ===== *)
theory Pods
  imports Client
begin

text \<open>
  Helpers of \<open>pkg/controller/reconciler.go\<close> that the migration machine and the reconciler share:
  the choice of the current pod of an application and the storage credentials.
\<close>

section \<open>Choosing a pod\<close>

text \<open>
  The interface of a pod choice: the choice is one of the listed pods, it is a candidate, and
  there is none only when no listed pod is a candidate. The controller and the checkpoint
  scheduler choose differently behind the same interface.
\<close>

locale pod_choice =
  fixes pick :: "pod list \<Rightarrow> pod option" and candidate :: "pod \<Rightarrow> bool"
  assumes pick_Some: "pick ps = Some p \<Longrightarrow> p \<in> set ps \<and> candidate p"
    and pick_None: "pick ps = None \<Longrightarrow> p \<in> set ps \<Longrightarrow> \<not> candidate p"
begin

lemma pick_iff: "pick ps \<noteq> None \<longleftrightarrow> (\<exists>p \<in> set ps. candidate p)"
  using pick_Some pick_None by (cases "pick ps") auto

lemma pick_unique:
  assumes "p \<in> set ps" and "candidate p" and "\<And>q. q \<in> set ps \<Longrightarrow> candidate q \<Longrightarrow> q = p"
  shows "pick ps = Some p"
proof (cases "pick ps")
  case None
  from pick_None [OF this assms(1)] assms(2) show ?thesis by simp
next
  case (Some q)
  with pick_Some [OF this] assms(3) [of q] show ?thesis by simp
qed

end

text \<open>The loop of \<open>getCurrentPod\<close>: the newest pod that is not terminating, the first one of equals.\<close>

fun newestPod :: "pod option \<Rightarrow> pod list \<Rightarrow> pod option" where
  "newestPod cur [] = cur"
| "newestPod cur (p # ps) =
     newestPod
       (if \<not> terminating p \<and>
           (case cur of None \<Rightarrow> True
            | Some c \<Rightarrow> time_after (CreationTimestamp (p_Meta p)) (CreationTimestamp (p_Meta c)))
        then Some p else cur) ps"

definition appSelector :: "mapp \<Rightarrow> smap" where
  "appSelector m = [(''migration.io/app'', mName m)]"

definition getCurrentPod :: "world \<Rightarrow> mapp \<Rightarrow> (kerr + pod) prog" where
  "getCurrentPod w m = do {
     r \<leftarrow> listPods w (mNamespace m) (appSelector m);
     State_Monad.return
       (case r of
          Inl e \<Rightarrow> Inl e
        | Inr ps \<Rightarrow> (case newestPod None ps of
            None \<Rightarrow> Inl (NotFound ''pod \"\" not found'')
          | Some p \<Rightarrow> Inr p))
   }"

lemma newestPod_Some:
  "newestPod cur ps = Some p \<Longrightarrow> cur = Some p \<or> (p \<in> set ps \<and> \<not> terminating p)"
proof (induction ps arbitrary: cur)
  case (Cons q ps)
  from Cons.IH [OF Cons.prems [unfolded newestPod.simps]] show ?case
    by (auto split: if_splits option.splits)
qed simp

lemma newestPod_keeps: "newestPod (Some c) ps \<noteq> None"
  by (induction ps arbitrary: c) (auto split: if_splits)

lemma newestPod_None: "newestPod None ps = None \<Longrightarrow> p \<in> set ps \<Longrightarrow> terminating p"
proof (induction ps)
  case (Cons q ps)
  then show ?case using newestPod_keeps [of q ps] by (auto split: if_splits)
qed simp

interpretation current: pod_choice "newestPod None" "\<lambda>p. \<not> terminating p"
  by unfold_locales (auto dest: newestPod_Some newestPod_None)

text \<open>No pod that is not terminating is newer than the chosen one.\<close>

lemma newestPod_newest:
  assumes "newestPod cur ps = Some p"
  shows "(\<forall>q \<in> set ps. \<not> terminating q \<longrightarrow>
            \<not> time_after (CreationTimestamp (p_Meta q)) (CreationTimestamp (p_Meta p))) \<and>
         (\<forall>c. cur = Some c \<longrightarrow> \<not> time_after (CreationTimestamp (p_Meta c)) (CreationTimestamp (p_Meta p)))"
  using assms
proof (induction ps arbitrary: cur)
  case (Cons q ps)
  let ?new = "if \<not> terminating q \<and>
           (case cur of None \<Rightarrow> True
            | Some c \<Rightarrow> time_after (CreationTimestamp (p_Meta q)) (CreationTimestamp (p_Meta c)))
        then Some q else cur"
  from Cons.IH [OF Cons.prems [unfolded newestPod.simps]]
  have rest: "\<forall>q \<in> set ps. \<not> terminating q \<longrightarrow>
       \<not> time_after (CreationTimestamp (p_Meta q)) (CreationTimestamp (p_Meta p))"
    and new: "\<And>c. ?new = Some c \<Longrightarrow> \<not> time_after (CreationTimestamp (p_Meta c)) (CreationTimestamp (p_Meta p))"
    by blast+
  show ?case
  proof (cases "?new = Some q")
    case True
    then have "\<not> time_after (CreationTimestamp (p_Meta q)) (CreationTimestamp (p_Meta p))" by (rule new)
    moreover have "\<not> time_after (CreationTimestamp (p_Meta c)) (CreationTimestamp (p_Meta p))" if "cur = Some c" for c
      using that True calculation by (auto split: if_splits dest: time_after_trans)
    ultimately show ?thesis using rest by auto
  next
    case False
    then have old: "?new = cur" by (auto split: if_splits)
    have "\<not> time_after (CreationTimestamp (p_Meta q)) (CreationTimestamp (p_Meta p))" if "\<not> terminating q"
    proof -
      from False that obtain c where c: "cur = Some c"
        "\<not> time_after (CreationTimestamp (p_Meta q)) (CreationTimestamp (p_Meta c))"
        by (auto split: option.splits if_splits)
      with old new have "\<not> time_after (CreationTimestamp (p_Meta c)) (CreationTimestamp (p_Meta p))" by metis
      with c(2) show ?thesis
        by (metis time_after_trans time_after_total)
    qed
    with rest new old show ?thesis by auto
  qed
qed simp

lemma io_post_getCurrentPod [io_rules]:
  assumes "\<And>e ps. newestPod None ps = None \<or> ps = [] \<Longrightarrow> Q (Inl e) [EListPods (mNamespace m) (appSelector m) (Inr ps)]"
    and "\<And>e. Q (Inl e) [EListPods (mNamespace m) (appSelector m) (Inl e)]"
    and "\<And>ps p. newestPod None ps = Some p \<Longrightarrow> Q (Inr p) [EListPods (mNamespace m) (appSelector m) (Inr ps)]"
  shows "io_post (getCurrentPod w m) Q"
  unfolding getCurrentPod_def using assms
  by (intro io_rules) (auto split: sum.splits option.splits)

section \<open>Credentials\<close>

text \<open>
  \<open>getAWSCredentials\<close> reads the secret from the namespace \<open>migration-system\<close> and wants both keys.
\<close>

definition getAWSCredentials :: "world \<Rightarrow> mapp \<Rightarrow> (kerr + string \<times> string) prog" where
  "getAWSCredentials w m =
     (let name = CredentialsSecret (Storage (Spec m)) in
      if name = [] then State_Monad.return (Inl (OtherErr ''no credentials secret specified''))
      else do {
        r \<leftarrow> getSecret w (''migration-system'', name);
        State_Monad.return
          (case r of
             Inl e \<Rightarrow> Inl e
           | Inr s \<Rightarrow>
               let ak = mget (s_Data s) ''AWS_ACCESS_KEY_ID''; sk = mget (s_Data s) ''AWS_SECRET_ACCESS_KEY'' in
               if ak = [] \<or> sk = []
               then Inl (OtherErr ''secret missing AWS_ACCESS_KEY_ID or AWS_SECRET_ACCESS_KEY'')
               else Inr (ak, sk))
      })"

text \<open>The code after every call: empty strings on an error, and a builder with or without credentials.\<close>

definition builderFor :: "mapp \<Rightarrow> kerr + string \<times> string \<Rightarrow> podBuilder" where
  "builderFor m cred =
     (let (ak, sk) = (case cred of Inl e \<Rightarrow> ([], []) | Inr c \<Rightarrow> c) in
      if ak \<noteq> [] \<and> sk \<noteq> [] then NewPodBuilderWithCredentials m ak sk else NewPodBuilder m)"

lemma builderFor_mapp [simp]: "pb_mapp (builderFor m cred) = m"
  by (cases cred) (auto simp: builderFor_def NewPodBuilder_def NewPodBuilderWithCredentials_def)

lemma io_post_getAWSCredentials [io_rules]:
  assumes "\<And>r d. list_all readonly d \<Longrightarrow> (\<And>ak sk. r = Inr (ak, sk) \<Longrightarrow> ak \<noteq> [] \<and> sk \<noteq> []) \<Longrightarrow> Q r d"
  shows "io_post (getAWSCredentials w m) Q"
  unfolding getAWSCredentials_def
  by (intro io_rules assms) (auto simp: Let_def split: sum.splits if_splits)

end
