(* ===== verification/Fsm.thy ===== *)
theory Fsm
  imports Pods
begin

text \<open>
  \<open>pkg/controller/migration_fsm.go\<close>: the migration state machine. Its state is the stage and its
  companions in the status of the resource; a handler runs once per reconcile, talks to the API
  server and to the agents, and persists at most one new status. The log lines are left out.
\<close>

section \<open>Stages\<close>

definition defaultMaxRetries :: int where "defaultMaxRetries = 3"

definition minRestoreBackoff :: duration where "minRestoreBackoff = 0 * second"

definition maxRestoreBackoff :: duration where "maxRestoreBackoff = 5 * second"

definition backoffDuration :: "int \<Rightarrow> duration" where
  "backoffDuration retryCount =
     (if retryCount \<le> 0 then minRestoreBackoff
      else if retryCount = 1 then 2 * second
      else maxRestoreBackoff)"

definition isTerminalStage :: "migrationStage \<Rightarrow> bool" where
  "isTerminalStage stage \<longleftrightarrow> stage = StageFinalDumpFailed \<or> stage = StageFailed"

fun phaseForStage :: "migrationStage \<Rightarrow> string" where
  "phaseForStage StageIdle = ''Running''"
| "phaseForStage StagePreCheckpointing = ''Running''"
| "phaseForStage StageFinalDumpFailed = ''Failed''"
| "phaseForStage StageFailed = ''Failed''"
| "phaseForStage _ = ''Migrating''"

text \<open>The status that \<open>setStage\<close> writes, from the two readings of the clock.\<close>

definition stagedStatus ::
  "mapp \<Rightarrow> migrationStage \<Rightarrow> (migrationStatusInfo \<Rightarrow> migrationStatusInfo) \<Rightarrow> gtime \<Rightarrow> gtime \<Rightarrow> mapp" where
  "stagedStatus m stage mutate t1 t2 =
     (let m1 = setMigration mutate m;
          m2 = setMigration (\<lambda>i. i\<lparr>Stage := stage, LastTransitionTime := t1\<rparr>) m1;
          m3 = (if MaxRetries (mMigration m2) = 0 then setMigration (\<lambda>i. i\<lparr>MaxRetries := defaultMaxRetries\<rparr>) m2 else m2)
      in setStatus (\<lambda>s. s\<lparr>Phase := phaseForStage stage, LastUpdateTime := t2\<rparr>) m3)"

text \<open>\<open>setStage\<close>: on success the resource is what the API server returned.\<close>

definition setStage ::
  "world \<Rightarrow> mapp \<Rightarrow> migrationStage \<Rightarrow> (migrationStatusInfo \<Rightarrow> migrationStatusInfo) \<Rightarrow> (kerr + mapp) prog" where
  "setStage w m stage mutate = do {
     t1 \<leftarrow> metav1_Now w;
     t2 \<leftarrow> metav1_Now w;
     statusUpdate w (stagedStatus m stage mutate t1 t2)
   }"

text \<open>The code after every \<open>setStage\<close>: a conflict requeues, another error is returned.\<close>

definition afterStage :: "ctrlResult \<Rightarrow> kerr + mapp \<Rightarrow> result" where
  "afterStage ok r = (case r of Inl e \<Rightarrow> if isConflict e then Inr requeue else Inl e | Inr m \<Rightarrow> Inr ok)"

definition resetMigrationFSM :: "mapp \<Rightarrow> mapp" where
  "resetMigrationFSM m = setMigration (\<lambda>_. emptyMigration) m"

definition startMigration :: "world \<Rightarrow> mapp \<Rightarrow> pod \<Rightarrow> string \<Rightarrow> result prog" where
  "startMigration w m sourcePod reason =
     (let firstStage =
            (case PreDumpQuiesce (MigrationPolicy (Spec m)) of
               None \<Rightarrow> StageDumping
             | Some q \<Rightarrow> if TargetPodSelector q \<noteq> [] then StageQuiescing else StageDumping)
      in do {
        r \<leftarrow> setStage w m firstStage (\<lambda>i. i\<lparr>
               PreviousNode := pNodeName sourcePod, MigrationReason := reason, RetryCount := 0,
               LastError := [], UploadedDumpID := [], UploadedS3Prefix := [], CurrentTargetPod := [],
               PageServerAddr := [], PageServerPort := 0\<rparr>);
        State_Monad.return (afterStage requeue r)
      })"

section \<open>Quiescing\<close>

definition pageServerPort :: int where "pageServerPort = 9999"

definition quiesceActionScaleZero :: string where "quiesceActionScaleZero = ''scale-zero''"

definition fsmAdvanceToDumping :: "world \<Rightarrow> mapp \<Rightarrow> result prog" where
  "fsmAdvanceToDumping w m = do {
     r \<leftarrow> setStage w m StageDumping (\<lambda>i. i\<lparr>LastError := []\<rparr>);
     State_Monad.return (afterStage requeue r)
   }"

definition listQuiesceTargets :: "world \<Rightarrow> string \<Rightarrow> smap \<Rightarrow> (kerr + pod list) prog" where
  "listQuiesceTargets w ns selector = do {
     r \<leftarrow> listPods w ns selector;
     State_Monad.return
       (case r of Inl e \<Rightarrow> Inl e
        | Inr ps \<Rightarrow> Inr (filter (\<lambda>p. \<not> terminating p \<and> pPhase p = PodRunning) ps))
   }"

text \<open>The Deployment behind a pod: the first ReplicaSet owner that can be read and has a Deployment owner.\<close>

fun findOwnerDeployment :: "world \<Rightarrow> string \<Rightarrow> ownerReference list \<Rightarrow> string prog" where
  "findOwnerDeployment w ns [] = State_Monad.return []"
| "findOwnerDeployment w ns (owner # owners) =
     (if or_Kind owner \<noteq> ''ReplicaSet'' then findOwnerDeployment w ns owners
      else do {
        r \<leftarrow> getReplicaSet w (ns, or_Name owner);
        (case r of
           Inl e \<Rightarrow> findOwnerDeployment w ns owners
         | Inr rs \<Rightarrow>
             (case List.find (\<lambda>x. or_Kind x = ''Deployment'') (rs_OwnerReferences rs) of
                None \<Rightarrow> findOwnerDeployment w ns owners
              | Some d \<Rightarrow> if or_Name d \<noteq> [] then State_Monad.return (or_Name d)
                          else findOwnerDeployment w ns owners))
      })"

fun scaleOwners :: "world \<Rightarrow> pod list \<Rightarrow> string list \<Rightarrow> unit prog" where
  "scaleOwners w [] deploys = State_Monad.return ()"
| "scaleOwners w (p # ps) deploys = do {
     name \<leftarrow> findOwnerDeployment w (pNamespace p) (OwnerReferences (p_Meta p));
     (if name = [] then scaleOwners w ps deploys
      else let k = pNamespace p @ ''/'' @ name in
           if k \<in> set deploys then scaleOwners w ps deploys
           else do {
             r \<leftarrow> getDeployment w (pNamespace p, name);
             (case r of
                Inl e \<Rightarrow> scaleOwners w ps (k # deploys)
              | Inr d \<Rightarrow> do {
                  _ \<leftarrow> updateDeployment w (d\<lparr>Replicas := Some 0\<rparr>);
                  scaleOwners w ps (k # deploys)
                })
           })
   }"

definition quiesceScaleOwnersToZero :: "world \<Rightarrow> pod list \<Rightarrow> unit prog" where
  "quiesceScaleOwnersToZero w pods = scaleOwners w pods []"

definition drainBudget :: "preDumpQuiesce \<Rightarrow> duration" where
  "drainBudget q = (let d = times_dur (DrainSeconds q) second in if d \<le> 0 then 5 * second else d)"

definition fsmQuiescingHandler :: "world \<Rightarrow> mapp \<Rightarrow> result prog" where
  "fsmQuiescingHandler w m =
     (case PreDumpQuiesce (MigrationPolicy (Spec m)) of
        None \<Rightarrow> fsmAdvanceToDumping w m
      | Some q \<Rightarrow>
          if TargetPodSelector q = [] then fsmAdvanceToDumping w m
          else do {
            n \<leftarrow> now w;
            let deadlineExpired = (time_since n (LastTransitionTime (mMigration m)) \<ge> drainBudget q);
            r \<leftarrow> listQuiesceTargets w (mNamespace m) (TargetPodSelector q);
            (case r of
               Inl e \<Rightarrow> fsmAdvanceToDumping w m
             | Inr pods \<Rightarrow>
                 if pods = [] then fsmAdvanceToDumping w m
                 else if deadlineExpired then fsmAdvanceToDumping w m
                 else if LastError (mMigration m) = [] then do {
                   _ \<leftarrow> (if Action q = quiesceActionScaleZero
                         then quiesceScaleOwnersToZero w pods
                         else forEach pods (\<lambda>p. do { _ \<leftarrow> deletePod w p; State_Monad.return () }));
                   _ \<leftarrow> setStage w m StageQuiescing
                     (\<lambda>i. i\<lparr>LastError := ''quiescing '' @ itoa (int (length pods)) @ '' pods''\<rparr>);
                   State_Monad.return (Inr (requeueAfter (1 * second)))
                 }
                 else State_Monad.return (Inr (requeueAfter (1 * second))))
          })"

section \<open>Failure transitions\<close>

definition failureRecord :: "migrationStatusInfo \<Rightarrow> gtime \<Rightarrow> string \<Rightarrow> migrationRecord" where
  "failureRecord rs t msg =
     \<lparr>FromNode = PreviousNode rs, ToNode = [], mr_Timestamp = t, mr_Reason = ''migration-failed'',
      mr_Duration = [], Success = False, mr_Message = msg\<rparr>"

definition appendHistory :: "migrationRecord \<Rightarrow> mapp \<Rightarrow> mapp" where
  "appendHistory r m = setStatus (\<lambda>s. s\<lparr>MigrationHistory := MigrationHistory s @ [r]\<rparr>) m"

definition fsmTransitionToFinalDumpFailed :: "world \<Rightarrow> mapp \<Rightarrow> string \<Rightarrow> result prog" where
  "fsmTransitionToFinalDumpFailed w m msg = do {
     t \<leftarrow> metav1_Now w;
     r \<leftarrow> setStage w (appendHistory (failureRecord (mMigration m) t (''FinalDumpFailed: '' @ msg)) m)
            StageFinalDumpFailed (\<lambda>i. i\<lparr>LastError := msg\<rparr>);
     State_Monad.return (afterStage (requeueAfter (60 * second)) r)
   }"

definition fsmTransitionToRestoreFailed :: "world \<Rightarrow> mapp \<Rightarrow> string \<Rightarrow> result prog" where
  "fsmTransitionToRestoreFailed w m msg = do {
     r \<leftarrow> setStage w m StageRestoreFailed (\<lambda>i. i\<lparr>LastError := msg\<rparr>);
     State_Monad.return (afterStage requeue r)
   }"

section \<open>Dumping\<close>

definition effectiveStrategy :: "mapp \<Rightarrow> string" where
  "effectiveStrategy m =
     (let s = Strategy (MigrationPolicy (Spec m)) in if s = [] then ''lazy-storage'' else s)"

definition usesPageServer :: "string \<Rightarrow> bool" where
  "usesPageServer strategy \<longleftrightarrow> strategy = ''lazy-direct'' \<or> strategy = ''lazy-hybrid''"

text \<open>\<open>fmt.Sprintf("%s/%d/%s/%s", mapp.Name, mapp.Status.Generation, sourcePod.Spec.NodeName, dumpResp.DumpId)\<close>\<close>

definition dumpPrefix :: "mapp \<Rightarrow> pod \<Rightarrow> string \<Rightarrow> string" where
  "dumpPrefix m sourcePod dumpId =
     mName m @ ''/'' @ itoa (Generation (Status m)) @ ''/'' @ pNodeName sourcePod @ ''/'' @ dumpId"

definition fsmDumpAndRecord :: "world \<Rightarrow> mapp \<Rightarrow> pod \<Rightarrow> result prog" where
  "fsmDumpAndRecord w m sourcePod =
     (let strategy = effectiveStrategy m; usePageServer = usesPageServer strategy in do {
        conn \<leftarrow> NewAgentClient w sourcePod;
        (case conn of
           Inl e \<Rightarrow> fsmTransitionToFinalDumpFailed w m (''failed to connect to source agent: '' @ errMsg e)
         | Inr sourceAgent \<Rightarrow> do {
             d \<leftarrow> FinalDump w sourceAgent
                    (if usePageServer then ''0.0.0.0'' else []) (if usePageServer then pageServerPort else 0)
                    (LastCheckpointID (mCheckpoint m)) strategy;
             (case d of
                Inl e \<Rightarrow> fsmTransitionToFinalDumpFailed w m (errMsg e)
              | Inr dumpResp \<Rightarrow> do {
                  r \<leftarrow> setStage w m StageUploaded (\<lambda>i. i\<lparr>
                         UploadedDumpID := DumpId dumpResp,
                         UploadedS3Prefix := dumpPrefix m sourcePod (DumpId dumpResp),
                         UploadedPipeInodes := PipeInodes dumpResp,
                         PageServerAddr := (if usePageServer then pIP sourcePod else []),
                         PageServerPort := (if usePageServer then pageServerPort else 0),
                         LastError := []\<rparr>);
                  State_Monad.return (afterStage requeue r)
                })
           })
      })"

definition mappKey :: "mapp \<Rightarrow> key" where
  "mappKey m = (mNamespace m, mName m)"

definition fsmDumpingHandler :: "world \<Rightarrow> mapp \<Rightarrow> pod \<Rightarrow> result prog" where
  "fsmDumpingHandler w m sourcePod = do {
     fresh \<leftarrow> apiGetMapp w (mappKey m);
     (case fresh of
        Inl e \<Rightarrow> fsmDumpAndRecord w m sourcePod
      | Inr f \<Rightarrow> if mStage f \<noteq> StageDumping then State_Monad.return (Inr requeue)
                 else fsmDumpAndRecord w m sourcePod)
   }"

section \<open>Uploaded\<close>

definition migrationTimeout :: "mapp \<Rightarrow> duration" where
  "migrationTimeout m =
     (let t = times_dur (MigrationTimeoutSeconds (MigrationPolicy (Spec m))) second
      in if t = 0 then 5 * minute else t)"

definition restoreTarget :: "genv \<Rightarrow> mapp \<Rightarrow> kerr + string \<times> string \<Rightarrow> pod" where
  "restoreTarget getenv m cred =
     (let rs = mMigration m;
          p = BuildRestorePod getenv (builderFor m cred) (Generation (Status m) + 1)
                (UploadedDumpID rs) (PreviousNode rs) (UploadedS3Prefix rs) (PageServerAddr rs)
      in annotate ''migration.io/s3-prefix'' (UploadedS3Prefix rs)
           (annotate ''migration.io/checkpoint-id'' (UploadedDumpID rs) p))"

definition fsmCreateTarget :: "genv \<Rightarrow> world \<Rightarrow> mapp \<Rightarrow> result prog" where
  "fsmCreateTarget getenv w m = do {
     cred \<leftarrow> getAWSCredentials w m;
     created \<leftarrow> createPod w (restoreTarget getenv m cred);
     (case created of
        Inl e \<Rightarrow> fsmTransitionToRestoreFailed w m (''failed to create target pod: '' @ errMsg e)
      | Inr target \<Rightarrow> do {
          (err, targetPod) \<leftarrow> waitForPodRunning w target (migrationTimeout m);
          (case err of
             Some e \<Rightarrow> do {
               _ \<leftarrow> deletePod w targetPod;
               fsmTransitionToRestoreFailed w m (''target pod failed to reach Running: '' @ errMsg e)
             }
           | None \<Rightarrow> do {
               r \<leftarrow> setStage w m StageRestoring
                      (\<lambda>i. i\<lparr>CurrentTargetPod := pName targetPod, LastError := []\<rparr>);
               State_Monad.return (afterStage requeue r)
             })
        })
   }"

definition fsmUploadedHandler :: "genv \<Rightarrow> world \<Rightarrow> mapp \<Rightarrow> result prog" where
  "fsmUploadedHandler getenv w m = do {
     fresh \<leftarrow> apiGetMapp w (mappKey m);
     (case fresh of
        Inl e \<Rightarrow> fsmCreateTarget getenv w m
      | Inr f \<Rightarrow> if mStage f \<noteq> StageUploaded then State_Monad.return (Inr requeue)
                 else fsmCreateTarget getenv w m)
   }"

section \<open>Restoring\<close>

text \<open>\<open>%q\<close> on a string of printable characters: double quotes around it, quotes and backslashes escaped.\<close>

definition goQuote :: "string \<Rightarrow> string" where
  "goQuote s =
     [CHR 0x22] @ concat (map (\<lambda>c. if c = CHR 0x22 \<or> c = CHR 0x5C then [CHR 0x5C, c] else [c]) s) @ [CHR 0x22]"

definition debugPreserveSourcePodAnnotation :: string where
  "debugPreserveSourcePodAnnotation = ''migration.io/debug-preserve-source-pod''"

text \<open>The copy of the source pod that keeps only the two labels of the operator.\<close>

definition detachedPod :: "pod \<Rightarrow> string \<Rightarrow> pod" where
  "detachedPod p stamp =
     annotate ''migration.io/post-migration'' stamp
       (p\<lparr>p_Meta := (p_Meta p)\<lparr>Labels :=
          filter (\<lambda>(k, v). k = ''migration.io/app'' \<or> k = ''migration.io/generation'') (Labels (p_Meta p))\<rparr>\<rparr>)"

definition cleanupSource :: "world \<Rightarrow> mapp \<Rightarrow> pod \<Rightarrow> unit prog" where
  "cleanupSource w m sourcePod =
     (if mget (Annotations (m_Meta m)) debugPreserveSourcePodAnnotation = ''true''
      then do {
        n \<leftarrow> now w;
        _ \<leftarrow> updatePod w (detachedPod sourcePod (format_rfc3339 n));
        State_Monad.return ()
      }
      else do { _ \<leftarrow> deletePod w sourcePod; State_Monad.return () })"

definition successRecord :: "migrationStatusInfo \<Rightarrow> pod \<Rightarrow> gtime \<Rightarrow> duration \<Rightarrow> migrationRecord" where
  "successRecord rs targetPod t d =
     \<lparr>FromNode = PreviousNode rs, ToNode = pNodeName targetPod, mr_Timestamp = t,
      mr_Reason = MigrationReason rs, mr_Duration = dur_string d, Success = True,
      mr_Message = ''Migration completed in '' @ dur_string d @ '' (retries='' @ itoa (RetryCount rs) @ '')''\<rparr>"

text \<open>The status after a successful restore: the next generation on the target, the machine idle.\<close>

definition migratedStatus :: "mapp \<Rightarrow> pod \<Rightarrow> gtime \<Rightarrow> duration \<Rightarrow> gtime \<Rightarrow> mapp" where
  "migratedStatus m targetPod t d t' =
     setStatus (\<lambda>s. s\<lparr>Phase := ''Running'', LastUpdateTime := t'\<rparr>)
       (resetMigrationFSM
         (setCheckpoint (\<lambda>c. c\<lparr>CheckpointChainDepth := 1\<rparr>)
           (setStatus (\<lambda>s. s\<lparr>Generation := Generation s + 1, CurrentNode := pNodeName targetPod,
                             CurrentPodName := pName targetPod,
                             MigrationHistory := MigrationHistory s @ [successRecord (Migration s) targetPod t d]\<rparr>) m)))"

definition fsmFinishRestore :: "world \<Rightarrow> mapp \<Rightarrow> pod \<Rightarrow> pod \<Rightarrow> result prog" where
  "fsmFinishRestore w m sourcePod targetPod = do {
     n1 \<leftarrow> now w;
     let d = time_since n1 (LastTransitionTime (mMigration m));
     t \<leftarrow> metav1_Now w;
     t' \<leftarrow> metav1_Now w;
     r \<leftarrow> statusUpdate w (migratedStatus m targetPod t d t');
     (case r of
        Inl e \<Rightarrow> State_Monad.return (if isConflict e then Inr requeue else Inl e)
      | Inr m' \<Rightarrow> do {
          _ \<leftarrow> cleanupSource w m' sourcePod;
          State_Monad.return (Inr (requeueAfter (10 * second)))
        })
   }"

definition fsmRestoringHandler :: "world \<Rightarrow> mapp \<Rightarrow> pod \<Rightarrow> result prog" where
  "fsmRestoringHandler w m sourcePod =
     (let rs = mMigration m; strategy = effectiveStrategy m in do {
        t \<leftarrow> getPod w (mNamespace m, CurrentTargetPod rs);
        (case t of
           Inl e \<Rightarrow> fsmTransitionToRestoreFailed w m
                      (''target pod '' @ goQuote (CurrentTargetPod rs) @ '' not found: '' @ errMsg e)
         | Inr targetPod \<Rightarrow> do {
             conn \<leftarrow> NewAgentClient w targetPod;
             (case conn of
                Inl e \<Rightarrow> fsmTransitionToRestoreFailed w m (''failed to connect to target agent: '' @ errMsg e)
              | Inr targetAgent \<Rightarrow> do {
                  r \<leftarrow> Restore w targetAgent (UploadedDumpID rs) (Bucket (Storage (Spec m))) (UploadedS3Prefix rs)
                         (PageServerAddr rs) [] strategy (UploadedPipeInodes rs);
                  (case r of
                     Inl e \<Rightarrow> fsmTransitionToRestoreFailed w m (''Restore RPC failed: '' @ errMsg e)
                   | Inr resp \<Rightarrow> do {
                       _ \<leftarrow> waitForLazyPagesCompletion w targetAgent (5 * minute);
                       fsmFinishRestore w m sourcePod targetPod
                     })
                })
           })
      })"

section \<open>RestoreFailed\<close>

definition retriesExhausted :: "mapp \<Rightarrow> bool" where
  "retriesExhausted m \<longleftrightarrow> RetryCount (mMigration m) \<ge> MaxRetries (mMigration m)"

definition fsmFail :: "world \<Rightarrow> mapp \<Rightarrow> result prog" where
  "fsmFail w m =
     (let rs = mMigration m in do {
        t \<leftarrow> metav1_Now w;
        r \<leftarrow> setStage w
               (appendHistory (failureRecord rs t
                  (''RestoreFailed after '' @ itoa (RetryCount rs) @ '' retries: '' @ LastError rs)) m)
               StageFailed (\<lambda>i. i);
        State_Monad.return (afterStage (requeueAfter (60 * second)) r)
      })"

definition fsmBackToUploaded :: "world \<Rightarrow> mapp \<Rightarrow> result prog" where
  "fsmBackToUploaded w m = do {
     r \<leftarrow> setStage w m StageUploaded (\<lambda>i. i\<lparr>RetryCount := wrap 32 (RetryCount i + 1), CurrentTargetPod := []\<rparr>);
     State_Monad.return (afterStage requeue r)
   }"

definition fsmDropTarget :: "world \<Rightarrow> mapp \<Rightarrow> result prog" where
  "fsmDropTarget w m = do {
     r \<leftarrow> getPod w (mNamespace m, CurrentTargetPod (mMigration m));
     (case r of
        Inr targetPod \<Rightarrow> do {
          d \<leftarrow> deletePod w targetPod;
          State_Monad.return
            (case d of
               None \<Rightarrow> Inr (requeueAfter (2 * second))
             | Some e \<Rightarrow> if \<not> isNotFound e then Inr (requeueAfter (3 * second)) else Inr (requeueAfter (2 * second)))
        }
      | Inl e \<Rightarrow> if isNotFound e then fsmBackToUploaded w m
                 else State_Monad.return (Inr (requeueAfter (3 * second))))
   }"

definition fsmRestoreFailedHandler :: "world \<Rightarrow> mapp \<Rightarrow> result prog" where
  "fsmRestoreFailedHandler w m =
     (let rs = mMigration m in
      if retriesExhausted m then fsmFail w m
      else do {
        n \<leftarrow> now w;
        let backoff = backoffDuration (RetryCount rs);
        let elapsed = time_since n (LastTransitionTime rs);
        (if elapsed < backoff then State_Monad.return (Inr (requeueAfter (backoff - elapsed)))
         else if CurrentTargetPod rs \<noteq> [] then fsmDropTarget w m
         else fsmBackToUploaded w m)
      })"

section \<open>The dispatcher and the retry annotation\<close>

definition advanceMigrationFSM :: "genv \<Rightarrow> world \<Rightarrow> mapp \<Rightarrow> pod \<Rightarrow> result prog" where
  "advanceMigrationFSM getenv w m sourcePod =
     (case mStage m of
        StageQuiescing \<Rightarrow> fsmQuiescingHandler w m
      | StageDumping \<Rightarrow> fsmDumpingHandler w m sourcePod
      | StageUploaded \<Rightarrow> fsmUploadedHandler getenv w m
      | StageRestoring \<Rightarrow> fsmRestoringHandler w m sourcePod
      | StageRestoreFailed \<Rightarrow> fsmRestoreFailedHandler w m
      | StageFinalDumpFailed \<Rightarrow> State_Monad.return (Inr (requeueAfter (60 * second)))
      | StageFailed \<Rightarrow> State_Monad.return (Inr (requeueAfter (60 * second)))
      | StagePreCheckpointing \<Rightarrow> State_Monad.return (Inr (requeueAfter (5 * second)))
      | _ \<Rightarrow> State_Monad.return (Inr (requeueAfter (30 * second))))"

text \<open>The result is \<open>None\<close> when the annotation is not handled and the reconcile goes on.\<close>

definition checkRetryAnnotation :: "world \<Rightarrow> mapp \<Rightarrow> result option prog" where
  "checkRetryAnnotation w m =
     (if mget (Annotations (m_Meta m)) ''migration.io/retry'' \<noteq> ''requested'' then State_Monad.return None
      else if \<not> isTerminalStage (mStage m) then State_Monad.return None
      else do {
        src \<leftarrow> getCurrentPod w m;
        _ \<leftarrow> (case src of Inl e \<Rightarrow> State_Monad.return None | Inr p \<Rightarrow> deletePod w p);
        t \<leftarrow> metav1_Now w;
        r \<leftarrow> statusUpdate w (setStatus (\<lambda>s. s\<lparr>Phase := ''Pending'', LastUpdateTime := t\<rparr>) (resetMigrationFSM m));
        (case r of
           Inl e \<Rightarrow> State_Monad.return (Some (if isConflict e then Inr requeue else Inl e))
         | Inr m' \<Rightarrow> do {
             u \<leftarrow> updateMapp w (setMeta (\<lambda>om. om\<lparr>Annotations := mdel ''migration.io/retry'' (Annotations om)\<rparr>) m');
             State_Monad.return (Some
               (case u of Inl e \<Rightarrow> if isConflict e then Inr requeue else Inl e | Inr _ \<Rightarrow> Inr requeue))
           })
      })"

end
