(* ===== verification/FsmSpec.thy ===== *)
theory FsmSpec
  imports Fsm
begin

text \<open>
  The abstract migration machine and the proof that the handlers of \<open>migration_fsm.go\<close> refine it.
  The abstract state, \<open>view\<close>, is what the protocol is about: the stage, the retry budget, the dump
  that is being restored, the target, the generation and the outcomes recorded so far.
\<close>

section \<open>The abstract machine\<close>

record fsmView =
  v_stage :: migrationStage
  v_retry :: int
  v_max :: int
  v_err :: string
  v_dump :: string
  v_prefix :: string
  v_target :: string
  v_gen :: int
  v_hist :: "bool list"

definition view :: "mapp \<Rightarrow> fsmView" where
  "view m =
     \<lparr>v_stage = mStage m, v_retry = RetryCount (mMigration m), v_max = MaxRetries (mMigration m),
      v_err = LastError (mMigration m), v_dump = UploadedDumpID (mMigration m),
      v_prefix = UploadedS3Prefix (mMigration m), v_target = CurrentTargetPod (mMigration m),
      v_gen = Generation (Status m), v_hist = map Success (MigrationHistory (Status m))\<rparr>"

definition enter :: "migrationStage \<Rightarrow> fsmView \<Rightarrow> fsmView" where
  "enter s v = v\<lparr>v_stage := s, v_max := (if v_max v = 0 then 3 else v_max v)\<rparr>"

definition idle :: "fsmView \<Rightarrow> fsmView" where
  "idle v = v\<lparr>v_stage := StageIdle, v_retry := 0, v_max := 0, v_err := [], v_dump := [], v_prefix := [], v_target := []\<rparr>"

text \<open>One persisted transition of a migration in flight.\<close>

inductive fsm_step :: "fsmView \<Rightarrow> fsmView \<Rightarrow> bool" where
  quiesce_mark: "v_stage v = StageQuiescing \<Longrightarrow> v_err v = [] \<Longrightarrow> e \<noteq> [] \<Longrightarrow>
    fsm_step v (enter StageQuiescing (v\<lparr>v_err := e\<rparr>))"
| quiesced: "v_stage v = StageQuiescing \<Longrightarrow> fsm_step v (enter StageDumping (v\<lparr>v_err := []\<rparr>))"
| dumped: "v_stage v = StageDumping \<Longrightarrow>
    fsm_step v (enter StageUploaded (v\<lparr>v_dump := d, v_prefix := p, v_err := []\<rparr>))"
| dump_failed: "v_stage v = StageDumping \<Longrightarrow>
    fsm_step v (enter StageFinalDumpFailed (v\<lparr>v_err := e, v_hist := v_hist v @ [False]\<rparr>))"
| target_up: "v_stage v = StageUploaded \<Longrightarrow>
    fsm_step v (enter StageRestoring (v\<lparr>v_target := n, v_err := []\<rparr>))"
| target_failed: "v_stage v = StageUploaded \<Longrightarrow> fsm_step v (enter StageRestoreFailed (v\<lparr>v_err := e\<rparr>))"
| restored: "v_stage v = StageRestoring \<Longrightarrow>
    fsm_step v (idle (v\<lparr>v_gen := v_gen v + 1, v_hist := v_hist v @ [True]\<rparr>))"
| restore_failed: "v_stage v = StageRestoring \<Longrightarrow> fsm_step v (enter StageRestoreFailed (v\<lparr>v_err := e\<rparr>))"
| retried: "v_stage v = StageRestoreFailed \<Longrightarrow> v_retry v < v_max v \<Longrightarrow>
    fsm_step v (enter StageUploaded (v\<lparr>v_retry := wrap 32 (v_retry v + 1), v_target := []\<rparr>))"
| exhausted: "v_stage v = StageRestoreFailed \<Longrightarrow> v_max v \<le> v_retry v \<Longrightarrow>
    fsm_step v (enter StageFailed (v\<lparr>v_hist := v_hist v @ [False]\<rparr>))"

inductive_cases fsm_stepE: "fsm_step v v'"

section \<open>Views of the statuses the code writes\<close>

lemma view_staged:
  "view (stagedStatus m s f t1 t2) = enter s (view (setMigration f m))"
  by (simp add: view_def stagedStatus_def enter_def mapp_defs defaultMaxRetries_def Let_def)

lemma view_history [simp]:
  "view (setMigration f (appendHistory r m)) =
     (view (setMigration f m))\<lparr>v_hist := v_hist (view m) @ [Success r]\<rparr>"
  by (simp add: view_def appendHistory_def mapp_defs)

lemma view_migrated:
  "view (migratedStatus m p t d t') = idle ((view m)\<lparr>v_gen := v_gen (view m) + 1, v_hist := v_hist (view m) @ [True]\<rparr>)"
  by (simp add: view_def migratedStatus_def resetMigrationFSM_def idle_def emptyMigration_def successRecord_def mapp_defs)

lemma view_reset: "view (resetMigrationFSM m) = idle (view m)"
  by (simp add: view_def resetMigrationFSM_def idle_def emptyMigration_def mapp_defs)

lemma view_phase [simp]: "view (setStatus (\<lambda>s. s\<lparr>Phase := p, LastUpdateTime := t\<rparr>) m) = view m"
  by (simp add: view_def mapp_defs)

lemma failureRecord_Success [simp]: "Success (failureRecord rs t msg) = False"
  by (simp add: failureRecord_def)

section \<open>The handlers refine the machine\<close>

text \<open>
  The controller's copy of the resource is the object the API server handed it last: by a cached
  read or by the reply to a write. A write conforms to a relation when its status is related to that
  copy, which is also the object whose version the write carries.
\<close>

fun handing :: "event \<Rightarrow> mapp option" where
  "handing (EGetMapp k (Inr m)) = Some m"
| "handing (EStatusUpdate m (Inr m')) = Some m'"
| "handing (EUpdateMapp m (Inr m')) = Some m'"
| "handing _ = None"

fun conforms :: "(fsmView \<Rightarrow> fsmView \<Rightarrow> bool) \<Rightarrow> mapp option \<Rightarrow> event list \<Rightarrow> bool" where
  "conforms R b [] \<longleftrightarrow> True"
| "conforms R b (e # d) \<longleftrightarrow>
     (case statusWrite e of None \<Rightarrow> True
      | Some m' \<Rightarrow> (case b of None \<Rightarrow> False | Some m \<Rightarrow> R (view m) (view m'))) \<and>
     conforms R (case handing e of None \<Rightarrow> b | Some m \<Rightarrow> Some m) d"

text \<open>A handler run refines the machine: at most one status write, and it is one abstract step.\<close>

definition refines :: "mapp \<Rightarrow> event list \<Rightarrow> bool" where
  "refines m d \<longleftrightarrow> length (statusWrites d) \<le> 1 \<and> conforms fsm_step (Some m) d"

text \<open>Events that neither write a status nor hand out a resource.\<close>

definition inert :: "event \<Rightarrow> bool" where
  "inert e \<longleftrightarrow> statusWrite e = None \<and> handing e = None"

definition quiet :: "event list \<Rightarrow> bool" where
  "quiet d \<longleftrightarrow> list_all inert d"

lemma quiet_simps [simp]:
  "quiet []" "quiet (e # d) \<longleftrightarrow> inert e \<and> quiet d" "quiet (d @ d') \<longleftrightarrow> quiet d \<and> quiet d'"
  by (simp_all add: quiet_def)

lemma quiet_statusWrites: "quiet d \<Longrightarrow> statusWrites d = []"
  by (induction d) (auto simp: inert_def)

lemma conforms_skip: "quiet d \<Longrightarrow> conforms R b (d @ d') = conforms R b d'"
  by (induction d) (auto simp: inert_def)

lemma conforms_quiet: "quiet d \<Longrightarrow> conforms R b d"
  by (induction d) (auto simp: inert_def)

lemma conforms_mono: "conforms R b d \<Longrightarrow> (\<And>v v'. R v v' \<Longrightarrow> R' v v') \<Longrightarrow> conforms R' b d"
  by (induction d arbitrary: b) (auto split: option.splits)

lemma readonly_quiet: "list_all readonly d \<Longrightarrow> quiet d"
proof (induction d)
  case (Cons e d)
  then show ?case by (cases e) (auto simp: inert_def)
qed simp

lemma io_post_setStage [io_rules]:
  assumes "\<And>t1 t2 r. Q r [ENow t1, ENow t2, EStatusUpdate (stagedStatus m s f (Some t1) (Some t2)) r]"
  shows "io_post (setStage w m s f) Q"
  unfolding setStage_def using assms by (intro io_rules) simp

lemma io_post_findOwnerDeployment:
  "io_post (findOwnerDeployment w ns owners) (\<lambda>r d. list_all readonly d)"
proof (induction owners)
  case Nil
  then show ?case by (auto intro!: io_rules)
next
  case (Cons owner owners)
  have *: "io_post (findOwnerDeployment w ns owners) (\<lambda>r d. list_all readonly (EGetReplicaSet k x # d))" for k x
    by (rule io_post_mono [OF Cons]) simp
  show ?case
    using Cons * by (auto intro!: io_rules)
qed

text \<open>Scaling Deployments down and deleting pods write no status.\<close>

lemma io_post_scaleOwners:
  "io_post (scaleOwners w ps deploys) (\<lambda>r d. quiet d)"
proof (induction ps arbitrary: deploys)
  case Nil
  then show ?case by (auto intro!: io_rules)
next
  case (Cons p ps)
  show ?case
    by (simp, intro io_post_bind, rule io_post_mono [OF io_post_findOwnerDeployment])
       (auto intro!: io_rules Cons simp: readonly_quiet inert_def)
qed

text \<open>The status of every \<open>setStage\<close> call is the target of one abstract step.\<close>

lemma step_quiesce_mark:
  assumes "mStage m = StageQuiescing" and "LastError (mMigration m) = []" and "e \<noteq> []"
  shows "fsm_step (view m) (view (stagedStatus m StageQuiescing (\<lambda>i. i\<lparr>LastError := e\<rparr>) t1 t2))"
  unfolding view_staged using assms fsm_step.quiesce_mark [of "view m" e] by (simp add: view_def mapp_defs)

lemma step_quiesced:
  assumes "mStage m = StageQuiescing"
  shows "fsm_step (view m) (view (stagedStatus m StageDumping (\<lambda>i. i\<lparr>LastError := []\<rparr>) t1 t2))"
  unfolding view_staged using assms fsm_step.quiesced [of "view m"] by (simp add: view_def mapp_defs)

lemma step_dumped:
  assumes "mStage m = StageDumping"
  shows "fsm_step (view m) (view (stagedStatus m StageUploaded (\<lambda>i. i\<lparr>UploadedDumpID := d, UploadedS3Prefix := p,
    UploadedPipeInodes := q, PageServerAddr := a, PageServerPort := n, LastError := []\<rparr>) t1 t2))"
  unfolding view_staged using assms fsm_step.dumped [of "view m" p d] by (simp add: view_def mapp_defs)

lemma step_dump_failed:
  assumes "mStage m = StageDumping"
  shows "fsm_step (view m) (view (stagedStatus (appendHistory (failureRecord rs t msg) m) StageFinalDumpFailed
    (\<lambda>i. i\<lparr>LastError := e\<rparr>) t1 t2))"
  unfolding view_staged view_history using assms fsm_step.dump_failed [of "view m" e]
  by (simp add: view_def mapp_defs)

lemma step_target_up:
  assumes "mStage m = StageUploaded"
  shows "fsm_step (view m) (view (stagedStatus m StageRestoring (\<lambda>i. i\<lparr>CurrentTargetPod := n, LastError := []\<rparr>) t1 t2))"
  unfolding view_staged using assms fsm_step.target_up [of "view m" n] by (simp add: view_def mapp_defs)

lemma step_restore_failed:
  assumes "mStage m = StageUploaded \<or> mStage m = StageRestoring"
  shows "fsm_step (view m) (view (stagedStatus m StageRestoreFailed (\<lambda>i. i\<lparr>LastError := e\<rparr>) t1 t2))"
  unfolding view_staged
  using assms fsm_step.restore_failed [of "view m" e] fsm_step.target_failed [of "view m" e]
  by (auto simp: view_def mapp_defs)

lemma step_restored:
  assumes "mStage m = StageRestoring"
  shows "fsm_step (view m) (view (migratedStatus m p t d t'))"
  unfolding view_migrated using assms by (intro fsm_step.restored) (simp add: view_def)

lemma step_retried:
  assumes "mStage m = StageRestoreFailed" and "\<not> retriesExhausted m"
  shows "fsm_step (view m) (view (stagedStatus m StageUploaded
    (\<lambda>i. i\<lparr>RetryCount := wrap 32 (RetryCount i + 1), CurrentTargetPod := []\<rparr>) t1 t2))"
  unfolding view_staged
  using assms fsm_step.retried [of "view m"] by (simp add: view_def mapp_defs retriesExhausted_def)

lemma step_exhausted:
  assumes "mStage m = StageRestoreFailed" and "retriesExhausted m"
  shows "fsm_step (view m) (view (stagedStatus (appendHistory (failureRecord rs t msg) m) StageFailed (\<lambda>i. i) t1 t2))"
  unfolding view_staged view_history
  using assms fsm_step.exhausted [of "view m"] by (simp add: view_def mapp_defs retriesExhausted_def)

lemmas fsm_writes = step_quiesce_mark step_quiesced step_dumped step_dump_failed step_target_up
  step_restore_failed step_restored step_retried step_exhausted

text \<open>Each handler, in its stage.\<close>

lemma refines_Nil [simp]: "refines m []"
  by (simp add: refines_def)

lemma refines_skip: "quiet d \<Longrightarrow> refines m (d @ d') = refines m d'"
  by (simp add: refines_def conforms_skip quiet_statusWrites)

lemma refines_Cons [simp]: "inert e \<Longrightarrow> refines m (e # d) = refines m d"
  using refines_skip [of "[e]" m d] by simp

lemma refines_last:
  "quiet d \<Longrightarrow> fsm_step (view m) (view m') \<Longrightarrow> refines m (EStatusUpdate m' r # d)"
  by (simp add: refines_def quiet_statusWrites conforms_quiet)

lemma inert_simps [simp]:
  "inert (ENow i)" "inert (ESleep t)" "inert (EDial a e)" "inert (EFinalDump a q x)" "inert (ERestore a q' y)"
  "inert (EApiGetMapp k z)" "inert (EListPods n s l)" "inert (EGetPod k u)" "inert (EDeletePod p e)"
  "inert (ECreatePod p u)" "inert (EUpdatePod p u)" "inert (EGetNode n v)" "inert (EPreCheckpoint a pq pr)"
  by (simp_all add: inert_def)

lemma refines_fsmAdvanceToDumping:
  "mStage m = StageQuiescing \<Longrightarrow> io_post (fsmAdvanceToDumping w m) (\<lambda>r d. refines m d)"
  unfolding fsmAdvanceToDumping_def
  by (intro io_rules) (simp add: refines_last step_quiesced)

lemma refines_FinalDumpFailed:
  "mStage m = StageDumping \<Longrightarrow> io_post (fsmTransitionToFinalDumpFailed w m msg) (\<lambda>r d. refines m d)"
  unfolding fsmTransitionToFinalDumpFailed_def
  by (intro io_rules) (simp add: refines_last step_dump_failed)

lemma refines_RestoreFailed:
  "mStage m = StageUploaded \<or> mStage m = StageRestoring \<Longrightarrow>
   io_post (fsmTransitionToRestoreFailed w m msg) (\<lambda>r d. refines m d)"
  unfolding fsmTransitionToRestoreFailed_def
  by (intro io_rules) (simp add: refines_last step_restore_failed)

lemma refines_fsmQuiescingHandler:
  assumes "mStage m = StageQuiescing"
  shows "io_post (fsmQuiescingHandler w m) (\<lambda>r d. refines m d)"
proof -
  have act: "io_post (if Action q = quiesceActionScaleZero then quiesceScaleOwnersToZero w pods
      else forEach pods (\<lambda>p. do { _ \<leftarrow> deletePod w p; State_Monad.return () })) (\<lambda>r d. quiet d)" for q pods
  proof -
    have "io_post (forEach pods (\<lambda>p. do { _ \<leftarrow> deletePod w p; State_Monad.return () }))
        (\<lambda>r d. list_all inert d)"
      by (rule io_post_forEach) (intro io_rules, simp)
    then show ?thesis
      using io_post_scaleOwners [of w pods "[]"]
      by (simp add: quiesceScaleOwnersToZero_def quiet_def)
  qed
  show ?thesis
    unfolding fsmQuiescingHandler_def listQuiesceTargets_def
    using refines_fsmAdvanceToDumping [OF assms, of w] assms
    by (auto intro!: io_rules io_post_mono [OF act] simp: refines_skip refines_last step_quiesce_mark split: sum.splits)
qed

lemma refines_fsmDumpingHandler:
  assumes "mStage m = StageDumping"
  shows "io_post (fsmDumpingHandler w m p) (\<lambda>r d. refines m d)"
  unfolding fsmDumpingHandler_def fsmDumpAndRecord_def client_defs
  using refines_FinalDumpFailed [OF assms, of w] assms
  by (auto intro!: io_rules simp: refines_last step_dumped Let_def split: option.splits)

lemma refines_fsmUploadedHandler:
  assumes "mStage m = StageUploaded"
  shows "io_post (fsmUploadedHandler getenv w m) (\<lambda>r d. refines m d)"
  unfolding fsmUploadedHandler_def fsmCreateTarget_def
  using refines_RestoreFailed [of m w] assms
  by (auto intro!: io_rules simp: readonly_quiet refines_skip refines_last step_target_up)

lemma cleanupSource_quiet: "io_post (cleanupSource w m p) (\<lambda>r d. quiet d)"
  unfolding cleanupSource_def by (intro io_rules) simp_all

lemma refines_fsmFinishRestore:
  assumes "mStage m = StageRestoring"
  shows "io_post (fsmFinishRestore w m p q) (\<lambda>r d. refines m d)"
  unfolding fsmFinishRestore_def using assms
  by (auto intro!: io_rules io_post_mono [OF cleanupSource_quiet] simp: refines_last step_restored)

lemma refines_fsmRestoringHandler:
  assumes "mStage m = StageRestoring"
  shows "io_post (fsmRestoringHandler w m p) (\<lambda>r d. refines m d)"
  unfolding fsmRestoringHandler_def client_defs
  using refines_RestoreFailed [of m w] refines_fsmFinishRestore [OF assms, of w] assms
  by (auto intro!: io_rules simp: Let_def readonly_quiet refines_skip split: option.splits)

lemma refines_fsmRestoreFailedHandler:
  assumes "mStage m = StageRestoreFailed"
  shows "io_post (fsmRestoreFailedHandler w m) (\<lambda>r d. refines m d)"
  unfolding fsmRestoreFailedHandler_def fsmFail_def fsmDropTarget_def fsmBackToUploaded_def Let_def
  using assms by (auto intro!: io_rules simp: refines_last step_retried step_exhausted)

theorem refines_advanceMigrationFSM:
  "io_post (advanceMigrationFSM getenv w m p) (\<lambda>r d. refines m d)"
proof (cases "mStage m")
  case StageQuiescing
  then show ?thesis by (simp add: advanceMigrationFSM_def refines_fsmQuiescingHandler)
next
  case StageDumping
  then show ?thesis by (simp add: advanceMigrationFSM_def refines_fsmDumpingHandler)
next
  case StageUploaded
  then show ?thesis by (simp add: advanceMigrationFSM_def refines_fsmUploadedHandler)
next
  case StageRestoring
  then show ?thesis by (simp add: advanceMigrationFSM_def refines_fsmRestoringHandler)
next
  case StageRestoreFailed
  then show ?thesis by (simp add: advanceMigrationFSM_def refines_fsmRestoreFailedHandler)
qed (auto simp: advanceMigrationFSM_def intro!: io_rules)

end
