(* ===== verification/FsmInv.thy ===== *)
theory FsmInv
  imports FsmSpec
begin

text \<open>
  What the migration machine guarantees over a whole life: the life of a resource is a sequence
  of persisted statuses, each one a start, a transition in flight, a reset on the user's retry
  annotation, or a write that leaves the machine alone.
\<close>

section \<open>The life of a resource\<close>

text \<open>\<open>createInitialPod\<close> sets the generation to zero; every other write of the reconciler keeps the view.\<close>

inductive mig_step :: "fsmView \<Rightarrow> fsmView \<Rightarrow> bool" where
  mig_start: "v_stage v = StageIdle \<Longrightarrow> s = StageDumping \<or> s = StageQuiescing \<Longrightarrow>
    mig_step v (enter s (v\<lparr>v_retry := 0, v_err := [], v_dump := [], v_prefix := [], v_target := []\<rparr>))"
| mig_fsm: "fsm_step v v' \<Longrightarrow> mig_step v v'"
| mig_reset: "isTerminalStage (v_stage v) \<Longrightarrow> mig_step v (idle v)"
| mig_fresh: "mig_step v (v\<lparr>v_gen := 0\<rparr>)"
| mig_stutter: "mig_step v v"

definition fresh_view :: "fsmView \<Rightarrow> bool" where
  "fresh_view v \<longleftrightarrow> v = \<lparr>v_stage = StageIdle, v_retry = 0, v_max = 0, v_err = [], v_dump = [], v_prefix = [],
     v_target = [], v_gen = 0, v_hist = []\<rparr>"

fun stage_inv :: "migrationStage \<Rightarrow> fsmView \<Rightarrow> bool" where
  "stage_inv StageIdle v \<longleftrightarrow> v_retry v = 0 \<and> v_max v = 0 \<and> v_err v = [] \<and> v_dump v = [] \<and> v_target v = []"
| "stage_inv StageQuiescing v \<longleftrightarrow> v_retry v = 0 \<and> v_max v = 3 \<and> v_dump v = [] \<and> v_target v = []"
| "stage_inv StageDumping v \<longleftrightarrow> v_retry v = 0 \<and> v_max v = 3 \<and> v_dump v = [] \<and> v_target v = []"
| "stage_inv StageUploaded v \<longleftrightarrow> 0 \<le> v_retry v \<and> v_retry v \<le> 3 \<and> v_max v = 3 \<and> v_target v = []"
| "stage_inv StageRestoring v \<longleftrightarrow> 0 \<le> v_retry v \<and> v_retry v \<le> 3 \<and> v_max v = 3"
| "stage_inv StageRestoreFailed v \<longleftrightarrow> 0 \<le> v_retry v \<and> v_retry v \<le> 3 \<and> v_max v = 3"
| "stage_inv StageFailed v \<longleftrightarrow> v_retry v = 3 \<and> v_max v = 3 \<and> v_hist v \<noteq> [] \<and> \<not> last (v_hist v)"
| "stage_inv StageFinalDumpFailed v \<longleftrightarrow> v_retry v = 0 \<and> v_max v = 3 \<and> v_dump v = [] \<and> v_hist v \<noteq> [] \<and> \<not> last (v_hist v)"
| "stage_inv _ v \<longleftrightarrow> False"

definition mig_inv :: "fsmView \<Rightarrow> bool" where
  "mig_inv v \<longleftrightarrow> stage_inv (v_stage v) v"

lemma wrap32_small: "0 \<le> x \<Longrightarrow> x \<le> 3 \<Longrightarrow> wrap 32 (x + 1) = x + 1"
  by (rule wrap_id) auto

lemma fsm_step_inv: "mig_inv v \<Longrightarrow> fsm_step v v' \<Longrightarrow> mig_inv v'"
  by (erule fsm_stepE) (auto simp: mig_inv_def enter_def idle_def wrap32_small)

lemma mig_step_inv: "mig_step v v' \<Longrightarrow> mig_inv v \<Longrightarrow> mig_inv v'"
proof (induction rule: mig_step.induct)
  case (mig_start v s)
  then show ?case by (auto simp: mig_inv_def enter_def)
next
  case (mig_fsm v v')
  then show ?case by (blast intro: fsm_step_inv)
next
  case (mig_reset v)
  then show ?case by (simp add: mig_inv_def idle_def)
next
  case (mig_fresh v)
  then show ?case by (cases "v_stage v") (auto simp: mig_inv_def)
qed simp

lemma fresh_view_inv: "fresh_view v \<Longrightarrow> mig_inv v"
  by (simp add: fresh_view_def mig_inv_def)

interpretation migration: invariant_system fresh_view mig_step mig_inv
  by unfold_locales (blast intro: fresh_view_inv mig_step_inv)+

section \<open>Progress\<close>

text \<open>
  How many persisted transitions a migration can still make. A migration in flight counts
  down: three stages per attempt, the attempts bounded by the retry budget.
\<close>

fun stage_rank :: "migrationStage \<Rightarrow> string \<Rightarrow> nat \<Rightarrow> nat" where
  "stage_rank StageQuiescing e left = 3 * left + (if e = [] then 6 else 5)"
| "stage_rank StageDumping e left = 3 * left + 4"
| "stage_rank StageUploaded e left = 3 * left + 3"
| "stage_rank StageRestoring e left = 3 * left + 2"
| "stage_rank StageRestoreFailed e left = 3 * left + 1"
| "stage_rank _ e left = 0"

definition rank :: "fsmView \<Rightarrow> nat" where
  "rank v = stage_rank (v_stage v) (v_err v) (nat (v_max v - v_retry v))"

lemma fsm_step_rank:
  assumes "mig_inv v" and "fsm_step v v'"
  shows "rank v' < rank v"
  using assms(2,1)
  by (cases rule: fsm_step.cases) (auto simp: rank_def mig_inv_def enter_def idle_def wrap32_small)

text \<open>A run of the machine in flight, from state to state.\<close>

fun fsm_run :: "fsmView list \<Rightarrow> bool" where
  "fsm_run (v # v' # vs) \<longleftrightarrow> fsm_step v v' \<and> fsm_run (v' # vs)"
| "fsm_run _ \<longleftrightarrow> True"

lemma fsm_run_bound:
  assumes "mig_inv v" and "fsm_run (v # vs)"
  shows "length vs \<le> rank v"
  using assms
proof (induction vs arbitrary: v)
  case (Cons v' vs)
  then have "mig_inv v'" "rank v' < rank v" "fsm_run (v' # vs)"
    by (auto intro: fsm_step_inv fsm_step_rank)
  with Cons.IH show ?case by fastforce
qed simp

lemma rank_le: "mig_inv v \<Longrightarrow> rank v \<le> 15"
  by (cases "v_stage v") (auto simp: mig_inv_def rank_def)

text \<open>A stage that is neither idle nor terminal has a handler, and its handler has a transition to offer.\<close>

lemma fsm_step_stages:
  assumes "fsm_step v v'"
  shows "(v_stage v, v_stage v') \<in>
    {(StageQuiescing, StageQuiescing), (StageQuiescing, StageDumping), (StageDumping, StageUploaded),
     (StageDumping, StageFinalDumpFailed), (StageUploaded, StageRestoring), (StageUploaded, StageRestoreFailed),
     (StageRestoring, StageIdle), (StageRestoring, StageRestoreFailed), (StageRestoreFailed, StageUploaded),
     (StageRestoreFailed, StageFailed)}"
  using assms by (cases rule: fsm_step.cases) (auto simp: enter_def idle_def)

text \<open>The dump that is restored does not change between attempts.\<close>

lemma fsm_step_dump:
  assumes "fsm_step v v'" and "v_stage v \<in> {StageUploaded, StageRestoring, StageRestoreFailed}"
    and "v_stage v' \<noteq> StageIdle"
  shows "v_dump v' = v_dump v \<and> v_prefix v' = v_prefix v"
  using assms by (cases rule: fsm_step.cases) (auto simp: enter_def idle_def)

text \<open>A generation passes only with a success that the history records.\<close>

lemma fsm_step_generation:
  assumes "fsm_step v v'"
  shows "if v_stage v' = StageIdle then v_gen v' = v_gen v + 1 \<and> v_hist v' = v_hist v @ [True]
         else v_gen v' = v_gen v \<and>
           v_hist v' = (if isTerminalStage (v_stage v') then v_hist v @ [False] else v_hist v)"
  using assms by (cases rule: fsm_step.cases) (auto simp: enter_def idle_def isTerminalStage_def)

end
