(* ===== verification/Migration.thy ===== *)
theory Migration
  imports FsmInv
begin

text \<open>
  \<open>pkg/controller/migration.go\<close>: the entry point of a migration, and the monolithic pipeline that
  the state machine replaced, which the repository keeps as a reference implementation.
\<close>

definition performMigration :: "world \<Rightarrow> mapp \<Rightarrow> pod \<Rightarrow> string \<Rightarrow> result prog" where
  "performMigration w m sourcePod reason = startMigration w m sourcePod reason"

text \<open>The resource after a status update whose error is only logged.\<close>

definition orKeep :: "mapp \<Rightarrow> kerr + mapp \<Rightarrow> mapp" where
  "orKeep m r = (case r of Inl e \<Rightarrow> m | Inr m' \<Rightarrow> m')"

definition handleMigrationFailure :: "world \<Rightarrow> mapp \<Rightarrow> pod \<Rightarrow> string \<Rightarrow> string \<Rightarrow> result prog" where
  "handleMigrationFailure w m sourcePod phase message = do {
     t \<leftarrow> metav1_Now w;
     t' \<leftarrow> metav1_Now w;
     let rec = \<lparr>FromNode = pNodeName sourcePod, ToNode = [], mr_Timestamp = t, mr_Reason = ''migration-failed'',
                mr_Duration = [], Success = False, mr_Message = phase @ '': '' @ message\<rparr>;
     _ \<leftarrow> statusUpdate w (setStatus (\<lambda>s. s\<lparr>Phase := ''Failed'', LastUpdateTime := t'\<rparr>) (appendHistory rec m));
     _ \<leftarrow> (if pAnnotations sourcePod \<noteq> []
           then do {
             _ \<leftarrow> updatePod w (sourcePod\<lparr>p_Meta := (p_Meta sourcePod)\<lparr>Annotations :=
                    mdel ''migration.io/reason'' (mdel ''migration.io/trigger'' (pAnnotations sourcePod))\<rparr>\<rparr>);
             State_Monad.return ()
           }
           else State_Monad.return ());
     State_Monad.return (Inr (requeueAfter (30 * second)))
   }"

text \<open>Every failure after the target pod exists deletes it first.\<close>

definition legacyAbort :: "world \<Rightarrow> mapp \<Rightarrow> pod \<Rightarrow> pod \<Rightarrow> string \<Rightarrow> kerr \<Rightarrow> result prog" where
  "legacyAbort w m sourcePod targetPod phase e = do {
     _ \<leftarrow> deletePod w targetPod;
     handleMigrationFailure w m sourcePod phase (errMsg e)
   }"

text \<open>Steps 11 and 12: the source pod goes, then the status records the migration.\<close>

definition legacyFinish :: "world \<Rightarrow> mapp \<Rightarrow> pod \<Rightarrow> pod \<Rightarrow> string \<Rightarrow> int \<Rightarrow> int \<Rightarrow> result prog" where
  "legacyFinish w m sourcePod targetPod reason startTime newGeneration = do {
     _ \<leftarrow> cleanupSource w m sourcePod;
     n \<leftarrow> now w;
     let d = time_since n (Some startTime);
     t \<leftarrow> metav1_Now w;
     t' \<leftarrow> metav1_Now w;
     let rec = \<lparr>FromNode = pNodeName sourcePod, ToNode = pNodeName targetPod, mr_Timestamp = t, mr_Reason = reason,
                mr_Duration = dur_string d, Success = True,
                mr_Message = ''Migration completed successfully in '' @ dur_string d\<rparr>;
     r \<leftarrow> statusUpdate w
            (setCheckpoint (\<lambda>c. c\<lparr>CheckpointChainDepth := 1\<rparr>)
              (setStatus (\<lambda>s. s\<lparr>Phase := ''Running'', Generation := newGeneration, CurrentNode := pNodeName targetPod,
                                CurrentPodName := pName targetPod, MigrationHistory := MigrationHistory s @ [rec],
                                LastUpdateTime := t'\<rparr>) m));
     State_Monad.return (case r of Inl e \<Rightarrow> Inl e | Inr _ \<Rightarrow> Inr (requeueAfter (10 * second)))
   }"

text \<open>Steps 8 to 10: wait as the strategy demands, restore, wait for the pages.\<close>

definition legacyRestore ::
  "world \<Rightarrow> mapp \<Rightarrow> pod \<Rightarrow> pod \<Rightarrow> agentClient \<Rightarrow> finalDumpResponse \<Rightarrow> string \<Rightarrow> string \<Rightarrow> int \<Rightarrow> int \<Rightarrow> result prog" where
  "legacyRestore w m sourcePod targetPod targetAgent dumpResp s3Prefix reason startTime newGeneration =
     (let strategy = effectiveStrategy m; usePageServer = usesPageServer strategy; useLazyPages = (strategy \<noteq> ''full'') in do {
        _ \<leftarrow> (if strategy = ''full'' \<or> strategy = ''lazy-storage'' then State_Monad.return () else sleep (5 * second));
        ready \<leftarrow> (if usePageServer then waitForPageServerReady (pIP sourcePod) 9999 (30 * second)
                  else State_Monad.return None);
        (case ready of
           Some e \<Rightarrow> legacyAbort w m sourcePod targetPod ''PageServerNotReady'' e
         | None \<Rightarrow> do {
             r \<leftarrow> Restore w targetAgent (DumpId dumpResp) (Bucket (Storage (Spec m))) s3Prefix
                    (pIP sourcePod) (ExternalMounts dumpResp) strategy (PipeInodes dumpResp);
             (case r of
                Inl e \<Rightarrow> legacyAbort w m sourcePod targetPod ''RestoreFailed'' e
              | Inr resp \<Rightarrow> do {
                  _ \<leftarrow> (if useLazyPages
                        then do {
                          _ \<leftarrow> (if usePageServer then sleep (5 * second) else State_Monad.return ());
                          _ \<leftarrow> waitForLazyPagesCompletion w targetAgent (5 * minute);
                          State_Monad.return ()
                        }
                        else State_Monad.return ());
                  legacyFinish w m sourcePod targetPod reason startTime newGeneration
                })
           })
      })"

text \<open>Steps 6 and 7: the final dump, and the annotations of the target pod.\<close>

definition legacyDump ::
  "world \<Rightarrow> mapp \<Rightarrow> pod \<Rightarrow> pod \<Rightarrow> agentClient \<Rightarrow> agentClient \<Rightarrow> string \<Rightarrow> int \<Rightarrow> int \<Rightarrow> result prog" where
  "legacyDump w m sourcePod targetPod sourceAgent targetAgent reason startTime newGeneration = do {
     d \<leftarrow> FinalDump w sourceAgent (pIP targetPod) 9999 (LastCheckpointID (mCheckpoint m)) (effectiveStrategy m);
     (case d of
        Inl e \<Rightarrow> legacyAbort w m sourcePod targetPod ''FinalDumpFailed'' e
      | Inr dumpResp \<Rightarrow>
          let s3Prefix = dumpPrefix m sourcePod (DumpId dumpResp) in do {
            g \<leftarrow> getPod w (pNamespace targetPod, pName targetPod);
            (case g of
               Inl e \<Rightarrow> legacyAbort w m sourcePod targetPod ''TargetPodUpdateFailed'' e
             | Inr target1 \<Rightarrow>
                 let target2 = annotate ''migration.io/s3-prefix'' s3Prefix
                                 (annotate ''migration.io/checkpoint-id'' (DumpId dumpResp) target1) in do {
                   u \<leftarrow> updatePod w target2;
                   (case u of
                      Inl e \<Rightarrow> legacyAbort w m sourcePod target2 ''TargetPodUpdateFailed'' e
                    | Inr target3 \<Rightarrow>
                        legacyRestore w m sourcePod target3 targetAgent dumpResp s3Prefix reason startTime newGeneration)
                 })
          })
   }"

definition performMigrationLegacy :: "genv \<Rightarrow> world \<Rightarrow> mapp \<Rightarrow> pod \<Rightarrow> string \<Rightarrow> result prog" where
  "performMigrationLegacy getenv w m0 sourcePod reason = do {
     startTime \<leftarrow> now w;
     t \<leftarrow> metav1_Now w;
     let m1 = setStatus (\<lambda>s. s\<lparr>Phase := ''Migrating'', LastUpdateTime := t\<rparr>) m0;
     u \<leftarrow> statusUpdate w m1;
     let m = orKeep m1 u;
     cred \<leftarrow> getAWSCredentials w m;
     (case cred of
        Inl e \<Rightarrow> handleMigrationFailure w m sourcePod ''CredentialsRetrievalFailed'' (errMsg e)
      | Inr _ \<Rightarrow>
          let newGeneration = Generation (Status m) + 1;
              s3Prefix = mName m @ ''/'' @ itoa (Generation (Status m)) @ ''/'' @ pNodeName sourcePod @ ''/'';
              target0 = BuildRestorePod getenv (builderFor m cred) newGeneration (LastCheckpointID (mCheckpoint m))
                          (pNodeName sourcePod) s3Prefix (pIP sourcePod)
          in do {
            c \<leftarrow> createPod w target0;
            (case c of
               Inl e \<Rightarrow> handleMigrationFailure w m sourcePod ''TargetPodCreationFailed'' (errMsg e)
             | Inr target1 \<Rightarrow> do {
                 (err, target2) \<leftarrow> waitForPodRunning w target1
                    (times_dur (MigrationTimeoutSeconds (MigrationPolicy (Spec m))) second);
                 (case err of
                    Some e \<Rightarrow> legacyAbort w m sourcePod target2 ''TargetPodStartFailed'' e
                  | None \<Rightarrow> do {
                      s \<leftarrow> NewAgentClient w sourcePod;
                      (case s of
                         Inl e \<Rightarrow> legacyAbort w m sourcePod target2 ''SourceAgentConnectionFailed'' e
                       | Inr sourceAgent \<Rightarrow> do {
                           a \<leftarrow> NewAgentClient w target2;
                           (case a of
                              Inl e \<Rightarrow> legacyAbort w m sourcePod target2 ''TargetAgentConnectionFailed'' e
                            | Inr targetAgent \<Rightarrow>
                                legacyDump w m sourcePod target2 sourceAgent targetAgent reason startTime newGeneration)
                         })
                    })
               })
          })
   }"

end
