(* ===== verification/Reconciler.thy ===== *)
theory Reconciler
  imports Migration
begin

text \<open>
  \<open>pkg/controller/reconciler.go\<close>: the reconcile loop of the controller, its finalizer and its
  periodic checkpoints. The proofs show that every status the loop writes is a step of the life of a
  resource, and what the loop does to pods, checkpoints and the object store.
\<close>

section \<open>Finalizers and cleanup\<close>

definition finalizerName :: string where "finalizerName = ''migration.io/cleanup''"

fun containsString :: "string list \<Rightarrow> string \<Rightarrow> bool" where
  "containsString [] s = False"
| "containsString (item # slice) s = (if item = s then True else containsString slice s)"

fun removeString :: "string list \<Rightarrow> string \<Rightarrow> string list" where
  "removeString [] s = []"
| "removeString (item # slice) s = (if item \<noteq> s then item # removeString slice s else removeString slice s)"

text \<open>Deletion in batches of a thousand keys, errors only logged.\<close>

function deleteBatches :: "world \<Rightarrow> string \<Rightarrow> string list \<Rightarrow> unit prog" where
  "deleteBatches w bucket objs =
     (if objs = [] then State_Monad.return ()
      else do { _ \<leftarrow> s3Delete w bucket (take 1000 objs); deleteBatches w bucket (drop 1000 objs) })"
  by pat_completeness auto
termination
  by (relation "measure (\<lambda>(w, b, objs). length objs)") auto

declare deleteBatches.simps [simp del]

definition cleanupS3Checkpoints :: "world \<Rightarrow> mapp \<Rightarrow> kerr option prog" where
  "cleanupS3Checkpoints w m =
     (let st = Storage (Spec m) in do {
        cred \<leftarrow> getAWSCredentials w m;
        (case cred of
           Inl e \<Rightarrow> State_Monad.return None
         | Inr (ak, sk) \<Rightarrow> do {
             err \<leftarrow> s3Session w \<lparr>s3_Region = Region st, s3_AccessKey = ak, s3_SecretKey = sk,
                      s3_Endpoint = (if Endpoint st \<noteq> [] then Some (Endpoint st) else None),
                      s3_ForcePathStyle = (Endpoint st \<noteq> [])\<rparr>;
             (case err of
                Some e \<Rightarrow> State_Monad.return None
              | None \<Rightarrow> do {
                  l \<leftarrow> s3List w (Bucket st) (mName m @ ''/'');
                  (case l of
                     Inl e \<Rightarrow> State_Monad.return None
                   | Inr objs \<Rightarrow>
                       if objs = [] then State_Monad.return None
                       else do { deleteBatches w (Bucket st) objs; State_Monad.return None })
                })
           })
      })"

section \<open>Pods\<close>

definition createInitialPod :: "genv \<Rightarrow> world \<Rightarrow> mapp \<Rightarrow> result prog" where
  "createInitialPod getenv w m = do {
     cred \<leftarrow> getAWSCredentials w m;
     c \<leftarrow> createPod w (BuildNormalPod getenv (builderFor m cred) 0);
     (case c of
        Inl e \<Rightarrow> State_Monad.return (Inl e)
      | Inr p \<Rightarrow> do {
          t \<leftarrow> metav1_Now w;
          r \<leftarrow> statusUpdate w (setStatus (\<lambda>s. s\<lparr>Phase := ''Pending'', Generation := 0, CurrentPodName := pName p,
                 LastUpdateTime := t\<rparr>) m);
          State_Monad.return (case r of Inl e \<Rightarrow> Inl e | Inr _ \<Rightarrow> Inr requeue)
        })
   }"

definition recreatePod :: "genv \<Rightarrow> world \<Rightarrow> mapp \<Rightarrow> pod \<Rightarrow> result prog" where
  "recreatePod getenv w m oldPod = do {
     d \<leftarrow> deletePod w oldPod;
     (case d of
        Some e \<Rightarrow> State_Monad.return (Inl e)
      | None \<Rightarrow> do {
          c \<leftarrow> createPod w (BuildNormalPod getenv (NewPodBuilder m) (Generation (Status m)));
          (case c of
             Inl e \<Rightarrow> State_Monad.return (Inl e)
           | Inr p \<Rightarrow> do {
               t \<leftarrow> metav1_Now w;
               r \<leftarrow> statusUpdate w (setStatus (\<lambda>s. s\<lparr>Phase := ''Pending'', CurrentPodName := pName p,
                      LastUpdateTime := t\<rparr>) m);
               State_Monad.return (case r of Inl e \<Rightarrow> Inl e | Inr _ \<Rightarrow> Inr requeue)
             })
        })
   }"

text \<open>\<open>needsMigration\<close>: the reason, when a migration should start.\<close>

definition needsMigration :: "world \<Rightarrow> mapp \<Rightarrow> pod \<Rightarrow> string option prog" where
  "needsMigration w m p =
     (if mStage m \<noteq> StageIdle then State_Monad.return None
      else if \<not> AutoMigrate (MigrationPolicy (Spec m)) then State_Monad.return None
      else if mget (pAnnotations p) ''migration.io/trigger'' = ''requested''
      then let reason = mget (pAnnotations p) ''migration.io/reason''
           in State_Monad.return (Some (if reason = [] then ''manual'' else reason))
      else if pNodeName p \<noteq> []
      then do {
        r \<leftarrow> getNode w (pNodeName p);
        State_Monad.return
          (case r of Inl e \<Rightarrow> None | Inr n \<Rightarrow> if Unschedulable n then Some ''spot-interrupt'' else None)
      }
      else State_Monad.return None)"

section \<open>Checkpoints\<close>

definition initialPreCheckpointDelay :: duration where "initialPreCheckpointDelay = 60 * second"

definition shouldPerformCheckpoint :: "world \<Rightarrow> mapp \<Rightarrow> bool prog" where
  "shouldPerformCheckpoint w m =
     (case parseDuration (Interval (CheckpointPolicy (Spec m))) of
        None \<Rightarrow> State_Monad.return False
      | Some interval \<Rightarrow>
          if interval = 0 then State_Monad.return False
          else if isZero (LastCheckpointTime (mCheckpoint m))
          then (if isZero (CreationTimestamp (m_Meta m)) then State_Monad.return True
                else do { n \<leftarrow> now w;
                          State_Monad.return (time_since n (CreationTimestamp (m_Meta m)) \<ge> initialPreCheckpointDelay) })
          else do { n \<leftarrow> now w;
                    State_Monad.return (time_since n (LastCheckpointTime (mCheckpoint m)) \<ge> interval) })"

text \<open>The parent of the next checkpoint: none when the chain has reached its maximal depth.\<close>

definition chainParent :: "mapp \<Rightarrow> string" where
  "chainParent m =
     (let maxDepth = MaxCheckpointChainDepth (CheckpointPolicy (Spec m)) in
      if maxDepth > 0 \<and> CheckpointChainDepth (mCheckpoint m) \<ge> maxDepth then []
      else LastCheckpointID (mCheckpoint m))"

definition recordCheckpoint :: "mapp \<Rightarrow> string \<Rightarrow> string \<Rightarrow> gtime \<Rightarrow> mapp" where
  "recordCheckpoint m parentID dumpId t =
     setCheckpoint (\<lambda>c.
       let c1 = c\<lparr>LastCheckpointID := dumpId, LastCheckpointTime := t\<rparr> in
       if parentID = [] then c1\<lparr>CheckpointChainRoot := dumpId, CheckpointChainDepth := 1\<rparr>
       else c1\<lparr>CheckpointChainDepth := CheckpointChainDepth c1 + 1\<rparr>) m"

text \<open>The loop that stores the status, up to three times: after a conflict it reads the resource again.\<close>

fun storeCheckpoint :: "world \<Rightarrow> string \<Rightarrow> nat \<Rightarrow> mapp \<Rightarrow> (kerr option \<times> mapp) prog" where
  "storeCheckpoint w dumpId 0 m = State_Monad.return (None, m)"
| "storeCheckpoint w dumpId (Suc retries) m = do {
     r \<leftarrow> statusUpdate w m;
     (case r of
        Inr m' \<Rightarrow> State_Monad.return (None, m')
      | Inl e \<Rightarrow>
          if isConflict e
          then do {
            g \<leftarrow> getMapp w (mappKey m);
            (case g of
               Inl e' \<Rightarrow> State_Monad.return (Some (wrapErr ''failed to re-fetch after conflict: '' e'), m)
             | Inr m1 \<Rightarrow> do {
                 t \<leftarrow> metav1_Now w;
                 storeCheckpoint w dumpId retries
                   (setCheckpoint (\<lambda>c. c\<lparr>LastCheckpointID := dumpId, LastCheckpointTime := t\<rparr>) m1)
               })
          }
          else State_Monad.return (Some (wrapErr ''failed to update status: '' e), m))
   }"

definition performPreCheckpoint :: "world \<Rightarrow> mapp \<Rightarrow> pod \<Rightarrow> (kerr option \<times> mapp) prog" where
  "performPreCheckpoint w m p =
     (let parentID = chainParent m in do {
        conn \<leftarrow> NewAgentClient w p;
        (case conn of
           Inl e \<Rightarrow> State_Monad.return (Some (wrapErr ''failed to connect to agent: '' e), m)
         | Inr agent \<Rightarrow> do {
             r \<leftarrow> PreCheckpoint w agent parentID;
             (case r of
                Inl e \<Rightarrow> State_Monad.return (Some (wrapErr ''pre-checkpoint failed: '' e), m)
              | Inr resp \<Rightarrow> do {
                  t \<leftarrow> metav1_Now w;
                  storeCheckpoint w (pcr_DumpId resp) 3 (recordCheckpoint m parentID (pcr_DumpId resp) t)
                })
           })
      })"

text \<open>The periodic checkpoint of a running pod, and the time of the next reconcile.\<close>

definition periodicCheckpoint :: "world \<Rightarrow> mapp \<Rightarrow> pod \<Rightarrow> mapp prog" where
  "periodicCheckpoint w m p =
     (if pPhase p = PodRunning \<and> mPhase m \<noteq> ''Migrating'' \<and> \<not> AutoAdjust (CheckpointPolicy (Spec m))
      then do {
        should \<leftarrow> shouldPerformCheckpoint w m;
        (if should then do { (_, m') \<leftarrow> performPreCheckpoint w m p; State_Monad.return m' }
         else State_Monad.return m)
      }
      else State_Monad.return m)"

definition nextReconcile :: "mapp \<Rightarrow> ctrlResult" where
  "nextReconcile m =
     requeueAfter (case parseDuration (Interval (CheckpointPolicy (Spec m))) of
         Some interval \<Rightarrow> if interval > 0 then interval else 10 * second
       | None \<Rightarrow> 10 * second)"

section \<open>Reconcile\<close>

text \<open>The status refresh of a pod that neither migrates nor failed; \<open>None\<close> when nothing changed.\<close>

definition refreshedStatus :: "mapp \<Rightarrow> pod \<Rightarrow> mapp option" where
  "refreshedStatus m p =
     (let moved = (pNodeName p \<noteq> [] \<and> CurrentNode (Status m) \<noteq> pNodeName p);
          m1 = (if moved then setStatus (\<lambda>s. s\<lparr>CurrentNode := pNodeName p, CurrentPodName := pName p\<rparr>) m else m);
          newPhase = (if pPhase p = PodRunning then ''Running'' else if pPhase p = PodFailed then ''Failed'' else ''Pending'');
          rephased = (mPhase m1 \<noteq> ''Migrating'' \<and> mPhase m1 \<noteq> newPhase);
          m2 = (if rephased then setStatus (\<lambda>s. s\<lparr>Phase := newPhase\<rparr>) m1 else m1)
      in if moved \<or> rephased then Some m2 else None)"

definition reconcileRunning :: "world \<Rightarrow> mapp \<Rightarrow> pod \<Rightarrow> result prog" where
  "reconcileRunning w m p =
     (case refreshedStatus m p of
        None \<Rightarrow> do { m' \<leftarrow> periodicCheckpoint w m p; State_Monad.return (Inr (nextReconcile m')) }
      | Some m1 \<Rightarrow> do {
          t \<leftarrow> metav1_Now w;
          r \<leftarrow> statusUpdate w (setStatus (\<lambda>s. s\<lparr>LastUpdateTime := t\<rparr>) m1);
          (case r of
             Inl e \<Rightarrow> State_Monad.return (if isConflict e then Inr requeue else Inl e)
           | Inr m2 \<Rightarrow> do { m' \<leftarrow> periodicCheckpoint w m2 p; State_Monad.return (Inr (nextReconcile m')) })
        })"

definition webhookDispatch :: "genv \<Rightarrow> world \<Rightarrow> mapp \<Rightarrow> pod \<Rightarrow> result prog" where
  "webhookDispatch getenv w m p =
     (if mStage m \<noteq> StageIdle then advanceMigrationFSM getenv w m p
      else if mPhase m = ''Migrating'' then State_Monad.return (Inr (requeueAfter (5 * second)))
      else do {
        needs \<leftarrow> needsMigration w m p;
        (case needs of
           Some reason \<Rightarrow> performMigration w m p reason
         | None \<Rightarrow> do { m' \<leftarrow> periodicCheckpoint w m p; State_Monad.return (Inr (nextReconcile m')) })
      })"

definition reconcileWebhookManaged :: "genv \<Rightarrow> world \<Rightarrow> mapp \<Rightarrow> result prog" where
  "reconcileWebhookManaged getenv w m = do {
     cur \<leftarrow> getCurrentPod w m;
     (case cur of
        Inl e \<Rightarrow> State_Monad.return (if isNotFound e then Inr (requeueAfter (5 * second)) else Inl e)
      | Inr p \<Rightarrow>
          if mPhase m = [] \<or> mPhase m = ''Pending''
          then do {
            t \<leftarrow> metav1_Now w;
            r \<leftarrow> statusUpdate w (setStatus (\<lambda>s. s\<lparr>Phase := ''Running'', CurrentNode := pNodeName p,
                   CurrentPodName := pName p, LastUpdateTime := t\<rparr>) m);
            (case r of
               Inl e \<Rightarrow> State_Monad.return (if isConflict e then Inr requeue else Inl e)
             | Inr m' \<Rightarrow> webhookDispatch getenv w m' p)
          }
          else webhookDispatch getenv w m p)
   }"

definition reconcileOwned :: "genv \<Rightarrow> world \<Rightarrow> mapp \<Rightarrow> result prog" where
  "reconcileOwned getenv w m = do {
     cur \<leftarrow> getCurrentPod w m;
     (case cur of
        Inl e \<Rightarrow> if isNotFound e then createInitialPod getenv w m else State_Monad.return (Inl e)
      | Inr p \<Rightarrow>
          if mStage m \<noteq> StageIdle then advanceMigrationFSM getenv w m p
          else do {
            needs \<leftarrow> needsMigration w m p;
            (case needs of
               Some reason \<Rightarrow> performMigration w m p reason
             | None \<Rightarrow> if pPhase p = PodFailed then recreatePod getenv w m p else reconcileRunning w m p)
          })
   }"

definition reconcileDeletion :: "world \<Rightarrow> mapp \<Rightarrow> result prog" where
  "reconcileDeletion w m =
     (if containsString (Finalizers (m_Meta m)) finalizerName
      then do {
        err \<leftarrow> cleanupS3Checkpoints w m;
        (case err of
           Some e \<Rightarrow> State_Monad.return (Inl e)
         | None \<Rightarrow> do {
             r \<leftarrow> updateMapp w (setMeta (\<lambda>om. om\<lparr>Finalizers := removeString (Finalizers om) finalizerName\<rparr>) m);
             State_Monad.return (case r of Inl e \<Rightarrow> Inl e | Inr _ \<Rightarrow> Inr noRequeue)
           })
      }
      else State_Monad.return (Inr noRequeue))"

definition Reconcile :: "genv \<Rightarrow> world \<Rightarrow> key \<Rightarrow> result prog" where
  "Reconcile getenv w req = do {
     g \<leftarrow> getMapp w req;
     (case g of
        Inl e \<Rightarrow> State_Monad.return (if isNotFound e then Inr noRequeue else Inl e)
      | Inr m \<Rightarrow>
          if \<not> isZero (DeletionTimestamp (m_Meta m)) then reconcileDeletion w m
          else if \<not> containsString (Finalizers (m_Meta m)) finalizerName
          then do {
            r \<leftarrow> updateMapp w (setMeta (\<lambda>om. om\<lparr>Finalizers := Finalizers om @ [finalizerName]\<rparr>) m);
            State_Monad.return (case r of Inl e \<Rightarrow> Inl e | Inr _ \<Rightarrow> Inr requeue)
          }
          else do {
            handled \<leftarrow> checkRetryAnnotation w m;
            (case handled of
               Some res \<Rightarrow> State_Monad.return res
             | None \<Rightarrow>
                 if mget (Labels (m_Meta m)) ''migration.io/webhook-managed'' = ''true''
                 then reconcileWebhookManaged getenv w m
                 else reconcileOwned getenv w m)
          })
   }"

section \<open>Watches\<close>

definition podToRequests :: "pod \<Rightarrow> key list" where
  "podToRequests p =
     (let appName = mget (pLabels p) ''migration.io/app'' in if appName = [] then [] else [(pNamespace p, appName)])"

fun mappsOnNode :: "world \<Rightarrow> node \<Rightarrow> mapp list \<Rightarrow> key list prog" where
  "mappsOnNode w n [] = State_Monad.return []"
| "mappsOnNode w n (m # ms) =
     (if CurrentPodName (Status m) = [] then mappsOnNode w n ms
      else do {
        r \<leftarrow> getPod w (mNamespace m, CurrentPodName (Status m));
        rest \<leftarrow> mappsOnNode w n ms;
        State_Monad.return
          (case r of Inl e \<Rightarrow> rest | Inr p \<Rightarrow> if pNodeName p = n_Name n then mappKey m # rest else rest)
      })"

definition nodeToRequests :: "world \<Rightarrow> node \<Rightarrow> key list prog" where
  "nodeToRequests w n =
     (if \<not> Unschedulable n then State_Monad.return []
      else do {
        r \<leftarrow> listMapps w;
        (case r of Inl e \<Rightarrow> State_Monad.return [] | Inr ms \<Rightarrow> mappsOnNode w n ms)
      })"

end
