(* ===== verification/ReconcilerSpec.thy ===== *)
theory ReconcilerSpec
  imports Reconciler
begin

text \<open>
  The reconciler against its specification: every status it writes is a step of the life of a
  resource from the copy it holds; and the contracts of its helpers.
\<close>

section \<open>Status writes\<close>

lemma view_setCheckpoint [simp]: "view (setCheckpoint f m) = view m"
  by (simp add: view_def mapp_defs)

lemma view_recordCheckpoint [simp]: "view (recordCheckpoint m p d t) = view m"
  by (simp add: recordCheckpoint_def)

lemma view_refreshedStatus: "refreshedStatus m p = Some m' \<Longrightarrow> view m' = view m"
  by (auto simp: refreshedStatus_def Let_def view_def mapp_defs split: if_splits)

lemma view_touch [simp]: "view (setStatus (\<lambda>s. s\<lparr>LastUpdateTime := t\<rparr>) m) = view m"
  by (simp add: view_def mapp_defs)

lemma view_running [simp]:
  "view (setStatus (\<lambda>s. s\<lparr>Phase := ph, CurrentNode := n, CurrentPodName := p, LastUpdateTime := t\<rparr>) m) = view m"
  by (simp add: view_def mapp_defs)

lemma view_recreated [simp]:
  "view (setStatus (\<lambda>s. s\<lparr>Phase := ph, CurrentPodName := p, LastUpdateTime := t\<rparr>) m) = view m"
  by (simp add: view_def mapp_defs)

lemma view_initial:
  "view (setStatus (\<lambda>s. s\<lparr>Phase := ph, Generation := 0, CurrentPodName := p, LastUpdateTime := t\<rparr>) m) =
   (view m)\<lparr>v_gen := 0\<rparr>"
  by (simp add: view_def mapp_defs)

lemma conforms_write:
  "R (view m) (view m') \<Longrightarrow> quiet d \<Longrightarrow> conforms R (Some m) (EStatusUpdate m' r # d)"
  by (simp add: conforms_quiet)

text \<open>A program keeps to the life of the resource it holds.\<close>

abbreviation lives :: "mapp \<Rightarrow> ('a prog) \<Rightarrow> bool" where
  "lives m prog \<equiv> io_post prog (\<lambda>r d. conforms mig_step (Some m) d)"

lemma lives_fsm: "lives m (advanceMigrationFSM getenv w m p)"
  by (rule io_post_mono [OF refines_advanceMigrationFSM])
     (auto simp: refines_def intro: conforms_mono mig_step.mig_fsm)

lemma step_start:
  assumes "mStage m = StageIdle" and "s = StageDumping \<or> s = StageQuiescing"
  shows "mig_step (view m) (view (stagedStatus m s (\<lambda>i. i\<lparr>PreviousNode := n, MigrationReason := reason,
     RetryCount := 0, LastError := [], UploadedDumpID := [], UploadedS3Prefix := [], CurrentTargetPod := [],
     PageServerAddr := [], PageServerPort := 0\<rparr>) t1 t2))"
  unfolding view_staged using assms mig_step.mig_start [of "view m" s] by (simp add: view_def mapp_defs)

lemma lives_performMigration:
  "mStage m = StageIdle \<Longrightarrow> lives m (performMigration w m p reason)"
  unfolding performMigration_def startMigration_def Let_def
  by (intro io_rules) (auto simp: conforms_skip intro!: step_start split: option.splits)

lemma lives_checkRetryAnnotation: "lives m (checkRetryAnnotation w m)"
proof -
  have "isTerminalStage (mStage m) \<Longrightarrow> mig_step (view m) (idle (view m))"
    using mig_step.mig_reset [of "view m"] by (simp add: view_def)
  then show ?thesis
    unfolding checkRetryAnnotation_def
    by (auto intro!: io_rules simp: view_reset conforms_skip inert_def)
qed

lemma lives_storeCheckpoint:
  "view m = view b \<Longrightarrow> io_post (storeCheckpoint w dumpId n m) (\<lambda>r d. conforms mig_step (Some b) d)"
proof (induction n arbitrary: m b)
  case 0
  then show ?case by (auto intro!: io_rules)
next
  case (Suc n)
  have *: "io_post (storeCheckpoint w dumpId n (setCheckpoint f m1)) (\<lambda>r. conforms mig_step (Some m1))" for f m1
    by (rule Suc.IH) simp
  show ?case
    using Suc.prems by (auto intro!: io_rules * simp: mig_step.mig_stutter)
qed

lemma lives_performPreCheckpoint: "lives m (performPreCheckpoint w m p)"
  unfolding performPreCheckpoint_def client_defs
  by (auto intro!: io_rules lives_storeCheckpoint simp: Let_def split: option.splits)

lemma lives_periodicCheckpoint: "lives m (periodicCheckpoint w m p)"
  unfolding periodicCheckpoint_def shouldPerformCheckpoint_def
  by (auto intro!: io_rules io_post_mono [OF lives_performPreCheckpoint])

lemma io_post_periodicCheckpoint [io_rules]:
  "(\<And>r d. conforms mig_step (Some m) d \<Longrightarrow> Q r d) \<Longrightarrow> io_post (periodicCheckpoint w m p) Q"
  by (rule io_post_mono [OF lives_periodicCheckpoint])

lemma lives_reconcileRunning: "lives m (reconcileRunning w m p)"
  unfolding reconcileRunning_def
  by (auto intro!: io_rules simp: mig_step.mig_stutter view_refreshedStatus)

lemma io_post_needsMigration [io_rules]:
  assumes "\<And>r d. list_all readonly d \<Longrightarrow> (\<And>x. r = Some x \<Longrightarrow>
      mStage m = StageIdle \<and> AutoMigrate (MigrationPolicy (Spec m))) \<Longrightarrow> Q r d"
  shows "io_post (needsMigration w m p) Q"
  unfolding needsMigration_def Let_def by (intro io_rules assms) auto

lemma lives_webhookDispatch: "lives m (webhookDispatch getenv w m p)"
  unfolding webhookDispatch_def
  by (auto intro!: io_rules lives_fsm lives_performMigration simp: conforms_skip readonly_quiet)

lemma lives_reconcileWebhookManaged: "lives m (reconcileWebhookManaged getenv w m)"
  unfolding reconcileWebhookManaged_def
  by (auto intro!: io_rules lives_webhookDispatch simp: mig_step.mig_stutter inert_def)

lemma lives_createInitialPod: "lives m (createInitialPod getenv w m)"
  unfolding createInitialPod_def
  by (auto intro!: io_rules mig_step.mig_fresh simp: view_initial conforms_skip readonly_quiet)

lemma lives_recreatePod: "lives m (recreatePod getenv w m p)"
  unfolding recreatePod_def
  by (auto intro!: io_rules simp: mig_step.mig_stutter)

lemma lives_reconcileOwned: "lives m (reconcileOwned getenv w m)"
  unfolding reconcileOwned_def
  by (auto intro!: io_rules lives_fsm lives_performMigration lives_createInitialPod lives_recreatePod
      lives_reconcileRunning simp: conforms_skip readonly_quiet)

lemma deleteBatches_quiet: "io_post (deleteBatches w bucket objs) (\<lambda>r d. quiet d)"
proof (induction w bucket objs rule: deleteBatches.induct)
  case (1 w bucket objs)
  then show ?case by (subst deleteBatches.simps) (auto intro!: io_rules simp: inert_def)
qed

lemma cleanupS3Checkpoints_quiet:
  "io_post (cleanupS3Checkpoints w m) (\<lambda>r d. r = None \<and> quiet d)"
  unfolding cleanupS3Checkpoints_def Let_def
  by (auto intro!: io_rules io_post_mono [OF deleteBatches_quiet] simp: inert_def readonly_quiet)

lemma reconcileDeletion_conforms: "io_post (reconcileDeletion w m) (\<lambda>r d. conforms R b d)"
  unfolding reconcileDeletion_def
  by (auto intro!: io_rules io_post_mono [OF cleanupS3Checkpoints_quiet] simp: conforms_skip)

lemma Reconcile_conforms: "io_post (Reconcile getenv w req) (\<lambda>r d. conforms mig_step None d)"
proof -
  have retry: "io_post (checkRetryAnnotation w m) (\<lambda>r d. conforms mig_step (Some m) d \<and> (r = None \<longrightarrow> d = []))" for m
  proof -
    have "io_post (checkRetryAnnotation w m) (\<lambda>r d. r = None \<longrightarrow> d = [])"
      unfolding checkRetryAnnotation_def by (auto intro!: io_rules)
    with lives_checkRetryAnnotation show ?thesis by (rule io_post_conj)
  qed
  show ?thesis
    unfolding Reconcile_def
    by (auto intro!: io_rules io_post_mono [OF retry] reconcileDeletion_conforms
        lives_reconcileWebhookManaged lives_reconcileOwned split: option.splits)
qed

end
