(* ===== verification/Examples.thy ===== *)
theory Examples
  imports World
begin

text \<open>
  A concrete resource, concrete pods and a concrete world, on which the theorems with hypotheses
  are exercised.
\<close>

text \<open>A world in which every request fails and the clock starts at \<open>n\<close>.\<close>

definition downWorld :: "int \<Rightarrow> world" where
  "downWorld n =
     \<lparr>w_getMapp = (\<lambda>t _. Inl (OtherErr ''down'')),
      w_apiGetMapp = (\<lambda>t _. Inl (OtherErr ''down'')),
      w_listMapps = (\<lambda>t. Inl (OtherErr ''down'')),
      w_statusUpdate = (\<lambda>t _. Inl (OtherErr ''down'')),
      w_updateMapp = (\<lambda>t _. Inl (OtherErr ''down'')),
      w_createMapp = (\<lambda>t _. Inl (OtherErr ''down'')),
      w_getPod = (\<lambda>t _. Inl (OtherErr ''down'')),
      w_listPods = (\<lambda>t _ _. Inl (OtherErr ''down'')),
      w_listPodsOnNode = (\<lambda>t _ _. Inl (OtherErr ''down'')),
      w_createPod = (\<lambda>t _. Inl (OtherErr ''down'')),
      w_updatePod = (\<lambda>t _. Inl (OtherErr ''down'')),
      w_deletePod = (\<lambda>t _. Some (OtherErr ''down'')),
      w_getNode = (\<lambda>t _. Inl (OtherErr ''down'')),
      w_updateNode = (\<lambda>t _. Inl (OtherErr ''down'')),
      w_getSecret = (\<lambda>t _. Inl (OtherErr ''down'')),
      w_createSecret = (\<lambda>t _. Inl (OtherErr ''down'')),
      w_getConfigMap = (\<lambda>t _. Inl (OtherErr ''down'')),
      w_getReplicaSet = (\<lambda>t _. Inl (OtherErr ''down'')),
      w_getDeployment = (\<lambda>t _. Inl (OtherErr ''down'')),
      w_updateDeployment = (\<lambda>t _. Inl (OtherErr ''down'')),
      w_dial = (\<lambda>t _. Some (OtherErr ''down'')),
      w_rpcPreCheckpoint = (\<lambda>t _ _. Inl (OtherErr ''down'')),
      w_rpcFinalDump = (\<lambda>t _ _. Inl (OtherErr ''down'')),
      w_rpcRestore = (\<lambda>t _ _. Inl (OtherErr ''down'')),
      w_rpcGetStatus = (\<lambda>t _. Inl (OtherErr ''down'')),
      w_rpcCheckPageServer = (\<lambda>t _ _. Inl (OtherErr ''down'')),
      w_s3Session = (\<lambda>t _. Some (OtherErr ''down'')),
      w_s3List = (\<lambda>t _ _. Inl (OtherErr ''down'')),
      w_s3Delete = (\<lambda>t _ _. Some (OtherErr ''down'')),
      w_httpDo = (\<lambda>t _ _ _. Inl (OtherErr ''down'')),
      w_putLog = (\<lambda>t _. Some (OtherErr ''down'')),
      w_start = n,
      w_latency = (\<lambda>t. 0)\<rparr>"

definition exampleContainer :: container where
  "exampleContainer = emptyContainer\<lparr>c_Name := ''app'', Image := ''redis:7'', Command := [''redis-server''],
     Args := [''--save'', ''60 1'']\<rparr>"

definition exampleSpec :: migratableAppSpec where
  "exampleSpec =
     \<lparr>Template = \<lparr>t_Labels = [(''app'', ''redis'')], t_Annotations = [],
        t_Spec = emptyPodSpec\<lparr>Containers := [exampleContainer]\<rparr>\<rparr>,
      CheckpointPolicy = \<lparr>Interval = ''30s'', AutoAdjust = False, MemoryThresholdMB = 100, MaxCheckpointChainDepth = 10,
        DeadlineScheduler = \<lparr>DryRun = False, DeadlineSeconds = 120, BandwidthMBps = 0, ScanIntervalMs = 5000,
          TFreezeMs = 50, TMarginMs = 5000\<rparr>\<rparr>,
      MigrationPolicy = \<lparr>Strategy = ''lazy-storage'', AutoMigrate = True, TargetNodeSelector = [], PreferOnDemand = True,
        MigrationTimeoutSeconds = 300, PreDumpQuiesce = None\<rparr>,
      SpotInterruptionHandling = \<lparr>sih_Enabled = True, DetectionMethods = []\<rparr>,
      Storage = \<lparr>sc_Type = ''s3'', Bucket = ''ckpt'', Endpoint = [], DownloadEndpoint = [], Region = ''us-east-1'',
        CredentialsSecret = [], ExpressOneZone = False, AsyncPrefetch = False, PrefetchWorkers = 4, DirectUpload = False,
        SemiSyncIOV = None, HotIOVSeed = None, LogUpload = False, Compress = False, CompressLevel = 0,
        CompressWorkers = 0\<rparr>\<rparr>"

definition exampleStatus :: migratableAppStatus where
  "exampleStatus =
     \<lparr>Phase = ''Running'', Generation = 0, CurrentNode = ''node-a'', CurrentPodName = ''redis'', MigrationHistory = [],
      CheckpointStatus = \<lparr>LastCheckpointID = ''dump-1'', LastCheckpointTime = Some 0, CheckpointChainDepth = 1,
        TotalCheckpointSize = [], CheckpointChainRoot = ''dump-1''\<rparr>,
      Migration = emptyMigration, Conditions = [], LastUpdateTime = None\<rparr>"

definition exampleApp :: mapp where
  "exampleApp =
     \<lparr>m_Meta = emptyMeta\<lparr>Name := ''redis'', Namespace := ''default'', Finalizers := [''migration.io/cleanup'']\<rparr>,
      Spec = exampleSpec, Status = exampleStatus\<rparr>"

text \<open>A pod of the example application with a name, a node, an address and an age.\<close>

definition examplePod :: "string \<Rightarrow> string \<Rightarrow> string \<Rightarrow> int \<Rightarrow> pod" where
  "examplePod name node ip created =
     \<lparr>p_Meta = emptyMeta\<lparr>Name := name, Namespace := ''default'', Labels := [(''migration.io/app'', ''redis'')],
        CreationTimestamp := Some created\<rparr>,
      p_Spec = emptyPodSpec\<lparr>NodeName := node\<rparr>,
      p_Status = \<lparr>ps_Phase = PodRunning, PodIP = ip, ps_Message = [], ContainerReady = [True]\<rparr>\<rparr>"

text \<open>The example application while it restores the dump \<open>dump-2\<close> on the pod \<open>redis-gen1-x\<close>.\<close>

definition restoringApp :: mapp where
  "restoringApp = setMigration (\<lambda>i. i\<lparr>Stage := StageRestoring, MaxRetries := 3, UploadedDumpID := ''dump-2'',
     UploadedS3Prefix := ''redis/0/node-a/dump-2'', PreviousNode := ''node-a'', CurrentTargetPod := ''redis-gen1-x'',
     MigrationReason := ''spot-interrupt'', LastTransitionTime := Some 0\<rparr>) exampleApp"

lemmas example_defs = downWorld_def exampleContainer_def exampleSpec_def exampleStatus_def exampleApp_def
  examplePod_def restoringApp_def emptyMeta_def emptyPodSpec_def emptyPodStatus_def emptyContainer_def
  emptyMigration_def

end
