(* ===== verification/FsmProps.thy ===== *)
theory FsmProps
  imports ReconcilerSpec Examples
begin

text \<open>
  The properties of the migration machine and of the reconcile loop around it.
\<close>

section \<open>Orders of events\<close>

lemma guardedBy_readonly:
  "list_all readonly d \<Longrightarrow> (\<And>e. P e \<Longrightarrow> \<not> readonly e) \<Longrightarrow> (\<And>e. G e \<Longrightarrow> \<not> readonly e) \<Longrightarrow>
   guardedBy G P (d @ d') = guardedBy G P d'"
  by (induction d) auto

lemma readonly_not: "list_all readonly d \<Longrightarrow> (\<And>e. P e \<Longrightarrow> \<not> readonly e) \<Longrightarrow> list_all (\<lambda>e. \<not> P e) d"
  by (auto simp: list_all_iff)

fun isFinalDump :: "event \<Rightarrow> bool" where
  "isFinalDump (EFinalDump a q r) = True"
| "isFinalDump _ = False"

fun isCreatePod :: "event \<Rightarrow> bool" where
  "isCreatePod (ECreatePod p r) = True"
| "isCreatePod _ = False"

fun isRestore :: "event \<Rightarrow> bool" where
  "isRestore (ERestore a q r) = True"
| "isRestore _ = False"

fun changesPod :: "event \<Rightarrow> bool" where
  "changesPod (EDeletePod p r) = True"
| "changesPod (EUpdatePod p r) = True"
| "changesPod _ = False"

lemma readonly_count: "list_all readonly d \<Longrightarrow> (\<And>e. P e \<Longrightarrow> \<not> readonly e) \<Longrightarrow> count P d = 0"
  by (simp add: count_def readonly_filter)

lemma not_readonly [simp]:
  "isFinalDump e \<Longrightarrow> \<not> readonly e" "isCreatePod e \<Longrightarrow> \<not> readonly e" "isRestore e \<Longrightarrow> \<not> readonly e"
  "changesPod e \<Longrightarrow> \<not> readonly e"
  by (cases e; simp)+

text \<open>The uncached read that a handler makes before it acts: it failed, or it saw the stage.\<close>

fun sawStage :: "mapp \<Rightarrow> migrationStage \<Rightarrow> event \<Rightarrow> bool" where
  "sawStage m s (EApiGetMapp k (Inl e)) \<longleftrightarrow> k = mappKey m"
| "sawStage m s (EApiGetMapp k (Inr f)) \<longleftrightarrow> k = mappKey m \<and> mStage f = s"
| "sawStage m s _ \<longleftrightarrow> False"

section \<open>One dump, one target\<close>

lemma dump_transition_count:
  "P \<in> {isFinalDump, isCreatePod, isRestore} \<Longrightarrow>
   io_post (fsmTransitionToFinalDumpFailed w m msg) (\<lambda>r d. count P d = 0)"
  "P \<in> {isFinalDump, isCreatePod, isRestore} \<Longrightarrow>
   io_post (fsmTransitionToRestoreFailed w m msg) (\<lambda>r d. count P d = 0)"
  unfolding fsmTransitionToFinalDumpFailed_def fsmTransitionToRestoreFailed_def
  by (intro io_rules, auto)+

lemma fsmDumpAndRecord_count:
  "io_post (fsmDumpAndRecord w m p) (\<lambda>r d. count isFinalDump d \<le> 1 \<and> count isCreatePod d = 0 \<and> count isRestore d = 0)"
  unfolding fsmDumpAndRecord_def fsmTransitionToFinalDumpFailed_def client_defs Let_def
  by (auto intro!: io_rules split: option.splits)

lemma fsmDumpingHandler_guard:
  "io_post (fsmDumpingHandler w m p) (\<lambda>r d. guardedBy (sawStage m StageDumping) isFinalDump d \<and>
     count isFinalDump d \<le> 1)"
  unfolding fsmDumpingHandler_def
  by (auto intro!: io_rules io_post_mono [OF fsmDumpAndRecord_count])

lemma fsmUploadedHandler_guard:
  "io_post (fsmUploadedHandler getenv w m) (\<lambda>r d. guardedBy (sawStage m StageUploaded) isCreatePod d \<and>
     count isCreatePod d \<le> 1 \<and> count isFinalDump d = 0)"
  unfolding fsmUploadedHandler_def fsmCreateTarget_def fsmTransitionToRestoreFailed_def
  by (auto intro!: io_rules simp: readonly_count guardedBy_skip guardedBy_none readonly_not)

text \<open>Quiescing deletes load-generator pods or scales their Deployments, and nothing else.\<close>

fun quiesceEvent :: "event \<Rightarrow> bool" where
  "quiesceEvent (EDeletePod p r) = True"
| "quiesceEvent (EUpdateDeployment d r) \<longleftrightarrow> Replicas d = Some 0"
| "quiesceEvent e = readonly e"

lemma readonly_quiesceEvent: "readonly e \<Longrightarrow> quiesceEvent e"
  by (cases e) auto

lemma scaleOwners_events: "io_post (scaleOwners w ps deploys) (\<lambda>r d. list_all quiesceEvent d)"
proof (induction ps arbitrary: deploys)
  case Nil
  then show ?case by (auto intro!: io_rules)
next
  case (Cons p ps)
  show ?case
    by (simp, intro io_post_bind, rule io_post_mono [OF io_post_findOwnerDeployment])
       (auto intro!: io_rules Cons dest: readonly_list_all [OF _ readonly_quiesceEvent])
qed

lemma quiesce_action_events:
  "io_post (if Action q = quiesceActionScaleZero then quiesceScaleOwnersToZero w pods
      else forEach pods (\<lambda>p. do { _ \<leftarrow> deletePod w p; State_Monad.return () })) (\<lambda>r d. list_all quiesceEvent d)"
proof -
  have "io_post (forEach pods (\<lambda>p. do { _ \<leftarrow> deletePod w p; State_Monad.return () })) (\<lambda>r d. list_all quiesceEvent d)"
    by (rule io_post_forEach) (intro io_rules, simp)
  then show ?thesis by (simp add: quiesceScaleOwnersToZero_def scaleOwners_events)
qed

lemma quiesceEvent_count:
  "list_all quiesceEvent d \<Longrightarrow> P \<in> {isFinalDump, isCreatePod, isRestore} \<Longrightarrow> count P d = 0"
proof (induction d)
  case (Cons e d)
  then show ?case by (cases e) auto
qed simp

lemma fsmQuiescingHandler_count:
  assumes "P \<in> {isFinalDump, isCreatePod, isRestore}"
  shows "io_post (fsmQuiescingHandler w m) (\<lambda>r d. count P d = 0)"
  unfolding fsmQuiescingHandler_def fsmAdvanceToDumping_def listQuiesceTargets_def
  using assms quiesceEvent_count
  by (auto intro!: io_rules io_post_mono [OF quiesce_action_events] split: sum.splits)

lemma fsmRestoringHandler_count:
  "io_post (fsmRestoringHandler w m p) (\<lambda>r d. count isFinalDump d = 0 \<and> count isCreatePod d = 0 \<and> count isRestore d \<le> 1)"
  unfolding fsmRestoringHandler_def fsmTransitionToRestoreFailed_def fsmFinishRestore_def cleanupSource_def
    client_defs Let_def
  by (auto intro!: io_rules simp: readonly_count split: option.splits)

lemma fsmRestoreFailedHandler_count:
  "P \<in> {isFinalDump, isCreatePod, isRestore} \<Longrightarrow> io_post (fsmRestoreFailedHandler w m) (\<lambda>r d. count P d = 0)"
  unfolding fsmRestoreFailedHandler_def fsmFail_def fsmDropTarget_def fsmBackToUploaded_def Let_def
  by (auto intro!: io_rules)

lemma count_zero_guard: "count P d = 0 \<Longrightarrow> guardedBy G P d"
  by (induction d) (auto split: if_splits)

text \<open>
  C1. A reconcile of a migration in flight persists at most one status, and it is one transition of
  the abstract machine from the copy the controller holds.
\<close>

theorem fsm_refines_machine:
  "io_post (advanceMigrationFSM getenv w m sourcePod)
     (\<lambda>r d. length (statusWrites d) \<le> 1 \<and> conforms fsm_step (Some m) d)"
  using refines_advanceMigrationFSM by (simp add: refines_def)

text \<open>
  C2. The final dump is never repeated: a handler run issues at most one FinalDump, only in the stage
  Dumping, and only after the uncached read that saw this stage or could not be made.
\<close>

theorem final_dump_at_most_once:
  "io_post (advanceMigrationFSM getenv w m sourcePod)
     (\<lambda>r d. count isFinalDump d \<le> (if mStage m = StageDumping then 1 else 0) \<and>
            guardedBy (sawStage m StageDumping) isFinalDump d)"
proof (cases "mStage m")
  case StageDumping
  then show ?thesis
    by (auto simp: advanceMigrationFSM_def intro: io_post_mono [OF fsmDumpingHandler_guard])
next
  case StageQuiescing
  then show ?thesis
    by (auto simp: advanceMigrationFSM_def count_zero_guard intro: io_post_mono [OF fsmQuiescingHandler_count [of isFinalDump]])
next
  case StageUploaded
  then show ?thesis
    by (auto simp: advanceMigrationFSM_def count_zero_guard intro: io_post_mono [OF fsmUploadedHandler_guard])
next
  case StageRestoring
  then show ?thesis
    by (auto simp: advanceMigrationFSM_def count_zero_guard intro: io_post_mono [OF fsmRestoringHandler_count])
next
  case StageRestoreFailed
  then show ?thesis
    by (auto simp: advanceMigrationFSM_def count_zero_guard intro: io_post_mono [OF fsmRestoreFailedHandler_count [of isFinalDump]])
qed (auto simp: advanceMigrationFSM_def intro!: io_rules)

text \<open>
  C3. A handler run creates at most one target pod, only in the stage Uploaded, and only after the
  uncached read that saw this stage or could not be made.
\<close>

theorem target_pod_at_most_once:
  "io_post (advanceMigrationFSM getenv w m sourcePod)
     (\<lambda>r d. count isCreatePod d \<le> (if mStage m = StageUploaded then 1 else 0) \<and>
            guardedBy (sawStage m StageUploaded) isCreatePod d)"
proof (cases "mStage m")
  case StageDumping
  have "io_post (fsmDumpingHandler w m sourcePod) (\<lambda>r d. count isCreatePod d = 0)"
    unfolding fsmDumpingHandler_def by (auto intro!: io_rules io_post_mono [OF fsmDumpAndRecord_count])
  with StageDumping show ?thesis
    by (auto simp: advanceMigrationFSM_def count_zero_guard elim: io_post_mono)
next
  case StageQuiescing
  then show ?thesis
    by (auto simp: advanceMigrationFSM_def count_zero_guard intro: io_post_mono [OF fsmQuiescingHandler_count [of isCreatePod]])
next
  case StageUploaded
  then show ?thesis
    by (auto simp: advanceMigrationFSM_def intro: io_post_mono [OF fsmUploadedHandler_guard])
next
  case StageRestoring
  then show ?thesis
    by (auto simp: advanceMigrationFSM_def count_zero_guard intro: io_post_mono [OF fsmRestoringHandler_count])
next
  case StageRestoreFailed
  then show ?thesis
    by (auto simp: advanceMigrationFSM_def count_zero_guard intro: io_post_mono [OF fsmRestoreFailedHandler_count [of isCreatePod]])
qed (auto simp: advanceMigrationFSM_def intro!: io_rules)

section \<open>The end of a migration\<close>

text \<open>The accepted write that ends a migration: the next generation, idle, on the target pod.\<close>

fun commits :: "mapp \<Rightarrow> event \<Rightarrow> bool" where
  "commits m (EStatusUpdate m' (Inr x)) \<longleftrightarrow>
     mMigration m' = emptyMigration \<and> mPhase m' = ''Running'' \<and>
     Generation (Status m') = Generation (Status m) + 1 \<and>
     (\<exists>r. MigrationHistory (Status m') = MigrationHistory (Status m) @ [r] \<and> Success r \<and>
          FromNode r = PreviousNode (mMigration m) \<and> ToNode r = CurrentNode (Status m'))"
| "commits m _ \<longleftrightarrow> False"

lemma commits_not_readonly: "commits m e \<Longrightarrow> \<not> readonly e"
  by (induction m e rule: commits.induct) auto

lemma migratedStatus_fields:
  "mMigration (migratedStatus m p t d t') = emptyMigration"
  "mPhase (migratedStatus m p t d t') = ''Running''"
  "Generation (Status (migratedStatus m p t d t')) = Generation (Status m) + 1"
  "CurrentNode (Status (migratedStatus m p t d t')) = pNodeName p"
  "CurrentPodName (Status (migratedStatus m p t d t')) = pName p"
  "MigrationHistory (Status (migratedStatus m p t d t')) =
     MigrationHistory (Status m) @ [successRecord (mMigration m) p t d]"
  by (simp_all add: migratedStatus_def resetMigrationFSM_def mapp_defs)

text \<open>
  C4. The restore handler touches no pod before the API server has accepted the status that ends
  the migration: idle, next generation, a success in the history. A lost status write leaves the
  source pod alone.
\<close>

theorem commit_before_cleanup:
  "io_post (fsmRestoringHandler w m sourcePod) (\<lambda>r d. guardedBy (commits m) changesPod d)"
  unfolding fsmRestoringHandler_def fsmTransitionToRestoreFailed_def fsmFinishRestore_def cleanupSource_def
    client_defs Let_def
  by (auto intro!: io_rules simp: guardedBy_readonly commits_not_readonly migratedStatus_fields successRecord_def
      split: option.splits)

section \<open>Retries\<close>

fun writesStatus :: "event \<Rightarrow> bool" where
  "writesStatus (EStatusUpdate m r) = True"
| "writesStatus _ = False"

fun targetGone :: "mapp \<Rightarrow> event \<Rightarrow> bool" where
  "targetGone m (EGetPod k (Inl (NotFound s))) \<longleftrightarrow> k = (mNamespace m, CurrentTargetPod (mMigration m))"
| "targetGone m _ \<longleftrightarrow> False"

lemma isNotFound_iff: "isNotFound e \<longleftrightarrow> (\<exists>s. e = NotFound s)"
  by (cases e) auto


section \<open>The life of a resource\<close>

text \<open>The example application after \<open>startMigration\<close>, and then after its dump.\<close>

definition startedApp :: mapp where
  "startedApp = stagedStatus exampleApp StageDumping (\<lambda>i. i\<lparr>PreviousNode := ''node-a'', MigrationReason := ''manual'',
     RetryCount := 0, LastError := [], UploadedDumpID := [], UploadedS3Prefix := [], CurrentTargetPod := [],
     PageServerAddr := [], PageServerPort := 0\<rparr>) (Some 1) (Some 1)"

definition dumpedApp :: mapp where
  "dumpedApp = stagedStatus startedApp StageUploaded (\<lambda>i. i\<lparr>UploadedDumpID := ''dump-2'',
     UploadedS3Prefix := ''redis/0/node-a/dump-2'', UploadedPipeInodes := [], PageServerAddr := [],
     PageServerPort := 0, LastError := []\<rparr>) (Some 2) (Some 2)"

lemma startedApp_reachable: "reachable fresh_view mig_step (view startedApp)"
proof (rule reach_step)
  show "reachable fresh_view mig_step (view exampleApp)"
    by (rule reach_init) (simp add: fresh_view_def view_def example_defs)
  show "mig_step (view exampleApp) (view startedApp)"
    unfolding startedApp_def by (rule step_start) (simp_all add: example_defs)
qed

lemma startedApp_step: "fsm_step (view startedApp) (view dumpedApp)"
  unfolding dumpedApp_def
  by (rule step_dumped) (simp add: startedApp_def stagedStatus_def mapp_defs Let_def)

text \<open>
  C9. Every status that a reconcile writes, on whichever path, is a step of the life of a
  resource from the copy of the resource that the API server handed out last.
\<close>

theorem reconcile_writes_are_steps:
  "io_post (Reconcile getenv w req) (\<lambda>r d. conforms mig_step None d)"
  by (rule Reconcile_conforms)





text \<open>
  The stages of a migration follow the diagram of the design, the dump and its prefix stay
  the same across every retry, and the generation grows exactly with a recorded success.
\<close>

theorem fsm_step_diagram:
  assumes "fsm_step v v'"
  shows "(v_stage v, v_stage v') \<in>
    {(StageQuiescing, StageQuiescing), (StageQuiescing, StageDumping), (StageDumping, StageUploaded),
     (StageDumping, StageFinalDumpFailed), (StageUploaded, StageRestoring), (StageUploaded, StageRestoreFailed),
     (StageRestoring, StageIdle), (StageRestoring, StageRestoreFailed), (StageRestoreFailed, StageUploaded),
     (StageRestoreFailed, StageFailed)} \<and>
    (v_stage v \<in> {StageUploaded, StageRestoring, StageRestoreFailed} \<longrightarrow> v_stage v' \<noteq> StageIdle \<longrightarrow>
       v_dump v' = v_dump v \<and> v_prefix v' = v_prefix v) \<and>
    (if v_stage v' = StageIdle then v_gen v' = v_gen v + 1 \<and> v_hist v' = v_hist v @ [True]
     else v_gen v' = v_gen v \<and>
       v_hist v' = (if isTerminalStage (v_stage v') then v_hist v @ [False] else v_hist v))"
  using fsm_step_stages [OF assms] fsm_step_dump [OF assms] fsm_step_generation [OF assms] by blast

theorem fsm_step_diagram_witness:
  "v_gen (view dumpedApp) = v_gen (view startedApp) \<and> v_stage (view dumpedApp) = StageUploaded"
  using fsm_step_diagram [OF startedApp_step]
  by (simp add: view_def dumpedApp_def stagedStatus_def mapp_defs isTerminalStage_def Let_def split: if_splits)

end
