(* ===== verification/ReconcilerProps.thy ===== *)
theory ReconcilerProps
  imports FsmProps
begin

text \<open>
  Properties of the reconciler's helpers: the choice of pods, the waits, the checkpoint chain,
  the cleanup of the object store and the migration triggers.
\<close>

section \<open>The pod that a restore cleans up\<close>

lemma advance_restoring_deletes:
  assumes "mStage m = StageRestoring"
  shows "io_post (advanceMigrationFSM getenv w m p) (\<lambda>r d. \<forall>q e. EDeletePod q e \<in> set d \<longrightarrow> q = p)"
proof -
  have ro: "list_all readonly d \<Longrightarrow> EDeletePod q e \<notin> set d" for d q e
    by (auto simp: list_all_iff)
  show ?thesis
    using assms
    unfolding advanceMigrationFSM_def fsmRestoringHandler_def fsmTransitionToRestoreFailed_def fsmFinishRestore_def
      cleanupSource_def client_defs Let_def
    by (auto intro!: io_rules simp: ro split: option.splits)
qed


text \<open>The scenario of the example: the source pod is older than the target pod it was moved to.\<close>

definition restoreWorld :: world where
  "restoreWorld = (downWorld 0)\<lparr>
     w_listPods := (\<lambda>t ns sel. Inr [examplePod ''redis'' ''node-a'' ''10.0.0.1'' 1, examplePod ''redis-gen1-x'' ''node-b'' ''10.0.0.2'' 2]),
     w_getPod := (\<lambda>t k. Inr (examplePod ''redis-gen1-x'' ''node-b'' ''10.0.0.2'' 2)),
     w_dial := (\<lambda>t a. None),
     w_rpcRestore := (\<lambda>t a q. Inr \<lparr>rr_Success = True, NewPid = 42, rr_Timestamp = 0, DurationMs = 10\<rparr>),
     w_rpcGetStatus := (\<lambda>t a. Inr \<lparr>sr_Mode = ''normal'', MainProcessPid = 42, sr_LastCheckpointId = [], sr_ChainDepth = 0,
       sr_NodeName = ''node-b'', sr_PodName = ''redis-gen1-x'', UptimeSeconds = 5, LazyPagesActive = False\<rparr>),
     w_statusUpdate := (\<lambda>t m. Inr m),
     w_deletePod := (\<lambda>t p. None)\<rparr>"

definition restoreRun :: "event list" where
  "restoreRun = events (reconcileOwned (\<lambda>_. []) restoreWorld restoringApp)"

lemma restoreRun_deletes:
  "EDeletePod (examplePod (CurrentTargetPod (mMigration restoringApp)) ''node-b'' ''10.0.0.2'' 2) None \<in> set restoreRun"
  by code_simp


section \<open>Choosing and waiting\<close>

text \<open>
  The current pod of an application is one of its listed pods, it is not terminating, and no
  other pod that is not terminating is newer; only when every listed pod is terminating is there none.
\<close>

theorem current_pod_is_newest:
  "case newestPod None ps of
     None \<Rightarrow> list_all terminating ps
   | Some p \<Rightarrow> p \<in> set ps \<and> \<not> terminating p \<and>
       list_all (\<lambda>q. \<not> (\<not> terminating q \<and> time_after (CreationTimestamp (p_Meta q)) (CreationTimestamp (p_Meta p)))) ps"
proof (cases "newestPod None ps")
  case None
  then show ?thesis using current.pick_None [OF None] by (auto simp: list_all_iff)
next
  case (Some p)
  then show ?thesis using current.pick_Some [OF Some] newestPod_newest [OF Some] by (auto simp: list_all_iff)
qed

fun podReady :: "kerr option \<times> pod \<Rightarrow> bool" where
  "podReady (Some e, q) \<longleftrightarrow> True"
| "podReady (None, q) \<longleftrightarrow> pPhase q = PodRunning \<and> list_all (\<lambda>ready. ready) (ContainerReady (p_Status q))"

text \<open>
  C20. Waiting for a pod returns: whatever the API server answers, the wait sleeps for less than its
  timeout and one more second, changes nothing, and a wait without an error has seen the pod running with
  all its containers ready.
\<close>

theorem wait_for_pod_returns:
  "\<exists>d. snd (run_state (waitForPodRunning w p timeout) t) = t @ d \<and> list_all readonly d \<and>
       int (sleeps d) * second < max 0 timeout + second \<and>
       podReady (fst (run_state (waitForPodRunning w p timeout) t))"
proof -
  have post: "io_post (waitForPodRunning w p timeout) (\<lambda>r d. list_all readonly d \<and> podReady r)"
  proof (intro io_post_waitForPodRunning conjI)
    show "podReady (e, q)"
      if "e = None \<Longrightarrow> pPhase q = PodRunning \<and> list_all (\<lambda>r. r) (ContainerReady (p_Status q))" for e q
      using that by (cases e) auto
  qed
  from io_post_at [OF post, of t]
  obtain d where d: "snd (run_state (waitForPodRunning w p timeout) t) = t @ d" "list_all readonly d"
      "podReady (fst (run_state (waitForPodRunning w p timeout) t))"
    by blast
  obtain d' where d': "snd (run_state (waitForPodRunning w p timeout) t) = (t @ [ENow (clock w t)]) @ d'"
      "int (sleeps d') * second < max 0 timeout + second"
    using poll_from_now [of "\<lambda>p. EGetPod (pNamespace p, pName p)" second w t timeout
        "\<lambda>p t. w_getPod w t (pNamespace p, pName p)" podDecision p]
    by (auto simp: waitForPodRunning_def now_def run_ask split_beta)
  from d d' have "d = ENow (clock w t) # d'" by simp
  with d d' show ?thesis by (intro exI [of _ d]) (simp add: sleeps_def)
qed

section \<open>Migration triggers\<close>


section \<open>The checkpoint chain\<close>

abbreviation chainDepth :: "mapp \<Rightarrow> int" where "chainDepth m \<equiv> CheckpointChainDepth (mCheckpoint m)"

abbreviation chainRoot :: "mapp \<Rightarrow> string" where "chainRoot m \<equiv> CheckpointChainRoot (mCheckpoint m)"

lemma recordCheckpoint_fields:
  "LastCheckpointID (mCheckpoint (recordCheckpoint m parent d t)) = d"
  "chainDepth (recordCheckpoint m parent d t) = (if parent = [] then 1 else chainDepth m + 1)"
  "chainRoot (recordCheckpoint m parent d t) = (if parent = [] then d else chainRoot m)"
  by (simp_all add: recordCheckpoint_def mapp_defs Let_def)

fun asksParent :: "string \<Rightarrow> event \<Rightarrow> bool" where
  "asksParent parent (EPreCheckpoint a q x) \<longleftrightarrow> pcq_ParentDumpId q = parent"
| "asksParent parent _ \<longleftrightarrow> True"

lemma storeCheckpoint_first:
  "io_post (storeCheckpoint w dumpId (Suc n) m)
     (\<lambda>r d. take 1 (statusWrites d) = [m] \<and> list_all (asksParent parent) d)"
proof (induction n arbitrary: m)
  case 0
  show ?case by (auto intro!: io_rules)
next
  case (Suc n)
  show ?case
    by (subst storeCheckpoint.simps) (auto intro!: io_rules io_post_mono [OF Suc])
qed

lemma io_post_storeCheckpoint3:
  assumes "\<And>r d. take 1 (statusWrites d) = [m] \<Longrightarrow> list_all (asksParent parent) d \<Longrightarrow> Q r d"
  shows "io_post (storeCheckpoint w dumpId 3 m) Q"
  using io_post_mono [OF storeCheckpoint_first [of w dumpId 2 m parent]] assms
  by (simp add: numeral_3_eq_3 numeral_2_eq_2)



text \<open>The part of a chain that a checkpoint computes: its depth and its root.\<close>

definition chainPart :: "mapp \<Rightarrow> int \<times> string" where
  "chainPart m = (chainDepth m, chainRoot m)"

fun handedChains :: "event list \<Rightarrow> (int \<times> string) list" where
  "handedChains [] = []"
| "handedChains (EGetMapp k (Inr g) # d) = chainPart g # handedChains d"
| "handedChains (e # d) = handedChains d"

lemma storeCheckpoint_refetch:
  "io_post (storeCheckpoint w dumpId n m) (\<lambda>r d.
     (case statusWrites d of [] \<Rightarrow> True | x # ws \<Rightarrow> x = m \<and> list_all (\<lambda>b. chainPart b \<in> set (handedChains d)) ws))"
proof (induction n arbitrary: m)
  case 0
  show ?case by (auto intro!: io_rules)
next
  case (Suc n)
  have *: "chainPart (setCheckpoint (\<lambda>c. c\<lparr>LastCheckpointID := dumpId, LastCheckpointTime := t\<rparr>) g) = chainPart g" for g t
    by (simp add: chainPart_def mapp_defs)
  show ?case
    by (auto intro!: io_rules io_post_mono [OF Suc] simp: * list_all_iff split: list.splits)
qed

text \<open>
  After a conflict the chain that a checkpoint belongs to is forgotten: every further attempt to
  store the status writes the depth and the root of the resource that was read again, and not the
  ones computed for the checkpoint that was taken.
\<close>

theorem conflict_forgets_chain:
  "io_post (performPreCheckpoint w m p)
    (\<lambda>r d. list_all (\<lambda>b. chainPart b \<in> set (handedChains d)) (drop 1 (statusWrites d)))"
proof -
  have "io_post (storeCheckpoint w dumpId n m)
    (\<lambda>r d. list_all (\<lambda>b. chainPart b \<in> set (handedChains d)) (drop 1 (statusWrites d)))" for dumpId n m
    by (rule io_post_mono [OF storeCheckpoint_refetch]) (auto split: list.splits)
  then show ?thesis
    unfolding performPreCheckpoint_def client_defs Let_def
    by (auto intro!: io_rules simp del: storeCheckpoint.simps split: option.splits)
qed

text \<open>The scenario of three conflicts in a row.\<close>

definition conflictWorld :: world where
  "conflictWorld = (downWorld 0)\<lparr>
     w_dial := (\<lambda>t a. None),
     w_rpcPreCheckpoint := (\<lambda>t a q. Inr \<lparr>pcr_DumpId = ''dump-2'', pcr_Timestamp = 0, SizeBytes = 1, PagesDumped = 1\<rparr>),
     w_statusUpdate := (\<lambda>t m. Inl (Conflict ''object has been modified'')),
     w_getMapp := (\<lambda>t k. Inr exampleApp)\<rparr>"

text \<open>
  Three conflicts in a row lose a checkpoint without an error: the agent has taken the dump,
  three statuses were offered, the API server accepted none of them, and the caller is told of no error.
\<close>

theorem checkpoint_lost_silently:
  "let run = performPreCheckpoint conflictWorld exampleApp (examplePod ''redis'' ''node-a'' ''10.0.0.1'' 1) in
   fst (outcome run) = None \<and> length (statusWrites (events run)) = 3 \<and> acceptedWrites (events run) = []"
  by code_simp

section \<open>Deletion\<close>

text \<open>The keys deleted by a log, batch by batch, and the keys listed by it.\<close>

fun batches :: "event list \<Rightarrow> string list list" where
  "batches [] = []"
| "batches (ES3Delete b ks r # d) = ks # batches d"
| "batches (e # d) = batches d"

fun listed :: "event list \<Rightarrow> string list" where
  "listed [] = []"
| "listed (ES3List b p (Inr ks) # d) = ks @ listed d"
| "listed (e # d) = listed d"

lemma batches_readonly: "list_all readonly d \<Longrightarrow> batches (d @ d') = batches d' \<and> listed (d @ d') = listed d'"
proof (induction d)
  case (Cons e d)
  then show ?case by (cases e) auto
qed simp

lemma deleteBatches_batches:
  "io_post (deleteBatches w bucket objs)
     (\<lambda>r d. concat (batches d) = objs \<and> listed d = [] \<and> list_all (\<lambda>b. b \<noteq> [] \<and> length b \<le> 1000) (batches d) \<and>
            list_all (\<lambda>e. case e of ES3Delete b ks x \<Rightarrow> b = bucket | _ \<Rightarrow> False) d)"
proof (induction w bucket objs rule: deleteBatches.induct)
  case (1 w bucket objs)
  show ?case
  proof (cases "objs = []")
    case True
    then show ?thesis by (subst deleteBatches.simps) (auto intro!: io_rules)
  next
    case False
    then show ?thesis
      by (subst deleteBatches.simps) (auto intro!: io_rules io_post_mono [OF 1])
  qed
qed

text \<open>
  C21. Deleting a resource never fails on its checkpoints, and once the keys under the prefix
  of the application have been listed, exactly these keys are deleted, in order, in batches of
  at most a thousand.
\<close>

theorem s3_cleanup_complete:
  "io_post (cleanupS3Checkpoints w m)
     (\<lambda>r d. r = None \<and> concat (batches d) = listed d \<and> list_all (\<lambda>b. b \<noteq> [] \<and> length b \<le> 1000) (batches d) \<and>
            list_all (\<lambda>e. case e of ES3List b p x \<Rightarrow> b = Bucket (Storage (Spec m)) \<and> p = mName m @ ''/''
                          | ES3Delete b ks x \<Rightarrow> b = Bucket (Storage (Spec m)) | _ \<Rightarrow> True) d)"
proof -
  let ?ok = "\<lambda>e. case e of ES3List b p x \<Rightarrow> b = Bucket (Storage (Spec m)) \<and> p = mName m @ ''/''
                          | ES3Delete b ks x \<Rightarrow> b = Bucket (Storage (Spec m)) | _ \<Rightarrow> True"
  have ro: "list_all readonly d \<Longrightarrow> list_all ?ok d" for d
    by (erule readonly_list_all) (auto split: event.splits)
  have del: "list_all (\<lambda>e. case e of ES3Delete b ks x \<Rightarrow> b = Bucket (Storage (Spec m)) | _ \<Rightarrow> False) d \<Longrightarrow> list_all ?ok d" for d
    by (auto simp: list_all_iff split: event.splits)
  have nil: "list_all readonly d \<Longrightarrow> batches d = [] \<and> listed d = []" for d
    using batches_readonly [of d "[]"] by simp
  show ?thesis
    unfolding cleanupS3Checkpoints_def Let_def
    by (auto intro!: io_rules io_post_mono [OF deleteBatches_batches] simp: ro del batches_readonly nil)
qed

lemma containsString_iff: "containsString xs s \<longleftrightarrow> s \<in> set xs"
  by (induction xs) auto

lemma removeString_filter: "removeString xs s = filter (\<lambda>x. x \<noteq> s) xs"
  by (induction xs) auto

text \<open>What a reconcile of a resource that is being deleted may do.\<close>

fun deletionEvent :: "mapp \<Rightarrow> event \<Rightarrow> bool" where
  "deletionEvent m (EUpdateMapp m' r) \<longleftrightarrow>
     Spec m' = Spec m \<and> Status m' = Status m \<and>
     Finalizers (m_Meta m') = filter (\<lambda>f. f \<noteq> finalizerName) (Finalizers (m_Meta m))"
| "deletionEvent m (ES3Session c r) \<longleftrightarrow> True"
| "deletionEvent m (ES3List b p r) \<longleftrightarrow> True"
| "deletionEvent m (ES3Delete b ks r) \<longleftrightarrow> True"
| "deletionEvent m e \<longleftrightarrow> readonly e"

lemma readonly_deletionEvent: "readonly e \<Longrightarrow> deletionEvent m e"
  by (cases e) auto

fun isUpdateMapp :: "event \<Rightarrow> bool" where
  "isUpdateMapp (EUpdateMapp m r) = True"
| "isUpdateMapp _ = False"

lemma deleteBatches_deletion:
  "io_post (deleteBatches w bucket objs) (\<lambda>r d. list_all (deletionEvent m) d \<and> count isUpdateMapp d = 0)"
  by (rule io_post_mono [OF deleteBatches_batches])
     (auto simp: list_all_iff count_def filter_empty_conv split: event.splits)

lemma isUpdateMapp_not_readonly: "isUpdateMapp e \<Longrightarrow> \<not> readonly e"
  by (cases e) auto

text \<open>
  A resource that is being deleted is only cleaned up: no pod is created or deleted and no status
  is written; the finalizer of the operator, and no other, is taken away, at most once.
\<close>

theorem deletion_only_cleans_up:
  "io_post (reconcileDeletion w m) (\<lambda>r d. list_all (deletionEvent m) d \<and>
     count isUpdateMapp d \<le> 1)"
proof -
  have clean: "io_post (cleanupS3Checkpoints w m) (\<lambda>r d. list_all (deletionEvent m) d \<and> count isUpdateMapp d = 0)"
    unfolding cleanupS3Checkpoints_def Let_def
    by (auto intro!: io_rules io_post_mono [OF deleteBatches_deletion]
        simp: readonly_list_all [OF _ readonly_deletionEvent] readonly_count isUpdateMapp_not_readonly)
  show ?thesis
    unfolding reconcileDeletion_def
    by (auto intro!: io_rules io_post_mono [OF clean] simp: mapp_defs removeString_filter)
qed

end
