(* ===== verification/Scheduler.thy ===== *)
theory Scheduler
  imports ReconcilerProps
begin

text \<open>
  \<open>pkg/scheduler/scheduler.go\<close>: the stand-alone checkpoint scheduler. Every five seconds it looks at
  all resources and triggers the checkpoints that are due. Its choice of the pod has the same
  interface as the controller's.
\<close>

section \<open>The scheduler\<close>

definition shouldCheckpoint :: "world \<Rightarrow> mapp \<Rightarrow> bool prog" where
  "shouldCheckpoint w m =
     (if mPhase m \<noteq> ''Running'' then State_Monad.return False
      else let interval = (case parseDuration (Interval (CheckpointPolicy (Spec m))) of
                             None \<Rightarrow> 30 * second | Some i \<Rightarrow> i)
           in if isZero (LastCheckpointTime (mCheckpoint m)) then State_Monad.return True
              else do {
                n \<leftarrow> now w;
                State_Monad.return
                  (if time_since n (LastCheckpointTime (mCheckpoint m)) < interval then False
                   else if CheckpointChainDepth (mCheckpoint m) \<ge> MaxCheckpointChainDepth (CheckpointPolicy (Spec m)) then False
                   else True)
              })"

definition runningPod :: "pod list \<Rightarrow> pod option" where
  "runningPod ps = List.find (\<lambda>p. \<not> terminating p \<and> pPhase p = PodRunning) ps"

text \<open>The status after a checkpoint of the scheduler; the root is set once.\<close>

definition scheduledStatus :: "mapp \<Rightarrow> string \<Rightarrow> gtime \<Rightarrow> gtime \<Rightarrow> mapp" where
  "scheduledStatus m dumpId t t' =
     setStatus (\<lambda>s. s\<lparr>LastUpdateTime := t'\<rparr>)
       (setCheckpoint (\<lambda>c.
          let c1 = c\<lparr>LastCheckpointID := dumpId, LastCheckpointTime := t, CheckpointChainDepth := CheckpointChainDepth c + 1\<rparr>
          in if CheckpointChainRoot c1 = [] then c1\<lparr>CheckpointChainRoot := dumpId\<rparr> else c1) m)"

definition triggerCheckpoint :: "world \<Rightarrow> mapp \<Rightarrow> kerr option prog" where
  "triggerCheckpoint w m = do {
     l \<leftarrow> listPods w (mNamespace m) (appSelector m);
     (case l of
        Inl e \<Rightarrow> State_Monad.return (Some (wrapErr ''failed to list pods: '' e))
      | Inr ps \<Rightarrow>
          (case runningPod ps of
             None \<Rightarrow> State_Monad.return (Some (OtherErr (''no running pod found for app '' @ mName m)))
           | Some p \<Rightarrow> do {
               conn \<leftarrow> NewAgentClient w p;
               (case conn of
                  Inl e \<Rightarrow> State_Monad.return (Some (wrapErr ''failed to connect to agent: '' e))
                | Inr agent \<Rightarrow> do {
                    r \<leftarrow> PreCheckpoint w agent (LastCheckpointID (mCheckpoint m));
                    (case r of
                       Inl e \<Rightarrow> State_Monad.return (Some (wrapErr ''pre-checkpoint failed: '' e))
                     | Inr resp \<Rightarrow> do {
                         t \<leftarrow> metav1_Now w;
                         t' \<leftarrow> metav1_Now w;
                         u \<leftarrow> statusUpdate w (scheduledStatus m (pcr_DumpId resp) t t');
                         State_Monad.return
                           (case u of Inl e \<Rightarrow> Some (wrapErr ''failed to update status: '' e) | Inr _ \<Rightarrow> None)
                       })
                  })
             }))
   }"

definition evaluateAndSchedule :: "world \<Rightarrow> kerr option prog" where
  "evaluateAndSchedule w = do {
     l \<leftarrow> listMapps w;
     (case l of
        Inl e \<Rightarrow> State_Monad.return (Some (wrapErr ''failed to list MigratableApps: '' e))
      | Inr ms \<Rightarrow> do {
          forEach ms (\<lambda>m. do {
            should \<leftarrow> shouldCheckpoint w m;
            (if should then do { _ \<leftarrow> triggerCheckpoint w m; State_Monad.return () } else State_Monad.return ())
          });
          State_Monad.return None
        })
   }"

text \<open>The loop of \<open>Start\<close>: one evaluation per tick until the context is done; errors are logged.\<close>

fun schedulerTicks :: "world \<Rightarrow> nat \<Rightarrow> unit prog" where
  "schedulerTicks w 0 = State_Monad.return ()"
| "schedulerTicks w (Suc n) = do { _ \<leftarrow> sleep (5 * second); _ \<leftarrow> evaluateAndSchedule w; schedulerTicks w n }"

interpretation running: pod_choice runningPod "\<lambda>p. \<not> terminating p \<and> pPhase p = PodRunning"
  by unfold_locales (auto simp: runningPod_def find_Some_iff find_None_iff in_set_conv_nth)

section \<open>Properties\<close>

lemma scheduledStatus_view: "view (scheduledStatus m d t t') = view m"
  by (simp add: scheduledStatus_def)

lemma scheduledStatus_fields:
  "CheckpointChainDepth (mCheckpoint (scheduledStatus m d t t')) = CheckpointChainDepth (mCheckpoint m) + 1"
  "LastCheckpointID (mCheckpoint (scheduledStatus m d t t')) = d"
  by (simp_all add: scheduledStatus_def mapp_defs Let_def)

text \<open>
  Where a pod of the application that is running and not terminating exists, the scheduler
  finds one, and the controller's choice finds one too: the two may differ, but neither fails alone.
\<close>

lemma pod_choices_agree_on_existence:
  "list_ex (\<lambda>p. \<not> terminating p \<and> pPhase p = PodRunning) ps \<longleftrightarrow>
     runningPod ps \<noteq> None \<and> (case newestPod None ps of None \<Rightarrow> False | Some p \<Rightarrow> \<not> terminating p)"
proof -
  have "runningPod ps \<noteq> None \<longleftrightarrow> list_ex (\<lambda>p. \<not> terminating p \<and> pPhase p = PodRunning) ps"
    using running.pick_iff [of ps] by (auto simp: list_ex_iff)
  moreover have "runningPod ps \<noteq> None \<Longrightarrow> newestPod None ps \<noteq> None"
    using running.pick_iff [of ps] current.pick_iff [of ps] by auto
  ultimately show ?thesis
    using current.pick_Some [of ps] by (cases "newestPod None ps") auto
qed

fun preCheckpoints :: "event list \<Rightarrow> string list" where
  "preCheckpoints [] = []"
| "preCheckpoints (EPreCheckpoint a q r # d) = pcq_ParentDumpId q # preCheckpoints d"
| "preCheckpoints (e # d) = preCheckpoints d"

lemma preCheckpoints_append [simp]: "preCheckpoints (d @ d') = preCheckpoints d @ preCheckpoints d'"
  by (induction d rule: preCheckpoints.induct) auto

text \<open>
  The scheduler never touches a migration: each of its status writes keeps the view of the
  resource it was made from and adds one to the depth of its checkpoint chain, and at most one
  increment of the last checkpoint is requested.
\<close>

theorem scheduler_leaves_migrations_alone:
  "io_post (triggerCheckpoint w m)
     (\<lambda>r d. length (preCheckpoints d) \<le> 1 \<and> set (preCheckpoints d) \<subseteq> {LastCheckpointID (mCheckpoint m)} \<and>
        list_all (\<lambda>m'. view m' = view m \<and>
          CheckpointChainDepth (mCheckpoint m') = CheckpointChainDepth (mCheckpoint m) + 1) (statusWrites d))"
  unfolding triggerCheckpoint_def client_defs
  by (auto intro!: io_rules simp: scheduledStatus_view scheduledStatus_fields split: option.splits)

text \<open>
  The scheduler and the controller disagree on the maximal depth zero: once a resource has a
  first checkpoint the scheduler never checkpoints it again, while the controller still continues
  the chain without a limit.
\<close>

theorem zero_depth_disagreement:
  assumes "MaxCheckpointChainDepth (CheckpointPolicy (Spec m)) = 0" and "0 \<le> CheckpointChainDepth (mCheckpoint m)"
    and "LastCheckpointTime (mCheckpoint m) = Some t"
  shows "io_post (shouldCheckpoint w m) (\<lambda>r d. \<not> r) \<and> chainParent m = LastCheckpointID (mCheckpoint m)"
  using assms unfolding shouldCheckpoint_def Let_def
  by (auto intro!: io_rules simp: isZero_def chainParent_def)

definition zeroDepthApp :: mapp where
  "zeroDepthApp = exampleApp\<lparr>Spec := exampleSpec\<lparr>CheckpointPolicy := (CheckpointPolicy exampleSpec)\<lparr>MaxCheckpointChainDepth := 0\<rparr>\<rparr>\<rparr>"

theorem zero_depth_disagreement_witness:
  "\<not> outcome (shouldCheckpoint (downWorld (10 ^ 18)) zeroDepthApp) \<and> chainParent zeroDepthApp = ''dump-1''"
  using zero_depth_disagreement [of zeroDepthApp 0 "downWorld (10 ^ 18)"]
    io_post_run [of "shouldCheckpoint (downWorld (10 ^ 18)) zeroDepthApp" "\<lambda>r d. \<not> r"]
  by (simp add: zeroDepthApp_def example_defs)

end
