(* ===== verification/Webhook.thy ===== *)
theory Webhook
  imports Scheduler
begin

text \<open>
  \<open>pkg/webhook\<close>: the admission webhook that injects the agent into pods that opt in. Decoding the
  request is code of a library; the request carries its result.
\<close>

section \<open>Configuration (\<open>config.go\<close>)\<close>

definition DefaultsConfigMapName :: string where "DefaultsConfigMapName = ''migration-defaults''"

definition DefaultsConfigMapNamespace :: string where "DefaultsConfigMapNamespace = ''migration-system''"

record webhookConfig =
  wc_StorageType :: string
  wc_Bucket :: string
  wc_Region :: string
  wc_Endpoint :: string
  wc_DownloadEndpoint :: string
  wc_CredentialsSecret :: string
  wc_ExpressOneZone :: bool
  wc_AsyncPrefetch :: bool
  wc_PrefetchWorkers :: int
  wc_DirectUpload :: bool
  wc_LogUpload :: bool
  wc_Strategy :: string
  wc_CheckpointInterval :: string
  wc_AutoAdjust :: bool
  wc_MemoryThresholdMB :: int
  wc_MaxChainDepth :: int
  wc_AgentImage :: string

definition DefaultWebhookConfig :: webhookConfig where
  "DefaultWebhookConfig =
     \<lparr>wc_StorageType = ''s3'', wc_Bucket = ''checkpoints'', wc_Region = ''us-east-1'', wc_Endpoint = [],
      wc_DownloadEndpoint = [], wc_CredentialsSecret = ''migration-credentials'', wc_ExpressOneZone = False,
      wc_AsyncPrefetch = False, wc_PrefetchWorkers = 4, wc_DirectUpload = False, wc_LogUpload = False,
      wc_Strategy = ''lazy-storage'', wc_CheckpointInterval = ''30s'', wc_AutoAdjust = False,
      wc_MemoryThresholdMB = 100, wc_MaxChainDepth = 10, wc_AgentImage = []\<rparr>"

text \<open>\<open>if v, ok := d[k]; ok { ... }\<close>, with and without a number to parse.\<close>

definition ifSet :: "smap \<Rightarrow> string \<Rightarrow> (string \<Rightarrow> webhookConfig \<Rightarrow> webhookConfig) \<Rightarrow> webhookConfig \<Rightarrow> webhookConfig" where
  "ifSet d k f cfg = (case map_of d k of None \<Rightarrow> cfg | Some v \<Rightarrow> f v cfg)"

definition withInt :: "(int \<Rightarrow> webhookConfig \<Rightarrow> webhookConfig) \<Rightarrow> string \<Rightarrow> webhookConfig \<Rightarrow> webhookConfig" where
  "withInt f v cfg = (case atoi v of None \<Rightarrow> cfg | Some n \<Rightarrow> f n cfg)"

definition configFromData :: "smap \<Rightarrow> webhookConfig \<Rightarrow> webhookConfig" where
  "configFromData d cfg0 =
     (let cfg1 = ifSet d ''storageType'' (\<lambda>v c. c\<lparr>wc_StorageType := v\<rparr>) cfg0;
          cfg2 = ifSet d ''bucket'' (\<lambda>v c. c\<lparr>wc_Bucket := v\<rparr>) cfg1;
          cfg3 = ifSet d ''region'' (\<lambda>v c. c\<lparr>wc_Region := v\<rparr>) cfg2;
          cfg4 = ifSet d ''endpoint'' (\<lambda>v c. c\<lparr>wc_Endpoint := v\<rparr>) cfg3;
          cfg5 = ifSet d ''downloadEndpoint'' (\<lambda>v c. c\<lparr>wc_DownloadEndpoint := v\<rparr>) cfg4;
          cfg6 = ifSet d ''credentialsSecret'' (\<lambda>v c. c\<lparr>wc_CredentialsSecret := v\<rparr>) cfg5;
          cfg7 = ifSet d ''strategy'' (\<lambda>v c. c\<lparr>wc_Strategy := v\<rparr>) cfg6;
          cfg8 = ifSet d ''checkpointInterval'' (\<lambda>v c. c\<lparr>wc_CheckpointInterval := v\<rparr>) cfg7;
          cfg9 = ifSet d ''expressOneZone'' (\<lambda>v c. c\<lparr>wc_ExpressOneZone := (v = ''true'')\<rparr>) cfg8;
          cfg10 = ifSet d ''asyncPrefetch'' (\<lambda>v c. c\<lparr>wc_AsyncPrefetch := (v = ''true'')\<rparr>) cfg9;
          cfg11 = ifSet d ''directUpload'' (\<lambda>v c. c\<lparr>wc_DirectUpload := (v = ''true'')\<rparr>) cfg10;
          cfg12 = ifSet d ''logUpload'' (\<lambda>v c. c\<lparr>wc_LogUpload := (v = ''true'')\<rparr>) cfg11;
          cfg13 = ifSet d ''autoAdjust'' (\<lambda>v c. c\<lparr>wc_AutoAdjust := (v = ''true'')\<rparr>) cfg12;
          cfg14 = ifSet d ''prefetchWorkers'' (withInt (\<lambda>n c. c\<lparr>wc_PrefetchWorkers := n\<rparr>)) cfg13;
          cfg15 = ifSet d ''memoryThresholdMB'' (withInt (\<lambda>n c. c\<lparr>wc_MemoryThresholdMB := n\<rparr>)) cfg14;
          cfg16 = ifSet d ''maxChainDepth'' (withInt (\<lambda>n c. c\<lparr>wc_MaxChainDepth := n\<rparr>)) cfg15
      in ifSet d ''agentImage'' (\<lambda>v c. if v \<noteq> [] then c\<lparr>wc_AgentImage := v\<rparr> else c) cfg16)"

text \<open>On an error the defaults come back with it.\<close>

definition LoadConfigFromNamedConfigMap :: "world \<Rightarrow> string \<Rightarrow> string \<Rightarrow> (kerr + webhookConfig) prog" where
  "LoadConfigFromNamedConfigMap w name ns = do {
     r \<leftarrow> getConfigMap w (ns, name);
     State_Monad.return (case r of Inl e \<Rightarrow> Inl e | Inr d \<Rightarrow> Inr (configFromData d DefaultWebhookConfig))
   }"

definition LoadConfigFromConfigMap :: "world \<Rightarrow> (kerr + webhookConfig) prog" where
  "LoadConfigFromConfigMap w = LoadConfigFromNamedConfigMap w DefaultsConfigMapName DefaultsConfigMapNamespace"

text \<open>\<open>strings.EqualFold\<close> against a word of ASCII letters.\<close>

definition lowerChar :: "char \<Rightarrow> char" where
  "lowerChar c = (if 65 \<le> (of_char c :: nat) \<and> (of_char c :: nat) \<le> 90 then char_of ((of_char c :: nat) + 32) else c)"

definition equalFold :: "string \<Rightarrow> string \<Rightarrow> bool" where
  "equalFold s t \<longleftrightarrow> map lowerChar s = map lowerChar t"

definition ifGiven :: "smap \<Rightarrow> string \<Rightarrow> (string \<Rightarrow> webhookConfig \<Rightarrow> webhookConfig) \<Rightarrow> webhookConfig \<Rightarrow> webhookConfig" where
  "ifGiven ann k f cfg = (if mget ann k \<noteq> [] then f (mget ann k) cfg else cfg)"

definition MergeAnnotations :: "webhookConfig \<Rightarrow> smap \<Rightarrow> webhookConfig" where
  "MergeAnnotations cfg0 ann =
     (let cfg1 = ifGiven ann ''migration.io/bucket'' (\<lambda>v c. c\<lparr>wc_Bucket := v\<rparr>) cfg0;
          cfg2 = ifGiven ann ''migration.io/region'' (\<lambda>v c. c\<lparr>wc_Region := v\<rparr>) cfg1;
          cfg3 = ifGiven ann ''migration.io/endpoint'' (\<lambda>v c. c\<lparr>wc_Endpoint := v\<rparr>) cfg2;
          cfg4 = ifGiven ann ''migration.io/download-endpoint'' (\<lambda>v c. c\<lparr>wc_DownloadEndpoint := v\<rparr>) cfg3;
          cfg5 = ifGiven ann ''migration.io/storage-type'' (\<lambda>v c. c\<lparr>wc_StorageType := v\<rparr>) cfg4;
          cfg6 = ifGiven ann ''migration.io/credentials-secret'' (\<lambda>v c. c\<lparr>wc_CredentialsSecret := v\<rparr>) cfg5;
          cfg7 = ifGiven ann ''migration.io/strategy'' (\<lambda>v c. c\<lparr>wc_Strategy := v\<rparr>) cfg6;
          cfg8 = ifGiven ann ''migration.io/checkpoint-interval'' (\<lambda>v c. c\<lparr>wc_CheckpointInterval := v\<rparr>) cfg7;
          cfg9 = ifGiven ann ''migration.io/direct-upload'' (\<lambda>v c. c\<lparr>wc_DirectUpload := equalFold v ''true''\<rparr>) cfg8;
          cfg10 = ifGiven ann ''migration.io/async-prefetch'' (\<lambda>v c. c\<lparr>wc_AsyncPrefetch := equalFold v ''true''\<rparr>) cfg9;
          cfg11 = ifGiven ann ''migration.io/log-upload'' (\<lambda>v c. c\<lparr>wc_LogUpload := equalFold v ''true''\<rparr>) cfg10;
          cfg12 = ifGiven ann ''migration.io/express-one-zone'' (\<lambda>v c. c\<lparr>wc_ExpressOneZone := equalFold v ''true''\<rparr>) cfg11;
          cfg13 = ifGiven ann ''migration.io/prefetch-workers'' (withInt (\<lambda>n c. c\<lparr>wc_PrefetchWorkers := n\<rparr>)) cfg12
      in ifGiven ann ''migration.io/agent-image'' (\<lambda>v c. c\<lparr>wc_AgentImage := v\<rparr>) cfg13)"

section \<open>Injection (\<open>injector.go\<close>)\<close>

text \<open>The index of the container called app, or of the first container.\<close>

fun findNamed :: "nat \<Rightarrow> container list \<Rightarrow> nat option" where
  "findNamed i [] = None"
| "findNamed i (c # cs) = (if c_Name c = ''app'' then Some i else findNamed (Suc i) cs)"

definition findAppContainer :: "pod \<Rightarrow> nat option" where
  "findAppContainer p =
     (let cs = Containers (p_Spec p) in
      case findNamed 0 cs of Some i \<Rightarrow> Some i | None \<Rightarrow> if cs \<noteq> [] then Some 0 else None)"

definition zeroDeadline :: deadlineSchedulerConfig where
  "zeroDeadline = \<lparr>DryRun = False, DeadlineSeconds = 0, BandwidthMBps = 0, ScanIntervalMs = 0, TFreezeMs = 0, TMarginMs = 0\<rparr>"

definition webhookStorage :: "webhookConfig \<Rightarrow> string \<Rightarrow> storageConfig" where
  "webhookStorage cfg credentials =
     \<lparr>sc_Type = wc_StorageType cfg, Bucket = wc_Bucket cfg, Endpoint = wc_Endpoint cfg,
      DownloadEndpoint = wc_DownloadEndpoint cfg, Region = wc_Region cfg, CredentialsSecret = credentials,
      ExpressOneZone = wc_ExpressOneZone cfg, AsyncPrefetch = wc_AsyncPrefetch cfg,
      PrefetchWorkers = wc_PrefetchWorkers cfg, DirectUpload = wc_DirectUpload cfg, SemiSyncIOV = None,
      HotIOVSeed = None, LogUpload = wc_LogUpload cfg, Compress = False, CompressLevel = 0, CompressWorkers = 0\<rparr>"

definition webhookSpec :: "webhookConfig \<Rightarrow> string \<Rightarrow> bool \<Rightarrow> podSpec \<Rightarrow> migratableAppSpec" where
  "webhookSpec cfg credentials autoMigrate tmpl =
     \<lparr>Template = \<lparr>t_Labels = [], t_Annotations = [], t_Spec = tmpl\<rparr>,
      CheckpointPolicy = \<lparr>Interval = wc_CheckpointInterval cfg, AutoAdjust = wc_AutoAdjust cfg,
        MemoryThresholdMB = wc_MemoryThresholdMB cfg, MaxCheckpointChainDepth = wc_MaxChainDepth cfg,
        DeadlineScheduler = zeroDeadline\<rparr>,
      MigrationPolicy = \<lparr>Strategy = wc_Strategy cfg, AutoMigrate = autoMigrate, TargetNodeSelector = [],
        PreferOnDemand = False, MigrationTimeoutSeconds = 0, PreDumpQuiesce = None\<rparr>,
      SpotInterruptionHandling = \<lparr>sih_Enabled = False, DetectionMethods = []\<rparr>,
      Storage = webhookStorage cfg credentials\<rparr>"

definition zeroStatus :: migratableAppStatus where
  "zeroStatus =
     \<lparr>Phase = [], Generation = 0, CurrentNode = [], CurrentPodName = [], MigrationHistory = [],
      CheckpointStatus = \<lparr>LastCheckpointID = [], LastCheckpointTime = None, CheckpointChainDepth = 0,
        TotalCheckpointSize = [], CheckpointChainRoot = []\<rparr>,
      Migration = emptyMigration, Conditions = [], LastUpdateTime = None\<rparr>"

definition buildSyntheticMapp :: "webhookConfig \<Rightarrow> string \<Rightarrow> string \<Rightarrow> mapp" where
  "buildSyntheticMapp cfg appName ns =
     \<lparr>m_Meta = emptyMeta\<lparr>Name := appName, Namespace := ns\<rparr>, Spec = webhookSpec cfg [] False emptyPodSpec,
      Status = zeroStatus\<rparr>"

definition injectApp :: "container \<Rightarrow> container" where
  "injectApp c = c\<lparr>Command := [''sleep'', ''infinity''], Args := [], SecurityContext := Some (addPtrace (SecurityContext c)),
     VolumeMounts := VolumeMounts c @ [checkpointsMount], c_Name := ''app''\<rparr>"

definition injectedAgent :: "genv \<Rightarrow> webhookConfig \<Rightarrow> string \<Rightarrow> string \<Rightarrow> container" where
  "injectedAgent getenv cfg appName ns =
     (let a0 = BuildAgentContainer getenv (NewPodBuilder (buildSyntheticMapp cfg appName ns)) ''normal'';
          a1 = (if wc_AgentImage cfg \<noteq> [] then a0\<lparr>Image := wc_AgentImage cfg\<rparr> else a0)
      in if wc_CredentialsSecret cfg \<noteq> []
         then a1\<lparr>EnvFromSecrets := EnvFromSecrets a1 @ [(wc_CredentialsSecret cfg, True)]\<rparr> else a1)"

definition InjectSidecar :: "genv \<Rightarrow> pod \<Rightarrow> webhookConfig \<Rightarrow> string \<Rightarrow> pod" where
  "InjectSidecar getenv p cfg appName =
     (let cs = Containers (p_Spec p);
          (cs1, ann1) = (case findAppContainer p of
              None \<Rightarrow> (cs, pAnnotations p)
            | Some i \<Rightarrow> (cs[i := injectApp (cs ! i)], saveCommand (cs ! i) (pAnnotations p)));
          labels = mput ''app.kubernetes.io/managed-by'' ''migration-controller''
                     (mput ''migration.io/app'' appName (mput ''migration.io/injected'' ''true'' (pLabels p)));
          ann2 = mput ''migration.io/mode'' ''normal''
                   (mput ''migration.io/generation'' ''0'' (mput ''migration.io/app'' appName ann1))
      in p\<lparr>p_Meta := (p_Meta p)\<lparr>Labels := labels, Annotations := ann2\<rparr>,
           p_Spec := (p_Spec p)\<lparr>Containers := cs1 @ [injectedAgent getenv cfg appName (pNamespace p)],
                                Volumes := Volumes (p_Spec p) @ agentVolumes, ShareProcessNamespace := Some True\<rparr>\<rparr>)"

definition isAlphanumeric :: "string \<Rightarrow> bool" where
  "isAlphanumeric s = list_all (\<lambda>c. (97 \<le> (of_char c :: nat) \<and> (of_char c :: nat) \<le> 122) \<or> is_digit c) s"

definition stripHash :: "string \<Rightarrow> string" where
  "stripHash name =
     (let parts = split ''-'' name in
      if length parts \<ge> 3 \<and> length (last parts) \<ge> 5 \<and> length (last parts) \<le> 10 \<and> isAlphanumeric (last parts)
      then join ''-'' (butlast parts) else name)"

definition AppNameFromPod :: "pod \<Rightarrow> string" where
  "AppNameFromPod p =
     (if mget (pAnnotations p) ''migration.io/app-name'' \<noteq> [] then mget (pAnnotations p) ''migration.io/app-name''
      else if GenerateName (p_Meta p) \<noteq> [] then stripHash (trimSuffix (GenerateName (p_Meta p)) ''-'')
      else pName p)"

section \<open>Resources and secrets (\<open>cr_creator.go\<close>)\<close>

definition cleanMounts :: "container \<Rightarrow> container" where
  "cleanMounts c = c\<lparr>VolumeMounts :=
     filter (\<lambda>vm. \<not> hasPrefix (vm_Name vm) ''kube-api-access-'' \<and> vm_Name vm \<noteq> ''checkpoints'') (VolumeMounts c)\<rparr>"

definition buildOriginalPodSpec :: "pod \<Rightarrow> podSpec" where
  "buildOriginalPodSpec p =
     emptyPodSpec\<lparr>Containers := map cleanMounts (filter (\<lambda>c. c_Name c \<noteq> ''criu-agent'') (Containers (p_Spec p)))\<rparr>"

definition webhookMapp :: "pod \<Rightarrow> webhookConfig \<Rightarrow> string \<Rightarrow> string \<Rightarrow> mapp" where
  "webhookMapp p cfg appName ns =
     \<lparr>m_Meta = emptyMeta\<lparr>Name := appName, Namespace := ns,
        Labels := [(''migration.io/webhook-managed'', ''true''), (''migration.io/app'', appName)],
        Annotations := [(''migration.io/created-by'', ''webhook'')]\<rparr>,
      Spec = webhookSpec cfg (wc_CredentialsSecret cfg) True (buildOriginalPodSpec p), Status = zeroStatus\<rparr>"

definition EnsureMigratableApp :: "world \<Rightarrow> pod \<Rightarrow> webhookConfig \<Rightarrow> string \<Rightarrow> string \<Rightarrow> kerr option prog" where
  "EnsureMigratableApp w p cfg appName ns = do {
     g \<leftarrow> getMapp w (ns, appName);
     (case g of
        Inr _ \<Rightarrow> State_Monad.return None
      | Inl e \<Rightarrow>
          if \<not> isNotFound e then State_Monad.return (Some e)
          else do {
            c \<leftarrow> createMapp w (webhookMapp p cfg appName ns);
            State_Monad.return (case c of Inr _ \<Rightarrow> None | Inl e' \<Rightarrow> if isAlreadyExists e' then None else Some e')
          })
   }"

definition EnsureCredentialsSecret :: "world \<Rightarrow> string \<Rightarrow> string \<Rightarrow> kerr option prog" where
  "EnsureCredentialsSecret w secretName targetNamespace =
     (if targetNamespace = ''migration-system'' then State_Monad.return None
      else if secretName = [] then State_Monad.return None
      else do {
        g \<leftarrow> getSecret w (targetNamespace, secretName);
        (case g of
           Inr _ \<Rightarrow> State_Monad.return None
         | Inl e \<Rightarrow>
             if \<not> isNotFound e then State_Monad.return (Some e)
             else do {
               s \<leftarrow> getSecret w (''migration-system'', secretName);
               (case s of
                  Inl e' \<Rightarrow> State_Monad.return (Some e')
                | Inr source \<Rightarrow> do {
                    c \<leftarrow> createSecret w \<lparr>s_Meta = emptyMeta\<lparr>Name := secretName, Namespace := targetNamespace,
                           Labels := [(''migration.io/mirrored-secret'', ''true'')]\<rparr>,
                           s_Data = s_Data source, s_Type = s_Type source\<rparr>;
                    State_Monad.return (case c of Inr _ \<Rightarrow> None | Inl e' \<Rightarrow> if isAlreadyExists e' then None else Some e')
                  })
             })
      })"

definition ShouldCreateCR :: "pod \<Rightarrow> bool" where
  "ShouldCreateCR p =
     (if mget (pAnnotations p) ''migration.io/create-cr'' = ''false'' then False
      else if mget (pAnnotations p) ''migration.io/create-cr'' = ''true'' then True
      else True)"

section \<open>Admission (\<open>pod_mutator.go\<close>)\<close>

datatype admission = Errored kerr | Allowed string | Patched pod

text \<open>The mutator's state is its cached configuration, which \<open>UpdateConfig\<close> replaces under the lock.\<close>

record podMutator =
  pm_Config :: webhookConfig

definition UpdateConfig :: "podMutator \<Rightarrow> webhookConfig \<Rightarrow> podMutator" where
  "UpdateConfig pm cfg = pm\<lparr>pm_Config := cfg\<rparr>"

definition effectiveConfig :: "world \<Rightarrow> webhookConfig \<Rightarrow> string \<Rightarrow> pod \<Rightarrow> webhookConfig option prog" where
  "effectiveConfig w config ns p =
     (let configName = mget (pAnnotations p) ''migration.io/config'' in
      if configName \<noteq> []
      then do {
        l \<leftarrow> LoadConfigFromNamedConfigMap w configName ns;
        (case l of
           Inr c \<Rightarrow> State_Monad.return (Some (MergeAnnotations c (pAnnotations p)))
         | Inl e \<Rightarrow> do {
             l2 \<leftarrow> LoadConfigFromNamedConfigMap w configName DefaultsConfigMapNamespace;
             State_Monad.return
               (case l2 of Inr c \<Rightarrow> Some (MergeAnnotations c (pAnnotations p)) | Inl e' \<Rightarrow> None)
           })
      }
      else State_Monad.return (Some (MergeAnnotations config (pAnnotations p))))"

text \<open>\<open>Handle\<close>; marshalling the mutated pod, which cannot fail for a decoded pod, is left out.\<close>

definition Handle :: "genv \<Rightarrow> world \<Rightarrow> podMutator \<Rightarrow> string \<Rightarrow> kerr + pod \<Rightarrow> admission prog" where
  "Handle getenv w pm ns decoded =
     (case decoded of
        Inl e \<Rightarrow> State_Monad.return (Errored e)
      | Inr p \<Rightarrow>
          if mget (pAnnotations p) ''migration.io/enabled'' \<noteq> ''true'' then State_Monad.return (Allowed ''not opted in'')
          else if mget (pLabels p) ''migration.io/injected'' = ''true'' then State_Monad.return (Allowed ''already injected'')
          else do {
            c \<leftarrow> effectiveConfig w (pm_Config pm) ns p;
            (case c of
               None \<Rightarrow> State_Monad.return (Allowed ''config not found, skipping injection'')
             | Some cfg \<Rightarrow>
                 let appName = AppNameFromPod p in do {
                   _ \<leftarrow> EnsureCredentialsSecret w (wc_CredentialsSecret cfg) ns;
                   _ \<leftarrow> (if ShouldCreateCR p then EnsureMigratableApp w p cfg appName ns else State_Monad.return None);
                   State_Monad.return (Patched (InjectSidecar getenv p cfg appName))
                 })
          })"

end
