(* ===== verification/WebhookProps.thy ===== *)
theory WebhookProps
  imports Webhook
begin

text \<open>
  Properties of the admission webhook, and of the pods the controller later builds from the
  resources the webhook created.
\<close>

section \<open>Admission\<close>

lemma InjectSidecar_enabled:
  "mget (pAnnotations (InjectSidecar getenv p cfg appName)) ''migration.io/enabled'' = mget (pAnnotations p) ''migration.io/enabled''"
  "mget (pLabels (InjectSidecar getenv p cfg appName)) ''migration.io/injected'' = ''true''"
  by (simp_all add: InjectSidecar_def Let_def split_beta mget_saveCommand split: option.splits)

lemma Handle_injected:
  "mget (pAnnotations p) ''migration.io/enabled'' = ''true'' \<Longrightarrow> mget (pLabels p) ''migration.io/injected'' = ''true'' \<Longrightarrow>
   Handle getenv w pm ns (Inr p) = State_Monad.return (Allowed ''already injected'')"
  by (simp add: Handle_def)

lemma io_post_effectiveConfig [io_rules]:
  assumes "\<And>r d. list_all (\<lambda>e. case e of EGetConfigMap k x \<Rightarrow> True | _ \<Rightarrow> False) d \<Longrightarrow> Q r d"
  shows "io_post (effectiveConfig w config ns p) Q"
  unfolding effectiveConfig_def LoadConfigFromNamedConfigMap_def Let_def
  by (auto intro!: io_rules assms)

lemma io_post_EnsureCredentialsSecret [io_rules]:
  assumes "\<And>r d. list_all (\<lambda>e. case e of EGetSecret k x \<Rightarrow> True | ECreateSecret s x \<Rightarrow> True | _ \<Rightarrow> False) d \<Longrightarrow> Q r d"
  shows "io_post (EnsureCredentialsSecret w n ns) Q"
  unfolding EnsureCredentialsSecret_def by (auto intro!: io_rules assms)

text \<open>
  C25. A pod is injected once: it is patched only if it opted in, and the patched pod, when it comes
  to the webhook again in whatever state the cluster is in, is admitted as it is, without a request.
\<close>

theorem injection_idempotent:
  "io_post (Handle getenv w pm ns (Inr p))
     (\<lambda>r d. case r of
        Patched p' \<Rightarrow> mget (pAnnotations p) ''migration.io/enabled'' = ''true'' \<and>
          Handle getenv' w' pm' ns' (Inr p') = State_Monad.return (Allowed ''already injected'')
      | _ \<Rightarrow> True)"
  unfolding Handle_def [of getenv w] EnsureMigratableApp_def Let_def
  by (auto intro!: io_rules Handle_injected simp: InjectSidecar_enabled)

section \<open>What the webhook creates\<close>

fun isCreateMapp :: "event \<Rightarrow> bool" where
  "isCreateMapp (ECreateMapp m r) = True"
| "isCreateMapp _ = False"

fun mappMissing :: "key \<Rightarrow> event \<Rightarrow> bool" where
  "mappMissing k (EGetMapp k' (Inl (NotFound s))) \<longleftrightarrow> k' = k"
| "mappMissing k _ \<longleftrightarrow> False"

text \<open>
  The webhook creates at most one resource for a pod, only after the API server has said
  that there is none, and the resource starts idle, is marked as managed by the webhook, migrates
  automatically and holds the containers of the pod from before the injection.
\<close>

theorem webhook_creates_resource_once:
  "io_post (EnsureMigratableApp w p cfg appName ns)
     (\<lambda>r d. guardedBy (mappMissing (ns, appName)) isCreateMapp d \<and> count isCreateMapp d \<le> 1 \<and>
        list_all (\<lambda>e. case e of
            ECreateMapp m x \<Rightarrow> mStage m = StageIdle \<and> mName m = appName \<and> mNamespace m = ns \<and>
              mget (Labels (m_Meta m)) ''migration.io/webhook-managed'' = ''true'' \<and>
              AutoMigrate (MigrationPolicy (Spec m)) \<and>
              map Command (Containers (t_Spec (Template (Spec m)))) =
                map Command (filter (\<lambda>c. c_Name c \<noteq> ''criu-agent'') (Containers (p_Spec p)))
          | _ \<Rightarrow> True) d)"
  unfolding EnsureMigratableApp_def
  by (auto intro!: io_rules simp: isNotFound_iff webhookMapp_def zeroStatus_def webhookSpec_def emptyMigration_def
      buildOriginalPodSpec_def emptyPodSpec_def cleanMounts_def mget_def o_def)

text \<open>The mounts of a container survive the changes of the pod builder.\<close>

lemma modifyApp_mounts: "set (VolumeMounts c) \<subseteq> set (VolumeMounts (fst (modifyApp c ann)))"
  by (auto simp: modifyApp_def Let_def)

lemma modifyContainers_mounts:
  "c \<in> set cs \<Longrightarrow> \<exists>c' \<in> set (fst (modifyContainers i cs ann)). set (VolumeMounts c) \<subseteq> set (VolumeMounts c')"
proof (induction cs arbitrary: i ann)
  case (Cons a cs)
  show ?case
  proof (cases "c = a")
    case True
    then show ?thesis using modifyApp_mounts [of a ann] by (auto simp: split_beta Let_def)
  next
    case False
    with Cons.prems have "c \<in> set cs" by simp
    from Cons.IH [OF this] show ?thesis by (auto simp: split_beta Let_def)
  qed
qed simp

text \<open>
  A pod with a volume of its own cannot be migrated through the webhook: the resource keeps the
  mount of the volume but not the volume, so every pod that the controller builds from it mounts
  a volume that it does not have.
\<close>

theorem webhook_drops_volumes:
  assumes "c \<in> set (Containers (p_Spec p))" and "c_Name c \<noteq> ''criu-agent''" and "vm \<in> set (VolumeMounts c)"
    and "vm_Name vm \<notin> {''checkpoints'', ''podinfo''}" and "\<not> hasPrefix (vm_Name vm) ''kube-api-access-''"
  shows "\<exists>c' \<in> set (Containers (p_Spec (buildBasePod getenv (builderFor (webhookMapp p cfg appName ns) cred) g mode))).
     vm \<in> set (VolumeMounts c') \<and>
     vm_Name vm \<notin> v_Name ` set (Volumes (p_Spec (buildBasePod getenv (builderFor (webhookMapp p cfg appName ns) cred) g mode)))"
proof -
  let ?m = "webhookMapp p cfg appName ns"
  have tmpl: "t_Spec (Template (Spec ?m)) = buildOriginalPodSpec p"
    by (simp add: webhookMapp_def webhookSpec_def)
  have vols: "Volumes (buildOriginalPodSpec p) = []"
    by (simp add: buildOriginalPodSpec_def emptyPodSpec_def)
  have "cleanMounts c \<in> set (Containers (buildOriginalPodSpec p))"
    using assms(1,2) by (simp add: buildOriginalPodSpec_def emptyPodSpec_def)
  from modifyContainers_mounts [OF this, of 0 "Annotations (baseMeta ?m g mode)"]
  obtain c' where "c' \<in> set (fst (modifyContainers 0 (Containers (buildOriginalPodSpec p)) (Annotations (baseMeta ?m g mode))))"
    and "set (VolumeMounts (cleanMounts c)) \<subseteq> set (VolumeMounts c')" by blast
  moreover have "vm \<in> set (VolumeMounts (cleanMounts c))"
    using assms(3,4,5) by (simp add: cleanMounts_def)
  ultimately show ?thesis
    using assms(4) by (intro bexI [of _ c']) (auto simp: buildBasePod_spec tmpl vols agentVolumes_def)
qed

definition dataPod :: pod where
  "dataPod = (examplePod ''db'' ''node-a'' ''10.0.0.3'' 1)\<lparr>p_Spec := emptyPodSpec\<lparr>
     Containers := [exampleContainer\<lparr>VolumeMounts := [\<lparr>vm_Name = ''data'', MountPath = ''/var/lib/db'', vm_ReadOnly = False\<rparr>]\<rparr>],
     Volumes := [\<lparr>v_Name = ''data'', v_Source = OtherSource ''pvc''\<rparr>]\<rparr>\<rparr>"

theorem webhook_drops_volumes_witness:
  "\<exists>c' \<in> set (Containers (p_Spec (buildBasePod (\<lambda>_. []) (builderFor (webhookMapp dataPod DefaultWebhookConfig ''db'' ''default'')
       (Inl (OtherErr []))) 1 ''restore''))).
     \<lparr>vm_Name = ''data'', MountPath = ''/var/lib/db'', vm_ReadOnly = False\<rparr> \<in> set (VolumeMounts c')"
  using webhook_drops_volumes [of "exampleContainer\<lparr>VolumeMounts := [\<lparr>vm_Name = ''data'', MountPath = ''/var/lib/db'', vm_ReadOnly = False\<rparr>]\<rparr>"
      dataPod "\<lparr>vm_Name = ''data'', MountPath = ''/var/lib/db'', vm_ReadOnly = False\<rparr>"
      "\<lambda>_. []" DefaultWebhookConfig "''db''" "''default''" "Inl (OtherErr [])" 1 "''restore''"]
  by (auto simp: dataPod_def exampleContainer_def emptyContainer_def emptyPodSpec_def)

section \<open>Names\<close>

text \<open>
  The pods of one Deployment belong to one application: for a Deployment whose name has at
  least two words, the name that the ReplicaSet gives to its pods leads back to the Deployment, whatever
  the hash of the ReplicaSet is.
\<close>

theorem deployment_name_recovered:
  assumes "length ws \<ge> 2" and "\<forall>x \<in> set ws. CHR ''-'' \<notin> set x"
    and "5 \<le> length h" and "length h \<le> 10" and "isAlphanumeric h"
    and "mget (pAnnotations p) ''migration.io/app-name'' = []"
    and "GenerateName (p_Meta p) = join ''-'' ws @ ''-'' @ h @ ''-''"
  shows "AppNameFromPod p = join ''-'' ws"
proof -
  have h: "CHR ''-'' \<notin> set h"
    using assms(5) by (auto simp: isAlphanumeric_def list_all_iff is_digit_def)
  from assms(1) have ws: "ws \<noteq> []" by auto
  have join: "join ''-'' ws @ ''-'' @ h = join ''-'' (ws @ [h])"
    using ws by (simp add: join_snoc)
  have "split ''-'' (join ''-'' (ws @ [h])) = ws @ [h]"
    using assms(2) h by (intro split_join) auto
  moreover have "trimSuffix (join ''-'' ws @ ''-'' @ h @ ''-'') ''-'' = join ''-'' ws @ ''-'' @ h"
    using trimSuffix_append [of "join ''-'' ws @ ''-'' @ h" "''-''"] by simp
  ultimately show ?thesis
    using assms(1,3-7) join by (simp add: AppNameFromPod_def stripHash_def)
qed

definition deploymentPod :: "string \<Rightarrow> pod" where
  "deploymentPod generateName = (examplePod [] [] [] 0)\<lparr>p_Meta := emptyMeta\<lparr>GenerateName := generateName\<rparr>\<rparr>"

theorem deployment_name_recovered_witness: "AppNameFromPod (deploymentPod ''my-app-6f7b8c9d-'') = ''my-app''"
proof -
  have "AppNameFromPod (deploymentPod ''my-app-6f7b8c9d-'') = join ''-'' [''my'', ''app'']"
    by (rule deployment_name_recovered [where h = "''6f7b8c9d''"])
       (auto simp: deploymentPod_def emptyMeta_def isAlphanumeric_def is_digit_def)
  then show ?thesis by simp
qed

text \<open>
  Other names are mistaken: the pods of a Deployment with a one-word name belong to a new
  application after every rollout, and two StatefulSets whose names differ in the last word only
  belong to the same application.
\<close>

lemma app_names_mistaken:
  "AppNameFromPod (deploymentPod ''redis-6f7b8c9d-'') = ''redis-6f7b8c9d'' \<and>
   AppNameFromPod (deploymentPod ''redis-5d4c3b2a-'') = ''redis-5d4c3b2a'' \<and>
   AppNameFromPod (deploymentPod ''my-cache-store-'') = ''my-cache'' \<and>
   AppNameFromPod (deploymentPod ''my-cache-queue-'') = ''my-cache''"
  by code_simp

end
