(* ===== verification/Monitor.thy ===== *)
theory Monitor
  imports WebhookProps
begin

text \<open>
  \<open>pkg/monitor/spot_monitor.go\<close>: the monitor that runs on every node, asks the instance metadata
  service for an interruption notice, cordons the node and marks its pods for migration. Its
  annotations are what the controller's trigger reads.
\<close>

section \<open>Detection\<close>

definition spotTerminationEndpoint :: string where
  "spotTerminationEndpoint = ''http://169.254.169.254/latest/meta-data/spot/instance-action''"

definition gcpPreemptibleEndpoint :: string where
  "gcpPreemptibleEndpoint = ''http://metadata.google.internal/computeMetadata/v1/instance/preempted''"

definition azureSpotEndpoint :: string where
  "azureSpotEndpoint = ''http://169.254.169.254/metadata/scheduledevents?api-version=2020-07-01''"

record azureEvent =
  EventType :: string
  EventID :: string

text \<open>
  The monitor. The client of the log service is present or not; decoding the JSON answer of Azure is a
  function \<open>sm_unmarshal\<close>, which gives the events or an error.
\<close>

record spotMonitor =
  nodeName :: string
  cloudType :: string
  checkInterval :: duration
  sm_Enabled :: bool
  logsClient :: bool
  sm_unmarshal :: "string \<Rightarrow> azureEvent list option"

definition NewSpotMonitor :: "(string \<Rightarrow> azureEvent list option) \<Rightarrow> bool \<Rightarrow> string \<Rightarrow> string \<Rightarrow> spotMonitor" where
  "NewSpotMonitor unmarshal logs node cloud =
     \<lparr>nodeName = node, cloudType = cloud, checkInterval = 1 * second, sm_Enabled = True, logsClient = logs,
      sm_unmarshal = unmarshal\<rparr>"

definition NewSpotMonitorWithConfig ::
  "(string \<Rightarrow> azureEvent list option) \<Rightarrow> bool \<Rightarrow> string \<Rightarrow> string \<Rightarrow> bool \<Rightarrow> duration \<Rightarrow> spotMonitor" where
  "NewSpotMonitorWithConfig unmarshal logs node cloud enabled interval =
     \<lparr>nodeName = node, cloudType = cloud, checkInterval = (if interval \<le> 0 then 1 * second else interval),
      sm_Enabled = enabled, logsClient = logs, sm_unmarshal = unmarshal\<rparr>"

definition getIMDSv2Token :: "world \<Rightarrow> (kerr + string) prog" where
  "getIMDSv2Token w = do {
     r \<leftarrow> httpDo w ''PUT'' ''http://169.254.169.254/latest/api/token'' [(''X-aws-ec2-metadata-token-ttl-seconds'', ''21600'')];
     State_Monad.return (case r of Inl e \<Rightarrow> Inl e | Inr resp \<Rightarrow> Body resp)
   }"

definition checkAWSSpotInterruption :: "world \<Rightarrow> (kerr + bool) prog" where
  "checkAWSSpotInterruption w = do {
     t \<leftarrow> getIMDSv2Token w;
     let token = (case t of Inl e \<Rightarrow> [] | Inr s \<Rightarrow> s);
     r \<leftarrow> httpDo w ''GET'' spotTerminationEndpoint (if token \<noteq> [] then [(''X-aws-ec2-metadata-token'', token)] else []);
     State_Monad.return (case r of Inl e \<Rightarrow> Inr False | Inr resp \<Rightarrow> Inr (StatusCode resp = 200))
   }"

definition checkGCPPreemption :: "world \<Rightarrow> (kerr + bool) prog" where
  "checkGCPPreemption w = do {
     r \<leftarrow> httpDo w ''GET'' gcpPreemptibleEndpoint [(''Metadata-Flavor'', ''Google'')];
     State_Monad.return
       (case r of Inl e \<Rightarrow> Inr False
        | Inr resp \<Rightarrow> (case Body resp of Inl e \<Rightarrow> Inl e | Inr body \<Rightarrow> Inr (body = ''TRUE'')))
   }"

definition parseAzureScheduledEvents :: "spotMonitor \<Rightarrow> string \<Rightarrow> bool" where
  "parseAzureScheduledEvents m body =
     (if body = [] then False
      else case sm_unmarshal m body of
        None \<Rightarrow> False
      | Some evs \<Rightarrow> list_ex (\<lambda>e. EventType e = ''Terminate'' \<or> EventType e = ''Preempt'') evs)"

definition checkAzureSpotInterruption :: "world \<Rightarrow> spotMonitor \<Rightarrow> (kerr + bool) prog" where
  "checkAzureSpotInterruption w m = do {
     r \<leftarrow> httpDo w ''GET'' azureSpotEndpoint [(''Metadata'', ''true'')];
     State_Monad.return
       (case r of Inl e \<Rightarrow> Inr False
        | Inr resp \<Rightarrow> (case Body resp of Inl e \<Rightarrow> Inl e | Inr body \<Rightarrow> Inr (parseAzureScheduledEvents m body)))
   }"

text \<open>With an unknown cloud all three are asked in turn, and errors count as no interruption.\<close>

definition checkSpotInterruption :: "world \<Rightarrow> spotMonitor \<Rightarrow> (kerr + bool) prog" where
  "checkSpotInterruption w m =
     (if cloudType m = ''aws'' then checkAWSSpotInterruption w
      else if cloudType m = ''gcp'' then checkGCPPreemption w
      else if cloudType m = ''azure'' then checkAzureSpotInterruption w m
      else do {
        a \<leftarrow> checkAWSSpotInterruption w;
        (if a = Inr True then State_Monad.return (Inr True)
         else do {
           g \<leftarrow> checkGCPPreemption w;
           (if g = Inr True then State_Monad.return (Inr True)
            else do {
              z \<leftarrow> checkAzureSpotInterruption w m;
              State_Monad.return (Inr (z = Inr True))
            })
         })
      })"

section \<open>Reaction\<close>

text \<open>The annotations that ask for a migration.\<close>

definition markPod :: "string \<Rightarrow> pod \<Rightarrow> pod" where
  "markPod timestamp p =
     annotate ''migration.io/detection-timestamp'' timestamp
       (annotate ''migration.io/detection-method'' ''imds''
         (annotate ''migration.io/reason'' ''spot-interrupt''
           (annotate ''migration.io/trigger'' ''requested'' p)))"

definition skipsPod :: "pod \<Rightarrow> bool" where
  "skipsPod p \<longleftrightarrow> terminating p \<or> mget (pAnnotations p) ''migration.io/trigger'' = ''requested''"

definition cordonNode :: "world \<Rightarrow> spotMonitor \<Rightarrow> kerr option prog" where
  "cordonNode w m = do {
     g \<leftarrow> getNode w (nodeName m);
     (case g of
        Inl e \<Rightarrow> State_Monad.return (Some (wrapErr ''failed to get node: '' e))
      | Inr n \<Rightarrow>
          if \<not> Unschedulable n
          then do {
            u \<leftarrow> updateNode w (n\<lparr>Unschedulable := True\<rparr>);
            State_Monad.return (case u of Inl e \<Rightarrow> Some (wrapErr ''failed to mark node unschedulable: '' e) | Inr _ \<Rightarrow> None)
          }
          else State_Monad.return None)
   }"

definition managedSelector :: smap where
  "managedSelector = [(''app.kubernetes.io/managed-by'', ''migration-controller'')]"

definition handleSpotInterruption :: "world \<Rightarrow> spotMonitor \<Rightarrow> kerr option prog" where
  "handleSpotInterruption w m = do {
     err \<leftarrow> cordonNode w m;
     (case err of
        Some e \<Rightarrow> State_Monad.return (Some e)
      | None \<Rightarrow> do {
          l \<leftarrow> listPodsOnNode w (nodeName m) managedSelector;
          (case l of
             Inl e \<Rightarrow> State_Monad.return (Some (wrapErr ''failed to list pods: '' e))
           | Inr ps \<Rightarrow> do {
               n \<leftarrow> now w;
               forEach ps (\<lambda>p. if skipsPod p then State_Monad.return ()
                               else do { _ \<leftarrow> updatePod w (markPod (format_rfc3339 n) p); State_Monad.return () });
               State_Monad.return None
             })
        })
   }"

definition logGroupName :: string where "logGroupName = ''jglee-spot-checker-multnode-log''"

definition logStreamName :: string where "logStreamName = ''imds-monitor''"

definition ensureLogGroupAndStream :: "world \<Rightarrow> spotMonitor \<Rightarrow> unit prog" where
  "ensureLogGroupAndStream w m =
     (if \<not> logsClient m then State_Monad.return ()
      else do {
        _ \<leftarrow> putLog w (''CreateLogGroup '' @ logGroupName);
        _ \<leftarrow> putLog w (''CreateLogStream '' @ logGroupName @ '' '' @ logStreamName);
        State_Monad.return ()
      })"

definition logToCloudWatch :: "world \<Rightarrow> spotMonitor \<Rightarrow> string \<Rightarrow> unit prog" where
  "logToCloudWatch w m message =
     (if \<not> logsClient m then State_Monad.return ()
      else do {
        ensureLogGroupAndStream w m;
        n \<leftarrow> now w;
        _ \<leftarrow> putLog w (''PutLogEvents '' @ itoa ((n div second) * 1000) @ '' '' @ message);
        State_Monad.return ()
      })"

text \<open>One tick of the loop of \<open>Start\<close>; the result says that the monitor is finished.\<close>

definition monitorTick :: "world \<Rightarrow> spotMonitor \<Rightarrow> bool prog" where
  "monitorTick w m = do {
     _ \<leftarrow> sleep (checkInterval m);
     r \<leftarrow> checkSpotInterruption w m;
     (case r of
        Inl e \<Rightarrow> State_Monad.return False
      | Inr interrupted \<Rightarrow>
          if interrupted
          then do {
            logToCloudWatch w m (''Spot interruption detected on node: '' @ nodeName m);
            err \<leftarrow> handleSpotInterruption w m;
            State_Monad.return (err = None)
          }
          else State_Monad.return False)
   }"

text \<open>The loop, for as many ticks as the context lasts.\<close>

fun monitorTicks :: "world \<Rightarrow> spotMonitor \<Rightarrow> nat \<Rightarrow> bool prog" where
  "monitorTicks w m 0 = State_Monad.return False"
| "monitorTicks w m (Suc n) = do {
     finished \<leftarrow> monitorTick w m;
     (if finished then State_Monad.return True else monitorTicks w m n)
   }"

definition monitorStart :: "world \<Rightarrow> spotMonitor \<Rightarrow> nat \<Rightarrow> bool prog" where
  "monitorStart w m n = (if \<not> sm_Enabled m then State_Monad.return True else monitorTicks w m n)"

section \<open>Properties\<close>

fun isUpdatePod :: "event \<Rightarrow> bool" where
  "isUpdatePod (EUpdatePod p r) = True"
| "isUpdatePod _ = False"

fun cordons :: "string \<Rightarrow> event \<Rightarrow> bool" where
  "cordons n (EGetNode k (Inr nd)) \<longleftrightarrow> k = n \<and> Unschedulable nd"
| "cordons n (EUpdateNode nd (Inr x)) \<longleftrightarrow> Unschedulable nd"
| "cordons n _ \<longleftrightarrow> False"

definition updatedPods :: "event list \<Rightarrow> pod list" where
  "updatedPods d = List.map_filter (\<lambda>e. case e of EUpdatePod p r \<Rightarrow> Some p | _ \<Rightarrow> None) d"

lemma updatedPods_simps [simp]:
  "updatedPods [] = []" "updatedPods (EUpdatePod p r # d) = p # updatedPods d"
  "\<not> isUpdatePod e \<Longrightarrow> updatedPods (e # d) = updatedPods d"
  "updatedPods (d @ d') = updatedPods d @ updatedPods d'"
  by (auto simp: updatedPods_def List.map_filter_def split: event.splits)

lemma mark_loop:
  "io_post (forEach ps (\<lambda>p. if skipsPod p then State_Monad.return ()
       else do { _ \<leftarrow> updatePod w (markPod stamp p); State_Monad.return () }))
     (\<lambda>r d. updatedPods d = map (markPod stamp) (filter (\<lambda>p. \<not> skipsPod p) ps))"
proof (induction ps)
  case Nil
  show ?case by (auto intro!: io_rules)
next
  case (Cons p ps)
  show ?case by (auto intro!: io_rules io_post_mono [OF Cons])
qed


lemma markPod_annotations:
  "mget (pAnnotations (markPod stamp p)) ''migration.io/trigger'' = ''requested''"
  "mget (pAnnotations (markPod stamp p)) ''migration.io/reason'' = ''spot-interrupt''"
  "k \<notin> {''migration.io/trigger'', ''migration.io/reason'', ''migration.io/detection-method'', ''migration.io/detection-timestamp''} \<Longrightarrow>
   mget (pAnnotations (markPod stamp p)) k = mget (pAnnotations p) k"
  by (simp_all add: markPod_def)

text \<open>
  A mark of the monitor is a trigger for the controller: for an idle resource that migrates
  automatically the marked pod gives a migration with the reason spot-interrupt, without reading the
  node; and the monitor skips the pod from then on.
\<close>

theorem mark_triggers_migration:
  assumes "mStage m = StageIdle" and "AutoMigrate (MigrationPolicy (Spec m))"
  shows "needsMigration w m (markPod stamp p) = State_Monad.return (Some ''spot-interrupt'') \<and> skipsPod (markPod stamp p)"
  using assms by (simp add: needsMigration_def skipsPod_def markPod_annotations)

theorem mark_triggers_migration_witness:
  "outcome (needsMigration (downWorld 0) exampleApp (markPod ''now'' (examplePod ''redis'' ''node-a'' ''10.0.0.1'' 1))) = Some ''spot-interrupt''"
  using mark_triggers_migration [of exampleApp "downWorld 0" "''now''" "examplePod ''redis'' ''node-a'' ''10.0.0.1'' 1"]
  by (simp add: outcome_def run_return example_defs)

text \<open>An answer of a metadata service that announces an interruption.\<close>

definition announces :: "spotMonitor \<Rightarrow> string \<Rightarrow> string \<Rightarrow> httpResponse \<Rightarrow> bool" where
  "announces m meth url resp \<longleftrightarrow>
     (meth = ''GET'' \<and> url = spotTerminationEndpoint \<and> StatusCode resp = 200) \<or>
     (url = gcpPreemptibleEndpoint \<and> Body resp = Inr ''TRUE'') \<or>
     (url = azureSpotEndpoint \<and> (case Body resp of Inl e \<Rightarrow> False | Inr b \<Rightarrow> parseAzureScheduledEvents m b))"

fun announcement :: "spotMonitor \<Rightarrow> event \<Rightarrow> bool" where
  "announcement m (EHttp meth url hs r) = (case r of Inl e \<Rightarrow> False | Inr resp \<Rightarrow> announces m meth url resp)"
| "announcement m _ = False"

lemma announces_simps:
  "\<not> announces m ''PUT'' ''http://169.254.169.254/latest/api/token'' resp"
  "announces m ''GET'' spotTerminationEndpoint resp \<longleftrightarrow> StatusCode resp = 200"
  "announces m ''GET'' gcpPreemptibleEndpoint resp \<longleftrightarrow> Body resp = Inr ''TRUE''"
  "announces m ''GET'' azureSpotEndpoint resp \<longleftrightarrow> (case Body resp of Inl e \<Rightarrow> False | Inr b \<Rightarrow> parseAzureScheduledEvents m b)"
  by (auto simp: announces_def spotTerminationEndpoint_def gcpPreemptibleEndpoint_def azureSpotEndpoint_def)

lemma check_posts:
  "(\<And>r d. (r = Inr True) = list_ex (announcement m) d \<Longrightarrow> Q r d) \<Longrightarrow> io_post (checkAWSSpotInterruption w) Q"
  "(\<And>r d. (r = Inr True) = list_ex (announcement m) d \<Longrightarrow> Q r d) \<Longrightarrow> io_post (checkGCPPreemption w) Q"
  "(\<And>r d. (r = Inr True) = list_ex (announcement m) d \<Longrightarrow> Q r d) \<Longrightarrow> io_post (checkAzureSpotInterruption w m) Q"
  unfolding checkAWSSpotInterruption_def checkGCPPreemption_def checkAzureSpotInterruption_def getIMDSv2Token_def Let_def
  by (intro io_rules, simp add: announces_simps split: sum.splits)+

text \<open>
  With an unknown cloud an interruption is reported exactly if one of the three services
  announces it, and no error is.
\<close>

theorem unknown_cloud_checks_all:
  assumes "cloudType m \<notin> {''aws'', ''gcp'', ''azure''}"
  shows "io_post (checkSpotInterruption w m) (\<lambda>r d. r = Inr (list_ex (announcement m) d))"
  using assms unfolding checkSpotInterruption_def
  by (auto intro!: io_rules check_posts [of m])

theorem unknown_cloud_checks_all_witness:
  "outcome (checkSpotInterruption (downWorld 0) (NewSpotMonitor (\<lambda>_. None) False ''node-a'' ''metal'')) =
   Inr (list_ex (announcement (NewSpotMonitor (\<lambda>_. None) False ''node-a'' ''metal''))
     (events (checkSpotInterruption (downWorld 0) (NewSpotMonitor (\<lambda>_. None) False ''node-a'' ''metal''))))"
  using io_post_run [OF unknown_cloud_checks_all [of "NewSpotMonitor (\<lambda>_. None) False ''node-a'' ''metal''" "downWorld 0"]]
  by (simp add: NewSpotMonitor_def)

end
