(* ===== verification/PodProps.thy ===== *)
theory PodProps
  imports PodBuilder Examples
begin

text \<open>
  What the pods of \<open>pkg/controller/pod_builder.go\<close> promise to the scheduler of the cluster, to the agent and to the
  controller that finds them again.
\<close>

lemma baseMeta_annotations:
  "mget (Annotations (baseMeta m g mode)) ''migration.io/app'' = mName m"
  "mget (Annotations (baseMeta m g mode)) ''migration.io/mode'' = mode"
  "mget (Annotations (baseMeta m g mode)) ''migration.io/generation'' = itoa g"
  by (simp_all add: baseMeta_def Let_def)

lemma buildBasePod_selected:
  "matches [(''migration.io/app'', mName (pb_mapp b))] (pLabels (buildBasePod getenv b g mode))"
  by (simp add: matches_def buildBasePod_meta baseMeta_Labels map_of_mput)

lemma BuildRestorePod_parts:
  "pLabels (BuildRestorePod getenv b g ck node pre ip) = pLabels (buildBasePod getenv b g ''restore'')"
  "pAnnotations (BuildRestorePod getenv b g ck node pre ip) =
     mput ''migration.io/source-pod-ip'' ip (mput ''migration.io/s3-prefix'' pre (mput ''migration.io/source-node'' node
       (mput ''migration.io/checkpoint-id'' ck (pAnnotations (buildBasePod getenv b g ''restore'')))))"
  "Containers (p_Spec (BuildRestorePod getenv b g ck node pre ip)) =
     Containers (p_Spec (buildBasePod getenv b g ''restore''))"
  "ShareProcessNamespace (p_Spec (BuildRestorePod getenv b g ck node pre ip)) = Some True"
  "Affinity (p_Spec (BuildRestorePod getenv b g ck node pre ip)) =
     Some (restoreAffinity (pb_mapp b) (Affinity (p_Spec (buildBasePod getenv b g ''restore''))))"
  by (simp_all add: BuildRestorePod_def Let_def buildBasePod_spec)

lemma restoreAffinity_anti:
  "PodAntiAffinityRequired (restoreAffinity m aff) =
     Some [([(''migration.io/app'', mName m)], ''kubernetes.io/hostname'')]"
  by (simp add: restoreAffinity_def Let_def)

text \<open>
  C33. A restore pod cannot land next to its source: its required anti-affinity excludes every node that runs a pod
  which the builder made for the same application, in whatever mode and generation, and the restore
  pod itself carries the label by which the controller finds it.
\<close>

theorem restore_pod_avoids_source:
  "(case Affinity (p_Spec (BuildRestorePod getenv b g ck node pre ip)) of
      None \<Rightarrow> False
    | Some a \<Rightarrow> (case PodAntiAffinityRequired a of
         Some [(sel, topology)] \<Rightarrow> topology = ''kubernetes.io/hostname'' \<and>
           matches sel (pLabels (buildBasePod getenv' (b'\<lparr>pb_mapp := pb_mapp b\<rparr>) g' mode'))
       | _ \<Rightarrow> False)) \<and>
   matches [(''migration.io/app'', mName (pb_mapp b))] (pLabels (BuildRestorePod getenv b g ck node pre ip))"
  using buildBasePod_selected [of "b'\<lparr>pb_mapp := pb_mapp b\<rparr>" getenv' g' mode'] buildBasePod_selected [of b getenv g "''restore''"]
  by (simp add: BuildRestorePod_parts restoreAffinity_anti)

text \<open>
  A restore pod carries everything its agent needs: the checkpoint, the prefix of its files, the node and the address of
  the source, the mode and a generation that reads back as the number it was built with; its process namespace is shared,
  and its last container is the agent, started in restore mode.
\<close>

theorem restore_pod_carries_migration:
  assumes "int64_min \<le> g" and "g \<le> int64_max"
  shows "let p = BuildRestorePod getenv b g ck node pre ip; a = mget (pAnnotations p); agent = last (Containers (p_Spec p)) in
     a ''migration.io/checkpoint-id'' = ck \<and> a ''migration.io/s3-prefix'' = pre \<and> a ''migration.io/source-node'' = node \<and>
     a ''migration.io/source-pod-ip'' = ip \<and> a ''migration.io/mode'' = ''restore'' \<and>
     atoi (a ''migration.io/generation'') = Some g \<and>
     ShareProcessNamespace (p_Spec p) = Some True \<and> c_Name agent = ''criu-agent'' \<and> Args agent = [''--mode=restore'']"
  using itoa_codec.dec_enc [of g] assms
  by (simp add: Let_def BuildRestorePod_parts buildBasePod_annotations baseMeta_annotations buildBasePod_spec
      BuildAgentContainer_def)

theorem restore_pod_carries_migration_witness:
  "mget (pAnnotations (BuildRestorePod (\<lambda>_. []) (NewPodBuilder exampleApp) 3 ''d1'' ''node-a'' ''redis/2/node-a/d1'' ''10.0.0.1''))
     ''migration.io/checkpoint-id'' = ''d1'' \<and>
   atoi (mget (pAnnotations (BuildRestorePod (\<lambda>_. []) (NewPodBuilder exampleApp) 3 ''d1'' ''node-a'' ''redis/2/node-a/d1'' ''10.0.0.1''))
     ''migration.io/generation'') = Some 3"
  using restore_pod_carries_migration [of 3 "\<lambda>_. []" "NewPodBuilder exampleApp" "''d1''" "''node-a''" "''redis/2/node-a/d1''" "''10.0.0.1''"]
  by (simp add: Let_def int64_min_def int64_max_def)

text \<open>
  Two containers with one name: when a container other than the first is called app, the pod has two containers called app,
  which the API server refuses.
\<close>

lemma app_name_duplicated:
  assumes "Containers (t_Spec (Template (Spec (pb_mapp b)))) = c # cs" and "''app'' \<in> c_Name ` set cs"
  shows "\<not> distinct (map c_Name (Containers (p_Spec (buildBasePod getenv b g mode))))"
proof -
  have "map c_Name (Containers (p_Spec (buildBasePod getenv b g mode))) = (''app'' # map c_Name cs) @ [''criu-agent'']"
    by (simp add: buildBasePod_spec assms(1) modifyContainers_names0 BuildAgentContainer_def del: modifyContainers.simps)
  then show ?thesis using assms(2) by simp
qed

end
