(* ===== verification/Scan.thy ===== *)
theory Scan
  imports Prelude "HOL-Library.Word"
begin

text \<open>
  \<open>pkg/profiler\<close>: memory areas (\<open>types.go\<close>, \<open>vma.go\<close>) and the count of dirty pages per area and per
  four-megabyte chunk (\<open>scan.go\<close>). Addresses are natural numbers below \<open>2 ^ 64\<close> with the unsigned
  subtraction written out; a chunk counter is a 16-bit word. The kernel's answer to a scan request is a parameter.
\<close>

section \<open>Areas\<close>

definition pageSize :: nat where "pageSize = 4096"

datatype vmaType = VMAHeap | VMAStack | VMAAnonymous | VMACode | VMAData | VMAVDSO | VMAUnknown

fun vmaTypeString :: "vmaType \<Rightarrow> string" where
  "vmaTypeString VMAHeap = ''heap''"
| "vmaTypeString VMAStack = ''stack''"
| "vmaTypeString VMAAnonymous = ''anonymous''"
| "vmaTypeString VMACode = ''code''"
| "vmaTypeString VMAData = ''data''"
| "vmaTypeString VMAVDSO = ''vdso''"
| "vmaTypeString VMAUnknown = ''unknown''"

record vmaInfo =
  Start :: nat
  End :: nat
  Perms :: string
  Pathname :: string
  vma_Type :: vmaType

definition IsWritable :: "vmaInfo \<Rightarrow> bool" where
  "IsWritable v \<longleftrightarrow> list_ex (\<lambda>c. c = CHR ''w'') (Perms v)"

definition IsPrivate :: "vmaInfo \<Rightarrow> bool" where
  "IsPrivate v \<longleftrightarrow> list_ex (\<lambda>c. c = CHR ''p'') (Perms v)"

definition IsWritableAnonymous :: "vmaInfo \<Rightarrow> bool" where
  "IsWritableAnonymous v \<longleftrightarrow> IsWritable v \<and> IsPrivate v \<and> vma_Type v \<noteq> VMAVDSO"

text \<open>Subtraction of \<open>uint64\<close>.\<close>

definition sub64 :: "nat \<Rightarrow> nat \<Rightarrow> nat" where
  "sub64 a b = (a + 2 ^ 64 - b) mod 2 ^ 64"

definition Pages :: "vmaInfo \<Rightarrow> nat" where
  "Pages v = sub64 (End v) (Start v) div pageSize"

record addrRange =
  ar_Start :: nat
  ar_End :: nat

definition classifyVMA :: "string \<Rightarrow> string \<Rightarrow> vmaType" where
  "classifyVMA pathname perms =
     (if pathname = ''[heap]'' then VMAHeap
      else if pathname = ''[stack]'' then VMAStack
      else if pathname = ''[vdso]'' \<or> pathname = ''[vvar]'' \<or> pathname = ''[vsyscall]'' then VMAVDSO
      else if pathname \<noteq> [] \<and> hd pathname = CHR ''/'' then (if str_contains perms ''x'' then VMACode else VMAData)
      else if pathname = [] then VMAAnonymous
      else VMAUnknown)"

definition writableAnonymousVMAs :: "vmaInfo list \<Rightarrow> vmaInfo list" where
  "writableAnonymousVMAs vmas = filter IsWritableAnonymous vmas"

text \<open>\<open>regSet\<close> maps a start to the end registered last for it.\<close>

definition diffVMAs :: "vmaInfo list \<Rightarrow> addrRange list \<Rightarrow> vmaInfo list" where
  "diffVMAs current registered =
     (let regSet = foldl (\<lambda>m r. m(ar_Start r \<mapsto> ar_End r)) Map.empty registered in
      filter (\<lambda>v. IsWritableAnonymous v \<and> regSet (Start v) \<noteq> Some (End v)) current)"

definition calcWritableVMABytes :: "vmaInfo list \<Rightarrow> nat" where
  "calcWritableVMABytes vmas = sum_list (map (\<lambda>v. sub64 (End v) (Start v)) (filter IsWritable vmas))"

section \<open>Chunks\<close>

definition chunkBytes :: nat where "chunkBytes = 4 * 1024 * 1024"

definition vmaChunkCount :: "nat \<Rightarrow> nat \<Rightarrow> nat" where
  "vmaChunkCount start end = ((sub64 end start + chunkBytes - 1) mod 2 ^ 64) div chunkBytes"

record pageRegion =
  pr_Start :: nat
  pr_End :: nat

record scanResult =
  VMAStart :: nat
  VMAEnd :: nat
  DirtyPages :: int
  TotalPages :: nat
  sr_VMAType :: vmaType
  sr_Pathname :: string
  ChunkDirty :: "16 word list"

text \<open>\<open>chunkDirty[ci]++\<close> with its guards: the index in range and the counter below its maximum.\<close>

definition bump :: "nat \<Rightarrow> 16 word list \<Rightarrow> 16 word list" where
  "bump ci cd = (if ci < length cd \<and> cd ! ci < 65535 then cd[ci := cd ! ci + 1] else cd)"

text \<open>The loop over the pages of one region; it ends because the address grows towards the end.\<close>

function pageAddrs :: "nat \<Rightarrow> nat \<Rightarrow> nat list" where
  "pageAddrs addr end = (if addr < end then addr # pageAddrs (addr + pageSize) end else [])"
  by pat_completeness auto
termination
  by (relation "measure (\<lambda>(addr, end). end - addr)") (auto simp: pageSize_def)

declare pageAddrs.simps [simp del]

definition chunkIndex :: "nat \<Rightarrow> nat \<Rightarrow> nat" where
  "chunkIndex start addr = sub64 addr start div chunkBytes"

definition countRegion :: "nat \<Rightarrow> 16 word list \<Rightarrow> pageRegion \<Rightarrow> 16 word list" where
  "countRegion start cd r = foldl (\<lambda>cd a. bump (chunkIndex start a) cd) cd (pageAddrs (pr_Start r) (pr_End r))"

text \<open>The conversion of a \<open>uint64\<close> to \<open>int64\<close>, and Go's division, which truncates towards zero.\<close>

definition int64_of :: "nat \<Rightarrow> int" where
  "int64_of n = (if n < 2 ^ 63 then int n else int n - 2 ^ 64)"

definition regionPages :: "pageRegion \<Rightarrow> int" where
  "regionPages r =
     (let n = int64_of (sub64 (pr_End r) (pr_Start r)) in sgn n * (\<bar>n\<bar> div int pageSize))"

definition scanVMA :: "vmaInfo \<Rightarrow> pageRegion list \<Rightarrow> scanResult" where
  "scanVMA v regions =
     \<lparr>VMAStart = Start v, VMAEnd = End v, DirtyPages = sum_list (map regionPages regions), TotalPages = Pages v,
      sr_VMAType = vma_Type v, sr_Pathname = Pathname v,
      ChunkDirty = foldl (countRegion (Start v)) (replicate (vmaChunkCount (Start v) (End v)) 0) regions\<rparr>"

datatype scanErrno = EPERM | OtherErrno string

text \<open>
  The loop over the areas. The kernel answers each request with an error or with the dirty regions:
  EPERM ends the scan, another error skips the area.
\<close>

fun scanDirtyPages :: "(vmaInfo \<Rightarrow> scanErrno + pageRegion list) \<Rightarrow> vmaInfo list \<Rightarrow> (string + scanResult list \<times> int)" where
  "scanDirtyPages scan [] = Inr ([], 0)"
| "scanDirtyPages scan (v # vmas) =
     (if \<not> IsWritable v then scanDirtyPages scan vmas
      else case scan v of
        Inl EPERM \<Rightarrow> Inl ''PM_SCAN_WP_MATCHING EPERM: uffd-wp not active''
      | Inl (OtherErrno _) \<Rightarrow> scanDirtyPages scan vmas
      | Inr regions \<Rightarrow>
          (case scanDirtyPages scan vmas of
             Inl e \<Rightarrow> Inl e
           | Inr (results, totalDirty) \<Rightarrow>
               let r = scanVMA v regions in Inr (r # results, DirtyPages r + totalDirty)))"

section \<open>The chunk counters\<close>

lemma sub64_le:
  assumes "b \<le> a" and "a < 2 ^ 64"
  shows "sub64 a b = a - b"
proof -
  from assms have "a + 2 ^ 64 - b = (a - b) + 2 ^ 64" by simp
  moreover have "a - b < 2 ^ 64" using assms(2) by (rule le_less_trans [OF diff_le_self])
  ultimately show ?thesis by (simp only: sub64_def mod_add_self2 mod_less)
qed

lemma pageAddrs_pages: "pageAddrs a (a + n * pageSize) = map (\<lambda>k. a + k * pageSize) [0..<n]"
proof (induction n arbitrary: a)
  case 0
  then show ?case by (subst pageAddrs.simps) simp
next
  case (Suc n)
  have "pageAddrs a (a + Suc n * pageSize) = a # pageAddrs (a + pageSize) ((a + pageSize) + n * pageSize)"
    by (subst pageAddrs.simps) (simp add: pageSize_def add.assoc)
  also have "\<dots> = a # map (\<lambda>k. a + pageSize + k * pageSize) [0..<n]" by (simp add: Suc)
  also have "\<dots> = map (\<lambda>k. a + k * pageSize) [0..<Suc n]"
    by (simp add: upt_conv_Cons map_Suc_upt [symmetric] o_def del: upt_Suc)
  finally show ?case .
qed

text \<open>
  What the kernel guarantees of the regions of an area: they start on page boundaries inside the
  area, they consist of whole pages, they end in the area, and they do not overlap.
\<close>

definition goodRegion :: "vmaInfo \<Rightarrow> pageRegion \<Rightarrow> bool" where
  "goodRegion v r \<longleftrightarrow> Start v \<le> pr_Start r \<and> pr_Start r \<le> pr_End r \<and> pr_End r \<le> End v \<and>
     pageSize dvd pr_Start r - Start v \<and> pageSize dvd pr_End r - pr_Start r"

definition dirtyAddrs :: "pageRegion list \<Rightarrow> nat list" where
  "dirtyAddrs rs = concat (map (\<lambda>r. pageAddrs (pr_Start r) (pr_End r)) rs)"

definition goodRegions :: "vmaInfo \<Rightarrow> pageRegion list \<Rightarrow> bool" where
  "goodRegions v rs \<longleftrightarrow> Start v \<le> End v \<and> End v < 2 ^ 63 \<and> list_all (goodRegion v) rs \<and> distinct (dirtyAddrs rs)"

lemma goodRegion_addrs:
  assumes "goodRegion v r" and "End v < 2 ^ 63"
  shows "int (length (pageAddrs (pr_Start r) (pr_End r))) = regionPages r"
    and "a \<in> set (pageAddrs (pr_Start r) (pr_End r)) \<Longrightarrow> Start v \<le> a \<and> a < End v \<and> pageSize dvd a - Start v"
proof -
  from assms obtain n where n: "pr_End r = pr_Start r + n * pageSize"
    by (auto simp: goodRegion_def dvd_def) (metis le_add_diff_inverse mult.commute)
  from assms have le: "pr_End r < 2 ^ 63" by (auto simp: goodRegion_def)
  then have "sub64 (pr_End r) (pr_Start r) = n * pageSize" by (simp add: n sub64_le)
  moreover from le have "n * pageSize < 2 ^ 63" by (simp add: n)
  ultimately have "regionPages r = sgn (int (n * pageSize)) * int n"
    by (simp add: regionPages_def int64_of_def Let_def pageSize_def)
  also have "\<dots> = int n" by (simp add: sgn_if pageSize_def)
  finally show "int (length (pageAddrs (pr_Start r) (pr_End r))) = regionPages r"
    by (simp add: n pageAddrs_pages)
  show "Start v \<le> a \<and> a < End v \<and> pageSize dvd a - Start v" if "a \<in> set (pageAddrs (pr_Start r) (pr_End r))"
  proof -
    from that n obtain k where k: "k < n" "a = pr_Start r + k * pageSize" by (auto simp: pageAddrs_pages)
    then have "a < pr_End r" using n by (simp add: pageSize_def)
    moreover have eq: "a - Start v = (pr_Start r - Start v) + k * pageSize"
      using k assms(1) by (simp add: goodRegion_def)
    have "pageSize dvd a - Start v"
      unfolding eq using assms(1) by (intro dvd_add) (auto simp: goodRegion_def)
    ultimately show ?thesis
      using assms(1) k by (auto simp: goodRegion_def)
  qed
qed

text \<open>The counters after a list of addresses: as long as none is full, each counts its addresses.\<close>

lemma bump_counts:
  assumes "\<forall>a \<in> set as. ix a < n" and "\<And>ci. length (filter (\<lambda>a. ix a = ci) as) < 65536"
  shows "foldl (\<lambda>cd a. bump (ix a) cd) (replicate n 0) as =
         map (\<lambda>ci. of_nat (length (filter (\<lambda>a. ix a = ci) as))) [0..<n]"
  using assms
proof (induction as rule: rev_induct)
  case Nil
  then show ?case by (simp add: map_replicate_const)
next
  case (snoc a as)
  let ?c = "\<lambda>as ci. length (filter (\<lambda>a. ix a = ci) as)"
  have small: "?c as ci < 65536" for ci
    using snoc.prems(2) [of ci] by (auto split: if_splits)
  have a: "?c as (ix a) < 65535" using snoc.prems(2) [of "ix a"] by simp
  have IH: "foldl (\<lambda>cd a. bump (ix a) cd) (replicate n 0) as = map (\<lambda>ci. of_nat (?c as ci)) [0..<n]"
    using snoc.IH [OF _ small] snoc.prems(1) by simp
  have lt: "(of_nat (?c as (ix a)) :: 16 word) < 65535"
    using a by (simp add: word_less_nat_alt unat_of_nat)
  have n: "ix a < n" using snoc.prems(1) by simp
  have "foldl (\<lambda>cd a. bump (ix a) cd) (replicate n 0) (as @ [a]) = bump (ix a) (map (\<lambda>ci. of_nat (?c as ci)) [0..<n])"
    by (simp only: foldl_append IH foldl.simps)
  also have "\<dots> = map (\<lambda>ci. of_nat (?c (as @ [a]) ci)) [0..<n]"
    unfolding bump_def using lt n by (auto intro!: nth_equalityI simp: nth_list_update)
  finally show ?case .
qed

lemma sum_counts:
  assumes "\<forall>a \<in> set as. ix a < (n::nat)"
  shows "(\<Sum>ci\<leftarrow>[0..<n]. length (filter (\<lambda>a. ix a = ci) as)) = length as"
  using assms
proof (induction as)
  case (Cons a as)
  have "(\<Sum>ci\<leftarrow>[0..<n]. length (filter (\<lambda>x. ix x = ci) (a # as))) =
        (\<Sum>ci\<leftarrow>[0..<n]. (if ci = ix a then 1 else 0) + length (filter (\<lambda>x. ix x = ci) as))"
    by (rule arg_cong [where f = sum_list]) auto
  also have "\<dots> = (\<Sum>ci\<leftarrow>[0..<n]. if ci = ix a then 1 else 0) + length as"
    using Cons by (simp add: sum_list_addf)
  also have "(\<Sum>ci\<leftarrow>[0..<n]. if ci = ix a then 1 else 0) = (1::nat)"
    using Cons.prems by (simp add: interv_sum_list_conv_sum_set_nat)
  finally show ?case by simp
qed simp

lemma foldl_countRegion:
  "foldl (countRegion start) cd rs = foldl (\<lambda>cd a. bump (chunkIndex start a) cd) cd (dirtyAddrs rs)"
  by (induction rs arbitrary: cd) (simp_all add: countRegion_def dirtyAddrs_def)

lemma goodRegions_addrs:
  assumes "goodRegions v rs"
  shows "int (length (dirtyAddrs rs)) = sum_list (map regionPages rs)"
    and "a \<in> set (dirtyAddrs rs) \<Longrightarrow> Start v \<le> a \<and> a < End v \<and> pageSize dvd a - Start v"
proof -
  from assms have E: "End v < 2 ^ 63" and G: "list_all (goodRegion v) rs" by (auto simp: goodRegions_def)
  from G show "int (length (dirtyAddrs rs)) = sum_list (map regionPages rs)"
    by (induction rs) (simp_all add: dirtyAddrs_def goodRegion_addrs(1) [OF _ E])
  show "Start v \<le> a \<and> a < End v \<and> pageSize dvd a - Start v" if "a \<in> set (dirtyAddrs rs)"
    using that G goodRegion_addrs(2) [OF _ E] by (auto simp: dirtyAddrs_def list_all_iff)
qed

lemma vmaChunkCount_eq:
  assumes "s \<le> e" and "e < 2 ^ 63"
  shows "vmaChunkCount s e = (e - s + (chunkBytes - 1)) div chunkBytes"
proof -
  from assms have "sub64 e s = e - s" by (intro sub64_le) auto
  moreover have "e - s + chunkBytes - 1 < 2 ^ 64" using assms by (simp add: chunkBytes_def)
  ultimately show ?thesis unfolding vmaChunkCount_def by (simp add: chunkBytes_def)
qed

lemma chunkIndex_less:
  assumes "s \<le> a" and "a < e" and "e < 2 ^ 63"
  shows "chunkIndex s a < vmaChunkCount s e" and "chunkIndex s a = (a - s) div chunkBytes"
proof -
  have sub: "sub64 a s = a - s" using assms by (intro sub64_le) auto
  then show "chunkIndex s a = (a - s) div chunkBytes" by (simp add: chunkIndex_def)
  have "(a - s) div chunkBytes < (e - s + (chunkBytes - 1)) div chunkBytes"
    using assms(1,2) by (simp add: chunkBytes_def)
  then show "chunkIndex s a < vmaChunkCount s e"
    using sub assms by (simp add: chunkIndex_def vmaChunkCount_eq)
qed

text \<open>A chunk has 1024 pages, so no counter ever gets near its maximum.\<close>

lemma chunk_addrs_bound:
  assumes "goodRegions v rs"
  shows "length (filter (\<lambda>a. chunkIndex (Start v) a = ci) (dirtyAddrs rs)) \<le> 1024"
proof -
  let ?A = "filter (\<lambda>a. chunkIndex (Start v) a = ci) (dirtyAddrs rs)"
  let ?page = "\<lambda>a. (a - Start v) div pageSize"
  have E: "End v < 2 ^ 63" using assms by (simp add: goodRegions_def)
  have A: "Start v \<le> a \<and> a < End v \<and> pageSize dvd a - Start v \<and> (a - Start v) div chunkBytes = ci" if "a \<in> set ?A" for a
    using that goodRegions_addrs(2) [OF assms, of a] chunkIndex_less(2) [of "Start v" a "End v"] E by auto
  have "inj_on ?page (set ?A)"
  proof (rule inj_onI)
    fix x y
    assume "x \<in> set ?A" "y \<in> set ?A" "?page x = ?page y"
    then have "x - Start v = y - Start v" using A by (metis dvd_mult_div_cancel)
    with A \<open>x \<in> set ?A\<close> \<open>y \<in> set ?A\<close> show "x = y" by (metis eq_diff_iff)
  qed
  moreover have "?page ` set ?A \<subseteq> {ci * 1024..<ci * 1024 + 1024}"
  proof (rule image_subsetI)
    fix a
    assume "a \<in> set ?A"
    with A have "?page a div 1024 = ci" by (simp add: div_mult2_eq [symmetric] pageSize_def chunkBytes_def)
    then show "?page a \<in> {ci * 1024..<ci * 1024 + 1024}" by auto
  qed
  ultimately have "card (set ?A) \<le> 1024"
    using card_inj_on_le [of ?page "set ?A" "{ci * 1024..<ci * 1024 + 1024}"] by simp
  moreover have "distinct ?A" using assms by (simp add: goodRegions_def)
  ultimately show ?thesis by (metis distinct_card)
qed

lemma scanVMA_chunks:
  assumes "goodRegions v rs"
  shows "map unat (ChunkDirty (scanVMA v rs)) =
    map (\<lambda>ci. length (filter (\<lambda>a. chunkIndex (Start v) a = ci) (dirtyAddrs rs))) [0..<vmaChunkCount (Start v) (End v)]"
proof -
  have E: "End v < 2 ^ 63" using assms by (simp add: goodRegions_def)
  have ix: "\<forall>a \<in> set (dirtyAddrs rs). chunkIndex (Start v) a < vmaChunkCount (Start v) (End v)"
    using goodRegions_addrs(2) [OF assms] chunkIndex_less(1) E by blast
  have small: "length (filter (\<lambda>a. chunkIndex (Start v) a = ci) (dirtyAddrs rs)) < 65536" for ci
    using chunk_addrs_bound [OF assms, of ci] by simp
  show ?thesis
    using bump_counts [of "dirtyAddrs rs" "chunkIndex (Start v)", OF ix small] small
    by (simp add: scanVMA_def foldl_countRegion unat_of_nat)
qed

text \<open>
  C28. The chunk counters of a scan are exact: they add up to the dirty pages of the area, no
  counter exceeds the 1024 pages of a chunk, so the saturation of the 16-bit counters never
  happens, and there is one counter for every chunk of the area.
\<close>

theorem chunk_counters_exact:
  assumes "goodRegions v rs"
  shows "int (sum_list (map unat (ChunkDirty (scanVMA v rs)))) = DirtyPages (scanVMA v rs) \<and>
    list_all (\<lambda>c. unat c \<le> 1024) (ChunkDirty (scanVMA v rs)) \<and>
    length (ChunkDirty (scanVMA v rs)) = (End v - Start v + (chunkBytes - 1)) div chunkBytes"
proof -
  let ?cd = "ChunkDirty (scanVMA v rs)" let ?n = "vmaChunkCount (Start v) (End v)"
  have E: "Start v \<le> End v" "End v < 2 ^ 63" using assms by (simp_all add: goodRegions_def)
  have ix: "\<forall>a \<in> set (dirtyAddrs rs). chunkIndex (Start v) a < ?n"
    using goodRegions_addrs(2) [OF assms] chunkIndex_less(1) E by blast
  have "sum_list (map unat ?cd) = length (dirtyAddrs rs)"
    unfolding scanVMA_chunks [OF assms] by (rule sum_counts [OF ix])
  also have "int \<dots> = DirtyPages (scanVMA v rs)"
    by (simp add: goodRegions_addrs(1) [OF assms] scanVMA_def)
  finally have "int (sum_list (map unat ?cd)) = DirtyPages (scanVMA v rs)" .
  moreover have "list_all (\<lambda>c. c \<le> 1024) (map unat ?cd)"
    unfolding scanVMA_chunks [OF assms] using chunk_addrs_bound [OF assms] by (simp add: list_all_iff)
  moreover have "length ?cd = ?n" using arg_cong [OF scanVMA_chunks [OF assms], of length] by simp
  ultimately show ?thesis by (simp add: list.pred_map o_def vmaChunkCount_eq [OF E])
qed

definition exampleVma :: vmaInfo where
  "exampleVma = \<lparr>Start = 4096, End = 12288, Perms = ''rw-p'', Pathname = [], vma_Type = VMAAnonymous\<rparr>"

theorem chunk_counters_exact_witness:
  "sum_list (map unat (ChunkDirty (scanVMA exampleVma [\<lparr>pr_Start = 4096, pr_End = 12288\<rparr>]))) = 2"
proof -
  have "pageAddrs 4096 12288 = [4096, 8192]" by (simp add: pageAddrs.simps pageSize_def)
  then have "goodRegions exampleVma [\<lparr>pr_Start = 4096, pr_End = 12288\<rparr>]"
    by (simp add: goodRegions_def goodRegion_def exampleVma_def dirtyAddrs_def pageSize_def)
  from chunk_counters_exact [OF this] show ?thesis
    by (simp add: scanVMA_def regionPages_def int64_of_def sub64_def pageSize_def Let_def)
qed

end
