(* ===== verification/Heat.thy ===== *)
theory Heat
  imports Complex_Main Scan "HOL-Library.AList"
begin

text \<open>
  \<open>pkg/profiler/heat.go\<close>: the classification of four-megabyte chunks as hot or cold. Each chunk keeps a ring
  of its last ten dirty ratios and the length of its current hot streak. The ratios, which are of type
  \<open>float64\<close> in the code, are exact rational numbers here; the map of the states is an association list, whose
  order stands for the order in which a range loop visits it. The reference definition of the classifier
  is the whole history of the ratios of a chunk, and the ring and the streak are shown to agree with it.
\<close>

section \<open>The classifier\<close>

definition windowSize :: nat where "windowSize = 10"

type_synonym chunkKey = "nat \<times> nat"

record chunkHeatState =
  hs_VMAStart :: nat
  hs_VMAEnd :: nat
  hs_ChunkIdx :: nat
  ChunkStart :: nat
  ChunkEnd :: nat
  Ratios :: "rat list"
  Head :: nat
  Count :: nat
  ConsecutiveHot :: nat
  IsHot :: bool
  LastDirty :: int
  LastTotal :: nat
  hs_VMAType :: vmaType
  hs_Pathname :: string

record heatClassifier =
  hotThreshold :: rat
  hotConsecutive :: int
  states :: "(chunkKey \<times> chunkHeatState) list"

record hotRegion =
  StartAddr :: nat
  EndAddr :: nat
  WrittenRatio :: rat
  hr_ConsecutiveHot :: nat

definition newHeatClassifier :: "rat \<Rightarrow> int \<Rightarrow> heatClassifier" where
  "newHeatClassifier threshold consecutive = \<lparr>hotThreshold = threshold, hotConsecutive = consecutive, states = []\<rparr>"

definition add64 :: "nat \<Rightarrow> nat \<Rightarrow> nat" where
  "add64 a b = (a + b) mod 2 ^ 64"

definition chunkStartOf :: "scanResult \<Rightarrow> nat \<Rightarrow> nat" where
  "chunkStartOf r ci = add64 (VMAStart r) (ci * chunkBytes)"

definition chunkEndOf :: "scanResult \<Rightarrow> nat \<Rightarrow> nat" where
  "chunkEndOf r ci = (let e = add64 (chunkStartOf r ci) chunkBytes in if e > VMAEnd r then VMAEnd r else e)"

definition chunkPagesOf :: "scanResult \<Rightarrow> nat \<Rightarrow> nat" where
  "chunkPagesOf r ci = sub64 (chunkEndOf r ci) (chunkStartOf r ci) div pageSize"

definition chunkDirtyOf :: "scanResult \<Rightarrow> nat \<Rightarrow> int" where
  "chunkDirtyOf r ci = (if ci < length (ChunkDirty r) then uint (ChunkDirty r ! ci) else 0)"

definition chunkRatio :: "scanResult \<Rightarrow> nat \<Rightarrow> rat" where
  "chunkRatio r ci =
     (if chunkPagesOf r ci > 0 then of_int (chunkDirtyOf r ci) / of_nat (chunkPagesOf r ci) else 0)"

text \<open>The state of a chunk that is seen for the first time: the fields not set have their zero value.\<close>

definition newChunkState :: "nat \<Rightarrow> nat \<Rightarrow> chunkHeatState" where
  "newChunkState start ci =
     \<lparr>hs_VMAStart = start, hs_VMAEnd = 0, hs_ChunkIdx = ci, ChunkStart = 0, ChunkEnd = 0,
      Ratios = replicate windowSize 0, Head = 0, Count = 0, ConsecutiveHot = 0, IsHot = False,
      LastDirty = 0, LastTotal = 0, hs_VMAType = VMAHeap, hs_Pathname = []\<rparr>"

text \<open>Recording a ratio: the ring, the streak and the classification.\<close>

definition pushRatio :: "rat \<Rightarrow> int \<Rightarrow> rat \<Rightarrow> chunkHeatState \<Rightarrow> chunkHeatState" where
  "pushRatio threshold consecutive ratio s =
     (let streak = (if ratio > threshold then ConsecutiveHot s + 1 else 0) in
      s\<lparr>Ratios := (Ratios s)[Head s := ratio], Head := (Head s + 1) mod windowSize,
        Count := (if Count s < windowSize then Count s + 1 else Count s),
        ConsecutiveHot := streak, IsHot := int streak \<ge> consecutive\<rparr>)"

definition updateChunk :: "heatClassifier \<Rightarrow> scanResult \<Rightarrow> nat \<Rightarrow> heatClassifier" where
  "updateChunk h r ci =
     (let key = (VMAStart r, ci);
          state = (case map_of (states h) key of Some s \<Rightarrow> s | None \<Rightarrow> newChunkState (VMAStart r) ci);
          state = state\<lparr>hs_VMAEnd := VMAEnd r, ChunkStart := chunkStartOf r ci, ChunkEnd := chunkEndOf r ci,
            LastDirty := chunkDirtyOf r ci, LastTotal := chunkPagesOf r ci, hs_VMAType := sr_VMAType r,
            hs_Pathname := sr_Pathname r\<rparr>
      in h\<lparr>states := AList.update key
             (pushRatio (hotThreshold h) (hotConsecutive h) (chunkRatio r ci) state) (states h)\<rparr>)"

definition chunkKeys :: "scanResult list \<Rightarrow> (scanResult \<times> nat) list" where
  "chunkKeys results =
     concat (map (\<lambda>r. map (\<lambda>ci. (r, ci)) [0..<vmaChunkCount (VMAStart r) (VMAEnd r)]) results)"

definition hotRegionOf :: "chunkHeatState \<Rightarrow> hotRegion" where
  "hotRegionOf s =
     \<lparr>StartAddr = ChunkStart s, EndAddr = ChunkEnd s,
      WrittenRatio = Ratios s ! ((Head s + windowSize - 1) mod windowSize), hr_ConsecutiveHot = ConsecutiveHot s\<rparr>"

definition heatUpdate :: "heatClassifier \<Rightarrow> scanResult list \<Rightarrow> heatClassifier \<times> hotRegion list" where
  "heatUpdate h results =
     (let h1 = foldl (\<lambda>h (r, ci). updateChunk h r ci) h (chunkKeys results);
          seen = map (\<lambda>(r, ci). (VMAStart r, ci)) (chunkKeys results);
          h2 = h1\<lparr>states := filter (\<lambda>(k, _). k \<in> set seen) (states h1)\<rparr>
      in (h2, map hotRegionOf (filter IsHot (map snd (states h2)))))"

definition heatReset :: "heatClassifier \<Rightarrow> heatClassifier" where
  "heatReset h = h\<lparr>states := []\<rparr>"

definition totalChunks :: "heatClassifier \<Rightarrow> nat" where
  "totalChunks h = length (states h)"

definition totalVMAs :: "heatClassifier \<Rightarrow> nat" where
  "totalVMAs h = length (remdups (map (hs_VMAStart \<circ> snd) (states h)))"

definition hotVMAs :: "heatClassifier \<Rightarrow> nat" where
  "hotVMAs h = length (filter IsHot (map snd (states h)))"

record vmaHotDetail =
  d_Start :: nat
  d_End :: nat
  d_Type :: string
  d_Pathname :: string
  d_IsHot :: bool
  d_DirtyPages :: int
  d_TotalPages :: nat
  d_DirtyRatio :: rat
  d_ConsecutiveHot :: nat

definition getAllVMAs :: "heatClassifier \<Rightarrow> vmaHotDetail list" where
  "getAllVMAs h = map (\<lambda>s.
     \<lparr>d_Start = ChunkStart s, d_End = ChunkEnd s, d_Type = vmaTypeString (hs_VMAType s),
      d_Pathname = hs_Pathname s, d_IsHot = IsHot s, d_DirtyPages = LastDirty s, d_TotalPages = LastTotal s,
      d_DirtyRatio = (if Count s > 0 then Ratios s ! ((Head s + windowSize - 1) mod windowSize) else 0),
      d_ConsecutiveHot = ConsecutiveHot s\<rparr>) (map snd (states h))"

section \<open>The ring and the history\<close>

text \<open>The state of a chunk agrees with the list of all the ratios recorded for it, the newest first.\<close>

definition tracksHistory :: "rat \<Rightarrow> int \<Rightarrow> chunkHeatState \<Rightarrow> rat list \<Rightarrow> bool" where
  "tracksHistory threshold consecutive s hist \<longleftrightarrow>
     length (Ratios s) = windowSize \<and> Head s = length hist mod windowSize \<and>
     Count s = min windowSize (length hist) \<and>
     (\<forall>i < Count s. Ratios s ! ((Head s + (windowSize - 1) - i) mod windowSize) = hist ! i) \<and>
     ConsecutiveHot s = length (takeWhile (\<lambda>x. x > threshold) hist) \<and>
     (hist \<noteq> [] \<longrightarrow> IsHot s = (consecutive \<le> int (length (takeWhile (\<lambda>x. x > threshold) hist))))"

lemma newChunkState_tracks: "tracksHistory threshold consecutive (newChunkState start ci) []"
  by (simp add: tracksHistory_def newChunkState_def windowSize_def)

lemma newChunkState_keys: "hs_VMAStart (newChunkState start ci) = start" "hs_ChunkIdx (newChunkState start ci) = ci"
  by (simp_all add: newChunkState_def)

text \<open>The slot of the entry that is \<open>i\<close> steps old, before and after the head moves on.\<close>

lemma ring_slot:
  fixes h i :: nat
  assumes "h < 10"
  shows "((h + 1) mod 10 + 9) mod 10 = h"
    and "i < 9 \<Longrightarrow> ((h + 1) mod 10 + 9 - Suc i) mod 10 = (h + 9 - i) mod 10"
    and "i < 9 \<Longrightarrow> (h + 9 - i) mod 10 \<noteq> h"
  using assms by (cases "h = 9"; auto simp: mod_if)+

lemma pushRatio_tracks:
  assumes "tracksHistory threshold consecutive s hist"
  shows "tracksHistory threshold consecutive (pushRatio threshold consecutive x s) (x # hist)"
proof -
  let ?s = "pushRatio threshold consecutive x s"
  have h: "Head s < 10" and len: "length (Ratios s) = 10" and cnt: "Count s = min 10 (length hist)"
    and ring: "\<And>i. i < Count s \<Longrightarrow> Ratios s ! ((Head s + 9 - i) mod 10) = hist ! i"
    using assms unfolding tracksHistory_def windowSize_def by (elim conjE, simp)+
  have "Ratios ?s ! ((Head ?s + 9 - i) mod 10) = (x # hist) ! i" if "i < min 10 (Suc (length hist))" for i
  proof (cases i)
    case 0
    then show ?thesis
      using ring_slot(1) [OF h] h len by (simp add: pushRatio_def Let_def windowSize_def)
  next
    case (Suc j)
    with that have j: "j < 9" "j < Count s" using cnt by auto
    then show ?thesis
      using ring_slot(2,3) [OF h j(1)] ring [OF j(2)] Suc
      by (simp add: pushRatio_def Let_def windowSize_def)
  qed
  moreover have "Head ?s = length (x # hist) mod 10" "length (Ratios ?s) = 10" "Count ?s = min 10 (length (x # hist))"
    using assms by (auto simp: tracksHistory_def pushRatio_def Let_def windowSize_def mod_Suc)
  moreover have "ConsecutiveHot ?s = length (takeWhile (\<lambda>x. x > threshold) (x # hist))"
    "IsHot ?s = (consecutive \<le> int (length (takeWhile (\<lambda>x. x > threshold) (x # hist))))"
    using assms by (simp_all add: tracksHistory_def pushRatio_def Let_def)
  ultimately show ?thesis by (simp add: tracksHistory_def windowSize_def del: takeWhile.simps)
qed

lemma tracks_upd [simp]:
  "tracksHistory threshold consecutive
     (s\<lparr>hs_VMAEnd := a, ChunkStart := b, ChunkEnd := c, LastDirty := d, LastTotal := e, hs_VMAType := f,
        hs_Pathname := g\<rparr>) hist = tracksHistory threshold consecutive s hist"
  by (simp add: tracksHistory_def)

section \<open>The histories of all chunks\<close>

text \<open>The reference: a map from the chunks to their histories. A chunk that is not in a scan is forgotten.\<close>

definition observe :: "(chunkKey \<Rightarrow> rat list) \<Rightarrow> scanResult \<times> nat \<Rightarrow> (chunkKey \<Rightarrow> rat list)" where
  "observe H = (\<lambda>(r, ci). H((VMAStart r, ci) := chunkRatio r ci # H (VMAStart r, ci)))"

definition heatSpec :: "(chunkKey \<Rightarrow> rat list) \<Rightarrow> scanResult list \<Rightarrow> (chunkKey \<Rightarrow> rat list)" where
  "heatSpec H results =
     (\<lambda>k. if k \<in> (\<lambda>(r, ci). (VMAStart r, ci)) ` set (chunkKeys results)
          then foldl observe H (chunkKeys results) k else [])"

definition chunkTracks :: "rat \<Rightarrow> int \<Rightarrow> chunkKey \<Rightarrow> chunkHeatState option \<Rightarrow> rat list \<Rightarrow> bool" where
  "chunkTracks threshold consecutive k state hist \<longleftrightarrow>
     (case state of
        None \<Rightarrow> hist = []
      | Some s \<Rightarrow> hist \<noteq> [] \<and> (hs_VMAStart s, hs_ChunkIdx s) = k \<and> tracksHistory threshold consecutive s hist)"

definition heatTracks :: "rat \<Rightarrow> int \<Rightarrow> heatClassifier \<Rightarrow> (chunkKey \<Rightarrow> rat list) \<Rightarrow> bool" where
  "heatTracks threshold consecutive h H \<longleftrightarrow>
     hotThreshold h = threshold \<and> hotConsecutive h = consecutive \<and> distinct (map fst (states h)) \<and>
     (\<forall>k. chunkTracks threshold consecutive k (map_of (states h) k) (H k))"

lemma new_tracks: "heatTracks threshold consecutive (newHeatClassifier threshold consecutive) (\<lambda>_. [])"
  by (simp add: heatTracks_def chunkTracks_def newHeatClassifier_def)

lemma updateChunk_keys:
  "hs_VMAStart (pushRatio t c x s) = hs_VMAStart s" "hs_ChunkIdx (pushRatio t c x s) = hs_ChunkIdx s"
  by (simp_all add: pushRatio_def Let_def)

lemma updateChunk_tracks:
  assumes "heatTracks threshold consecutive h H"
  shows "heatTracks threshold consecutive (updateChunk h r ci) (observe H (r, ci))"
proof -
  let ?k = "(VMAStart r, ci)"
  let ?s = "case map_of (states h) ?k of Some s \<Rightarrow> s | None \<Rightarrow> newChunkState (VMAStart r) ci"
  have "chunkTracks threshold consecutive ?k (map_of (states h) ?k) (H ?k)"
    using assms by (simp add: heatTracks_def)
  then have "tracksHistory threshold consecutive ?s (H ?k)" and "hs_VMAStart ?s = VMAStart r \<and> hs_ChunkIdx ?s = ci"
    by (cases "map_of (states h) ?k"; simp add: chunkTracks_def newChunkState_tracks newChunkState_keys)+
  then have new: "chunkTracks threshold consecutive ?k (map_of (states (updateChunk h r ci)) ?k) (chunkRatio r ci # H ?k)"
    using assms
    by (simp add: chunkTracks_def updateChunk_def Let_def update_conv' pushRatio_tracks updateChunk_keys heatTracks_def)
  have "chunkTracks threshold consecutive k (map_of (states (updateChunk h r ci)) k) (observe H (r, ci) k)" for k
    using assms new by (cases "k = ?k") (simp_all add: updateChunk_def Let_def update_conv' heatTracks_def observe_def
        del: split_paired_All)
  then show ?thesis
    using assms by (simp add: heatTracks_def updateChunk_def Let_def distinct_update)
qed

lemma updateChunks_track:
  "heatTracks threshold consecutive h H \<Longrightarrow>
   heatTracks threshold consecutive (foldl (\<lambda>h (r, ci). updateChunk h r ci) h ks) (foldl observe H ks)"
  by (induction ks arbitrary: h H) (auto simp: updateChunk_tracks)

lemma map_of_filter_key: "map_of (filter (\<lambda>(k, _). k \<in> S) al) k = (if k \<in> S then map_of al k else None)"
  by (induction al) auto

lemma heatUpdate_tracks:
  assumes "heatTracks threshold consecutive h H"
  shows "heatTracks threshold consecutive (fst (heatUpdate h results)) (heatSpec H results)"
proof -
  have "heatTracks threshold consecutive (foldl (\<lambda>h (r, ci). updateChunk h r ci) h (chunkKeys results))
      (foldl observe H (chunkKeys results))"
    by (rule updateChunks_track [OF assms])
  then show ?thesis
    by (simp add: heatTracks_def heatSpec_def heatUpdate_def Let_def map_of_filter_key distinct_map_filter)
      (simp add: chunkTracks_def)
qed

definition heatRun :: "rat \<Rightarrow> int \<Rightarrow> scanResult list list \<Rightarrow> heatClassifier" where
  "heatRun threshold consecutive scans =
     foldl (\<lambda>h results. fst (heatUpdate h results)) (newHeatClassifier threshold consecutive) scans"

lemma heatRun_tracks: "heatTracks threshold consecutive (heatRun threshold consecutive scans) (foldl heatSpec (\<lambda>_. []) scans)"
proof -
  have "heatTracks threshold consecutive h H \<Longrightarrow>
      heatTracks threshold consecutive (foldl (\<lambda>h results. fst (heatUpdate h results)) h scans) (foldl heatSpec H scans)" for h H
    by (induction scans arbitrary: h H) (simp_all add: heatUpdate_tracks)
  then show ?thesis by (simp add: heatRun_def new_tracks)
qed

lemma tracks_slot:
  assumes "tracksHistory threshold consecutive s hist" and "i < min windowSize (length hist)"
  shows "Ratios s ! ((Head s + (windowSize - 1) - i) mod windowSize) = hist ! i"
  using assms unfolding tracksHistory_def by (elim conjE) simp

lemma tracks_ring:
  assumes "tracksHistory threshold consecutive s hist"
  shows "map (\<lambda>i. Ratios s ! ((Head s + (windowSize - 1) - i) mod windowSize)) [0..<Count s] = take windowSize hist"
proof (rule nth_equalityI)
  have c: "Count s = min windowSize (length hist)" using assms by (simp add: tracksHistory_def)
  then show "length (map (\<lambda>i. Ratios s ! ((Head s + (windowSize - 1) - i) mod windowSize)) [0..<Count s]) =
      length (take windowSize hist)" by simp
  fix i
  assume "i < length (map (\<lambda>i. Ratios s ! ((Head s + (windowSize - 1) - i) mod windowSize)) [0..<Count s])"
  with c have "i < min windowSize (length hist)" by simp
  with tracks_slot [OF assms this] c
  show "map (\<lambda>i. Ratios s ! ((Head s + (windowSize - 1) - i) mod windowSize)) [0..<Count s] ! i =
      take windowSize hist ! i"
    by simp
qed

lemma tracks_newest:
  assumes "tracksHistory threshold consecutive s hist" and "hist \<noteq> []"
  shows "Ratios s ! ((Head s + windowSize - 1) mod windowSize) = hd hist"
  using tracks_slot [OF assms(1), of 0] assms(2) by (simp add: hd_conv_nth windowSize_def add.commute)

lemma tracks_class:
  assumes "tracksHistory threshold consecutive s hist" and "hist \<noteq> []"
  shows "ConsecutiveHot s = length (takeWhile (\<lambda>x. x > threshold) hist)"
    and "IsHot s \<longleftrightarrow> consecutive \<le> int (ConsecutiveHot s)"
    and "Count s = min windowSize (length hist)"
  using assms by (simp_all add: tracksHistory_def)

text \<open>
  C27. The classifier agrees with the full history of every chunk. After any sequence of scans the
  tracked chunks are exactly those with a history (those of the last scan), each once; the streak of a chunk is the number
  of its newest ratios above the threshold, it is hot iff that number reaches the configured one,
  and the ring holds its last ten ratios.
\<close>

theorem heat_agrees_with_history:
  "distinct (map fst (states (heatRun threshold consecutive scans))) \<and>
   (map_of (states (heatRun threshold consecutive scans)) k = None \<longleftrightarrow> foldl heatSpec (\<lambda>_. []) scans k = []) \<and>
   list_all (\<lambda>(k, s). let hist = foldl heatSpec (\<lambda>_. []) scans k; streak = length (takeWhile (\<lambda>x. x > threshold) hist) in
       ConsecutiveHot s = streak \<and> IsHot s = (consecutive \<le> int streak) \<and> Count s = min windowSize (length hist) \<and>
       map (\<lambda>i. Ratios s ! ((Head s + (windowSize - 1) - i) mod windowSize)) [0..<Count s] = take windowSize hist)
     (states (heatRun threshold consecutive scans))"
proof -
  let ?h = "heatRun threshold consecutive scans" and ?H = "foldl heatSpec (\<lambda>_. []) scans"
  have d: "distinct (map fst (states ?h))" and c: "chunkTracks threshold consecutive k (map_of (states ?h) k) (?H k)" for k
    using heatRun_tracks [of threshold consecutive scans] by (simp_all add: heatTracks_def del: split_paired_All)
  have "let hist = ?H k; streak = length (takeWhile (\<lambda>x. x > threshold) hist) in
       ConsecutiveHot s = streak \<and> IsHot s = (consecutive \<le> int streak) \<and> Count s = min windowSize (length hist) \<and>
       map (\<lambda>i. Ratios s ! ((Head s + (windowSize - 1) - i) mod windowSize)) [0..<Count s] = take windowSize hist"
    if "(k, s) \<in> set (states ?h)" for k s
  proof -
    have t: "tracksHistory threshold consecutive s (?H k)" "?H k \<noteq> []"
      using that c [of k] d by (simp_all add: chunkTracks_def)
    from tracks_class [OF t] tracks_ring [OF t(1)] show ?thesis by (simp add: Let_def)
  qed
  moreover have "(map_of (states ?h) k = None) = (?H k = [])"
    using c [of k] by (cases "map_of (states ?h) k") (simp_all add: chunkTracks_def)
  ultimately show ?thesis
    using d unfolding list_all_iff by blast
qed

section \<open>The hot regions\<close>

text \<open>The state of a chunk of a scan carries the addresses of that chunk.\<close>

definition placedIn :: "(scanResult \<times> nat) list \<Rightarrow> chunkHeatState \<Rightarrow> bool" where
  "placedIn ks s \<longleftrightarrow> (\<exists>(r, ci) \<in> set ks. ChunkStart s = chunkStartOf r ci \<and> ChunkEnd s = chunkEndOf r ci)"

lemma updateChunks_placed:
  assumes "(\<And>k s. map_of (states h) k = Some s \<Longrightarrow> k \<in> (\<lambda>(r, ci). (VMAStart r, ci)) ` set ks0 \<Longrightarrow> placedIn ks0 s)"
    and "map_of (states (foldl (\<lambda>h (r, ci). updateChunk h r ci) h ks)) k = Some s"
    and "k \<in> (\<lambda>(r, ci). (VMAStart r, ci)) ` set (ks0 @ ks)"
  shows "placedIn (ks0 @ ks) s"
  using assms
proof (induction ks arbitrary: h ks0)
  case Nil
  then show ?case by simp
next
  case (Cons x ks)
  obtain r ci where x: "x = (r, ci)" by force
  have "placedIn (ks0 @ [x]) s'"
    if "map_of (states (updateChunk h r ci)) k' = Some s'" "k' \<in> (\<lambda>(r, ci). (VMAStart r, ci)) ` set (ks0 @ [x])" for k' s'
  proof (cases "k' = (VMAStart r, ci)")
    case True
    with that x show ?thesis
      by (auto simp: updateChunk_def Let_def update_conv' placedIn_def pushRatio_def)
  next
    case False
    with that x have "placedIn ks0 s'"
      by (intro Cons.prems(1) [of k']) (auto simp: updateChunk_def Let_def update_conv')
    then show ?thesis by (auto simp: placedIn_def)
  qed
  from Cons.IH [of "updateChunk h r ci" "ks0 @ [x]", OF this] show ?case
    using Cons.prems(2,3) x by simp
qed

lemma chunk_bounds:
  assumes "(r, ci) \<in> set (chunkKeys results)" and "list_all (\<lambda>r. VMAStart r \<le> VMAEnd r \<and> VMAEnd r < 2 ^ 63) results"
  shows "r \<in> set results \<and> VMAStart r \<le> chunkStartOf r ci \<and> chunkStartOf r ci < chunkEndOf r ci \<and>
    chunkEndOf r ci \<le> VMAEnd r \<and> chunkEndOf r ci \<le> chunkStartOf r ci + chunkBytes"
proof -
  have r: "r \<in> set results" "VMAStart r \<le> VMAEnd r" "VMAEnd r < 2 ^ 63" "ci < vmaChunkCount (VMAStart r) (VMAEnd r)"
    using assms by (auto simp: chunkKeys_def list_all_iff)
  then have lt: "VMAStart r + ci * chunkBytes < VMAEnd r"
    by (simp add: vmaChunkCount_eq chunkBytes_def)
  with r(3) have "chunkStartOf r ci = VMAStart r + ci * chunkBytes"
    by (simp add: chunkStartOf_def add64_def)
  moreover with lt r(3) have "chunkEndOf r ci = min (VMAEnd r) (VMAStart r + ci * chunkBytes + chunkBytes)"
    by (simp add: chunkEndOf_def add64_def Let_def chunkBytes_def)
  ultimately show ?thesis using r(1) lt by (simp add: chunkBytes_def)
qed

lemma snd_heatUpdate: "snd (heatUpdate h results) = map hotRegionOf (filter IsHot (map snd (states (fst (heatUpdate h results)))))"
  by (simp add: heatUpdate_def Let_def)

lemma hot_region_cases:
  assumes "heatTracks threshold consecutive h H" and "g \<in> set (snd (heatUpdate h results))"
  obtains s where "g = hotRegionOf s" and "IsHot s" and "placedIn (chunkKeys results) s"
    and "\<exists>hist. hist \<noteq> [] \<and> tracksHistory threshold consecutive s hist"
proof -
  let ?h' = "fst (heatUpdate h results)"
  have t: "heatTracks threshold consecutive ?h' (heatSpec H results)" by (rule heatUpdate_tracks [OF assms(1)])
  from assms(2) obtain k s where ks: "(k, s) \<in> set (states ?h')" "g = hotRegionOf s" "IsHot s"
    unfolding snd_heatUpdate by auto
  then have m: "map_of (states ?h') k = Some s" using t by (simp add: heatTracks_def)
  then have "chunkTracks threshold consecutive k (Some s) (heatSpec H results k)"
    using t unfolding heatTracks_def by metis
  then have "\<exists>hist. hist \<noteq> [] \<and> tracksHistory threshold consecutive s hist" by (auto simp: chunkTracks_def)
  moreover have "placedIn (chunkKeys results) s"
    using updateChunks_placed [of h "[]" "chunkKeys results" k s] m
    by (simp add: heatUpdate_def Let_def map_of_filter_key split: if_splits)
  ultimately show thesis using that ks by blast
qed

text \<open>
  Only hot memory of the scanned process is reported as hot: every region that an update returns is
  a chunk of at most four megabytes inside an area of that scan, its last ratio exceeds the threshold, and
  it did so in at least the configured number of consecutive scans. These are the regions that a
  pre-dump leaves out.
\<close>

theorem hot_regions_sound:
  assumes "0 < consecutive" and "list_all (\<lambda>r. VMAStart r \<le> VMAEnd r \<and> VMAEnd r < 2 ^ 63) results"
  shows "list_all (\<lambda>g.
      list_ex (\<lambda>r. VMAStart r \<le> StartAddr g \<and> EndAddr g \<le> VMAEnd r) results \<and>
      StartAddr g < EndAddr g \<and> EndAddr g \<le> StartAddr g + chunkBytes \<and>
      WrittenRatio g > threshold \<and> int (hr_ConsecutiveHot g) \<ge> consecutive)
    (snd (heatUpdate (heatRun threshold consecutive scans) results))"
  unfolding list_all_iff
proof
  fix g
  assume "g \<in> set (snd (heatUpdate (heatRun threshold consecutive scans) results))"
  from heatRun_tracks this obtain s hist where s: "g = hotRegionOf s" "IsHot s" "placedIn (chunkKeys results) s"
    and hist: "hist \<noteq> []" "tracksHistory threshold consecutive s hist"
    by (rule hot_region_cases) blast
  from s(3) obtain r ci where rc: "(r, ci) \<in> set (chunkKeys results)" "ChunkStart s = chunkStartOf r ci"
    "ChunkEnd s = chunkEndOf r ci" by (auto simp: placedIn_def)
  from hist s(2) have streak: "consecutive \<le> int (ConsecutiveHot s)"
    by (simp add: tracks_class(2) [OF hist(2,1)])
  with assms(1) have "takeWhile (\<lambda>x. x > threshold) hist \<noteq> []"
    using tracks_class(1) [OF hist(2,1)] by auto
  then have "hd hist > threshold" by (cases hist) (auto split: if_splits)
  then have "WrittenRatio g > threshold" using tracks_newest [OF hist(2,1)] s(1) by (simp add: hotRegionOf_def)
  with streak chunk_bounds [OF rc(1) assms(2)] rc s(1)
  show "list_ex (\<lambda>r. VMAStart r \<le> StartAddr g \<and> EndAddr g \<le> VMAEnd r) results \<and>
      StartAddr g < EndAddr g \<and> EndAddr g \<le> StartAddr g + chunkBytes \<and>
      WrittenRatio g > threshold \<and> int (hr_ConsecutiveHot g) \<ge> consecutive"
    by (auto simp: hotRegionOf_def list_ex_iff)
qed

definition exampleScan :: scanResult where
  "exampleScan = \<lparr>VMAStart = 4096, VMAEnd = 12288, DirtyPages = 2, TotalPages = 2, sr_VMAType = VMAAnonymous,
     sr_Pathname = [], ChunkDirty = [2]\<rparr>"

lemmas chunk_defs = chunkPagesOf_def chunkDirtyOf_def chunkEndOf_def chunkStartOf_def
  add64_def sub64_def chunkBytes_def pageSize_def

lemma exampleScan_chunks:
  "chunkKeys [exampleScan] = [(exampleScan, 0)]" "chunkRatio exampleScan 0 = 1"
  "chunkStartOf exampleScan 0 = 4096" "chunkEndOf exampleScan 0 = 12288"
  by (simp_all add: exampleScan_def chunkKeys_def vmaChunkCount_def chunkRatio_def chunk_defs)

theorem hot_regions_sound_witness:
  "snd (heatUpdate (heatRun (1 / 2) 1 []) [exampleScan]) =
     [\<lparr>StartAddr = 4096, EndAddr = 12288, WrittenRatio = 1, hr_ConsecutiveHot = 1\<rparr>] \<and>
   list_all (\<lambda>g. WrittenRatio g > 1 / 2) (snd (heatUpdate (heatRun (1 / 2) 1 []) [exampleScan]))"
proof -
  have "snd (heatUpdate (heatRun (1 / 2) 1 []) [exampleScan]) =
     [\<lparr>StartAddr = 4096, EndAddr = 12288, WrittenRatio = 1, hr_ConsecutiveHot = 1\<rparr>]"
    by (simp add: heatUpdate_def heatRun_def newHeatClassifier_def updateChunk_def pushRatio_def newChunkState_def
        hotRegionOf_def windowSize_def exampleScan_chunks)
  moreover have "list_all (\<lambda>r. VMAStart r \<le> VMAEnd r \<and> VMAEnd r < 2 ^ 63) [exampleScan]"
    by (simp add: exampleScan_def)
  from hot_regions_sound [OF _ this, of 1 "1 / 2" "[]"]
  have "list_all (\<lambda>g. WrittenRatio g > 1 / 2) (snd (heatUpdate (heatRun (1 / 2) 1 []) [exampleScan]))"
    by (simp add: list_all_iff)
  ultimately show ?thesis by blast
qed

end
