(* ===== verification/AgentHost.thy ===== *)
theory AgentHost
  imports Complex_Main Io Scan
begin

text \<open>
  What an agent asks of its host: files, processes, the clock, the userfaultfd calls of
  \<open>pkg/profiler\<close> and the dumps. Every interaction is an event with its request and its reply, and the
  replies come from a record of answer functions over the log so far, which is a parameter of the
  definitions. The string functions of Go's library that the agent uses are here too.
\<close>

section \<open>Strings\<close>

definition isSpace :: "char \<Rightarrow> bool" where
  "isSpace c \<longleftrightarrow> c \<in> {CHR '' '', CHR 0x09, CHR 0x0A, CHR 0x0B, CHR 0x0C, CHR 0x0D}"

definition trimSpace :: "string \<Rightarrow> string" where
  "trimSpace s = rev (dropWhile isSpace (rev (dropWhile isSpace s)))"

text \<open>\<open>strings.Fields\<close>: the maximal runs of characters that are not white space.\<close>

fun fields_from :: "string \<Rightarrow> string \<Rightarrow> string list" where
  "fields_from acc [] = (if acc = [] then [] else [rev acc])"
| "fields_from acc (c # s) =
     (if isSpace c then (if acc = [] then fields_from [] s else rev acc # fields_from [] s)
      else fields_from (c # acc) s)"

definition strFields :: "string \<Rightarrow> string list" where
  "strFields s = fields_from [] s"

text \<open>\<open>strings.ReplaceAll\<close> for a pattern that is not empty.\<close>

function replaceAll :: "string \<Rightarrow> string \<Rightarrow> string \<Rightarrow> string" where
  "replaceAll old new s =
     (if s = [] \<or> old = [] then s
      else if hasPrefix s old then new @ replaceAll old new (drop (length old) s)
      else hd s # replaceAll old new (tl s))"
  by pat_completeness auto
termination
  by (relation "measure (\<lambda>(old, new, s). length s)") (auto simp: neq_Nil_conv)

declare replaceAll.simps [simp del]

text \<open>\<open>strings.Index\<close>: the text before and after the first occurrence of a pattern.\<close>

fun breakAt :: "string \<Rightarrow> string \<Rightarrow> (string \<times> string) option" where
  "breakAt p [] = (if p = [] then Some ([], []) else None)"
| "breakAt p (c # s) =
     (if hasPrefix (c # s) p then Some ([], drop (length p) (c # s))
      else case breakAt p s of None \<Rightarrow> None | Some (before, after) \<Rightarrow> Some (c # before, after))"

section \<open>Interactions with the host\<close>

text \<open>\<open>CRIUExcludeArgs\<close> of \<open>pkg/agent/checkpoint.go\<close>: the areas a dump leaves out and those it must not take from its parent.\<close>

record criuExcludeArgs =
  ExcludeRanges :: "addrRange list"
  NoParentRanges :: "addrRange list"

text \<open>What \<open>filepath.Walk\<close> tells of an entry: its path, its name, whether it is a regular file or a directory, and its size.\<close>

record fileInfo =
  fi_path :: string
  fi_name :: string
  fi_regular :: bool
  fi_dir :: bool
  fi_size :: int

text \<open>What \<open>DescribeInstanceTypes\<close> tells of the network of an instance type.\<close>

record networkCard =
  nc_Baseline :: "rat option"
  nc_Peak :: "rat option"

record networkInfo =
  NetworkCards :: "networkCard list"
  NetworkPerformance :: "string option"

datatype (plugins only: code) fileEvent =
    FExists string bool
  | FIsSocket string bool
  | FFileSize string "string + int"
  | FGlob string "string + string list"
  | FWalk string "string + fileInfo list"
  | FMkdirAll string "string option"
  | FCreate string "string option"
  | FWriteFile string string "string option"
  | FWrite string string "string option"
  | FRemoveAll string "string option"

datatype (plugins only: code) storeEvent =
    S3PutData string string string "string option"
  | S3Put string string string "string option"
  | S3List string string "nat option" "string + (string \<times> int) list"
  | S3Get string string string "string option"
  | S3Read string string "string + string"
  | S3Delete string "string list" "string option"

datatype (plugins only: code) hostEvent =
    HReadFile string "string + string"
  | HReadDir string "string + (string \<times> bool) list"
  | HReadlink string "string + string"
  | HStat string bool
  | HOpenFile string "string option"
  | HOutput "string list" "string + string"
  | HStartCmd "string list" "string + int"
  | HSleep int
  | HNow int
  | HParseVMAs int "string + vmaInfo list"
  | HClosePagemap
  | HSetupUffd int "vmaInfo list" "string + int \<times> int \<times> addrRange list"
  | HVerifyWP "string + bool"
  | HWriteProtect "vmaInfo list" "string option"
  | HRegister int nat nat "string option"
  | HUnregister int nat nat "string option"
  | HScan "vmaInfo list" "string + scanResult list \<times> int"
  | HCloseTargetUffd int int "string option"
  | HCloseFd int
  | HPreDump int string "criuExcludeArgs option"
  | HFinalDump int string "criuExcludeArgs option" string
  | HCombined "string list" "string option \<times> string"
  | HRun "string list" "string option"
  | HKill int "string option"
  | HPipe "string option"
  | HDial string "string option"
  | HUuid string
  | HGoUpload string string
  | HHttp string string "(string \<times> string) list" "string + int \<times> string"
  | HDescribe string string "string + networkInfo option list"
  | HFile fileEvent
  | HStore storeEvent

record host =
  h_readFile :: "hostEvent list \<Rightarrow> string \<Rightarrow> string + string"
  h_readDir :: "hostEvent list \<Rightarrow> string \<Rightarrow> string + (string \<times> bool) list"
  h_readlink :: "hostEvent list \<Rightarrow> string \<Rightarrow> string + string"
  h_stat :: "hostEvent list \<Rightarrow> string \<Rightarrow> bool"
  h_open :: "hostEvent list \<Rightarrow> string \<Rightarrow> string option"
  h_output :: "hostEvent list \<Rightarrow> string list \<Rightarrow> string + string"
  h_start :: "hostEvent list \<Rightarrow> string list \<Rightarrow> string + int"
  h_start_time :: int
  h_latency :: "hostEvent list \<Rightarrow> nat"
  h_parseVMAs :: "hostEvent list \<Rightarrow> int \<Rightarrow> string + vmaInfo list"
  h_setupUffd :: "hostEvent list \<Rightarrow> int \<Rightarrow> vmaInfo list \<Rightarrow> string + int \<times> int \<times> addrRange list"
  h_verifyWP :: "hostEvent list \<Rightarrow> string + bool"
  h_writeProtect :: "hostEvent list \<Rightarrow> vmaInfo list \<Rightarrow> string option"
  h_register :: "hostEvent list \<Rightarrow> int \<Rightarrow> nat \<Rightarrow> nat \<Rightarrow> string option"
  h_unregister :: "hostEvent list \<Rightarrow> int \<Rightarrow> nat \<Rightarrow> nat \<Rightarrow> string option"
  h_scan :: "hostEvent list \<Rightarrow> vmaInfo \<Rightarrow> scanErrno + pageRegion list"
  h_closeTarget :: "hostEvent list \<Rightarrow> int \<Rightarrow> int \<Rightarrow> string option"
  h_exists :: "hostEvent list \<Rightarrow> string \<Rightarrow> bool"
  h_isSocket :: "hostEvent list \<Rightarrow> string \<Rightarrow> bool"
  h_fileSize :: "hostEvent list \<Rightarrow> string \<Rightarrow> string + int"
  h_glob :: "hostEvent list \<Rightarrow> string \<Rightarrow> string + string list"
  h_walk :: "hostEvent list \<Rightarrow> string \<Rightarrow> string + fileInfo list"
  h_mkdirAll :: "hostEvent list \<Rightarrow> string \<Rightarrow> string option"
  h_create :: "hostEvent list \<Rightarrow> string \<Rightarrow> string option"
  h_writeFile :: "hostEvent list \<Rightarrow> string \<Rightarrow> string \<Rightarrow> string option"
  h_write :: "hostEvent list \<Rightarrow> string \<Rightarrow> string \<Rightarrow> string option"
  h_removeAll :: "hostEvent list \<Rightarrow> string \<Rightarrow> string option"
  h_combined :: "hostEvent list \<Rightarrow> string list \<Rightarrow> string option \<times> string"
  h_run :: "hostEvent list \<Rightarrow> string list \<Rightarrow> string option"
  h_kill :: "hostEvent list \<Rightarrow> int \<Rightarrow> string option"
  h_pipe :: "hostEvent list \<Rightarrow> string option"
  h_dial :: "hostEvent list \<Rightarrow> string \<Rightarrow> string option"
  h_uuid :: "hostEvent list \<Rightarrow> string"
  h_http :: "hostEvent list \<Rightarrow> string \<Rightarrow> string \<Rightarrow> (string \<times> string) list \<Rightarrow> string + int \<times> string"
  h_describe :: "hostEvent list \<Rightarrow> string \<Rightarrow> string \<Rightarrow> string + networkInfo option list"
  h_s3Put :: "hostEvent list \<Rightarrow> string \<Rightarrow> string \<Rightarrow> string \<Rightarrow> string option"
  h_s3PutData :: "hostEvent list \<Rightarrow> string \<Rightarrow> string \<Rightarrow> string \<Rightarrow> string option"
  h_s3List :: "hostEvent list \<Rightarrow> string \<Rightarrow> string \<Rightarrow> nat option \<Rightarrow> string + (string \<times> int) list"
  h_s3Get :: "hostEvent list \<Rightarrow> string \<Rightarrow> string \<Rightarrow> string \<Rightarrow> string option"
  h_s3Read :: "hostEvent list \<Rightarrow> string \<Rightarrow> string \<Rightarrow> string + string"
  h_s3Delete :: "hostEvent list \<Rightarrow> string \<Rightarrow> string list \<Rightarrow> string option"

text \<open>The clock, in nanoseconds: it advances by every sleep and by the latency of every interaction.\<close>

fun hslept :: "hostEvent \<Rightarrow> int" where
  "hslept (HSleep d) = max 0 d"
| "hslept _ = 0"

fun hclock_rev :: "host \<Rightarrow> hostEvent list \<Rightarrow> int" where
  "hclock_rev h [] = h_start_time h"
| "hclock_rev h (e # r) = hclock_rev h r + hslept e + int (h_latency h (rev (e # r)))"

definition hclock :: "host \<Rightarrow> hostEvent list \<Rightarrow> int" where
  "hclock h t = hclock_rev h (rev t)"

lemma hclock_snoc: "hclock h (t @ [e]) = hclock h t + hslept e + int (h_latency h (t @ [e]))"
  by (simp add: hclock_def)

lemma hclock_append_le: "hclock h t \<le> hclock h (t @ d)"
proof (induction d rule: rev_induct)
  case (snoc e d)
  moreover have "0 \<le> hslept e" by (cases e) simp_all
  ultimately show ?case by (simp add: hclock_snoc flip: append_assoc)
qed simp

type_synonym 'a hprog = "(hostEvent, 'a) io"

definition hReadFile :: "host \<Rightarrow> string \<Rightarrow> (string + string) hprog" where
  "hReadFile h path = ask (\<lambda>t. h_readFile h t path) (HReadFile path)"

definition hReadDir :: "host \<Rightarrow> string \<Rightarrow> (string + (string \<times> bool) list) hprog" where
  "hReadDir h path = ask (\<lambda>t. h_readDir h t path) (HReadDir path)"

definition hReadlink :: "host \<Rightarrow> string \<Rightarrow> (string + string) hprog" where
  "hReadlink h path = ask (\<lambda>t. h_readlink h t path) (HReadlink path)"

definition hStat :: "host \<Rightarrow> string \<Rightarrow> bool hprog" where
  "hStat h path = ask (\<lambda>t. h_stat h t path) (HStat path)"

definition hOpen :: "host \<Rightarrow> string \<Rightarrow> string option hprog" where
  "hOpen h path = ask (\<lambda>t. h_open h t path) (HOpenFile path)"

definition hOutput :: "host \<Rightarrow> string list \<Rightarrow> (string + string) hprog" where
  "hOutput h args = ask (\<lambda>t. h_output h t args) (HOutput args)"

definition hStart :: "host \<Rightarrow> string list \<Rightarrow> (string + int) hprog" where
  "hStart h args = ask (\<lambda>t. h_start h t args) (HStartCmd args)"

definition hSleep :: "int \<Rightarrow> unit hprog" where
  "hSleep d = ask (\<lambda>_. ()) (\<lambda>_. HSleep d)"

definition hNow :: "host \<Rightarrow> int hprog" where
  "hNow h = ask (hclock h) HNow"

definition hParseVMAs :: "host \<Rightarrow> int \<Rightarrow> (string + vmaInfo list) hprog" where
  "hParseVMAs h pid = ask (\<lambda>t. h_parseVMAs h t pid) (HParseVMAs pid)"

definition hClosePagemap :: "unit hprog" where
  "hClosePagemap = ask (\<lambda>_. ()) (\<lambda>_. HClosePagemap)"

definition hSetupUffd :: "host \<Rightarrow> int \<Rightarrow> vmaInfo list \<Rightarrow> (string + int \<times> int \<times> addrRange list) hprog" where
  "hSetupUffd h pid vmas = ask (\<lambda>t. h_setupUffd h t pid vmas) (HSetupUffd pid vmas)"

definition hVerifyWP :: "host \<Rightarrow> (string + bool) hprog" where
  "hVerifyWP h = ask (\<lambda>t. h_verifyWP h t) HVerifyWP"

definition hWriteProtect :: "host \<Rightarrow> vmaInfo list \<Rightarrow> string option hprog" where
  "hWriteProtect h vmas = ask (\<lambda>t. h_writeProtect h t vmas) (HWriteProtect vmas)"

definition hRegister :: "host \<Rightarrow> int \<Rightarrow> nat \<Rightarrow> nat \<Rightarrow> string option hprog" where
  "hRegister h fd a b = ask (\<lambda>t. h_register h t fd a b) (HRegister fd a b)"

definition hUnregister :: "host \<Rightarrow> int \<Rightarrow> nat \<Rightarrow> nat \<Rightarrow> string option hprog" where
  "hUnregister h fd a b = ask (\<lambda>t. h_unregister h t fd a b) (HUnregister fd a b)"

definition hScan :: "host \<Rightarrow> vmaInfo list \<Rightarrow> (string + scanResult list \<times> int) hprog" where
  "hScan h vmas = ask (\<lambda>t. scanDirtyPages (h_scan h t) vmas) (HScan vmas)"

definition hCloseTarget :: "host \<Rightarrow> int \<Rightarrow> int \<Rightarrow> string option hprog" where
  "hCloseTarget h pid fd = ask (\<lambda>t. h_closeTarget h t pid fd) (HCloseTargetUffd pid fd)"

definition hCloseFd :: "int \<Rightarrow> unit hprog" where
  "hCloseFd fd = ask (\<lambda>_. ()) (\<lambda>_. HCloseFd fd)"

definition hExists :: "host \<Rightarrow> string \<Rightarrow> bool hprog" where
  "hExists h path = ask (\<lambda>t. h_exists h t path) (\<lambda>r. HFile (FExists path r))"

definition hIsSocket :: "host \<Rightarrow> string \<Rightarrow> bool hprog" where
  "hIsSocket h path = ask (\<lambda>t. h_isSocket h t path) (\<lambda>r. HFile (FIsSocket path r))"

definition hFileSize :: "host \<Rightarrow> string \<Rightarrow> (string + int) hprog" where
  "hFileSize h path = ask (\<lambda>t. h_fileSize h t path) (\<lambda>r. HFile (FFileSize path r))"

definition hGlob :: "host \<Rightarrow> string \<Rightarrow> (string + string list) hprog" where
  "hGlob h pattern = ask (\<lambda>t. h_glob h t pattern) (\<lambda>r. HFile (FGlob pattern r))"

definition hWalk :: "host \<Rightarrow> string \<Rightarrow> (string + fileInfo list) hprog" where
  "hWalk h path = ask (\<lambda>t. h_walk h t path) (\<lambda>r. HFile (FWalk path r))"

definition hMkdirAll :: "host \<Rightarrow> string \<Rightarrow> string option hprog" where
  "hMkdirAll h path = ask (\<lambda>t. h_mkdirAll h t path) (\<lambda>r. HFile (FMkdirAll path r))"

definition hCreate :: "host \<Rightarrow> string \<Rightarrow> string option hprog" where
  "hCreate h path = ask (\<lambda>t. h_create h t path) (\<lambda>r. HFile (FCreate path r))"

definition hWriteFile :: "host \<Rightarrow> string \<Rightarrow> string \<Rightarrow> string option hprog" where
  "hWriteFile h path content = ask (\<lambda>t. h_writeFile h t path content) (\<lambda>r. HFile (FWriteFile path content r))"

text \<open>A write to an open file.\<close>

definition hWrite :: "host \<Rightarrow> string \<Rightarrow> string \<Rightarrow> string option hprog" where
  "hWrite h path content = ask (\<lambda>t. h_write h t path content) (\<lambda>r. HFile (FWrite path content r))"

definition hRemoveAll :: "host \<Rightarrow> string \<Rightarrow> string option hprog" where
  "hRemoveAll h path = ask (\<lambda>t. h_removeAll h t path) (\<lambda>r. HFile (FRemoveAll path r))"

definition hCombined :: "host \<Rightarrow> string list \<Rightarrow> (string option \<times> string) hprog" where
  "hCombined h args = ask (\<lambda>t. h_combined h t args) (HCombined args)"

definition hRun :: "host \<Rightarrow> string list \<Rightarrow> string option hprog" where
  "hRun h args = ask (\<lambda>t. h_run h t args) (HRun args)"

definition hKill :: "host \<Rightarrow> int \<Rightarrow> string option hprog" where
  "hKill h pid = ask (\<lambda>t. h_kill h t pid) (HKill pid)"

definition hPipe :: "host \<Rightarrow> string option hprog" where
  "hPipe h = ask (\<lambda>t. h_pipe h t) HPipe"

definition hDial :: "host \<Rightarrow> string \<Rightarrow> string option hprog" where
  "hDial h addr = ask (\<lambda>t. h_dial h t addr) (HDial addr)"

definition hUuid :: "host \<Rightarrow> string hprog" where
  "hUuid h = ask (\<lambda>t. h_uuid h t) HUuid"

definition hHttp :: "host \<Rightarrow> string \<Rightarrow> string \<Rightarrow> (string \<times> string) list \<Rightarrow> (string + int \<times> string) hprog" where
  "hHttp h verb url headers = ask (\<lambda>t. h_http h t verb url headers) (HHttp verb url headers)"

definition hDescribe :: "host \<Rightarrow> string \<Rightarrow> string \<Rightarrow> (string + networkInfo option list) hprog" where
  "hDescribe h region itype = ask (\<lambda>t. h_describe h t region itype) (HDescribe region itype)"

definition hS3Put :: "host \<Rightarrow> string \<Rightarrow> string \<Rightarrow> string \<Rightarrow> string option hprog" where
  "hS3Put h bucket key path = ask (\<lambda>t. h_s3Put h t bucket key path) (\<lambda>r. HStore (S3Put bucket key path r))"

definition hS3PutData :: "host \<Rightarrow> string \<Rightarrow> string \<Rightarrow> string \<Rightarrow> string option hprog" where
  "hS3PutData h bucket key content = ask (\<lambda>t. h_s3PutData h t bucket key content) (\<lambda>r. HStore (S3PutData bucket key content r))"

definition hS3List :: "host \<Rightarrow> string \<Rightarrow> string \<Rightarrow> nat option \<Rightarrow> (string + (string \<times> int) list) hprog" where
  "hS3List h bucket prefix maxKeys = ask (\<lambda>t. h_s3List h t bucket prefix maxKeys) (\<lambda>r. HStore (S3List bucket prefix maxKeys r))"

definition hS3Get :: "host \<Rightarrow> string \<Rightarrow> string \<Rightarrow> string \<Rightarrow> string option hprog" where
  "hS3Get h bucket key path = ask (\<lambda>t. h_s3Get h t bucket key path) (\<lambda>r. HStore (S3Get bucket key path r))"

definition hS3Read :: "host \<Rightarrow> string \<Rightarrow> string \<Rightarrow> (string + string) hprog" where
  "hS3Read h bucket key = ask (\<lambda>t. h_s3Read h t bucket key) (\<lambda>r. HStore (S3Read bucket key r))"

definition hS3Delete :: "host \<Rightarrow> string \<Rightarrow> string list \<Rightarrow> string option hprog" where
  "hS3Delete h bucket keys = ask (\<lambda>t. h_s3Delete h t bucket keys) (\<lambda>r. HStore (S3Delete bucket keys r))"

definition hGoUpload :: "string \<Rightarrow> string \<Rightarrow> unit hprog" where
  "hGoUpload dir prefix = ask (\<lambda>_. ()) (\<lambda>_. HGoUpload dir prefix)"

text \<open>The calls of the two dump operations of the agent itself are marked in the log with their arguments.\<close>

definition hPreDump :: "int \<Rightarrow> string \<Rightarrow> criuExcludeArgs option \<Rightarrow> unit hprog" where
  "hPreDump pid parent excl = ask (\<lambda>_. ()) (\<lambda>_. HPreDump pid parent excl)"

definition hFinalDump :: "int \<Rightarrow> string \<Rightarrow> criuExcludeArgs option \<Rightarrow> string \<Rightarrow> unit hprog" where
  "hFinalDump pid parent excl strategy = ask (\<lambda>_. ()) (\<lambda>_. HFinalDump pid parent excl strategy)"

lemma io_post_host [io_rules]:
  "(\<And>r. Q r [HReadFile path r]) \<Longrightarrow> io_post (hReadFile h path) Q"
  "(\<And>r. Q' r [HReadDir path r]) \<Longrightarrow> io_post (hReadDir h path) Q'"
  "(\<And>r. Q r [HReadlink path r]) \<Longrightarrow> io_post (hReadlink h path) Q"
  "(\<And>r. Qt r [HStat path r]) \<Longrightarrow> io_post (hStat h path) Qt"
  "(\<And>r. Qo r [HOpenFile path r]) \<Longrightarrow> io_post (hOpen h path) Qo"
  "(\<And>r. Q r [HOutput args r]) \<Longrightarrow> io_post (hOutput h args) Q"
  "(\<And>r. Qi r [HStartCmd args r]) \<Longrightarrow> io_post (hStart h args) Qi"
  "Qu () [HSleep d] \<Longrightarrow> io_post (hSleep d) Qu"
  "(\<And>r. Qn r [HNow r]) \<Longrightarrow> io_post (hNow h) Qn"
  "(\<And>r. Qv r [HParseVMAs pid r]) \<Longrightarrow> io_post (hParseVMAs h pid) Qv"
  "Qu () [HClosePagemap] \<Longrightarrow> io_post hClosePagemap Qu"
  "(\<And>r. Qs r [HSetupUffd pid vmas r]) \<Longrightarrow> io_post (hSetupUffd h pid vmas) Qs"
  "(\<And>r. Qb r [HVerifyWP r]) \<Longrightarrow> io_post (hVerifyWP h) Qb"
  "(\<And>r. Qo r [HWriteProtect vmas r]) \<Longrightarrow> io_post (hWriteProtect h vmas) Qo"
  "(\<And>r. Qo r [HRegister fd a b r]) \<Longrightarrow> io_post (hRegister h fd a b) Qo"
  "(\<And>r. Qo r [HUnregister fd a b r]) \<Longrightarrow> io_post (hUnregister h fd a b) Qo"
  "(\<And>r. Qc r [HScan vmas r]) \<Longrightarrow> io_post (hScan h vmas) Qc"
  "(\<And>r. Qo r [HCloseTargetUffd pid fd r]) \<Longrightarrow> io_post (hCloseTarget h pid fd) Qo"
  "Qu () [HCloseFd fd] \<Longrightarrow> io_post (hCloseFd fd) Qu"
  "(\<And>r. R0 r [HFile (FExists path r)]) \<Longrightarrow> io_post (hExists h path) R0"
  "(\<And>r. R0 r [HFile (FIsSocket path r)]) \<Longrightarrow> io_post (hIsSocket h path) R0"
  "(\<And>r. R1 r [HFile (FFileSize path r)]) \<Longrightarrow> io_post (hFileSize h path) R1"
  "(\<And>r. R2 r [HFile (FGlob pattern r)]) \<Longrightarrow> io_post (hGlob h pattern) R2"
  "(\<And>r. R3 r [HFile (FWalk path r)]) \<Longrightarrow> io_post (hWalk h path) R3"
  "(\<And>r. R4 r [HFile (FMkdirAll path r)]) \<Longrightarrow> io_post (hMkdirAll h path) R4"
  "(\<And>r. R4 r [HFile (FCreate path r)]) \<Longrightarrow> io_post (hCreate h path) R4"
  "(\<And>r. R4 r [HFile (FWriteFile path content r)]) \<Longrightarrow> io_post (hWriteFile h path content) R4"
  "(\<And>r. R4 r [HFile (FWrite path content r)]) \<Longrightarrow> io_post (hWrite h path content) R4"
  "(\<And>r. R4 r [HFile (FRemoveAll path r)]) \<Longrightarrow> io_post (hRemoveAll h path) R4"
  "(\<And>r. R5 r [HCombined args r]) \<Longrightarrow> io_post (hCombined h args) R5"
  "(\<And>r. R4 r [HRun args r]) \<Longrightarrow> io_post (hRun h args) R4"
  "(\<And>r. R4 r [HKill pid r]) \<Longrightarrow> io_post (hKill h pid) R4"
  "(\<And>r. R4 r [HPipe r]) \<Longrightarrow> io_post (hPipe h) R4"
  "(\<And>r. R4 r [HDial addr r]) \<Longrightarrow> io_post (hDial h addr) R4"
  "(\<And>r. R6 r [HUuid r]) \<Longrightarrow> io_post (hUuid h) R6"
  "(\<And>r. R4 r [HStore (S3Put bucket key path r)]) \<Longrightarrow> io_post (hS3Put h bucket key path) R4"
  "(\<And>r. R4 r [HStore (S3PutData bucket key content r)]) \<Longrightarrow> io_post (hS3PutData h bucket key content) R4"
  "(\<And>r. R7 r [HStore (S3List bucket prefix maxKeys r)]) \<Longrightarrow> io_post (hS3List h bucket prefix maxKeys) R7"
  "(\<And>r. R4 r [HStore (S3Get bucket key path r)]) \<Longrightarrow> io_post (hS3Get h bucket key path) R4"
  "(\<And>r. R8 r [HStore (S3Read bucket key r)]) \<Longrightarrow> io_post (hS3Read h bucket key) R8"
  "(\<And>r. R4 r [HStore (S3Delete bucket keys r)]) \<Longrightarrow> io_post (hS3Delete h bucket keys) R4"
  "Qu () [HGoUpload dir prefix] \<Longrightarrow> io_post (hGoUpload dir prefix) Qu"
  "(\<And>r. Qh r [HHttp verb url headers r]) \<Longrightarrow> io_post (hHttp h verb url headers) Qh"
  "(\<And>r. Qd r [HDescribe region itype r]) \<Longrightarrow> io_post (hDescribe h region itype) Qd"
  "Qu () [HPreDump pid parent excl] \<Longrightarrow> io_post (hPreDump pid parent excl) Qu"
  "Qu () [HFinalDump pid parent excl strategy] \<Longrightarrow> io_post (hFinalDump pid parent excl strategy) Qu"
  by (simp_all add: io_post_ask hReadFile_def hReadDir_def hReadlink_def hStat_def hOpen_def hOutput_def hStart_def
      hSleep_def hNow_def hParseVMAs_def hClosePagemap_def hSetupUffd_def hVerifyWP_def hWriteProtect_def
      hRegister_def hUnregister_def hScan_def hCloseTarget_def hCloseFd_def
      hExists_def hIsSocket_def hFileSize_def hGlob_def hWalk_def hMkdirAll_def hCreate_def hWriteFile_def hWrite_def hRemoveAll_def hCombined_def hRun_def hKill_def hPipe_def hDial_def hUuid_def hS3Put_def hS3PutData_def hS3List_def hS3Get_def hS3Read_def hS3Delete_def hGoUpload_def
      hHttp_def hDescribe_def hPreDump_def hFinalDump_def)

section \<open>Polling\<close>

text \<open>
  The loops of the agent that try something until a deadline: the clock is read, the attempt is made, and
  after an attempt without a result the loop sleeps. What the attempt adds to the log is taken from its run. The
  intervals of the code are positive constants.
\<close>

lemma hclock_progress: "hclock h t + max 1 i \<le> hclock h (t @ d @ [HSleep (max 1 i)])"
  using hclock_append_le [of h t d] hclock_snoc [of h "t @ d" "HSleep (max 1 i)"] by simp

function pollFrom :: "host \<Rightarrow> int \<Rightarrow> int \<Rightarrow> 'r option hprog \<Rightarrow> hostEvent list \<Rightarrow> 'r option \<times> hostEvent list" where
  "pollFrom h deadline interval m t =
     (let n = hclock h t; t1 = t @ [HNow n] in
      if n < deadline
      then let r = fst (run_state m t1); d = drop (length t1) (snd (run_state m t1)) in
           if r \<noteq> None then (r, t1 @ d) else pollFrom h deadline interval m (t1 @ d @ [HSleep (max 1 interval)])
      else (None, t1))"
  by pat_completeness auto
termination
proof (relation "measure (\<lambda>(h, deadline, interval, m, t). nat (deadline - hclock h t))", goal_cases)
  case 1
  then show ?case by simp
next
  case (2 h deadline interval m t n t1 r d)
  have "hclock h t + max 1 interval \<le> hclock h (t @ ([HNow n] @ d) @ [HSleep (max 1 interval)])" by (rule hclock_progress)
  with 2 show ?case by simp
qed

declare pollFrom.simps [simp del]

definition pollUntil :: "host \<Rightarrow> int \<Rightarrow> int \<Rightarrow> 'r option hprog \<Rightarrow> 'r option hprog" where
  "pollUntil h deadline interval m = State (pollFrom h deadline interval m)"

text \<open>
  The rule for the loop: what holds at the timeout and after a successful attempt, and is kept by an attempt without a result in
  front, holds of the whole loop.
\<close>

lemma io_post_loop:
  assumes m: "io_post m Q"
    and R: "\<And>n. R None [HNow n]" "\<And>n x d. Q (Some x) d \<Longrightarrow> R (Some x) (HNow n # d)"
      "\<And>n d r d'. Q None d \<Longrightarrow> R r d' \<Longrightarrow> R r (HNow n # d @ HSleep (max 1 interval) # d')"
  shows "io_post (pollUntil h deadline interval m) R"
proof -
  have "\<exists>d. snd (pollFrom h deadline interval m t) = t @ d \<and> R (fst (pollFrom h deadline interval m t)) d" for t
    using m R
  proof (induction h deadline interval m t rule: pollFrom.induct)
    case (1 h deadline interval m t)
    let ?t1 = "t @ [HNow (hclock h t)]"
    from io_post_at [OF 1(2), of ?t1] obtain d where
      d: "snd (run_state m ?t1) = ?t1 @ d" "Q (fst (run_state m ?t1)) d" by blast
    note R = 1(3-5)
    show ?case
    proof (cases "hclock h t < deadline \<and> fst (run_state m ?t1) = None")
      case False
      then show ?thesis using d R(1,2) by (subst (1 2) pollFrom.simps) (auto simp: Let_def)
    next
      case True
      let ?t2 = "?t1 @ d @ [HSleep (max 1 interval)]"
      have eq: "pollFrom h deadline interval m t = pollFrom h deadline interval m ?t2"
        using True d(1) by (subst pollFrom.simps) (simp add: Let_def)
      have "\<exists>d'. snd (pollFrom h deadline interval m ?t2) = ?t2 @ d' \<and> R (fst (pollFrom h deadline interval m ?t2)) d'"
        using 1(1) [OF refl refl _ refl refl] True d(1) 1(2) R by simp
      then obtain d' where "snd (pollFrom h deadline interval m ?t2) = ?t2 @ d'" "R (fst (pollFrom h deadline interval m ?t2)) d'"
        by blast
      then show ?thesis
        unfolding eq using d True R(3) by (intro exI [of _ "HNow (hclock h t) # d @ HSleep (max 1 interval) # d'"]) auto
    qed
  qed
  then show ?thesis by (simp add: io_post_def pollUntil_def)
qed

text \<open>What every attempt promises of its events and its result, the whole loop promises.\<close>

lemma io_post_pollUntil:
  assumes "io_post m (\<lambda>r d. list_all E d \<and> (case r of None \<Rightarrow> True | Some x \<Rightarrow> R x))"
    and "\<And>n. E (HNow n)" "E (HSleep (max 1 interval))"
  shows "io_post (pollUntil h deadline interval m) (\<lambda>r d. list_all E d \<and> (case r of None \<Rightarrow> True | Some x \<Rightarrow> R x))"
  by (rule io_post_loop [OF assms(1)]) (auto simp: assms(2,3))

text \<open>The loop has found something only if an attempt has seen it.\<close>

lemma io_post_poll_seen:
  assumes "io_post m (\<lambda>r d. r = None \<or> list_ex P d)"
  shows "io_post (pollUntil h deadline interval m) (\<lambda>r d. r = None \<or> list_ex P d)"
  by (rule io_post_loop [OF assms]) auto

text \<open>The calls of the dump operations in a log.\<close>

fun isPreDump :: "hostEvent \<Rightarrow> bool" where
  "isPreDump (HPreDump pid parent excl) = True"
| "isPreDump _ = False"

section \<open>A host for examples\<close>

text \<open>No file can be read, every command and every storage operation succeeds with empty results.\<close>

definition silentHost :: host where
  "silentHost = \<lparr>h_readFile = (\<lambda>_ _. Inl ''unavailable''), h_readDir = (\<lambda>_ _. Inl ''unavailable''), h_readlink = (\<lambda>_ _. Inl ''unavailable''),
     h_stat = (\<lambda>_ _. False), h_open = (\<lambda>_ _. None), h_output = (\<lambda>_ _. Inl ''unavailable''),
     h_start = (\<lambda>_ _. Inl ''unavailable''), h_start_time = 0, h_latency = (\<lambda>_. 0),
     h_parseVMAs = (\<lambda>_ _. Inl ''unavailable''), h_setupUffd = (\<lambda>_ _ _. Inl ''unavailable''), h_verifyWP = (\<lambda>_. Inl ''unavailable''),
     h_writeProtect = (\<lambda>_ _. None), h_register = (\<lambda>_ _ _ _. None), h_unregister = (\<lambda>_ _ _ _. None),
     h_scan = (\<lambda>_ _. Inr []), h_closeTarget = (\<lambda>_ _ _. None), h_exists = (\<lambda>_ _. False),
     h_isSocket = (\<lambda>_ _. False), h_fileSize = (\<lambda>_ _. Inl ''unavailable''), h_glob = (\<lambda>_ _. Inr []),
     h_walk = (\<lambda>_ _. Inr []), h_mkdirAll = (\<lambda>_ _. None), h_create = (\<lambda>_ _. None),
     h_writeFile = (\<lambda>_ _ _. None), h_write = (\<lambda>_ _ _. None), h_removeAll = (\<lambda>_ _. None),
     h_combined = (\<lambda>_ _. (None, [])), h_run = (\<lambda>_ _. None), h_kill = (\<lambda>_ _. None),
     h_pipe = (\<lambda>_. None), h_dial = (\<lambda>_ _. None), h_uuid = (\<lambda>_. ''0f1e2d3c''),
     h_http = (\<lambda>_ _ _ _. Inl ''unavailable''), h_describe = (\<lambda>_ _ _. Inl ''unavailable''), h_s3Put = (\<lambda>_ _ _ _. None),
     h_s3PutData = (\<lambda>_ _ _ _. None), h_s3List = (\<lambda>_ _ _ _. Inr []), h_s3Get = (\<lambda>_ _ _ _. None),
     h_s3Read = (\<lambda>_ _ _. Inl ''unavailable''), h_s3Delete = (\<lambda>_ _ _. None)\<rparr>"

end
