(* ===== verification/Profiler.thy ===== *)
theory Profiler
  imports Heat AgentHost
begin

text \<open>
  \<open>pkg/profiler/profiler.go\<close>: the life of a profiler. Its goroutine is the flag \<open>looping\<close>: while it is set the
  ticker may run \<open>collectSample\<close>, and \<open>Stop\<close> waits for the goroutine, so no sample runs after it. The system
  calls of \<open>ptrace.go\<close> and the reading of the memory map are interactions with the host. A byte count is an
  unbounded integer, and a \<open>float64\<close> a rational number.
\<close>

section \<open>State\<close>

record profilerConfig =
  IntervalMs :: int
  HotThreshold :: rat
  HotConsecutive :: int

definition DefaultConfig :: profilerConfig where
  "DefaultConfig = \<lparr>IntervalMs = 5000, HotThreshold = 3 / 10, HotConsecutive = 3\<rparr>"

record dirtyVolume =
  dv_DirtyPages :: int
  DirtyBytes :: int
  DirtyRatePerSec :: rat
  CumulativeDirtyBytes :: int
  AvgDirtyRate :: rat
  TimestampMs :: int

definition zeroVolume :: dirtyVolume where
  "zeroVolume = \<lparr>dv_DirtyPages = 0, DirtyBytes = 0, DirtyRatePerSec = 0, CumulativeDirtyBytes = 0, AvgDirtyRate = 0,
     TimestampMs = 0\<rparr>"

record profiler =
  p_pid :: int
  p_config :: profilerConfig
  trackerUffdFd :: int
  targetUffdFd :: int
  pagemapFile :: bool
  registeredVMAs :: "addrRange list"
  heat :: heatClassifier
  hotRegions :: "hotRegion list"
  p_dirtyVolume :: dirtyVolume
  p_totalVMAs :: nat
  hotVMACount :: nat
  sampleCount :: int
  cumulativeDirtyBytes :: int
  startTime :: int
  looping :: bool

definition New :: "int \<Rightarrow> profilerConfig \<Rightarrow> profiler" where
  "New pid config =
     (let c1 = (if IntervalMs config \<le> 0 then config\<lparr>IntervalMs := 1000\<rparr> else config);
          c2 = (if HotThreshold c1 \<le> 0 then c1\<lparr>HotThreshold := 3 / 10\<rparr> else c1);
          c3 = (if HotConsecutive c2 \<le> 0 then c2\<lparr>HotConsecutive := 3\<rparr> else c2)
      in \<lparr>p_pid = pid, p_config = c3, trackerUffdFd = -1, targetUffdFd = -1, pagemapFile = False, registeredVMAs = [],
          heat = newHeatClassifier (HotThreshold c3) (HotConsecutive c3), hotRegions = [], p_dirtyVolume = zeroVolume,
          p_totalVMAs = 0, hotVMACount = 0, sampleCount = 0, cumulativeDirtyBytes = 0, startTime = 0, looping = False\<rparr>)"

section \<open>Operations\<close>

definition profilerStop :: "profiler \<Rightarrow> profiler" where
  "profilerStop p = p\<lparr>looping := False\<rparr>"

definition profilerClose :: "profiler \<Rightarrow> profiler hprog" where
  "profilerClose p0 =
     (let p = profilerStop p0 in do {
        _ \<leftarrow> (if pagemapFile p then hClosePagemap else State_Monad.return ());
        _ \<leftarrow> (if trackerUffdFd p \<ge> 0 then hCloseFd (trackerUffdFd p) else State_Monad.return ());
        State_Monad.return (p\<lparr>pagemapFile := False,
          trackerUffdFd := (if trackerUffdFd p \<ge> 0 then -1 else trackerUffdFd p)\<rparr>)
      })"

definition pagemapPath :: "int \<Rightarrow> string" where
  "pagemapPath pid = ''/proc/'' @ itoa pid @ ''/pagemap''"

text \<open>The last part of \<open>Start\<close>: the write protection is verified, the baseline is set, the loop starts.\<close>

definition startLoop :: "host \<Rightarrow> vmaInfo list \<Rightarrow> profiler \<Rightarrow> (string option \<times> profiler) hprog" where
  "startLoop h vmas p = do {
     v \<leftarrow> hVerifyWP h;
     (if v \<noteq> Inr True then do {
        p' \<leftarrow> profilerClose p;
        State_Monad.return (Some (''WP not active after setup (pid='' @ itoa (p_pid p) @ ''): '' @ (case v of Inl e \<Rightarrow> e | Inr _ \<Rightarrow> ''<nil>'')), p')
      } else do {
        e \<leftarrow> hWriteProtect h (writableAnonymousVMAs vmas);
        (case e of
           Some e \<Rightarrow> do { p' \<leftarrow> profilerClose p; State_Monad.return (Some (''WP baseline: '' @ e), p') }
         | None \<Rightarrow> do {
             n \<leftarrow> hNow h;
             State_Monad.return (None, p\<lparr>startTime := n, looping := True\<rparr>)
           })
      })
   }"

definition profilerStart :: "host \<Rightarrow> profiler \<Rightarrow> (string option \<times> profiler) hprog" where
  "profilerStart h p = do {
     r \<leftarrow> hParseVMAs h (p_pid p);
     (case r of
        Inl e \<Rightarrow> State_Monad.return (Some (''parse VMAs: '' @ e), p)
      | Inr vmas \<Rightarrow> do {
          e1 \<leftarrow> hOpen h (pagemapPath (p_pid p));
          (case e1 of
             Some e \<Rightarrow> State_Monad.return (Some (''open pagemap: '' @ e), p\<lparr>pagemapFile := False\<rparr>)
           | None \<Rightarrow> do {
               s \<leftarrow> hSetupUffd h (p_pid p) vmas;
               (case s of
                  Inl e \<Rightarrow> do {
                    _ \<leftarrow> hClosePagemap;
                    State_Monad.return (Some (''setup uffd-wp: '' @ e), p\<lparr>pagemapFile := True\<rparr>)
                  }
                | Inr (trackerFd, targetFd, registered) \<Rightarrow>
                    startLoop h vmas (p\<lparr>pagemapFile := True, trackerUffdFd := trackerFd, targetUffdFd := targetFd,
                      registeredVMAs := registered\<rparr>))
             })
        })
   }"

fun registerNew :: "host \<Rightarrow> int \<Rightarrow> vmaInfo list \<Rightarrow> addrRange list \<Rightarrow> addrRange list hprog" where
  "registerNew h fd [] registered = State_Monad.return registered"
| "registerNew h fd (v # vmas) registered = do {
     e \<leftarrow> hRegister h fd (Start v) (End v);
     (case e of
        Some _ \<Rightarrow> registerNew h fd vmas registered
      | None \<Rightarrow> do {
          _ \<leftarrow> hWriteProtect h [v];
          registerNew h fd vmas (registered @ [\<lparr>ar_Start = Start v, ar_End = End v\<rparr>])
        })
   }"

text \<open>What a sample stores; \<open>t1\<close> and \<open>t2\<close> are the two readings of the clock.\<close>

definition recordSample :: "profiler \<Rightarrow> scanResult list \<Rightarrow> int \<Rightarrow> int \<Rightarrow> int \<Rightarrow> profiler" where
  "recordSample p results totalDirty t1 t2 =
     (let (heat', hot) = heatUpdate (heat p) results;
          dirtyBytes = totalDirty * int pageSize;
          cumulative = cumulativeDirtyBytes p + dirtyBytes;
          elapsed = of_int (t1 - startTime p) / 1000000000;
          intervalSec = of_int (IntervalMs (p_config p)) / 1000
      in p\<lparr>heat := heat', sampleCount := sampleCount p + 1, cumulativeDirtyBytes := cumulative, hotRegions := hot,
           p_dirtyVolume := \<lparr>dv_DirtyPages = totalDirty, DirtyBytes = dirtyBytes,
             DirtyRatePerSec = of_int dirtyBytes / intervalSec, CumulativeDirtyBytes = cumulative,
             AvgDirtyRate = (if elapsed > 0 then of_int cumulative / elapsed else 0), TimestampMs = t2 div 1000000\<rparr>,
           p_totalVMAs := totalVMAs heat', hotVMACount := hotVMAs heat'\<rparr>)"

definition collectSample :: "host \<Rightarrow> profiler \<Rightarrow> profiler hprog" where
  "collectSample h p = do {
     r \<leftarrow> hParseVMAs h (p_pid p);
     (case r of
        Inl _ \<Rightarrow> State_Monad.return p
      | Inr vmas \<Rightarrow> do {
          registered \<leftarrow> registerNew h (trackerUffdFd p) (diffVMAs vmas (registeredVMAs p)) (registeredVMAs p);
          s \<leftarrow> hScan h (writableAnonymousVMAs vmas);
          (case s of
             Inl _ \<Rightarrow> State_Monad.return (p\<lparr>registeredVMAs := registered\<rparr>)
           | Inr (results, totalDirty) \<Rightarrow> do {
               t1 \<leftarrow> hNow h;
               t2 \<leftarrow> hNow h;
               State_Monad.return (recordSample (p\<lparr>registeredVMAs := registered\<rparr>) results totalDirty t1 t2)
             })
        })
   }"

text \<open>The loop: a tick runs a sample as long as the profiler has not been stopped.\<close>

definition profilerTick :: "host \<Rightarrow> profiler \<Rightarrow> profiler hprog" where
  "profilerTick h p = (if looping p then collectSample h p else State_Monad.return p)"

fun profilerTicks :: "host \<Rightarrow> nat \<Rightarrow> profiler \<Rightarrow> profiler hprog" where
  "profilerTicks h 0 p = State_Monad.return p"
| "profilerTicks h (Suc n) p = do { p' \<leftarrow> profilerTick h p; profilerTicks h n p' }"

definition CleanupBeforeCRIU :: "host \<Rightarrow> profiler \<Rightarrow> profiler hprog" where
  "CleanupBeforeCRIU h p0 =
     (let p = profilerStop p0 in do {
        _ \<leftarrow> forEach (registeredVMAs p) (\<lambda>v. do {
               _ \<leftarrow> hUnregister h (trackerUffdFd p) (ar_Start v) (ar_End v);
               State_Monad.return ()
             });
        _ \<leftarrow> (if targetUffdFd p \<ge> 0 then hCloseTarget h (p_pid p) (targetUffdFd p) else State_Monad.return None);
        _ \<leftarrow> (if trackerUffdFd p \<ge> 0 then hCloseFd (trackerUffdFd p) else State_Monad.return ());
        State_Monad.return (p\<lparr>registeredVMAs := [], heat := heatReset (heat p),
          targetUffdFd := (if targetUffdFd p \<ge> 0 then -1 else targetUffdFd p),
          trackerUffdFd := (if trackerUffdFd p \<ge> 0 then -1 else trackerUffdFd p)\<rparr>)
      })"

definition ReinitAfterCRIU :: "host \<Rightarrow> profiler \<Rightarrow> (string option \<times> profiler) hprog" where
  "ReinitAfterCRIU h p = do {
     r \<leftarrow> hParseVMAs h (p_pid p);
     (case r of
        Inl e \<Rightarrow> State_Monad.return (Some (''parse VMAs: '' @ e), p)
      | Inr vmas \<Rightarrow> let writable = writableAnonymousVMAs vmas in do {
          s \<leftarrow> hSetupUffd h (p_pid p) writable;
          (case s of
             Inl e \<Rightarrow> State_Monad.return (Some (''reinit uffd-wp setup: '' @ e), p)
           | Inr (trackerFd, targetFd, registered) \<Rightarrow>
               let p1 = p\<lparr>trackerUffdFd := trackerFd, targetUffdFd := targetFd, registeredVMAs := registered\<rparr> in do {
                 _ \<leftarrow> (if pagemapFile p1 then hClosePagemap else State_Monad.return ());
                 o1 \<leftarrow> hOpen h (pagemapPath (p_pid p));
                 (case o1 of
                    Some e \<Rightarrow> State_Monad.return (Some (''reopen pagemap: '' @ e), p1\<lparr>pagemapFile := False\<rparr>)
                  | None \<Rightarrow> let p2 = p1\<lparr>pagemapFile := True\<rparr> in do {
                      w \<leftarrow> hWriteProtect h writable;
                      (case w of
                         Some e \<Rightarrow> State_Monad.return (Some (''WP baseline after reinit: '' @ e), p2)
                       | None \<Rightarrow> do {
                           n \<leftarrow> hNow h;
                           State_Monad.return (None, p2\<lparr>cumulativeDirtyBytes := 0, sampleCount := 0, startTime := n,
                             p_dirtyVolume := zeroVolume, looping := True\<rparr>)
                         })
                    })
               })
        })
   }"

definition GetHotRegions :: "profiler \<Rightarrow> hotRegion list" where
  "GetHotRegions p = hotRegions p"

definition GetVMADetails :: "profiler \<Rightarrow> vmaHotDetail list" where
  "GetVMADetails p = getAllVMAs (heat p)"

definition GetDirtyVolume :: "profiler \<Rightarrow> dirtyVolume" where
  "GetDirtyVolume p = p_dirtyVolume p"

definition GetVMACounts :: "profiler \<Rightarrow> nat \<times> nat" where
  "GetVMACounts p = (p_totalVMAs p, hotVMACount p)"


section \<open>Before a dump\<close>

text \<open>The areas that a log unregisters, in order, and the close of the descriptor in the target process.\<close>

definition unregistered :: "hostEvent list \<Rightarrow> addrRange list" where
  "unregistered d = concat (map (\<lambda>e. case e of HUnregister fd a b r \<Rightarrow> [\<lparr>ar_Start = a, ar_End = b\<rparr>] | _ \<Rightarrow> []) d)"

fun closesTarget :: "int \<Rightarrow> int \<Rightarrow> hostEvent \<Rightarrow> bool" where
  "closesTarget pid fd (HCloseTargetUffd pid' fd' r) = (pid' = pid \<and> fd' = fd)"
| "closesTarget pid fd _ = False"

lemma unregistered_simps [simp]:
  "unregistered [] = []"
  "unregistered (d @ d') = unregistered d @ unregistered d'"
  "unregistered (HUnregister fd a b r # d) = \<lparr>ar_Start = a, ar_End = b\<rparr> # unregistered d"
  "unregistered (HCloseTargetUffd pid fd x # d) = unregistered d"
  "unregistered (HCloseFd fd # d) = unregistered d"
  by (simp_all add: unregistered_def)

lemma unregister_all:
  "io_post (forEach rs (\<lambda>v. do { _ \<leftarrow> hUnregister h fd (ar_Start v) (ar_End v); State_Monad.return () }))
     (\<lambda>_ d. unregistered d = rs \<and> filter isPreDump d = [])"
proof (induction rs)
  case Nil
  then show ?case by (auto intro!: io_rules)
next
  case (Cons r rs)
  show ?case by (auto intro!: io_rules io_post_mono [OF Cons.IH])
qed

lemma CleanupBeforeCRIU_post:
  "io_post (CleanupBeforeCRIU h p)
     (\<lambda>p' d. \<not> looping p' \<and> registeredVMAs p' = [] \<and> trackerUffdFd p' < 0 \<and> targetUffdFd p' < 0 \<and>
        states (heat p') = [] \<and> unregistered d = registeredVMAs p \<and> filter isPreDump d = [] \<and>
        (targetUffdFd p < 0 \<or> list_ex (closesTarget (p_pid p) (targetUffdFd p)) d) \<and>
        p_dirtyVolume p' = p_dirtyVolume p \<and> hotRegions p' = hotRegions p \<and> p_pid p' = p_pid p)"
  unfolding CleanupBeforeCRIU_def profilerStop_def Let_def
  by (auto intro!: io_rules io_post_mono [OF unregister_all] simp: heatReset_def)

text \<open>
  After the cleanup before a dump the profiler holds nothing in the target process: its loop has stopped, every
  registered area has been unregistered, in order, the descriptor in the target has been closed if there was one,
  and its own copy is gone; the hot regions found so far are still there for the dump.
\<close>

theorem cleanup_before_dump:
  "io_post (CleanupBeforeCRIU h p)
     (\<lambda>p' d. \<not> looping p' \<and> registeredVMAs p' = [] \<and> trackerUffdFd p' < 0 \<and> targetUffdFd p' < 0 \<and>
        unregistered d = registeredVMAs p \<and>
        (targetUffdFd p < 0 \<or> list_ex (closesTarget (p_pid p) (targetUffdFd p)) d) \<and>
        GetHotRegions p' = GetHotRegions p)"
  by (rule io_post_mono [OF CleanupBeforeCRIU_post]) (simp add: GetHotRegions_def)

section \<open>The dirty volume\<close>

text \<open>The pages and the number of the scans of a log that succeeded.\<close>

definition scannedPages :: "hostEvent list \<Rightarrow> int" where
  "scannedPages d = sum_list (map (\<lambda>e. case e of HScan vs (Inr (rs, n)) \<Rightarrow> n | _ \<Rightarrow> 0) d)"

definition scans :: "hostEvent list \<Rightarrow> nat" where
  "scans d = length (filter (\<lambda>e. case e of HScan vs (Inr _) \<Rightarrow> True | _ \<Rightarrow> False) d)"

lemma scan_simps [simp]:
  "scannedPages [] = 0" "scans [] = 0"
  "scannedPages (d @ d') = scannedPages d + scannedPages d'" "scans (d @ d') = scans d + scans d'"
  by (simp_all add: scannedPages_def scans_def)

lemma registerNew_scans: "io_post (registerNew h fd vmas reg) (\<lambda>r d. scannedPages d = 0 \<and> scans d = 0)"
proof (induction vmas arbitrary: reg)
  case Nil
  then show ?case by (auto intro!: io_rules)
next
  case (Cons v vmas)
  show ?case by (auto intro!: io_rules io_post_mono [OF Cons.IH] simp: scannedPages_def scans_def)
qed

lemma recordSample_fields:
  "cumulativeDirtyBytes (recordSample p rs n t1 t2) = cumulativeDirtyBytes p + n * int pageSize"
  "sampleCount (recordSample p rs n t1 t2) = sampleCount p + 1"
  "CumulativeDirtyBytes (p_dirtyVolume (recordSample p rs n t1 t2)) = cumulativeDirtyBytes p + n * int pageSize"
  "p_pid (recordSample p rs n t1 t2) = p_pid p"
  "looping (recordSample p rs n t1 t2) = looping p"
  by (simp_all add: recordSample_def Let_def split_beta)

definition accounts :: "profiler \<Rightarrow> profiler \<Rightarrow> hostEvent list \<Rightarrow> bool" where
  "accounts p p' d \<longleftrightarrow>
     cumulativeDirtyBytes p' = cumulativeDirtyBytes p + scannedPages d * int pageSize \<and>
     sampleCount p' = sampleCount p + int (scans d) \<and>
     (if scans d = 0 then scannedPages d = 0 \<and> p_dirtyVolume p' = p_dirtyVolume p
      else CumulativeDirtyBytes (p_dirtyVolume p') = cumulativeDirtyBytes p')"

lemma collectSample_accounts: "io_post (collectSample h p) (accounts p)"
  unfolding collectSample_def
  by (auto intro!: io_rules io_post_mono [OF registerNew_scans]
      simp: accounts_def recordSample_fields scannedPages_def scans_def)

lemma accounts_trans: "accounts p q d \<Longrightarrow> accounts q r d' \<Longrightarrow> accounts p r (d @ d')"
  by (auto simp: accounts_def algebra_simps split: if_splits)

lemma accounts_refl: "accounts p p []"
  by (simp add: accounts_def)

text \<open>
  The dirty volume counts every page that was found dirty once: after any number of ticks the bytes accumulated since
  the loop started are the pages of all the scans that succeeded, times the page size, and the published
  volume is that number as soon as one scan has succeeded.
\<close>

theorem profiler_accounting:
  "io_post (profilerTicks h n p)
     (\<lambda>p' d. cumulativeDirtyBytes p' = cumulativeDirtyBytes p + scannedPages d * int pageSize \<and>
        sampleCount p' = sampleCount p + int (scans d) \<and>
        (scans d = 0 \<or> CumulativeDirtyBytes (GetDirtyVolume p') = cumulativeDirtyBytes p'))"
proof -
  have tick: "io_post (profilerTick h p) (accounts p)" for p
    unfolding profilerTick_def by (auto intro!: io_rules collectSample_accounts simp: accounts_refl)
  have "io_post (profilerTicks h n p) (accounts p)"
  proof (induction n arbitrary: p)
    case 0
    then show ?case by (auto intro!: io_rules simp: accounts_refl)
  next
    case (Suc n)
    show ?case
      by (auto intro!: io_rules io_post_mono [OF tick] io_post_mono [OF Suc.IH] intro: accounts_trans)
  qed
  then show ?thesis
    by (rule io_post_mono) (auto simp: accounts_def GetDirtyVolume_def split: if_splits)
qed

end
