(* ===== verification/Paths.thy ===== *)
theory Paths
  imports AgentHost
begin

text \<open>
  The functions of Go's \<open>path/filepath\<close> that the agent uses: cleaning, joining, taking apart and relating the paths
  of files, and the keys of the storage, which are built with the same functions. A path of plain components is
  unchanged by cleaning; the lemmas here reduce every other function to lists of components.
\<close>

section \<open>Definitions\<close>

text \<open>\<open>filepath.Clean\<close> and \<open>filepath.Join\<close> of two elements.\<close>

definition cleanStep :: "bool \<Rightarrow> string list \<Rightarrow> string \<Rightarrow> string list" where
  "cleanStep rooted stack part =
     (if part = [] \<or> part = ''.'' then stack
      else if part = ''..'' then
        (if stack \<noteq> [] \<and> last stack \<noteq> ''..'' then butlast stack
         else if rooted then stack else stack @ [''..''])
      else stack @ [part])"

definition cleanPath :: "string \<Rightarrow> string" where
  "cleanPath s =
     (let rooted = (s \<noteq> [] \<and> hd s = CHR ''/'');
          stack = foldl (cleanStep rooted) [] (split ''/'' s)
      in if rooted then ''/'' @ join ''/'' stack else if stack = [] then ''.'' else join ''/'' stack)"

definition joinPath :: "string \<Rightarrow> string \<Rightarrow> string" where
  "joinPath a b =
     (let es = filter (\<lambda>e. e \<noteq> []) [a, b] in if es = [] then [] else cleanPath (join ''/'' es))"

definition rootedPath :: "string \<Rightarrow> bool" where
  "rootedPath s \<longleftrightarrow> s \<noteq> [] \<and> hd s = CHR ''/''"

text \<open>The components of the cleaned path.\<close>

definition pathParts :: "string \<Rightarrow> string list" where
  "pathParts s = foldl (cleanStep (rootedPath s)) [] (split ''/'' s)"

text \<open>\<open>filepath.Dir\<close> and \<open>filepath.Base\<close>: the text around the last separator.\<close>

definition lastElem :: "string \<Rightarrow> string" where
  "lastElem s = rev (takeWhile (\<lambda>c. c \<noteq> CHR ''/'') (rev s))"

definition pathDir :: "string \<Rightarrow> string" where
  "pathDir s = cleanPath (rev (dropWhile (\<lambda>c. c \<noteq> CHR ''/'') (rev s)))"

definition pathBase :: "string \<Rightarrow> string" where
  "pathBase s =
     (if s = [] then ''.''
      else let b = lastElem (rev (dropWhile (\<lambda>c. c = CHR ''/'') (rev s))) in if b = [] then ''/'' else b)"

text \<open>
  \<open>filepath.Rel\<close>: the components of the target after the common ones, behind a \<open>..\<close> for every other component
  of the base; an error if one of the paths is rooted and the other not, or if the base goes up from there.
\<close>

fun stripCommon :: "string list \<Rightarrow> string list \<Rightarrow> string list \<times> string list" where
  "stripCommon (b # bs) (t # ts) = (if b = t then stripCommon bs ts else (b # bs, t # ts))"
| "stripCommon bs ts = (bs, ts)"

definition pathRel :: "string \<Rightarrow> string \<Rightarrow> string + string" where
  "pathRel base targ =
     (case stripCommon (pathParts base) (pathParts targ) of
        (bs, ts) \<Rightarrow>
          if rootedPath base \<noteq> rootedPath targ \<or> (bs \<noteq> [] \<and> hd bs = ''..'')
          then Inl (''Rel: can't make '' @ targ @ '' relative to '' @ base)
          else if bs = [] \<and> ts = [] then Inr ''.''
          else Inr (join ''/'' (replicate (length bs) ''..'' @ ts)))"

section \<open>Paths of plain components\<close>

definition plainPart :: "string \<Rightarrow> bool" where
  "plainPart p \<longleftrightarrow> p \<noteq> [] \<and> p \<noteq> ''.'' \<and> p \<noteq> ''..'' \<and> CHR ''/'' \<notin> set p"

definition pathOf :: "bool \<Rightarrow> string list \<Rightarrow> string" where
  "pathOf rooted ps = (if rooted then ''/'' else []) @ join ''/'' ps"

abbreviation plainParts :: "string list \<Rightarrow> bool" where
  "plainParts ps \<equiv> ps \<noteq> [] \<and> list_all plainPart ps"

lemma foldl_cleanStep: "list_all plainPart ps \<Longrightarrow> foldl (cleanStep r) st ps = st @ ps"
  by (induction ps arbitrary: st) (auto simp: cleanStep_def plainPart_def)

lemma split_plain: "plainParts ps \<Longrightarrow> split ''/'' (join ''/'' ps) = ps"
  by (rule split_join) (auto simp: list_all_iff plainPart_def)

lemma split_slash: "split ''/'' (CHR ''/'' # s) = [] # split ''/'' s"
  unfolding split_def by (subst split_from.simps) simp

lemma join_plain_hd: "plainParts ps \<Longrightarrow> join ''/'' ps \<noteq> [] \<and> hd (join ''/'' ps) \<noteq> CHR ''/''"
proof (cases ps)
  case (Cons p qs)
  moreover assume "plainParts ps"
  ultimately have "p \<noteq> []" "CHR ''/'' \<notin> set p" by (auto simp: plainPart_def)
  then have "p \<noteq> [] \<and> hd p \<noteq> CHR ''/''" using hd_in_set by metis
  then show ?thesis using Cons by (cases qs) auto
qed simp

lemma rooted_pathOf: "plainParts ps \<Longrightarrow> rootedPath (pathOf r ps) = r"
  using join_plain_hd [of ps] by (auto simp: rootedPath_def pathOf_def)

lemma parts_pathOf: "plainParts ps \<Longrightarrow> pathParts (pathOf r ps) = ps"
  using rooted_pathOf [of ps r]
  by (cases r) (auto simp: pathParts_def pathOf_def split_plain split_slash foldl_cleanStep cleanStep_def)

lemma cleanPath_parts:
  "cleanPath s = (if rootedPath s then ''/'' @ join ''/'' (pathParts s)
                  else if pathParts s = [] then ''.'' else join ''/'' (pathParts s))"
  by (simp add: cleanPath_def pathParts_def rootedPath_def)

lemma clean_pathOf: "plainParts ps \<Longrightarrow> cleanPath (pathOf r ps) = pathOf r ps"
  by (simp add: cleanPath_parts rooted_pathOf parts_pathOf) (simp add: pathOf_def)

lemma join_append: "ps \<noteq> [] \<Longrightarrow> qs \<noteq> [] \<Longrightarrow> join sep (ps @ qs) = join sep ps @ sep @ join sep qs"
proof (induction ps)
  case (Cons p ps)
  then show ?case by (cases "ps = []") (simp_all add: join_Cons)
qed simp

lemma pathOf_append: "ps \<noteq> [] \<Longrightarrow> qs \<noteq> [] \<Longrightarrow> pathOf r (ps @ qs) = pathOf r ps @ ''/'' @ pathOf False qs"
  by (simp add: pathOf_def join_append)

lemma joinPath_pathOf:
  assumes "plainParts ps" and "plainParts qs"
  shows "joinPath (pathOf r ps) (pathOf False qs) = pathOf r (ps @ qs)"
proof -
  have "pathOf r ps \<noteq> []" "pathOf False qs \<noteq> []"
    using join_plain_hd [OF assms(1)] join_plain_hd [OF assms(2)] by (auto simp: pathOf_def)
  then have "joinPath (pathOf r ps) (pathOf False qs) = cleanPath (pathOf r (ps @ qs))"
    using assms by (simp add: joinPath_def pathOf_append)
  then show ?thesis using assms clean_pathOf [of "ps @ qs" r] by simp
qed

lemma stripCommon_append: "stripCommon ps (ps @ qs) = ([], qs)"
  by (induction ps) auto

lemma pathRel_pathOf:
  assumes "plainParts ps" and "plainParts qs"
  shows "pathRel (pathOf r ps) (pathOf r (ps @ qs)) = Inr (pathOf False qs)"
  using assms
  by (simp add: pathRel_def parts_pathOf rooted_pathOf stripCommon_append) (simp add: pathOf_def)

lemma lastElem_snoc: "CHR ''/'' \<notin> set p \<Longrightarrow> lastElem (s @ ''/'' @ p) = p"
proof -
  assume "CHR ''/'' \<notin> set p"
  then have "takeWhile (\<lambda>c. c \<noteq> CHR ''/'') (rev p @ CHR ''/'' # rev s) = rev p"
    by (subst takeWhile_append2) auto
  then show ?thesis by (simp add: lastElem_def)
qed

lemma lastElem_plain: "CHR ''/'' \<notin> set p \<Longrightarrow> lastElem p = p"
proof -
  assume "CHR ''/'' \<notin> set p"
  then have "takeWhile (\<lambda>c. c \<noteq> CHR ''/'') (rev p) = rev p" by (subst takeWhile_eq_all_conv) auto
  then show ?thesis by (simp only: lastElem_def rev_rev_ident)
qed

lemma lastElem_pathOf:
  assumes "list_all plainPart (ps @ [p])"
  shows "lastElem (pathOf r (ps @ [p])) = p"
proof (cases "ps = []")
  case True
  then show ?thesis
    using assms lastElem_snoc [of p "[]"] lastElem_plain [of p] by (auto simp: pathOf_def plainPart_def)
next
  case False
  then have "pathOf r (ps @ [p]) = pathOf r ps @ ''/'' @ p" by (simp add: pathOf_append) (simp add: pathOf_def)
  then show ?thesis using assms lastElem_snoc [of p "pathOf r ps"] by (auto simp: plainPart_def)
qed

lemma pathBase_pathOf:
  assumes "list_all plainPart (ps @ [p])"
  shows "pathBase (pathOf r (ps @ [p])) = p"
proof -
  let ?s = "pathOf r (ps @ [p])"
  obtain s' where "?s = s' @ p"
    using pathOf_append [of ps "[p]" r] by (cases "ps = []") (auto simp: pathOf_def)
  moreover have "p \<noteq> []" "CHR ''/'' \<notin> set p" using assms by (auto simp: plainPart_def)
  ultimately have "rev ?s \<noteq> [] \<and> hd (rev ?s) \<noteq> CHR ''/''"
    by (metis append_is_Nil_conv hd_append2 hd_in_set rev_append rev_is_Nil_conv set_rev)
  then have "dropWhile (\<lambda>c. c = CHR ''/'') (rev ?s) = rev ?s" by (cases "rev ?s") auto
  then show ?thesis
    using lastElem_pathOf [OF assms] \<open>p \<noteq> []\<close> \<open>rev ?s \<noteq> [] \<and> _\<close>
    by (auto simp: pathBase_def Let_def)
qed

end
