(* ===== verification/S3.thy ===== *)
theory S3
  imports Paths PodBuilder
begin

text \<open>
  \<open>pkg/agent/s3.go\<close>: the storage client of the agent. Uploads and downloads of the code run up to ten goroutines and wait
  for all of them; here the files are taken one after the other, each of them is tried whatever
  happened to the others, and the error returned is the first of them. The AWS SDK is the storage interactions of the host.
  The agent always has a client, so the tests of the code for a nil client are not represented.
\<close>

section \<open>The client\<close>

record s3Client =
  s3_bucket :: string
  s3_endpoint :: string
  s3_downloadEndpoint :: string
  s3_region :: string
  s3_storageType :: string
  s3_expressOneZone :: bool

record awsConfig =
  ac_Region :: string
  ac_Endpoint :: "string option"
  ac_S3ForcePathStyle :: bool

text \<open>The parameter \<open>newSession\<close> is \<open>session.NewSession\<close>, which gives an error or none.\<close>

definition NewS3ClientWithOptions ::
  "(awsConfig \<Rightarrow> string option) \<Rightarrow> string \<Rightarrow> string \<Rightarrow> string \<Rightarrow> string \<Rightarrow> string \<Rightarrow> bool \<Rightarrow> string + s3Client" where
  "NewS3ClientWithOptions newSession bucket endpoint downloadEndpoint region storageType expressOneZone =
     (case newSession \<lparr>ac_Region = region, ac_Endpoint = (if endpoint \<noteq> [] then Some endpoint else None),
                       ac_S3ForcePathStyle = (endpoint \<noteq> [])\<rparr> of
        Some e \<Rightarrow> Inl (''failed to create AWS session: '' @ e)
      | None \<Rightarrow> Inr \<lparr>s3_bucket = bucket, s3_endpoint = endpoint, s3_downloadEndpoint = downloadEndpoint, s3_region = region,
                     s3_storageType = storageType, s3_expressOneZone = expressOneZone\<rparr>)"

definition NewS3Client :: "(awsConfig \<Rightarrow> string option) \<Rightarrow> string \<Rightarrow> string \<Rightarrow> string \<Rightarrow> string + s3Client" where
  "NewS3Client newSession bucket endpoint region = NewS3ClientWithOptions newSession bucket endpoint [] region [] False"

section \<open>Uploads\<close>

definition UploadFile :: "host \<Rightarrow> s3Client \<Rightarrow> string \<Rightarrow> string \<Rightarrow> string option hprog" where
  "UploadFile h c localPath s3Key = do {
     o1 \<leftarrow> hOpen h localPath;
     (case o1 of
        Some e \<Rightarrow> State_Monad.return (Some (''failed to open file '' @ localPath @ '': '' @ e))
      | None \<Rightarrow> hS3Put h (s3_bucket c) s3Key localPath)
   }"

text \<open>The key of a file of a directory.\<close>

definition uploadKey :: "string \<Rightarrow> string \<Rightarrow> string \<Rightarrow> string + string" where
  "uploadKey baseDir s3Prefix path =
     (case pathRel baseDir path of
        Inl e \<Rightarrow> Inl (''failed to get relative path: '' @ e)
      | Inr relPath \<Rightarrow> Inr (joinPath s3Prefix relPath))"

definition uploadSingleFile :: "host \<Rightarrow> s3Client \<Rightarrow> string \<Rightarrow> string \<Rightarrow> string \<Rightarrow> string option hprog" where
  "uploadSingleFile h c baseDir s3Prefix path =
     (case uploadKey baseDir s3Prefix path of
        Inl e \<Rightarrow> State_Monad.return (Some e)
      | Inr s3Key \<Rightarrow> do {
          o1 \<leftarrow> hOpen h path;
          (case o1 of
             Some e \<Rightarrow> State_Monad.return (Some (''failed to open file '' @ path @ '': '' @ e))
           | None \<Rightarrow> do {
               u \<leftarrow> hS3Put h (s3_bucket c) s3Key path;
               State_Monad.return (map_option (\<lambda>e. ''failed to upload '' @ s3Key @ '' to S3: '' @ e) u)
             })
        })"

text \<open>All files are tried; the first error is the result.\<close>

fun tryAll :: "('x \<Rightarrow> string option hprog) \<Rightarrow> 'x list \<Rightarrow> string option hprog" where
  "tryAll f [] = State_Monad.return None"
| "tryAll f (x # xs) = do {
     e \<leftarrow> f x;
     e' \<leftarrow> tryAll f xs;
     State_Monad.return (if e \<noteq> None then e else e')
   }"

definition uploadFilesParallel :: "host \<Rightarrow> s3Client \<Rightarrow> string \<Rightarrow> string \<Rightarrow> string list \<Rightarrow> string option hprog" where
  "uploadFilesParallel h c baseDir s3Prefix files = tryAll (uploadSingleFile h c baseDir s3Prefix) files"

definition isPagesFile :: "string \<Rightarrow> bool" where
  "isPagesFile name \<longleftrightarrow> hasPrefix name ''pages-''"

definition uploadSelected :: "(fileInfo \<Rightarrow> bool) \<Rightarrow> host \<Rightarrow> s3Client \<Rightarrow> string \<Rightarrow> string \<Rightarrow> string option hprog" where
  "uploadSelected sel h c localDir s3Prefix = do {
     w \<leftarrow> hWalk h localDir;
     (case w of
        Inl e \<Rightarrow> State_Monad.return (Some (''failed to walk directory: '' @ e))
      | Inr infos \<Rightarrow> uploadFilesParallel h c localDir s3Prefix (map fi_path (filter sel infos)))
   }"

definition UploadCheckpoint :: "host \<Rightarrow> s3Client \<Rightarrow> string \<Rightarrow> string \<Rightarrow> string option hprog" where
  "UploadCheckpoint = uploadSelected fi_regular"

definition UploadMetadataOnly :: "host \<Rightarrow> s3Client \<Rightarrow> string \<Rightarrow> string \<Rightarrow> string option hprog" where
  "UploadMetadataOnly = uploadSelected (\<lambda>i. fi_regular i \<and> \<not> isPagesFile (fi_name i))"

section \<open>Downloads\<close>

definition downloadPath :: "string \<Rightarrow> string \<Rightarrow> string \<Rightarrow> string" where
  "downloadPath s3Prefix localDir s3Key = joinPath localDir (trimPrefix (trimPrefix s3Key s3Prefix) ''/'')"

definition downloadSingleFile :: "host \<Rightarrow> s3Client \<Rightarrow> string \<Rightarrow> string \<Rightarrow> string \<Rightarrow> string option hprog" where
  "downloadSingleFile h c s3Prefix localDir s3Key =
     (let localPath = downloadPath s3Prefix localDir s3Key in do {
        m \<leftarrow> hMkdirAll h (pathDir localPath);
        (case m of
           Some e \<Rightarrow> State_Monad.return (Some (''failed to create directory: '' @ e))
         | None \<Rightarrow> do {
             f \<leftarrow> hCreate h localPath;
             (case f of
                Some e \<Rightarrow> State_Monad.return (Some (''failed to create file '' @ localPath @ '': '' @ e))
              | None \<Rightarrow> do {
                  g \<leftarrow> hS3Get h (s3_bucket c) s3Key localPath;
                  State_Monad.return (map_option (\<lambda>e. ''failed to download '' @ s3Key @ '' from S3: '' @ e) g)
                })
           })
      })"

definition downloadFilesParallel :: "host \<Rightarrow> s3Client \<Rightarrow> string \<Rightarrow> string \<Rightarrow> string list \<Rightarrow> string option hprog" where
  "downloadFilesParallel h c s3Prefix localDir keys = tryAll (downloadSingleFile h c s3Prefix localDir) keys"

text \<open>The common shape of the downloads: the keys below a prefix that are wanted, below a local directory.\<close>

definition downloadSelected :: "(string \<Rightarrow> bool) \<Rightarrow> host \<Rightarrow> s3Client \<Rightarrow> string \<Rightarrow> string \<Rightarrow> string option hprog" where
  "downloadSelected sel h c prefix localDir = do {
     l \<leftarrow> hS3List h (s3_bucket c) prefix None;
     (case l of
        Inl e \<Rightarrow> State_Monad.return (Some (''failed to list objects: '' @ e))
      | Inr objs \<Rightarrow> downloadFilesParallel h c prefix localDir (filter sel (map fst objs)))
   }"

definition DownloadCheckpoint :: "host \<Rightarrow> s3Client \<Rightarrow> string \<Rightarrow> string \<Rightarrow> string option hprog" where
  "DownloadCheckpoint h c s3Prefix localDir = do {
     m \<leftarrow> hMkdirAll h localDir;
     (case m of
        Some e \<Rightarrow> State_Monad.return (Some (''failed to create local directory: '' @ e))
      | None \<Rightarrow> downloadSelected (\<lambda>_. True) h c s3Prefix localDir)
   }"

text \<open>The prefix without its last component: the place of all checkpoints of a node.\<close>

definition chainBase :: "string \<Rightarrow> string" where
  "chainBase s3Prefix =
     (let base = join ''/'' (butlast (split ''/'' (trimSuffix s3Prefix ''/'')))
      in if base \<noteq> [] \<and> \<not> hasSuffix base ''/'' then base @ ''/'' else base)"

definition DownloadMetadataOnly :: "host \<Rightarrow> s3Client \<Rightarrow> string \<Rightarrow> string \<Rightarrow> string option hprog" where
  "DownloadMetadataOnly h c s3Prefix localDir =
     downloadSelected (\<lambda>k. \<not> isPagesFile (pathBase k)) h c (chainBase s3Prefix) localDir"

definition DownloadFullCheckpoint :: "host \<Rightarrow> s3Client \<Rightarrow> string \<Rightarrow> string \<Rightarrow> string option hprog" where
  "DownloadFullCheckpoint h c s3Prefix localDir = downloadSelected (\<lambda>_. True) h c (chainBase s3Prefix) localDir"

section \<open>Deleting, sizes and single objects\<close>

function s3DeleteBatches :: "host \<Rightarrow> string \<Rightarrow> string list \<Rightarrow> string option hprog" where
  "s3DeleteBatches h bucket keys =
     (if keys = [] then State_Monad.return None
      else do {
        r \<leftarrow> hS3Delete h bucket (take 1000 keys);
        (case r of
           Some e \<Rightarrow> State_Monad.return (Some (''failed to delete objects: '' @ e))
         | None \<Rightarrow> s3DeleteBatches h bucket (drop 1000 keys))
      })"
  by pat_completeness auto
termination
  by (relation "measure (\<lambda>(h, b, keys). length keys)") auto

declare s3DeleteBatches.simps [simp del]

definition DeleteCheckpoint :: "host \<Rightarrow> s3Client \<Rightarrow> string \<Rightarrow> string option hprog" where
  "DeleteCheckpoint h c s3Prefix = do {
     l \<leftarrow> hS3List h (s3_bucket c) s3Prefix None;
     (case l of
        Inl e \<Rightarrow> State_Monad.return (Some (''failed to list objects: '' @ e))
      | Inr objs \<Rightarrow> s3DeleteBatches h (s3_bucket c) (map fst objs))
   }"

definition GetCheckpointSize :: "host \<Rightarrow> s3Client \<Rightarrow> string \<Rightarrow> (string + int) hprog" where
  "GetCheckpointSize h c s3Prefix = do {
     l \<leftarrow> hS3List h (s3_bucket c) s3Prefix None;
     State_Monad.return
       (case l of Inl e \<Rightarrow> Inl (''failed to list objects: '' @ e) | Inr objs \<Rightarrow> Inr (sum_list (map snd objs)))
   }"

definition s3CheckpointExists :: "host \<Rightarrow> s3Client \<Rightarrow> string \<Rightarrow> (string + bool) hprog" where
  "s3CheckpointExists h c s3Prefix = do {
     l \<leftarrow> hS3List h (s3_bucket c) s3Prefix (Some 1);
     State_Monad.return
       (case l of Inl e \<Rightarrow> Inl (''failed to check existence: '' @ e) | Inr objs \<Rightarrow> Inr (objs \<noteq> []))
   }"

definition WriteMetadataFile :: "host \<Rightarrow> s3Client \<Rightarrow> string \<Rightarrow> string \<Rightarrow> string option hprog" where
  "WriteMetadataFile h c s3Key content = hS3PutData h (s3_bucket c) s3Key content"

definition ReadMetadataFile :: "host \<Rightarrow> s3Client \<Rightarrow> string \<Rightarrow> (string + string) hprog" where
  "ReadMetadataFile h c s3Key = do {
     r \<leftarrow> hS3Read h (s3_bucket c) s3Key;
     State_Monad.return (case r of Inl e \<Rightarrow> Inl (''failed to get object: '' @ e) | Inr b \<Rightarrow> Inr b)
   }"

section \<open>The options of CRIU\<close>

definition getEndpoint :: "s3Client \<Rightarrow> string" where
  "getEndpoint c = (if s3_endpoint c \<noteq> [] then s3_endpoint c else ''s3.'' @ s3_region c @ ''.amazonaws.com'')"

definition getDownloadEndpoint :: "s3Client \<Rightarrow> string" where
  "getDownloadEndpoint c = (if s3_downloadEndpoint c \<noteq> [] then s3_downloadEndpoint c else getEndpoint c)"

definition isMinIO :: "s3Client \<Rightarrow> bool" where
  "isMinIO c \<longleftrightarrow> s3_storageType c = ''minio''"

definition isCloudFront :: "s3Client \<Rightarrow> bool" where
  "isCloudFront c \<longleftrightarrow> s3_downloadEndpoint c \<noteq> [] \<and> s3_downloadEndpoint c \<noteq> s3_endpoint c"

definition needsBucketOption :: "s3Client \<Rightarrow> bool" where
  "needsBucketOption c \<longleftrightarrow> \<not> isMinIO c \<and> \<not> isCloudFront c"

definition needsCRIUCredentials :: "genv \<Rightarrow> s3Client \<Rightarrow> bool" where
  "needsCRIUCredentials getenv c \<longleftrightarrow> getenv ''AWS_ACCESS_KEY_ID'' \<noteq> [] \<or> s3_expressOneZone c"

definition getCRIUObjectPrefix :: "string \<Rightarrow> string" where
  "getCRIUObjectPrefix s3Prefix = s3Prefix @ ''/''"

text \<open>The options after the place of the objects are built twice in the code, in the same way.\<close>

definition credentialArgs :: "genv \<Rightarrow> s3Client \<Rightarrow> string list" where
  "credentialArgs getenv c =
     (if needsCRIUCredentials getenv c
      then (let key = getenv ''AWS_ACCESS_KEY_ID''; secret = getenv ''AWS_SECRET_ACCESS_KEY'' in
            if key \<noteq> [] \<and> secret \<noteq> []
            then [''--aws-access-key'', key, ''--aws-secret-key'', secret, ''--aws-region'', s3_region c] else []) @
           (if s3_expressOneZone c then [''--express-one-zone''] else [])
      else [])"

definition BuildCRIUObjectStorageArgs :: "genv \<Rightarrow> s3Client \<Rightarrow> string \<Rightarrow> string list" where
  "BuildCRIUObjectStorageArgs getenv c s3Prefix =
     [''--enable-object-storage'', ''--object-storage-endpoint-url'', getDownloadEndpoint c] @
     (if \<not> isCloudFront c then [''--object-storage-bucket'', s3_bucket c] else []) @
     (if s3Prefix \<noteq> [] then [''--object-storage-object-prefix'', getCRIUObjectPrefix s3Prefix] else []) @
     (if isMinIO c then [''--object-storage-path-style''] else []) @ credentialArgs getenv c"

definition BuildCRIUUploadArgs :: "genv \<Rightarrow> s3Client \<Rightarrow> string \<Rightarrow> string list" where
  "BuildCRIUUploadArgs getenv c s3Prefix =
     [''--object-storage-upload'', ''--object-storage-endpoint-url'', getEndpoint c, ''--object-storage-bucket'', s3_bucket c] @
     (if s3Prefix \<noteq> [] then [''--object-storage-object-prefix'', getCRIUObjectPrefix s3Prefix] else []) @
     (if isMinIO c then [''--object-storage-path-style''] else []) @ credentialArgs getenv c"

section \<open>Every file is tried\<close>

text \<open>The outcomes of trying all: one log per element, in order, and the first error.\<close>

fun tried :: "('x \<Rightarrow> string option \<Rightarrow> hostEvent list \<Rightarrow> bool) \<Rightarrow> 'x list \<Rightarrow> string option \<Rightarrow> hostEvent list \<Rightarrow> bool" where
  "tried Q [] r d \<longleftrightarrow> r = None \<and> d = []"
| "tried Q (x # xs) r d \<longleftrightarrow>
     (\<exists>e d1 e' d2. Q x e d1 \<and> tried Q xs e' d2 \<and> d = d1 @ d2 \<and> r = (if e \<noteq> None then e else e'))"

lemma tryAll_post:
  assumes "\<And>x. io_post (f x) (Q x)"
  shows "io_post (tryAll f xs) (tried Q xs)"
proof (induction xs)
  case Nil
  then show ?case by (auto intro!: io_rules)
next
  case (Cons x xs)
  have step: "io_post (tryAll f xs) (\<lambda>e' d2.
      io_post (State_Monad.return (if e \<noteq> None then e else e')) (\<lambda>r d'. tried Q (x # xs) r (d1 @ d2 @ d')))"
    if "Q x e d1" for e d1
    by (rule io_post_mono [OF Cons.IH], rule io_post_return) (use that in auto)
  show ?case
    unfolding tryAll.simps
    by (rule io_post_bind, rule io_post_mono [OF assms], rule io_post_bind, rule step)
qed

text \<open>The objects stored and fetched successfully in a log, with the files they come from or go to.\<close>

fun storedIn :: "hostEvent list \<Rightarrow> (string \<times> string \<times> string) list" where
  "storedIn [] = []"
| "storedIn (HStore (S3Put b k p None) # d) = (b, k, p) # storedIn d"
| "storedIn (e # d) = storedIn d"

fun fetchedIn :: "hostEvent list \<Rightarrow> (string \<times> string \<times> string) list" where
  "fetchedIn [] = []"
| "fetchedIn (HStore (S3Get b k p None) # d) = (b, k, p) # fetchedIn d"
| "fetchedIn (e # d) = fetchedIn d"

lemma storedIn_append [simp]: "storedIn (d @ d') = storedIn d @ storedIn d'"
  by (induction d rule: storedIn.induct) auto

lemma fetchedIn_append [simp]: "fetchedIn (d @ d') = fetchedIn d @ fetchedIn d'"
  by (induction d rule: fetchedIn.induct) auto

text \<open>
  Trying all of a list of transfers succeeds exactly if every transfer has left its mark in the log; the
  count of the marks tells which.
\<close>

lemma tried_marks:
  assumes "tried (\<lambda>x r d. marks d = (if r = None then [m x] else [])) xs r d"
    and "marks [] = []" and "\<And>d d'. marks (d @ d') = marks d @ marks d'"
  shows "(r = None \<longleftrightarrow> marks d = map m xs) \<and> length (marks d) \<le> length xs"
  using assms(1)
proof (induction xs arbitrary: r d)
  case Nil
  then show ?case using assms(2) by simp
next
  case (Cons x xs)
  then obtain e d1 e' d2 where x: "marks d1 = (if e = None then [m x] else [])"
    and r: "d = d1 @ d2" "r = (if e \<noteq> None then e else e')"
    and IH: "(e' = None) = (marks d2 = map m xs)" "length (marks d2) \<le> length xs"
    by auto
  have "marks d2 \<noteq> m x # map m xs" using IH(2) by (metis impossible_Cons length_map)
  then show ?case using x r IH by (auto simp: assms(3))
qed

lemma uploadSingleFile_post:
  "io_post (uploadSingleFile h c base prefix f)
     (\<lambda>r d. map (\<lambda>(b, k, p). (b, Inr k, p)) (storedIn d) =
        (if r = None then [(s3_bucket c, uploadKey base prefix f, f)] else []))"
  unfolding uploadSingleFile_def by (auto intro!: io_rules split: option.splits)

lemma downloadSingleFile_post:
  "io_post (downloadSingleFile h c prefix dir k)
     (\<lambda>r d. fetchedIn d = (if r = None then [(s3_bucket c, k, downloadPath prefix dir k)] else []))"
  unfolding downloadSingleFile_def by (auto intro!: io_rules split: option.splits)

text \<open>The files of a walk that an upload takes, each with its key.\<close>

definition uploadPlan :: "(fileInfo \<Rightarrow> bool) \<Rightarrow> s3Client \<Rightarrow> string \<Rightarrow> string \<Rightarrow> fileInfo list \<Rightarrow> (string \<times> (string + string) \<times> string) list" where
  "uploadPlan sel c dir prefix infos =
     map (\<lambda>i. (s3_bucket c, uploadKey dir prefix (fi_path i), fi_path i)) (filter sel infos)"

lemma uploadSelected_post:
  "io_post (uploadSelected sel h c dir prefix)
     (\<lambda>r d. case d of
        HFile (FWalk dir' w) # d' \<Rightarrow> dir' = dir \<and>
          (case w of
             Inl e \<Rightarrow> r \<noteq> None \<and> d' = []
           | Inr infos \<Rightarrow> r = None \<longleftrightarrow>
               map (\<lambda>(b, k, p). (b, Inr k, p)) (storedIn d') = uploadPlan sel c dir prefix infos)
      | _ \<Rightarrow> False)"
proof -
  have "io_post (uploadFilesParallel h c dir prefix (map fi_path fs))
     (\<lambda>r d. r = None \<longleftrightarrow> map (\<lambda>(b, k, p). (b, Inr k, p)) (storedIn d) =
        map (\<lambda>i. (s3_bucket c, uploadKey dir prefix (fi_path i), fi_path i)) fs)" for fs
    unfolding uploadFilesParallel_def
    by (rule io_post_mono [OF tryAll_post [OF uploadSingleFile_post]], drule tried_marks) (auto simp: comp_def)
  then show ?thesis
    unfolding uploadSelected_def uploadPlan_def by (auto intro!: io_rules)
qed

lemma downloadSelected_post:
  "io_post (downloadSelected sel h c prefix dir)
     (\<lambda>r d. case d of
        HStore (S3List b p mx l) # d' \<Rightarrow> b = s3_bucket c \<and> p = prefix \<and> mx = None \<and>
          (case l of
             Inl e \<Rightarrow> r \<noteq> None \<and> d' = []
           | Inr objs \<Rightarrow> r = None \<longleftrightarrow>
               fetchedIn d' = map (\<lambda>k. (s3_bucket c, k, downloadPath prefix dir k)) (filter sel (map fst objs)))
      | _ \<Rightarrow> False)"
proof -
  have "io_post (downloadFilesParallel h c prefix dir ks)
     (\<lambda>r d. r = None \<longleftrightarrow> fetchedIn d = map (\<lambda>k. (s3_bucket c, k, downloadPath prefix dir k)) ks)" for ks
    unfolding downloadFilesParallel_def
    by (rule io_post_mono [OF tryAll_post [OF downloadSingleFile_post]], drule tried_marks) auto
  then show ?thesis
    unfolding downloadSelected_def by (auto intro!: io_rules)
qed

section \<open>Keys and paths\<close>

lemma chainBase_pathOf:
  assumes "plainParts ps" and "plainPart i"
  shows "chainBase (pathOf False (ps @ [i])) = pathOf False ps @ ''/''"
proof -
  let ?s = "pathOf False (ps @ [i])"
  have s: "?s = pathOf False ps @ ''/'' @ i" using assms by (simp add: pathOf_append) (simp add: pathOf_def)
  have ends: "\<not> hasSuffix (pathOf r (qs @ [q])) ''/''" if "plainPart q" for r q qs
  proof -
    obtain u where "pathOf r (qs @ [q]) = u @ q"
      using pathOf_append [of qs "[q]" r] by (cases "qs = []") (auto simp: pathOf_def)
    moreover from that have "q \<noteq> []" "last q \<noteq> CHR ''/''" by (auto simp: plainPart_def dest: last_in_set)
    ultimately have "rev (pathOf r (qs @ [q])) = last q # rev (butlast q) @ rev u"
      by (metis append_butlast_last_id append_Cons append_Nil rev_append rev_singleton_conv)
    then show ?thesis using \<open>last q \<noteq> CHR ''/''\<close> by (simp add: hasSuffix_def)
  qed
  have "split ''/'' ?s = ps @ [i]" using assms split_plain [of "ps @ [i]"] by (simp add: pathOf_def)
  moreover have "trimSuffix ?s ''/'' = ?s" using ends [OF assms(2)] by (simp add: trimSuffix_def)
  moreover have "\<not> hasSuffix (pathOf False ps) ''/''"
    using assms(1) ends [of "last ps" False "butlast ps"] by (simp add: list_all_iff)
  ultimately show ?thesis
    using assms join_plain_hd [of ps] by (simp add: chainBase_def pathOf_def)
qed

lemma uploadKey_pathOf:
  assumes "plainParts ds" and "plainParts ps" and "plainParts qs"
  shows "uploadKey (pathOf r ds) (pathOf False ps) (pathOf r (ds @ qs)) = Inr (pathOf False (ps @ qs))"
  using assms by (simp add: uploadKey_def pathRel_pathOf joinPath_pathOf)

lemma downloadPath_pathOf:
  assumes "plainParts ps" and "plainParts qs" and "plainParts ws"
  shows "downloadPath (pathOf False ps @ ''/'') (pathOf r ws) (pathOf False (ps @ qs)) = pathOf r (ws @ qs)"
proof -
  have "trimPrefix (pathOf False (ps @ qs)) (pathOf False ps @ ''/'') = pathOf False qs"
    using assms trimPrefix_append [of "pathOf False ps @ ''/''" "pathOf False qs"] by (simp add: pathOf_append)
  moreover have "trimPrefix (pathOf False qs) ''/'' = pathOf False qs"
    using join_plain_hd [OF assms(2)] by (cases "pathOf False qs") (auto simp: trimPrefix_def pathOf_def)
  ultimately show ?thesis
    using assms by (simp add: downloadPath_def joinPath_pathOf)
qed

section \<open>What the storage client promises\<close>

text \<open>
  An upload of a checkpoint succeeds exactly if every regular file of the directory has been stored under its key; every
  file is tried even after one has failed; and if the directory cannot be walked, nothing is stored.
\<close>

theorem upload_complete:
  "io_post (UploadCheckpoint h c dir prefix)
     (\<lambda>r d. case d of
        HFile (FWalk dir' w) # d' \<Rightarrow> dir' = dir \<and>
          (case w of
             Inl e \<Rightarrow> r \<noteq> None \<and> d' = []
           | Inr infos \<Rightarrow> r = None \<longleftrightarrow>
               map (\<lambda>(b, k, p). (b, Inr k, p)) (storedIn d') = uploadPlan fi_regular c dir prefix infos)
      | _ \<Rightarrow> False)"
  unfolding UploadCheckpoint_def by (rule uploadSelected_post)

text \<open>
  Without a separate endpoint for downloads, a dump that uploads to the storage and a restore that reads from it are
  given the same endpoint, bucket, prefix, addressing style and credentials: the options differ only in the first, which chooses
  the direction.
\<close>

theorem storage_args_agree:
  assumes "s3_downloadEndpoint c = [] \<or> s3_downloadEndpoint c = s3_endpoint c"
  shows "BuildCRIUObjectStorageArgs getenv c prefix = ''--enable-object-storage'' # tl (BuildCRIUUploadArgs getenv c prefix)"
  using assms
  by (auto simp: BuildCRIUObjectStorageArgs_def BuildCRIUUploadArgs_def getDownloadEndpoint_def getEndpoint_def isCloudFront_def)

definition minioClient :: s3Client where
  "minioClient = \<lparr>s3_bucket = ''ckpt'', s3_endpoint = ''minio:9000'', s3_downloadEndpoint = [], s3_region = ''us-east-1'',
     s3_storageType = ''minio'', s3_expressOneZone = False\<rparr>"

theorem storage_args_agree_witness:
  "BuildCRIUObjectStorageArgs (\<lambda>_. []) minioClient ''app/0/n1/d1'' =
     [''--enable-object-storage'', ''--object-storage-endpoint-url'', ''minio:9000'', ''--object-storage-bucket'', ''ckpt'',
      ''--object-storage-object-prefix'', ''app/0/n1/d1/'', ''--object-storage-path-style'']"
proof -
  have "s3_downloadEndpoint minioClient = [] \<or> s3_downloadEndpoint minioClient = s3_endpoint minioClient"
    by (simp add: minioClient_def)
  from storage_args_agree [OF this, of "\<lambda>_. []" "''app/0/n1/d1''"] show ?thesis
    by (simp add: BuildCRIUUploadArgs_def minioClient_def getEndpoint_def isMinIO_def credentialArgs_def needsCRIUCredentials_def
        getCRIUObjectPrefix_def)
qed

text \<open>
  The test \<open>needsBucketOption\<close>, which nothing calls, says that MinIO takes no bucket option, and the options of a restore
  contain it for MinIO.
\<close>

lemma bucket_option_disagrees:
  "\<not> needsBucketOption minioClient \<and>
   ''--object-storage-bucket'' \<in> set (BuildCRIUObjectStorageArgs getenv minioClient prefix)"
  by (simp add: needsBucketOption_def isMinIO_def isCloudFront_def minioClient_def BuildCRIUObjectStorageArgs_def)

text \<open>
  A key that is deleted is a key that was listed: a deletion asks for the listed keys in order, in batches of at most a
  thousand, up to the first batch that fails.
\<close>

fun deletedIn :: "hostEvent list \<Rightarrow> string list list" where
  "deletedIn [] = []"
| "deletedIn (HStore (S3Delete b ks r) # d) = ks # deletedIn d"
| "deletedIn (e # d) = deletedIn d"

lemma s3DeleteBatches_post:
  "io_post (s3DeleteBatches h bucket keys)
     (\<lambda>r d. \<exists>rest. concat (deletedIn d) @ rest = keys \<and> (r = None \<longrightarrow> rest = []) \<and>
            list_all (\<lambda>b. b \<noteq> [] \<and> length b \<le> 1000) (deletedIn d))"
proof (induction h bucket keys rule: s3DeleteBatches.induct)
  case (1 h bucket keys)
  show ?case
  proof (cases "keys = []")
    case True
    then show ?thesis by (subst s3DeleteBatches.simps) (auto intro!: io_rules)
  next
    case False
    let ?P = "\<lambda>keys r d. \<exists>rest. concat (deletedIn d) @ rest = keys \<and> (r = None \<longrightarrow> rest = []) \<and>
      list_all (\<lambda>b. b \<noteq> [] \<and> length b \<le> 1000) (deletedIn d)"
    have step: "?P keys r (HStore (S3Delete bucket (take 1000 keys) x) # d)" if "?P (drop 1000 keys) r d" for r d x
    proof -
      from that obtain rest where rest: "concat (deletedIn d) @ rest = drop 1000 keys" "r = None \<longrightarrow> rest = []"
          "list_all (\<lambda>b. b \<noteq> [] \<and> length b \<le> 1000) (deletedIn d)"
        by blast
      show ?thesis using False rest by (intro exI [of _ rest]) (simp add: rest(1))
    qed
    have "io_post (s3DeleteBatches h bucket (drop 1000 keys)) (\<lambda>r d. ?P keys r ([HStore (S3Delete bucket (take 1000 keys) None)] @ d))"
      by (rule io_post_mono [OF 1 [OF False]]) (use step in simp)
    moreover have "?P keys (Some e) [HStore (S3Delete bucket (take 1000 keys) x)]" for e x
      using False by (simp add: exI [of _ "drop 1000 keys"])
    ultimately show ?thesis
      using False by (subst s3DeleteBatches.simps) (auto intro!: io_rules)
  qed
qed

end
