(* ===== verification/AgentStart.thy ===== *)
theory AgentStart
  imports Paths PodBuilder
begin

text \<open>
  The start of an agent in normal mode, \<open>pkg/agent/server.go\<close> and \<open>pkg/agent/namespace.go\<close>: the command that the
  pod builder saved in the annotations is read from the Downward API file and started in the namespaces of
  the application container. What the builder writes and what the agent reads is the contract shown here.
\<close>

section \<open>Reading an annotation\<close>

abbreviation bslash :: char where "bslash \<equiv> CHR 0x5C"
abbreviation dquote :: char where "dquote \<equiv> CHR 0x22"
abbreviation squote :: char where "squote \<equiv> CHR 0x27"
abbreviation newline :: char where "newline \<equiv> CHR 0x0A"
abbreviation tab :: char where "tab \<equiv> CHR 0x09"

text \<open>The text up to the first quote after an even number of backslashes; \<open>n\<close> counts the backslashes just passed.\<close>

fun closeQuote :: "nat \<Rightarrow> string \<Rightarrow> string option" where
  "closeQuote n [] = None"
| "closeQuote n (c # s) =
     (if c = dquote \<and> even n then Some []
      else map_option ((#) c) (closeQuote (if c = bslash then n + 1 else 0) s))"

definition unescape :: "string \<Rightarrow> string" where
  "unescape v =
     replaceAll [bslash, bslash] [bslash]
       (replaceAll [bslash, dquote] [dquote]
         (replaceAll [bslash, CHR ''t''] [tab]
           (replaceAll [bslash, CHR ''n''] [newline] v)))"

definition extractAnnotation :: "string \<Rightarrow> string \<Rightarrow> string" where
  "extractAnnotation annotations key =
     (case breakAt (key @ ''='' @ [dquote]) annotations of
        None \<Rightarrow> []
      | Some (_, rest) \<Rightarrow> (case closeQuote 0 rest of None \<Rightarrow> [] | Some value \<Rightarrow> unescape value))"

section \<open>Finding processes\<close>

text \<open>The command line of a process with its separators, which are null characters, replaced.\<close>

definition cmdlineOf :: "string \<Rightarrow> string" where
  "cmdlineOf s = trimSpace (replaceAll [CHR 0x00] '' '' s)"

definition agentCmdline :: "string \<Rightarrow> bool" where
  "agentCmdline cmdline \<longleftrightarrow> str_contains cmdline ''criu-agent'' \<or> str_contains cmdline ''/app/agent''"

fun mainCandidates :: "host \<Rightarrow> (string \<times> bool) list \<Rightarrow> (int \<times> string) list hprog" where
  "mainCandidates h [] = State_Monad.return []"
| "mainCandidates h ((name, isDir) # entries) =
     (case (if isDir then atoi name else None) of
        None \<Rightarrow> mainCandidates h entries
      | Some pid \<Rightarrow>
          if pid \<le> 1 then mainCandidates h entries
          else do {
            r \<leftarrow> hReadFile h (''/proc/'' @ itoa pid @ ''/cmdline'');
            (case r of
               Inl _ \<Rightarrow> mainCandidates h entries
             | Inr bytes \<Rightarrow>
                 let cmdline = cmdlineOf bytes in
                 if cmdline = [] \<or> agentCmdline cmdline \<or> str_contains cmdline ''criu'' then mainCandidates h entries
                 else do {
                   rest \<leftarrow> mainCandidates h entries;
                   State_Monad.return ((pid, cmdline) # rest)
                 })
          })"

definition FindMainContainerPID :: "host \<Rightarrow> (string + int) hprog" where
  "FindMainContainerPID h = do {
     r \<leftarrow> hReadDir h ''/proc'';
     (case r of
        Inl e \<Rightarrow> State_Monad.return (Inl (''failed to read /proc: '' @ e))
      | Inr entries \<Rightarrow> do {
          candidates \<leftarrow> mainCandidates h entries;
          State_Monad.return
            (case candidates of
               [] \<Rightarrow> Inl ''no main container process found''
             | (pid, _) # _ \<Rightarrow>
                 (case find (\<lambda>(_, cmdline). str_contains cmdline ''sleep'') candidates of
                    Some (sleepPID, _) \<Rightarrow> Inr sleepPID
                  | None \<Rightarrow> Inr pid))
        })
   }"

definition VerifyMainContainerPID :: "host \<Rightarrow> int \<Rightarrow> string option hprog" where
  "VerifyMainContainerPID h pid =
     (if pid \<le> 1 then State_Monad.return (Some (''invalid PID: '' @ itoa pid))
      else do {
        r \<leftarrow> hReadFile h (''/proc/'' @ itoa pid @ ''/cmdline'');
        State_Monad.return
          (case r of
             Inl e \<Rightarrow> Some (''process '' @ itoa pid @ '' does not exist: '' @ e)
           | Inr bytes \<Rightarrow>
               if agentCmdline (replaceAll [CHR 0x00] '' '' bytes)
               then Some (''PID '' @ itoa pid @ '' is an agent process, not main container'') else None)
      })"

definition GetMainContainerRoot :: "int \<Rightarrow> string" where
  "GetMainContainerRoot pid = ''/proc/'' @ itoa pid @ ''/root''"

definition findChildPID :: "host \<Rightarrow> int \<Rightarrow> (string + int) hprog" where
  "findChildPID h parentPID = do {
     r \<leftarrow> hOutput h [''pgrep'', ''-P'', itoa parentPID];
     State_Monad.return
       (case r of
          Inl e \<Rightarrow> Inl (''no child of PID '' @ itoa parentPID @ '': '' @ e)
        | Inr out \<Rightarrow> (case atoi (hd (split [newline] (trimSpace out))) of
                       None \<Rightarrow> Inl ''failed to parse child PID''
                     | Some pid \<Rightarrow> Inr pid))
   }"

fun firstUserPID :: "int \<Rightarrow> string list \<Rightarrow> int option" where
  "firstUserPID mainPID [] = None"
| "firstUserPID mainPID (line # ls) =
     (case strFields line of
        a # b # _ \<Rightarrow>
          (case (if b \<noteq> ''sleep'' \<and> b \<noteq> ''ps'' then atoi a else None) of
             Some pid \<Rightarrow> if pid \<noteq> mainPID then Some pid else firstUserPID mainPID ls
           | None \<Rightarrow> firstUserPID mainPID ls)
      | _ \<Rightarrow> firstUserPID mainPID ls)"

definition findNonSleepPID :: "host \<Rightarrow> (string + int) hprog" where
  "findNonSleepPID h = do {
     m \<leftarrow> FindMainContainerPID h;
     (case m of
        Inl e \<Rightarrow> State_Monad.return (Inl e)
      | Inr mainPID \<Rightarrow> do {
          r \<leftarrow> hOutput h [''nsenter'', ''-t'', itoa mainPID, ''-p'', ''--'', ''ps'', ''-e'', ''-o'', ''pid,comm'',
                       ''--no-headers''];
          State_Monad.return
            (case r of
               Inl e \<Rightarrow> Inl (''failed to list processes: '' @ e)
             | Inr out \<Rightarrow> (case firstUserPID mainPID (split [newline] out) of
                            Some pid \<Rightarrow> Inr pid
                          | None \<Rightarrow> Inl ''no non-sleep process found''))
        })
   }"

section \<open>The script for the shell\<close>

definition cdTo :: "string \<Rightarrow> string" where
  "cdTo dir = ''cd '' @ [squote] @ dir @ [squote] @ '' && ''"

definition inDoubleQuotes :: "string \<Rightarrow> string" where
  "inDoubleQuotes s = [dquote] @ replaceAll [dquote] [bslash, dquote] s @ [dquote]"

definition commandWord :: "string \<Rightarrow> string" where
  "commandWord part = (if str_contains part '' '' then inDoubleQuotes part else part)"

definition argWord :: "string \<Rightarrow> string" where
  "argWord arg =
     (if str_contains arg [newline] \<or> str_contains arg [squote]
      then [squote] @ replaceAll [squote] [squote, dquote, squote, dquote, squote] arg @ [squote]
      else if str_contains arg '' '' then inDoubleQuotes arg
      else arg)"

definition fullCmd :: "string \<Rightarrow> string list \<Rightarrow> string list \<Rightarrow> string" where
  "fullCmd cd command args =
     ''exec '' @ cd @ join '' '' (map commandWord command) @ concat (map (\<lambda>a. '' '' @ argWord a) args)"

section \<open>Starting the user process\<close>

record agentProc =
  mainPID :: int
  knownMainPID :: int

definition originalCommand :: "string \<Rightarrow> string list" where
  "originalCommand annotations = split '','' (extractAnnotation annotations ''migration.io/original-command'')"

definition originalArgs :: "string \<Rightarrow> string list" where
  "originalArgs annotations =
     (let a = extractAnnotation annotations ''migration.io/original-args'' in if a \<noteq> [] then split ''|||'' a else [])"

definition workdirPrefix :: "host \<Rightarrow> int \<Rightarrow> string \<Rightarrow> string hprog" where
  "workdirPrefix h pid workdir =
     (if workdir = [] then State_Monad.return []
      else if hd workdir = CHR ''/'' then State_Monad.return (cdTo workdir)
      else do {
        r \<leftarrow> hReadlink h (''/proc/'' @ itoa pid @ ''/cwd'');
        State_Monad.return (case r of Inr cwd \<Rightarrow> cdTo (joinPath cwd workdir) | Inl _ \<Rightarrow> cdTo workdir)
      })"

definition launchUser :: "host \<Rightarrow> int \<Rightarrow> string \<Rightarrow> (string + int) hprog" where
  "launchUser h pid script = do {
     o1 \<leftarrow> hOpen h (''/proc/'' @ itoa pid @ ''/root/dev/null'');
     (case o1 of
        Some e \<Rightarrow> State_Monad.return (Inl (''failed to open /dev/null from main container: '' @ e))
      | None \<Rightarrow> do {
          s \<leftarrow> hStart h [''nsenter'', ''-t'', itoa pid, ''-m'', ''-u'', ''-i'', ''-n'', ''-p'', ''--'', ''sh'', ''-c'', script];
          (case s of
             Inl e \<Rightarrow> State_Monad.return (Inl (''failed to start user process: '' @ e))
           | Inr nsenterPID \<Rightarrow> do {
               _ \<leftarrow> hSleep 500000000;
               c \<leftarrow> findChildPID h nsenterPID;
               (case c of
                  Inr found \<Rightarrow> State_Monad.return (Inr found)
                | Inl _ \<Rightarrow> do {
                    f \<leftarrow> findNonSleepPID h;
                    State_Monad.return (case f of Inr found \<Rightarrow> Inr found | Inl e \<Rightarrow> Inl (''failed to find user process: '' @ e))
                  })
             })
        })
   }"

definition startUserProcess :: "host \<Rightarrow> agentProc \<Rightarrow> (string option \<times> agentProc) hprog" where
  "startUserProcess h a = do {
     f \<leftarrow> hReadFile h ''/etc/podinfo/annotations'';
     (case f of
        Inl e \<Rightarrow> State_Monad.return (Some (''failed to read pod annotations: '' @ e), a)
      | Inr annotations \<Rightarrow>
          if extractAnnotation annotations ''migration.io/original-command'' = [] then State_Monad.return (None, a)
          else do {
            m \<leftarrow> FindMainContainerPID h;
            (case m of
               Inl e \<Rightarrow> State_Monad.return (Some (''failed to find main container PID: '' @ e), a)
             | Inr pid \<Rightarrow> do {
                 cd \<leftarrow> workdirPrefix h pid (extractAnnotation annotations ''migration.io/original-workdir'');
                 r \<leftarrow> launchUser h pid (fullCmd cd (originalCommand annotations) (originalArgs annotations));
                 State_Monad.return
                   (case r of
                      Inl e \<Rightarrow> (Some e, a)
                    | Inr found \<Rightarrow> (None, a\<lparr>mainPID := found, knownMainPID := found\<rparr>))
               })
          })
   }"

section \<open>From the builder to the agent\<close>

text \<open>
  The Downward API writes an annotation as \<open>key="value"\<close> with the value quoted by Go's \<open>%q\<close>: on printable
  ASCII text with line breaks and tabs, these four characters are escaped and the others stand for themselves.
\<close>

definition escapeChar :: "char \<Rightarrow> string" where
  "escapeChar c =
     (if c = dquote then [bslash, dquote] else if c = bslash then [bslash, bslash]
      else if c = newline then [bslash, CHR ''n''] else if c = tab then [bslash, CHR ''t''] else [c])"

definition escaped :: "string \<Rightarrow> string" where
  "escaped v = concat (map escapeChar v)"

definition podinfoFile :: "smap \<Rightarrow> string" where
  "podinfoFile ann = concat (map (\<lambda>(k, v). k @ ''='' @ [dquote] @ escaped v @ [dquote, newline]) ann)"

lemma closeQuote_escaped: "even n \<Longrightarrow> closeQuote n (escaped v @ dquote # post) = Some (escaped v)"
  by (induction v arbitrary: n) (auto simp: escaped_def escapeChar_def)

text \<open>Text made of plain characters and of escapes: replacing one escape changes just these.\<close>

definition units :: "(char \<Rightarrow> string) \<Rightarrow> string \<Rightarrow> bool" where
  "units f v \<longleftrightarrow> (\<forall>c \<in> set v. \<exists>z. z \<noteq> bslash \<and> (f c = [z] \<or> f c = [bslash, z]))"

lemma replaceAll_plain: "z \<noteq> bslash \<Longrightarrow> replaceAll (bslash # x) y (z # s) = z # replaceAll (bslash # x) y s"
  by (subst replaceAll.simps) simp

lemma replaceAll_escape:
  "replaceAll [bslash, x] y (bslash # x # s) = y @ replaceAll [bslash, x] y s"
  "z \<noteq> x \<Longrightarrow> z \<noteq> bslash \<Longrightarrow> replaceAll [bslash, x] y (bslash # z # s) = bslash # z # replaceAll [bslash, x] y s"
   apply (subst replaceAll.simps)
   apply simp
  apply (subst replaceAll.simps)
  apply (simp add: replaceAll_plain)
  done

lemma replaceAll_units:
  assumes "units f v"
  shows "replaceAll [bslash, x] y (concat (map f v)) = concat (map (\<lambda>c. if f c = [bslash, x] then y else f c) v)"
  using assms
proof (induction v)
  case Nil
  then show ?case by (simp add: replaceAll.simps)
next
  case (Cons c v)
  then have IH: "replaceAll [bslash, x] y (concat (map f v)) = concat (map (\<lambda>c. if f c = [bslash, x] then y else f c) v)"
    by (simp add: units_def)
  from Cons.prems obtain z where "z \<noteq> bslash" "f c = [z] \<or> f c = [bslash, z]" by (auto simp: units_def)
  then show ?case
    by (cases "z = x") (auto simp: IH replaceAll_plain replaceAll_escape)
qed

lemma units_replaced: "units f v \<Longrightarrow> y \<noteq> bslash \<Longrightarrow> units (\<lambda>c. if f c = [bslash, x] then [y] else f c) v"
  by (auto simp: units_def)

lemma unescape_escaped:
  assumes "bslash \<notin> set v"
  shows "unescape (escaped v) = v"
proof -
  let ?f1 = "\<lambda>c. if escapeChar c = [bslash, CHR ''n''] then [newline] else escapeChar c"
  let ?f2 = "\<lambda>c. if ?f1 c = [bslash, CHR ''t''] then [tab] else ?f1 c"
  let ?f3 = "\<lambda>c. if ?f2 c = [bslash, dquote] then [dquote] else ?f2 c"
  let ?f4 = "\<lambda>c. if ?f3 c = [bslash, bslash] then [bslash] else ?f3 c"
  have u0: "units escapeChar v"
    using assms unfolding units_def by (intro ballI) (auto simp: escapeChar_def intro: exI [of _ "CHR ''n''"])
  have u1: "units ?f1 v" by (rule units_replaced [OF u0]) simp
  have u2: "units ?f2 v" by (rule units_replaced [OF u1]) simp
  have u3: "units ?f3 v" by (rule units_replaced [OF u2]) simp
  have "unescape (escaped v) = concat (map ?f4 v)"
    unfolding unescape_def escaped_def
    by (simp only: replaceAll_units [OF u0] replaceAll_units [OF u1] replaceAll_units [OF u2] replaceAll_units [OF u3])
  also have "map ?f4 v = map (\<lambda>c. [c]) v"
    using assms by (auto simp: escapeChar_def)
  finally show ?thesis by simp
qed

lemma extract_at:
  assumes "breakAt (key @ ''='' @ [dquote]) file = Some (pre, escaped v @ dquote # post)" and "bslash \<notin> set v"
  shows "extractAnnotation file key = v"
  using assms by (simp add: extractAnnotation_def closeQuote_escaped unescape_escaped)

lemma breakAt_first:
  assumes "\<not> str_contains (a @ butlast p) p" and "p \<noteq> []"
  shows "breakAt p (a @ p @ b) = Some (a, b)"
  using assms(1)
proof (induction a)
  case Nil
  from assms(2) obtain c q where "p = c # q" by (cases p) auto
  then show ?case by simp
next
  case (Cons c a)
  have "\<not> hasPrefix (c # a @ p @ b) p"
  proof
    assume "hasPrefix (c # a @ p @ b) p"
    then have "take (length p) (c # a @ p @ b) = p" by (auto simp: hasPrefix_iff)
    moreover have "length p \<le> length (c # a @ butlast p)" by simp
    moreover have "p = butlast p @ [last p]" using assms(2) by simp
    then have "c # a @ p @ b = (c # a @ butlast p) @ [last p] @ b" by simp
    ultimately have "take (length p) (c # a @ butlast p) = p"
      by (metis append_take_drop_id take_append take_all_iff diff_is_0_eq take0 append_Nil2)
    then have "hasPrefix (c # a @ butlast p) p" by (metis hasPrefix_iff append_take_drop_id)
    with Cons.prems show False by simp
  qed
  with Cons show ?case by simp
qed

text \<open>The key is not read too early: nothing before its line in the file looks like it.\<close>

definition keyClear :: "string \<Rightarrow> smap \<Rightarrow> bool" where
  "keyClear key ann \<longleftrightarrow>
     \<not> str_contains (podinfoFile (takeWhile (\<lambda>(k, _). k \<noteq> key) ann) @ key @ ''='') (key @ ''='' @ [dquote])"

lemma map_of_first:
  "map_of al k = Some v \<Longrightarrow> \<exists>rest. al = takeWhile (\<lambda>(k', _). k' \<noteq> k) al @ (k, v) # rest"
  by (induction al) (auto split: if_splits)

lemma extract_podinfo:
  assumes "map_of ann key = Some v" and "keyClear key ann" and "bslash \<notin> set v"
  shows "extractAnnotation (podinfoFile ann) key = v"
proof -
  let ?p = "key @ ''='' @ [dquote]" let ?pre = "podinfoFile (takeWhile (\<lambda>(k', _). k' \<noteq> key) ann)"
  from map_of_first [OF assms(1)] obtain rest where "ann = takeWhile (\<lambda>(k', _). k' \<noteq> key) ann @ (key, v) # rest" ..
  then have "podinfoFile ann = podinfoFile (takeWhile (\<lambda>(k', _). k' \<noteq> key) ann @ (key, v) # rest)" by (rule arg_cong)
  then have "podinfoFile ann = ?pre @ ?p @ (escaped v @ dquote # newline # podinfoFile rest)"
    by (simp add: podinfoFile_def)
  moreover have "\<not> str_contains (?pre @ butlast ?p) ?p"
    using assms(2) by (simp add: keyClear_def butlast_append)
  ultimately have "breakAt ?p (podinfoFile ann) = Some (?pre, escaped v @ dquote # newline # podinfoFile rest)"
    using breakAt_first [of ?pre ?p] by simp
  then show ?thesis by (rule extract_at) (rule assms(3))
qed

lemma saveCommand_saved:
  "Command c \<noteq> [] \<Longrightarrow> map_of (saveCommand c ann) ''migration.io/original-command'' = Some (join '','' (Command c))"
  "Args c \<noteq> [] \<Longrightarrow> map_of (saveCommand c ann) ''migration.io/original-args'' = Some (join ''|||'' (Args c))"
  by (simp_all add: saveCommand_def Let_def map_of_mput)

lemma join_chars: "set (join sep xs) \<subseteq> set sep \<union> \<Union> (set ` set xs)"
proof (induction xs)
  case (Cons x xs)
  then show ?case by (cases xs) auto
qed simp



text \<open>
  A backslash does not survive the annotations: the two characters backslash and n of a command are read back
  as a backslash and a line break.
\<close>

lemma backslash_misread:
  "extractAnnotation (podinfoFile [(''migration.io/original-args'', [CHR ''a'', bslash, CHR ''n''])]) ''migration.io/original-args'' =
     [CHR ''a'', bslash, newline]"
  by code_simp

definition workdirOf :: "hostEvent list \<Rightarrow> string" where
  "workdirOf d = (case d of
     HReadFile p (Inr annotations) # _ \<Rightarrow> extractAnnotation annotations ''migration.io/original-workdir'' | _ \<Rightarrow> [])"

definition execCd :: string where "execCd = ''exec cd '' @ [squote]"

fun startsWithExecCd :: "hostEvent \<Rightarrow> bool" where
  "startsWithExecCd (HStartCmd args r) = hasPrefix (last args) execCd"
| "startsWithExecCd _ = True"

lemma fullCmd_cd: "hasPrefix (fullCmd (cdTo dir) command args) execCd"
  by (simp add: fullCmd_def cdTo_def execCd_def)

lemma workdirPrefix_cd:
  "io_post (workdirPrefix h pid workdir) (\<lambda>cd d. workdir = [] \<or> list_all startsWithExecCd d \<and> (\<exists>dir. cd = cdTo dir))"
  unfolding workdirPrefix_def by (auto intro!: io_rules split: sum.split)

lemma mainCandidates_starts: "io_post (mainCandidates h entries) (\<lambda>r d. list_all startsWithExecCd d)"
proof (induction entries)
  case Nil
  then show ?case by (auto intro: io_rules)
next
  case (Cons e entries)
  then show ?case
    by (cases e) (auto intro!: io_rules io_post_mono [OF Cons.IH])
qed

lemma FindMainContainerPID_starts: "io_post (FindMainContainerPID h) (\<lambda>r d. list_all startsWithExecCd d)"
  unfolding FindMainContainerPID_def by (auto intro!: io_rules io_post_mono [OF mainCandidates_starts])

lemma launchUser_starts:
  "io_post (launchUser h pid script)
     (\<lambda>r d. \<not> hasPrefix script execCd \<or> list_all startsWithExecCd d)"
  unfolding launchUser_def findChildPID_def findNonSleepPID_def
  by (auto intro!: io_rules io_post_mono [OF FindMainContainerPID_starts])

text \<open>
  C32. With a working directory the script for the shell is an exec of the word cd: every process that the agent
  starts gets a script that begins with exec cd, so the shell is replaced before the command of the
  user is reached, and the user process is not started.
\<close>

theorem workdir_script_broken:
  "io_post (startUserProcess h a) (\<lambda>r d. workdirOf d = [] \<or> list_all startsWithExecCd d)"
  unfolding startUserProcess_def
  by (auto intro!: io_rules io_post_mono [OF FindMainContainerPID_starts] io_post_mono [OF workdirPrefix_cd]
      io_post_mono [OF launchUser_starts] simp: workdirOf_def fullCmd_cd)

end
