(* ===== verification/Mounts.thy ===== *)
theory Mounts
  imports AgentStart
begin

text \<open>
  \<open>pkg/agent/mount_utils.go\<close>: the mounts that Kubernetes puts into a container, read from the mount table of
  the process, with the labels that the dump and the restore use for them. A map of Go is an association list with
  distinct keys; the code iterates over it in no particular order, here in the order of the table.
\<close>

section \<open>The mount table\<close>

definition kernelFS :: "string \<Rightarrow> bool" where
  "kernelFS t \<longleftrightarrow> t \<in> set [''proc'', ''sysfs'', ''devpts'', ''mqueue'', ''cgroup2'', ''cgroup'']"

definition mountLabel :: "string \<Rightarrow> string" where
  "mountLabel mountPoint = replaceAll ''.'' ''-'' (replaceAll ''/'' ''-'' (trimPrefix mountPoint ''/''))"

text \<open>The mount point of a line of the table, if it is one to mark as external.\<close>

definition externalPoint :: "string \<Rightarrow> string option" where
  "externalPoint line =
     (let fields = strFields line in
      if length fields < 5 then None
      else let mountPoint = fields ! 4 in
        if mountPoint = ''/'' then None
        else case dropWhile (\<lambda>f. f \<noteq> ''-'') fields of
          _ # fsType # _ \<Rightarrow> if kernelFS fsType then None else Some mountPoint
        | _ \<Rightarrow> None)"

definition mountsOf :: "string list \<Rightarrow> smap" where
  "mountsOf ls = foldl (\<lambda>m line. case externalPoint line of None \<Rightarrow> m | Some p \<Rightarrow> AList.update p (mountLabel p) m) [] ls"

text \<open>The scanner of the code refuses a line that does not fit into its buffer of 64 KiB.\<close>

definition getExternalMounts :: "host \<Rightarrow> int \<Rightarrow> (string + smap) hprog" where
  "getExternalMounts h pid = do {
     r \<leftarrow> hReadFile h (''/proc/'' @ itoa pid @ ''/mountinfo'');
     State_Monad.return
       (case r of
          Inl e \<Rightarrow> Inl (''failed to open mountinfo: '' @ e)
        | Inr text \<Rightarrow>
            let ls = split [newline] text in
            if list_ex (\<lambda>l. length l \<ge> 65536) ls then Inl ''error reading mountinfo: token too long''
            else Inr (mountsOf ls))
   }"

section \<open>The labels\<close>

lemma replaceAll_char:
  "replaceAll [c] [d] s = map (\<lambda>x. if x = c then d else x) s"
proof (induction s)
  case Nil
  then show ?case by (simp add: replaceAll.simps)
next
  case (Cons a s)
  then show ?case by (subst replaceAll.simps) simp
qed

definition dashed :: "char \<Rightarrow> char" where
  "dashed c = (if c = CHR ''/'' \<or> c = CHR ''.'' then CHR ''-'' else c)"

lemma mountLabel_map: "mountLabel p = map dashed (trimPrefix p ''/'')"
  by (simp add: mountLabel_def replaceAll_char dashed_def comp_def)

text \<open>The table gives every mount point its label, and no kernel file system and no root is in it.\<close>

lemma mountsOf_labels: "map_of (mountsOf ls) p = (if p \<in> Option.these (externalPoint ` set ls) then Some (mountLabel p) else None)"
proof -
  have "map_of (foldl (\<lambda>m line. case externalPoint line of None \<Rightarrow> m | Some p \<Rightarrow> AList.update p (mountLabel p) m) m0 ls) p =
      (if p \<in> Option.these (externalPoint ` set ls) then Some (mountLabel p) else map_of m0 p)" for m0
  proof (induction ls arbitrary: m0)
    case Nil
    then show ?case by simp
  next
    case (Cons l ls)
    show ?case
      by (cases "externalPoint l") (auto simp: Cons.IH update_conv' in_these_eq)
  qed
  from this [of "[]"] show ?thesis by (simp add: mountsOf_def)
qed

text \<open>
  Labels are unambiguous for mount points without dashes and dots: two of them with the same label are the same.
\<close>

definition plainPoint :: "string \<Rightarrow> bool" where
  "plainPoint p \<longleftrightarrow> (case p of [] \<Rightarrow> False | c # q \<Rightarrow> c = CHR ''/'' \<and> list_all (\<lambda>x. x \<noteq> CHR ''-'' \<and> x \<noteq> CHR ''.'') q)"

lemma map_dashed_inj:
  "list_all (\<lambda>x. x \<noteq> CHR ''-'' \<and> x \<noteq> CHR ''.'') q \<Longrightarrow> list_all (\<lambda>x. x \<noteq> CHR ''-'' \<and> x \<noteq> CHR ''.'') q' \<Longrightarrow>
   map dashed q = map dashed q' \<Longrightarrow> q = q'"
proof (induction q arbitrary: q')
  case (Cons a q)
  then obtain b r where "q' = b # r" by (cases q') auto
  with Cons show ?case by (auto simp: dashed_def split: if_splits)
qed simp

lemma mountLabel_inj: "plainPoint p \<Longrightarrow> plainPoint q \<Longrightarrow> mountLabel p = mountLabel q \<Longrightarrow> p = q"
  by (auto simp: plainPoint_def mountLabel_map trimPrefix_def split: list.splits intro: map_dashed_inj)

text \<open>Two mount points that differ in a dash and a slash get one label.\<close>

lemma mount_labels_collide: "mountLabel ''/var/lib/app-data'' = mountLabel ''/var/lib/app/data''"
  by (simp add: mountLabel_map dashed_def trimPrefix_def)

end
