(* ===== verification/Checkpoint.thy ===== *)
theory Checkpoint
  imports S3 Mounts
begin

text \<open>
  \<open>pkg/agent/checkpoint.go\<close>: the checkpoint manager of the agent, which runs CRIU for pre-dumps and final dumps and hands the images
  to the storage. The known process id of the manager is kept with the process of the agent (\<open>AgentStart\<close>), and \<open>FindMainProcessPID\<close>
  is in \<open>AgentServer\<close>. A goroutine that uploads in the background is an event of the log; its body is
  \<open>backgroundUpload\<close>.
\<close>

section \<open>State\<close>

record checkpointManager =
  cm_workDir :: string
  cm_s3 :: s3Client
  cm_podName :: string
  cm_appName :: string
  cm_nodeName :: string
  cm_lastCheckpointID :: string
  cm_chainRoot :: string
  cm_chainDepth :: int
  cm_generation :: int

record checkpointResult =
  cr_DumpID :: string
  cr_Timestamp :: int
  cr_SizeBytes :: int
  cr_PagesDumped :: int
  cr_ExternalMounts :: smap
  cr_PipeInodes :: smap
  cr_PageServerPID :: int
  cr_PageServerAlive :: bool

text \<open>\<open>strings.Trim\<close> with a set of one character.\<close>

definition trimChar :: "char \<Rightarrow> string \<Rightarrow> string" where
  "trimChar c s = rev (dropWhile (\<lambda>x. x = c) (rev (dropWhile (\<lambda>x. x = c) s)))"

fun appNameIn :: "string \<Rightarrow> string list \<Rightarrow> string" where
  "appNameIn def [] = def"
| "appNameIn def (line # ls) =
     (if hasPrefix line ''migration.io/app='' then trimChar dquote (trimPrefix line ''migration.io/app='') else appNameIn def ls)"

definition podGeneration :: "genv \<Rightarrow> int" where
  "podGeneration getenv =
     (if getenv ''POD_GENERATION'' \<noteq> [] then (case atoi (getenv ''POD_GENERATION'') of Some n \<Rightarrow> n | None \<Rightarrow> 0) else 0)"

definition NewCheckpointManager :: "host \<Rightarrow> genv \<Rightarrow> string \<Rightarrow> s3Client \<Rightarrow> string \<Rightarrow> string \<Rightarrow> checkpointManager hprog" where
  "NewCheckpointManager h getenv workDir s3 podName nodeName = do {
     r \<leftarrow> hReadFile h ''/etc/podinfo/annotations'';
     State_Monad.return
       \<lparr>cm_workDir = workDir, cm_s3 = s3, cm_podName = podName,
        cm_appName = (case r of Inl _ \<Rightarrow> podName | Inr text \<Rightarrow> appNameIn podName (split [newline] text)),
        cm_nodeName = nodeName, cm_lastCheckpointID = [], cm_chainRoot = [], cm_chainDepth = 0,
        cm_generation = podGeneration getenv\<rparr>
   }"

section \<open>Names, sizes and options\<close>

definition generateDumpID :: "host \<Rightarrow> string hprog" where
  "generateDumpID h = do {
     u \<leftarrow> hUuid h;
     n \<leftarrow> hNow h;
     State_Monad.return (take 8 u @ ''-'' @ itoa (n div 1000000000))
   }"

definition getS3Prefix :: "checkpointManager \<Rightarrow> string \<Rightarrow> string" where
  "getS3Prefix m dumpID = cm_appName m @ ''/'' @ itoa (cm_generation m) @ ''/'' @ cm_nodeName m @ ''/'' @ dumpID"

definition getDirectorySize :: "host \<Rightarrow> string \<Rightarrow> (string + int) hprog" where
  "getDirectorySize h dir = do {
     w \<leftarrow> hWalk h dir;
     State_Monad.return
       (case w of Inl e \<Rightarrow> Inl e | Inr infos \<Rightarrow> Inr (sum_list (map fi_size (filter (\<lambda>i. \<not> fi_dir i) infos))))
   }"

fun sumPages :: "host \<Rightarrow> string list \<Rightarrow> int \<Rightarrow> int hprog" where
  "sumPages h [] n = State_Monad.return n"
| "sumPages h (f # fs) n = do {
     r \<leftarrow> hFileSize h f;
     sumPages h fs (case r of Inl _ \<Rightarrow> n | Inr bytes \<Rightarrow> n + bytes div 4096)
   }"

definition countPages :: "host \<Rightarrow> string \<Rightarrow> (string + int) hprog" where
  "countPages h dumpDir = do {
     g \<leftarrow> hGlob h (joinPath dumpDir ''pages-*.img'');
     (case g of
        Inl e \<Rightarrow> State_Monad.return (Inl e)
      | Inr files \<Rightarrow> do { n \<leftarrow> sumPages h files 0; State_Monad.return (Inr n) })
   }"

definition orZero :: "string + int \<Rightarrow> int" where
  "orZero r = (case r of Inl _ \<Rightarrow> 0 | Inr n \<Rightarrow> n)"

definition readLogFile :: "host \<Rightarrow> string \<Rightarrow> nat \<Rightarrow> string hprog" where
  "readLogFile h path maxLines = do {
     r \<leftarrow> hReadFile h path;
     State_Monad.return
       (case r of
          Inl e \<Rightarrow> ''(failed to read '' @ path @ '': '' @ e @ '')''
        | Inr content \<Rightarrow> let ls = split [newline] content in join [newline] (drop (length ls - maxLines) ls))
   }"

text \<open>The verb \<open>%x\<close> for an unsigned number.\<close>

definition hexDigit :: "nat \<Rightarrow> char" where
  "hexDigit n = (if n < 10 then char_of (48 + n) else char_of (87 + n))"

fun hexOf :: "nat \<Rightarrow> string" where
  "hexOf n = (if n < 16 then [hexDigit n] else hexOf (n div 16) @ [hexDigit (n mod 16)])"

declare hexOf.simps [simp del]

definition rangeText :: "string \<Rightarrow> addrRange \<Rightarrow> string" where
  "rangeText sep r = hexOf (ar_Start r) @ sep @ hexOf (ar_End r)"

fun writeRanges :: "host \<Rightarrow> string \<Rightarrow> addrRange list \<Rightarrow> string option hprog" where
  "writeRanges h path [] = State_Monad.return None"
| "writeRanges h path (r # rs) = do {
     w \<leftarrow> hWrite h path (rangeText '' '' r @ [newline]);
     (case w of Some e \<Rightarrow> State_Monad.return (Some e) | None \<Rightarrow> writeRanges h path rs)
   }"

definition writeExcludeFile :: "host \<Rightarrow> string \<Rightarrow> addrRange list \<Rightarrow> string option hprog" where
  "writeExcludeFile h path rs = do {
     c \<leftarrow> hCreate h path;
     (case c of Some e \<Rightarrow> State_Monad.return (Some e) | None \<Rightarrow> writeRanges h path rs)
   }"

definition rangeArgs :: "string \<Rightarrow> addrRange list \<Rightarrow> string list" where
  "rangeArgs flag rs = concat (map (\<lambda>r. [flag, rangeText '':'' r]) rs)"

text \<open>What \<open>appendExcludeArgs\<close> appends.\<close>

definition appendExcludeArgs :: "host \<Rightarrow> criuExcludeArgs option \<Rightarrow> string \<Rightarrow> string list hprog" where
  "appendExcludeArgs h excl dumpDir =
     (case excl of
        None \<Rightarrow> State_Monad.return []
      | Some x \<Rightarrow> do {
          flags \<leftarrow> (if length (ExcludeRanges x) > 10
            then (let path = joinPath dumpDir ''exclude-ranges.txt'' in do {
                    e \<leftarrow> writeExcludeFile h path (ExcludeRanges x);
                    State_Monad.return (if e \<noteq> None then [] else [''--exclude-file'', path])
                  })
            else State_Monad.return (rangeArgs ''--exclude-range'' (ExcludeRanges x)));
          State_Monad.return (flags @ rangeArgs ''--no-parent-range'' (NoParentRanges x))
        })"

definition parentArgs :: "host \<Rightarrow> checkpointManager \<Rightarrow> string \<Rightarrow> string list hprog" where
  "parentArgs h m parentDumpID =
     (if parentDumpID \<noteq> []
      then (let parentDir = joinPath (cm_workDir m) parentDumpID in do {
              ok \<leftarrow> hStat h parentDir;
              State_Monad.return (if ok then [''--prev-images-dir'', parentDir] else [])
            })
      else State_Monad.return [])"

definition optionArg :: "genv \<Rightarrow> string \<Rightarrow> string \<Rightarrow> string list" where
  "optionArg getenv flag var = (if getenv var \<noteq> [] then [flag, getenv var] else [])"

definition compressArgs :: "genv \<Rightarrow> string list" where
  "compressArgs getenv =
     (if getenv ''CRIU_COMPRESS'' = ''true''
      then [''--compress''] @ optionArg getenv ''--compress-level'' ''CRIU_COMPRESS_LEVEL'' @
           optionArg getenv ''--compress-workers'' ''CRIU_COMPRESS_WORKERS''
      else [])"

section \<open>Uploads beside the images\<close>

definition uploadExisting :: "host \<Rightarrow> s3Client \<Rightarrow> string \<Rightarrow> string \<Rightarrow> string list \<Rightarrow> unit hprog" where
  "uploadExisting h c dumpDir keyPrefix names =
     forEach names (\<lambda>name. do {
       ok \<leftarrow> hStat h (joinPath dumpDir name);
       (if ok then do { _ \<leftarrow> UploadFile h c (joinPath dumpDir name) (keyPrefix @ name); State_Monad.return () }
        else State_Monad.return ())
     })"

definition uploadAgentMetadata :: "host \<Rightarrow> s3Client \<Rightarrow> string \<Rightarrow> string \<Rightarrow> unit hprog" where
  "uploadAgentMetadata h c dumpDir s3Prefix =
     uploadExisting h c dumpDir (s3Prefix @ ''/'') [''hot-iovs.json'', ''hot_vma_metadata.json'', ''pipe_inodes.json'']"

definition uploadLogs :: "host \<Rightarrow> genv \<Rightarrow> s3Client \<Rightarrow> string \<Rightarrow> string \<Rightarrow> unit hprog" where
  "uploadLogs h getenv c dumpDir s3Prefix =
     (if getenv ''LOG_UPLOAD'' \<noteq> ''true'' then State_Monad.return ()
      else uploadExisting h c dumpDir (s3Prefix @ ''/logs/'')
             [''criu.log'', ''restore.log'', ''lazy-pages.log'', ''stats-dump'', ''stats-restore'',
              ''hot_vma_metadata.json'', ''hot-iovs.json'', ''exclude-ranges.txt''])"

text \<open>The body of the goroutine that a pre-dump starts: an error is only printed.\<close>

definition backgroundUpload :: "host \<Rightarrow> s3Client \<Rightarrow> string \<Rightarrow> string \<Rightarrow> unit hprog" where
  "backgroundUpload h c dumpDir s3Prefix = do { _ \<leftarrow> UploadCheckpoint h c dumpDir s3Prefix; State_Monad.return () }"

section \<open>Pre-dumps\<close>

definition preDumpArgs :: "int \<Rightarrow> string \<Rightarrow> string list" where
  "preDumpArgs pid dumpDir =
     [''pre-dump'', ''-t'', itoa pid, ''-D'', dumpDir, ''--root'', ''/proc/'' @ itoa pid @ ''/root'', ''--track-mem'',
      ''--leave-running'', ''-v4'', ''--log-file'', joinPath dumpDir ''criu.log'']"

definition directUploadOn :: "genv \<Rightarrow> bool" where
  "directUploadOn getenv \<longleftrightarrow> getenv ''DIRECT_UPLOAD'' = ''true''"

definition chained :: "checkpointManager \<Rightarrow> string \<Rightarrow> checkpointManager" where
  "chained m dumpID =
     m\<lparr>cm_lastCheckpointID := dumpID, cm_chainRoot := (if cm_chainRoot m = [] then dumpID else cm_chainRoot m),
       cm_chainDepth := cm_chainDepth m + 1\<rparr>"

text \<open>After a dump that CRIU has written: sizes, the new state and the uploads.\<close>

definition recordPreDump ::
  "host \<Rightarrow> genv \<Rightarrow> checkpointManager \<Rightarrow> string \<Rightarrow> string \<Rightarrow> (checkpointResult \<times> checkpointManager) hprog" where
  "recordPreDump h getenv m dumpID dumpDir = do {
     bytes \<leftarrow> getDirectorySize h dumpDir;
     pages \<leftarrow> countPages h dumpDir;
     n \<leftarrow> hNow h;
     let s3Prefix = getS3Prefix m dumpID;
     _ \<leftarrow> (if directUploadOn getenv then uploadAgentMetadata h (cm_s3 m) dumpDir s3Prefix else hGoUpload dumpDir s3Prefix);
     _ \<leftarrow> uploadLogs h getenv (cm_s3 m) dumpDir s3Prefix;
     State_Monad.return
       (\<lparr>cr_DumpID = dumpID, cr_Timestamp = n, cr_SizeBytes = orZero bytes, cr_PagesDumped = orZero pages,
         cr_ExternalMounts = [], cr_PipeInodes = [], cr_PageServerPID = 0, cr_PageServerAlive = False\<rparr>, chained m dumpID)
   }"

definition cmPreCheckpoint ::
  "host \<Rightarrow> genv \<Rightarrow> checkpointManager \<Rightarrow> int \<Rightarrow> string \<Rightarrow> criuExcludeArgs option \<Rightarrow>
   ((string + checkpointResult) \<times> checkpointManager) hprog" where
  "cmPreCheckpoint h getenv m pid parentDumpID excl = do {
     _ \<leftarrow> hPreDump pid parentDumpID excl;
     dumpID \<leftarrow> generateDumpID h;
     let dumpDir = joinPath (cm_workDir m) dumpID;
     mk \<leftarrow> hMkdirAll h dumpDir;
     (case mk of
        Some e \<Rightarrow> State_Monad.return (Inl (''failed to create dump directory: '' @ e), m)
      | None \<Rightarrow> do {
          parent \<leftarrow> parentArgs h m parentDumpID;
          exclude \<leftarrow> appendExcludeArgs h excl dumpDir;
          let upload = (if directUploadOn getenv then BuildCRIUUploadArgs getenv (cm_s3 m) (getS3Prefix m dumpID) else []);
          c \<leftarrow> hCombined h (''criu'' # preDumpArgs pid dumpDir @ parent @ exclude @ upload @ compressArgs getenv);
          (case c of
             (Some e, output) \<Rightarrow>
               State_Monad.return (Inl (''criu pre-dump failed: '' @ e @ [newline] @ ''Output: '' @ output), m)
           | (None, _) \<Rightarrow> do {
               (res, m') \<leftarrow> recordPreDump h getenv m dumpID dumpDir;
               State_Monad.return (Inr res, m')
             })
        })
   }"

definition ResetChain :: "checkpointManager \<Rightarrow> checkpointManager" where
  "ResetChain m = m\<lparr>cm_chainRoot := [], cm_chainDepth := 0\<rparr>"

section \<open>Final dumps\<close>

definition servesPages :: "string \<Rightarrow> bool" where
  "servesPages strategy \<longleftrightarrow> strategy = ''lazy-direct'' \<or> strategy = ''lazy-hybrid''"

text \<open>The inode of a link such as \<open>pid:[4026532508]\<close>.\<close>

definition linkInode :: "string \<Rightarrow> string \<Rightarrow> string" where
  "linkInode kind link = trimSuffix (trimPrefix link (kind @ '':['')) '']''"

definition pipeInode :: "string + string \<Rightarrow> string option" where
  "pipeInode link =
     (case link of Inl _ \<Rightarrow> None | Inr l \<Rightarrow> if hasPrefix l ''pipe:['' then Some (linkInode ''pipe'' l) else None)"

definition recordPipes :: "host \<Rightarrow> int \<Rightarrow> smap hprog" where
  "recordPipes h pid = do {
     out \<leftarrow> hReadlink h (''/proc/'' @ itoa pid @ ''/fd/1'');
     err \<leftarrow> hReadlink h (''/proc/'' @ itoa pid @ ''/fd/2'');
     State_Monad.return
       ((case pipeInode out of None \<Rightarrow> [] | Some i \<Rightarrow> [(''stdout'', i)]) @
        (case pipeInode err of None \<Rightarrow> [] | Some i \<Rightarrow> [(''stderr'', i)]))
   }"

text \<open>
  \<open>json.Marshal\<close> of a map of strings: the keys in order, quoted strings of ASCII characters. The characters that HTML treats
  specially and control characters are written as \<open>\u\<close> escapes.
\<close>

definition jsonChar :: "char \<Rightarrow> string" where
  "jsonChar c =
     (if c = dquote then [bslash, dquote] else if c = bslash then [bslash, bslash]
      else if c = newline then [bslash, CHR ''n''] else if c = tab then [bslash, CHR ''t'']
      else if c = CHR 0x0D then [bslash, CHR ''r'']
      else if c = CHR 0x08 then [bslash, CHR ''b''] else if c = CHR 0x0C then [bslash, CHR ''f'']
      else if (of_char c :: nat) < 32 \<or> c \<in> set ''<>&''
      then [bslash] @ ''u00'' @ [hexDigit (of_char c div 16), hexDigit (of_char c mod 16)]
      else [c])"

definition jsonString :: "string \<Rightarrow> string" where
  "jsonString s = [dquote] @ concat (map jsonChar s) @ [dquote]"

definition jsonPipes :: "smap \<Rightarrow> string" where
  "jsonPipes m =
     ''{'' @ join '','' (concat (map (\<lambda>k. case map_of m k of None \<Rightarrow> [] | Some v \<Rightarrow> [jsonString k @ '':'' @ jsonString v])
                          [''stderr'', ''stdout''])) @ ''}''"

definition persistPipes :: "host \<Rightarrow> string \<Rightarrow> smap \<Rightarrow> unit hprog" where
  "persistPipes h dumpDir pipes =
     (if pipes \<noteq> []
      then do { _ \<leftarrow> hWriteFile h (joinPath dumpDir ''pipe_inodes.json'') (jsonPipes pipes); State_Monad.return () }
      else State_Monad.return ())"

definition dumpMountArgs :: "smap \<Rightarrow> string list" where
  "dumpMountArgs mounts = concat (map (\<lambda>(point, label). [''--external'', ''mnt['' @ point @ '']:'' @ label]) mounts)"

definition pageServerPidFile :: "string \<Rightarrow> string" where
  "pageServerPidFile dumpDir = joinPath dumpDir ''page-server.pid''"

definition directFinal :: "genv \<Rightarrow> string \<Rightarrow> bool" where
  "directFinal getenv strategy \<longleftrightarrow> directUploadOn getenv \<and> \<not> servesPages strategy"

definition finalDumpArgs ::
  "genv \<Rightarrow> checkpointManager \<Rightarrow> int \<Rightarrow> int \<Rightarrow> string \<Rightarrow> string \<Rightarrow> string \<Rightarrow> smap \<Rightarrow> string list" where
  "finalDumpArgs getenv m pid port strategy dumpID pidNs mounts =
     (let dumpDir = joinPath (cm_workDir m) dumpID in
      [''dump'', ''-t'', itoa pid, ''-D'', dumpDir, ''--root'', ''/proc/'' @ itoa pid @ ''/root'', ''--tcp-close'', ''--shell-job'',
       ''-v4'', ''--log-file'', joinPath dumpDir ''criu.log'', ''--evasive-devices''] @
      (if servesPages strategy
       then [''--pidfile'', pageServerPidFile dumpDir, ''--lazy-pages'', ''--address'', ''0.0.0.0'', ''--port'', itoa port] else []) @
      (if directFinal getenv strategy then BuildCRIUUploadArgs getenv (cm_s3 m) (getS3Prefix m dumpID) else []) @
      compressArgs getenv @ [''--external'', ''pid['' @ pidNs @ '']:main_pidns''] @ dumpMountArgs mounts @
      [''--external'', ''mnt[]:ms''])"

text \<open>The essential files of a dump: both patterns must match.\<close>

definition globMissing :: "string + string list \<Rightarrow> bool" where
  "globMissing r \<longleftrightarrow> (case r of Inl _ \<Rightarrow> True | Inr files \<Rightarrow> files = [])"

definition checkpointFilesThere :: "host \<Rightarrow> string \<Rightarrow> unit option hprog" where
  "checkpointFilesThere h dumpDir = do {
     core \<leftarrow> hGlob h (joinPath dumpDir ''core-*.img'');
     (if globMissing core then State_Monad.return None
      else do {
        inventory \<leftarrow> hGlob h (joinPath dumpDir ''inventory.img'');
        State_Monad.return (if globMissing inventory then None else Some ())
      })
   }"

definition waitForCheckpointFiles :: "host \<Rightarrow> string \<Rightarrow> int \<Rightarrow> string option hprog" where
  "waitForCheckpointFiles h dumpDir timeout = do {
     n \<leftarrow> hNow h;
     r \<leftarrow> pollUntil h (n + timeout) 100000000 (checkpointFilesThere h dumpDir);
     (case r of
        Some _ \<Rightarrow> do { _ \<leftarrow> hSleep 500000000; State_Monad.return None }
      | None \<Rightarrow> State_Monad.return (Some ''timeout waiting for checkpoint files to be created''))
   }"

definition positivePid :: "string + string \<Rightarrow> int option" where
  "positivePid r =
     (case r of Inl _ \<Rightarrow> None
      | Inr text \<Rightarrow> (case atoi (trimSpace text) of Some n \<Rightarrow> if n > 0 then Some n else None | None \<Rightarrow> None))"

text \<open>
  CRIU in the background as a page server, or a dump that is waited for. The result is the process id of the page server, 0
  if there is none, and the started command.
\<close>

definition runFinalDump :: "host \<Rightarrow> string \<Rightarrow> string \<Rightarrow> string list \<Rightarrow> (string + int \<times> int option) hprog" where
  "runFinalDump h strategy dumpDir args =
     (if servesPages strategy
      then do {
        s \<leftarrow> hStart h (''criu'' # args);
        (case s of
           Inl e \<Rightarrow> State_Monad.return (Inl (''failed to start criu dump: '' @ e))
         | Inr criuPID \<Rightarrow> do {
             w \<leftarrow> waitForCheckpointFiles h dumpDir 30000000000;
             (case w of
                Some e \<Rightarrow> do {
                  _ \<leftarrow> hKill h criuPID;
                  l \<leftarrow> readLogFile h (joinPath dumpDir ''criu.log'') 100;
                  State_Monad.return (Inl (''failed to wait for checkpoint files: '' @ e @ [newline, newline] @ ''CRIU Log:'' @ [newline] @ l))
                }
              | None \<Rightarrow> do {
                  p \<leftarrow> hReadFile h (pageServerPidFile dumpDir);
                  State_Monad.return (Inr (case positivePid p of Some pid \<Rightarrow> pid | None \<Rightarrow> criuPID, Some criuPID))
                })
           })
      }
      else do {
        r \<leftarrow> hRun h (''criu'' # args);
        (case r of
           Some e \<Rightarrow> do {
             l \<leftarrow> readLogFile h (joinPath dumpDir ''criu.log'') 100;
             State_Monad.return (Inl (''criu dump failed: '' @ e @ [newline] @ ''CRIU Log:'' @ [newline] @ l))
           }
         | None \<Rightarrow> State_Monad.return (Inr (0, None)))
      })"

text \<open>The upload of the images, which a final dump waits for. A strategy that is not one of the four uploads nothing.\<close>

definition storeFinalDump :: "host \<Rightarrow> genv \<Rightarrow> s3Client \<Rightarrow> string \<Rightarrow> string \<Rightarrow> string \<Rightarrow> string option hprog" where
  "storeFinalDump h getenv c strategy dumpDir s3Prefix =
     (if strategy = ''full'' \<or> strategy = ''lazy-storage''
      then if directFinal getenv strategy
           then do { _ \<leftarrow> uploadAgentMetadata h c dumpDir s3Prefix; State_Monad.return None }
           else do {
             u \<leftarrow> UploadCheckpoint h c dumpDir s3Prefix;
             State_Monad.return (map_option (\<lambda>e. ''failed to upload checkpoint to storage: '' @ e) u)
           }
      else if servesPages strategy
      then do {
        u \<leftarrow> UploadCheckpoint h c dumpDir s3Prefix;
        State_Monad.return (map_option (\<lambda>e. ''failed to upload checkpoint metadata to storage: '' @ e) u)
      }
      else State_Monad.return None)"

text \<open>From the images on disk to the result.\<close>

definition finishFinalDump ::
  "host \<Rightarrow> genv \<Rightarrow> checkpointManager \<Rightarrow> string \<Rightarrow> string \<Rightarrow> smap \<Rightarrow> smap \<Rightarrow> int \<Rightarrow> (string + checkpointResult) hprog" where
  "finishFinalDump h getenv m strategy dumpID mounts pipes pageServerPID =
     (let dumpDir = joinPath (cm_workDir m) dumpID; s3Prefix = getS3Prefix m dumpID in do {
        bytes \<leftarrow> getDirectorySize h dumpDir;
        n \<leftarrow> hNow h;
        u \<leftarrow> storeFinalDump h getenv (cm_s3 m) strategy dumpDir s3Prefix;
        (case u of
           Some e \<Rightarrow> State_Monad.return (Inl e)
         | None \<Rightarrow> do {
             _ \<leftarrow> uploadLogs h getenv (cm_s3 m) dumpDir s3Prefix;
             State_Monad.return (Inr
               \<lparr>cr_DumpID = dumpID, cr_Timestamp = n, cr_SizeBytes = orZero bytes, cr_PagesDumped = 0, cr_ExternalMounts = mounts,
                cr_PipeInodes = pipes, cr_PageServerPID = pageServerPID, cr_PageServerAlive = (pageServerPID > 0)\<rparr>)
           })
      })"

definition cmFinalDump ::
  "host \<Rightarrow> genv \<Rightarrow> checkpointManager \<Rightarrow> int \<Rightarrow> int \<Rightarrow> string \<Rightarrow> criuExcludeArgs option \<Rightarrow> string \<Rightarrow>
   (string + checkpointResult \<times> int option) hprog" where
  "cmFinalDump h getenv m pid pageServerPort parentDumpID excl strategy = do {
     _ \<leftarrow> hFinalDump pid parentDumpID excl strategy;
     dumpID \<leftarrow> generateDumpID h;
     let dumpDir = joinPath (cm_workDir m) dumpID;
     mk \<leftarrow> hMkdirAll h dumpDir;
     (case mk of
        Some e \<Rightarrow> State_Monad.return (Inl (''failed to create dump directory: '' @ e))
      | None \<Rightarrow> do {
          mts \<leftarrow> getExternalMounts h pid;
          let mounts = (case mts of Inl _ \<Rightarrow> [] | Inr x \<Rightarrow> x);
          ns \<leftarrow> hReadlink h (''/proc/'' @ itoa pid @ ''/ns/pid'');
          (case ns of
             Inl e \<Rightarrow> State_Monad.return (Inl (''failed to read PID namespace: '' @ e))
           | Inr link \<Rightarrow> do {
               pipes \<leftarrow> recordPipes h pid;
               _ \<leftarrow> persistPipes h dumpDir pipes;
               parent \<leftarrow> parentArgs h m parentDumpID;
               exclude \<leftarrow> appendExcludeArgs h excl dumpDir;
               d \<leftarrow> runFinalDump h strategy dumpDir
                     (finalDumpArgs getenv m pid pageServerPort strategy dumpID (linkInode ''pid'' link) mounts @ parent @ exclude);
               (case d of
                  Inl e \<Rightarrow> State_Monad.return (Inl e)
                | Inr (pageServerPID, cmd) \<Rightarrow> do {
                    r \<leftarrow> finishFinalDump h getenv m strategy dumpID mounts pipes pageServerPID;
                    State_Monad.return (case r of Inl e \<Rightarrow> Inl e | Inr res \<Rightarrow> Inr (res, cmd))
                  })
             })
        })
   }"

section \<open>The other operations\<close>

definition sleepPid :: "host \<Rightarrow> int option hprog" where
  "sleepPid h = do {
     r \<leftarrow> hOutput h [''pgrep'', ''sleep''];
     State_Monad.return
       (case r of
          Inl _ \<Rightarrow> None
        | Inr out \<Rightarrow> if out = [] then None else atoi (hd (split [newline] (trimSpace out))))
   }"

definition WaitForSleepProcess :: "host \<Rightarrow> int \<Rightarrow> (string + int) hprog" where
  "WaitForSleepProcess h timeout = do {
     n \<leftarrow> hNow h;
     r \<leftarrow> pollUntil h (n + timeout) 100000000 (sleepPid h);
     State_Monad.return (case r of Some pid \<Rightarrow> Inr pid | None \<Rightarrow> Inl ''sleep process not found within timeout'')
   }"

definition CheckpointExists :: "host \<Rightarrow> checkpointManager \<Rightarrow> string \<Rightarrow> bool hprog" where
  "CheckpointExists h m dumpID = hStat h (joinPath (cm_workDir m) dumpID)"

text \<open>
  The removal of old checkpoints: the directories of the work directory in the order of \<open>os.ReadDir\<close>, which is the order of
  their names. A negative number to keep makes the code index before the start of its list and panic.
\<close>

definition CleanupOldCheckpoints :: "host \<Rightarrow> checkpointManager \<Rightarrow> int \<Rightarrow> string option hprog" where
  "CleanupOldCheckpoints h m keepRecent = do {
     r \<leftarrow> hReadDir h (cm_workDir m);
     (case r of
        Inl e \<Rightarrow> State_Monad.return (Some (''failed to read work directory: '' @ e))
      | Inr entries \<Rightarrow>
          let checkpoints = map fst (filter snd entries) in
          if int (length checkpoints) > keepRecent
          then if keepRecent < 0 then State_Monad.return (Some ''panic: index out of range'')
               else do {
                 _ \<leftarrow> forEach (drop (nat keepRecent) checkpoints)
                        (\<lambda>name. do { _ \<leftarrow> hRemoveAll h (joinPath (cm_workDir m) name); State_Monad.return () });
                 State_Monad.return None
               }
          else State_Monad.return None)
   }"

section \<open>Which operations call a dump\<close>

fun dumpCall :: "hostEvent \<Rightarrow> bool" where
  "dumpCall (HPreDump pid parent excl) = True"
| "dumpCall (HFinalDump pid parent excl strategy) = True"
| "dumpCall _ = False"

abbreviation quiet :: "hostEvent list \<Rightarrow> bool" where
  "quiet d \<equiv> list_all (\<lambda>e. \<not> dumpCall e) d"

lemma quiet_no_dump: "quiet d \<Longrightarrow> filter isPreDump d = []"
  by (induction d) (auto elim: isPreDump.elims)

named_theorems quiet_posts \<open>programs that call no dump\<close>

lemma uploadExisting_quiet [quiet_posts]: "io_post (uploadExisting h c dir prefix names) (\<lambda>r d. quiet d)"
  unfolding uploadExisting_def UploadFile_def by (rule io_post_forEach) (auto intro!: io_rules)

lemma uploadAgentMetadata_quiet [quiet_posts]: "io_post (uploadAgentMetadata h c dir prefix) (\<lambda>r d. quiet d)"
  unfolding uploadAgentMetadata_def by (rule uploadExisting_quiet)

lemma uploadLogs_quiet [quiet_posts]: "io_post (uploadLogs h getenv c dir prefix) (\<lambda>r d. quiet d)"
  unfolding uploadLogs_def by (auto intro!: io_rules uploadExisting_quiet)

lemma sumPages_quiet [quiet_posts]: "io_post (sumPages h fs n) (\<lambda>r d. quiet d)"
proof (induction fs arbitrary: n)
  case (Cons f fs)
  then show ?case by (auto intro!: io_rules io_post_mono [OF Cons.IH])
qed (auto intro!: io_rules)

lemma countPages_quiet [quiet_posts]: "io_post (countPages h dir) (\<lambda>r d. quiet d)"
  unfolding countPages_def by (auto intro!: io_rules io_post_mono [OF sumPages_quiet])

lemma getDirectorySize_quiet [quiet_posts]: "io_post (getDirectorySize h dir) (\<lambda>r d. quiet d)"
  unfolding getDirectorySize_def by (auto intro!: io_rules)

lemma writeRanges_quiet [quiet_posts]: "io_post (writeRanges h path rs) (\<lambda>r d. quiet d)"
proof (induction rs)
  case (Cons r rs)
  then show ?case by (auto intro!: io_rules io_post_mono [OF Cons.IH])
qed (auto intro!: io_rules)

lemma appendExcludeArgs_quiet [quiet_posts]: "io_post (appendExcludeArgs h excl dir) (\<lambda>r d. quiet d)"
  unfolding appendExcludeArgs_def writeExcludeFile_def by (auto intro!: io_rules io_post_mono [OF writeRanges_quiet])

lemma parentArgs_quiet [quiet_posts]: "io_post (parentArgs h m parent) (\<lambda>r d. quiet d)"
  unfolding parentArgs_def by (auto intro!: io_rules)

lemma generateDumpID_post [quiet_posts]: "io_post (generateDumpID h) (\<lambda>r d. quiet d \<and> r \<noteq> [])"
  unfolding generateDumpID_def by (auto intro!: io_rules)

lemma recordPreDump_post:
  "io_post (recordPreDump h getenv m dumpID dir) (\<lambda>(res, m') d. quiet d \<and> cr_DumpID res = dumpID \<and> m' = chained m dumpID)"
  unfolding recordPreDump_def
  by (auto intro!: io_rules io_post_mono [OF getDirectorySize_quiet] io_post_mono [OF countPages_quiet]
      io_post_mono [OF uploadAgentMetadata_quiet] io_post_mono [OF uploadLogs_quiet])

text \<open>
  A pre-dump is one call; it changes the state of the manager exactly if it succeeds, and then the new
  checkpoint is the last of the chain.
\<close>

lemma cmPreCheckpoint_post:
  "io_post (cmPreCheckpoint h getenv m pid parent excl) (\<lambda>(r, m') d.
     (\<exists>d'. d = HPreDump pid parent excl # d' \<and> quiet d') \<and>
     (case r of Inl e \<Rightarrow> m' = m | Inr res \<Rightarrow> m' = chained m (cr_DumpID res) \<and> cr_DumpID res \<noteq> []))"
  unfolding cmPreCheckpoint_def
  by (auto intro!: io_rules io_post_mono [OF generateDumpID_post] io_post_mono [OF parentArgs_quiet]
      io_post_mono [OF appendExcludeArgs_quiet] io_post_mono [OF recordPreDump_post])

end
