(* ===== verification/Deadline.thy ===== *)
theory Deadline
  imports Profiler Checkpoint
begin

text \<open>
  \<open>pkg/agent/deadline_scheduler.go\<close>: the agent's own scheduler of pre-dumps. It keeps the time to dump and upload
  what is dirty below the deadline that a cloud provider gives. The scheduler is created by the agent it belongs to, so the test for a
  nil agent is not represented; the checkpoint manager and the profiler it shares with the agent are part of its state, with a flag that
  tells that the agent points to the profiler as well. A \<open>float64\<close> is a rational number.
\<close>

section \<open>State\<close>

record invariantSchedulerConfig =
  is_DeadlineSeconds :: int
  is_BandwidthMBps :: rat
  is_ScanIntervalMs :: int
  is_TFreezeMs :: int
  is_TMarginMs :: int
  is_DryRun :: bool

record invariantState =
  TRemainMs :: rat
  DeadlineMs :: rat
  DCurrentPages :: int
  DCurrentBytes :: int
  BUploadBytesMs :: rat
  Violated :: bool

datatype fopWarning =
    NoWarning
  | NoAvailableTime
  | DirtyRateExceedsBandwidth rat
  | NotGuaranteed rat rat int int

record feasibilityScore =
  Fop :: rat
  Alpha :: rat
  DMinBytes :: int
  DHotBytes :: int
  DColdSSBytes :: int
  Warning :: fopWarning

definition zeroScore :: feasibilityScore where
  "zeroScore = \<lparr>Fop = 0, Alpha = 0, DMinBytes = 0, DHotBytes = 0, DColdSSBytes = 0, Warning = NoWarning\<rparr>"

record invariantScheduler =
  s_config :: invariantSchedulerConfig
  s_profiler :: "profiler option"
  s_mainPID :: int
  s_cm :: checkpointManager
  s_published :: bool
  initialDumpDone :: bool
  lastPreDumpTime :: "int option"
  preDumpCount :: nat
  lastFopCheck :: "int option"
  lastFop :: feasibilityScore
  s_stopped :: bool

definition NewInvariantScheduler ::
  "invariantSchedulerConfig \<Rightarrow> profiler option \<Rightarrow> int \<Rightarrow> checkpointManager \<Rightarrow> invariantScheduler" where
  "NewInvariantScheduler config prof pid cm =
     (let c1 = (if is_ScanIntervalMs config \<le> 0 then config\<lparr>is_ScanIntervalMs := 5000\<rparr> else config);
          c2 = (if is_TFreezeMs c1 \<le> 0 then c1\<lparr>is_TFreezeMs := 50\<rparr> else c1);
          c3 = (if is_TMarginMs c2 \<le> 0 then c2\<lparr>is_TMarginMs := 5000\<rparr> else c2);
          c4 = (if is_DeadlineSeconds c3 \<le> 0 then c3\<lparr>is_DeadlineSeconds := 120\<rparr> else c3)
      in \<lparr>s_config = c4, s_profiler = prof, s_mainPID = pid, s_cm = cm, s_published = False,
          initialDumpDone = False, lastPreDumpTime = None, preDumpCount = 0, lastFopCheck = None,
          lastFop = zeroScore, s_stopped = False\<rparr>)"

section \<open>The invariant\<close>

text \<open>
  The bandwidth in bytes per millisecond. The fallback is a constant expression of integers, which Go
  divides as integers.
\<close>

definition bandwidth :: "invariantSchedulerConfig \<Rightarrow> rat" where
  "bandwidth c = is_BandwidthMBps c * 1024 * 1024 / 1000"

definition uploadRate :: "invariantSchedulerConfig \<Rightarrow> rat" where
  "uploadRate c = (if bandwidth c \<le> 0 then of_int (100 * 1024 * 1024 div 1000) else bandwidth c)"

definition goQuot :: "int \<Rightarrow> int \<Rightarrow> int" where
  "goQuot a b = sgn a * sgn b * (\<bar>a\<bar> div \<bar>b\<bar>)"

definition evaluateInvariant :: "invariantScheduler \<Rightarrow> invariantState" where
  "evaluateInvariant s =
     (case s_profiler s of
        None \<Rightarrow> \<lparr>TRemainMs = 0, DeadlineMs = 0, DCurrentPages = 0, DCurrentBytes = 0, BUploadBytesMs = 0, Violated = False\<rparr>
      | Some p \<Rightarrow>
          let c = s_config s; bytes = CumulativeDirtyBytes (GetDirtyVolume p);
              deadlineMs = of_int (is_DeadlineSeconds c) * 1000;
              tRemainMs = of_int (is_TFreezeMs c) + of_int bytes / uploadRate c + of_int (is_TMarginMs c)
          in \<lparr>TRemainMs = tRemainMs, DeadlineMs = deadlineMs, DCurrentPages = goQuot bytes (int pageSize),
              DCurrentBytes = bytes, BUploadBytesMs = uploadRate c, Violated = (tRemainMs \<ge> deadlineMs)\<rparr>)"

definition hotBytes :: "hotRegion list \<Rightarrow> int" where
  "hotBytes rs = sum_list (map (\<lambda>r. int64_of (sub64 (EndAddr r) (StartAddr r))) rs)"

definition evaluateFeasibility :: "invariantScheduler \<Rightarrow> feasibilityScore" where
  "evaluateFeasibility s =
     (case s_profiler s of
        None \<Rightarrow> zeroScore\<lparr>Fop := 999\<rparr>
      | Some p \<Rightarrow>
          let c = s_config s; bEff = bandwidth c;
              availableMs = of_int (is_DeadlineSeconds c) * 1000 - of_int (is_TFreezeMs c) - of_int (is_TMarginMs c);
              dHot = hotBytes (GetHotRegions p);
              rate = DirtyRatePerSec (GetDirtyVolume p) / 1000;
              alpha = rate / bEff;
              dCold0 = rate * of_int (is_ScanIntervalMs c) * alpha / (1 - alpha);
              dColdSS = (if dCold0 < 0 then 0 else dCold0);
              dMin = dHot + \<lceil>dColdSS\<rceil>;
              fop = (if dMin > 0 then availableMs / (of_int dMin / bEff) else 999)
          in if bEff \<le> 0 then zeroScore\<lparr>Fop := 999\<rparr>
             else if availableMs \<le> 0 then zeroScore\<lparr>Fop := 0, Warning := NoAvailableTime\<rparr>
             else if alpha \<ge> 1
             then zeroScore\<lparr>Fop := 0, Alpha := alpha, DHotBytes := dHot, Warning := DirtyRateExceedsBandwidth alpha\<rparr>
             else \<lparr>Fop = fop, Alpha = alpha, DMinBytes = dMin, DHotBytes = dHot, DColdSSBytes = \<lceil>dColdSS\<rceil>,
                   Warning = (if fop < 1 then NotGuaranteed fop alpha dMin dHot else NoWarning)\<rparr>)"

definition GetState :: "invariantScheduler \<Rightarrow> invariantState \<times> feasibilityScore" where
  "GetState s = (evaluateInvariant s, lastFop s)"

section \<open>Pre-dumps\<close>

fun tracerPidIn :: "string list \<Rightarrow> string + int" where
  "tracerPidIn [] = Inl ''TracerPid not found''"
| "tracerPidIn (line # ls) =
     (if \<not> hasPrefix line ''TracerPid:'' then tracerPidIn ls
      else case strFields line of
        _ # v # _ \<Rightarrow> (case atoi v of Some n \<Rightarrow> Inr n | None \<Rightarrow> Inl ''invalid syntax'')
      | _ \<Rightarrow> Inl ''malformed TracerPid line'')"

text \<open>\<open>readTracerPid\<close>: the answer to the read of the status file, decoded.\<close>

definition tracerPidOf :: "string + string \<Rightarrow> string + int" where
  "tracerPidOf r = (case r of Inl e \<Rightarrow> Inl e | Inr status \<Rightarrow> tracerPidIn (split [CHR 0x0A] status))"

definition statusPath :: "int \<Rightarrow> string" where
  "statusPath pid = ''/proc/'' @ itoa pid @ ''/status''"

text \<open>The loop that waits for the tracer to let the process go.\<close>

definition untraced :: "host \<Rightarrow> int \<Rightarrow> unit option hprog" where
  "untraced h pid = do {
     r \<leftarrow> hReadFile h (statusPath pid);
     State_Monad.return (if tracerPidOf r = Inr 0 then Some () else None)
   }"

definition awaitUntraced :: "host \<Rightarrow> int \<Rightarrow> unit hprog" where
  "awaitUntraced h pid = do {
     n \<leftarrow> hNow h;
     _ \<leftarrow> pollUntil h (n + 2000000000) 20000000 (untraced h pid);
     State_Monad.return ()
   }"

definition performInitialPreDump :: "host \<Rightarrow> genv \<Rightarrow> invariantScheduler \<Rightarrow> invariantScheduler hprog" where
  "performInitialPreDump h getenv s =
     (if s_mainPID s \<le> 0 then State_Monad.return (s\<lparr>initialDumpDone := True\<rparr>)
      else do {
        (r, cm) \<leftarrow> cmPreCheckpoint h getenv (s_cm s) (s_mainPID s) [] None;
        (case r of
           Inl _ \<Rightarrow> State_Monad.return (s\<lparr>initialDumpDone := True, s_cm := cm\<rparr>)
         | Inr _ \<Rightarrow> do {
             n \<leftarrow> hNow h;
             _ \<leftarrow> awaitUntraced h (s_mainPID s);
             let s1 = s\<lparr>initialDumpDone := True, lastPreDumpTime := Some n, preDumpCount := preDumpCount s + 1,
                        s_cm := cm\<rparr> in
             (if s_profiler s = None
              then do {
                (e, p) \<leftarrow> profilerStart h (New (s_mainPID s) DefaultConfig);
                State_Monad.return (if e \<noteq> None then s1 else s1\<lparr>s_profiler := Some p, s_published := True\<rparr>)
              }
              else State_Monad.return s1)
           })
      })"

definition hotRange :: "hotRegion \<Rightarrow> addrRange" where
  "hotRange r = \<lparr>ar_Start = StartAddr r, ar_End = EndAddr r\<rparr>"

text \<open>The regions to leave out, and the cleanup of the profiler before the dump.\<close>

definition prepareDump :: "host \<Rightarrow> profiler option \<Rightarrow> (criuExcludeArgs option \<times> profiler option) hprog" where
  "prepareDump h prof =
     (case prof of
        None \<Rightarrow> State_Monad.return (None, None)
      | Some p \<Rightarrow> do {
          p' \<leftarrow> CleanupBeforeCRIU h p;
          State_Monad.return
            (if GetHotRegions p = [] then None
             else Some \<lparr>ExcludeRanges = map hotRange (GetHotRegions p), NoParentRanges = []\<rparr>, Some p')
        })"

definition triggerPreDump :: "host \<Rightarrow> genv \<Rightarrow> invariantScheduler \<Rightarrow> invariantScheduler hprog" where
  "triggerPreDump h getenv s =
     (if s_mainPID s \<le> 0 then State_Monad.return s
      else do {
        (excl, prof) \<leftarrow> prepareDump h (s_profiler s);
        (r, cm) \<leftarrow> cmPreCheckpoint h getenv (s_cm s) (s_mainPID s) (cm_lastCheckpointID (s_cm s)) excl;
        (case r of
           Inl _ \<Rightarrow> State_Monad.return (s\<lparr>s_profiler := prof, s_cm := cm\<rparr>)
         | Inr _ \<Rightarrow> do {
             n \<leftarrow> hNow h;
             let s1 = s\<lparr>lastPreDumpTime := Some n, preDumpCount := preDumpCount s + 1, s_cm := cm\<rparr> in
             (case prof of
                None \<Rightarrow> State_Monad.return s1
              | Some p \<Rightarrow> do {
                  (_, p') \<leftarrow> ReinitAfterCRIU h p;
                  State_Monad.return (s1\<lparr>s_profiler := Some p'\<rparr>)
                })
           })
      })"

section \<open>The loop\<close>

definition fopDue :: "int option \<Rightarrow> int \<Rightarrow> bool" where
  "fopDue lastCheck n \<longleftrightarrow> (case lastCheck of None \<Rightarrow> True | Some t \<Rightarrow> n - t \<ge> 60000000000)"

definition schedulerTick :: "host \<Rightarrow> genv \<Rightarrow> invariantScheduler \<Rightarrow> invariantScheduler hprog" where
  "schedulerTick h getenv s =
     (if \<not> initialDumpDone s then State_Monad.return s
      else do {
        s1 \<leftarrow> (if Violated (evaluateInvariant s) \<and> \<not> is_DryRun (s_config s) then triggerPreDump h getenv s
              else State_Monad.return s);
        n \<leftarrow> hNow h;
        (if fopDue (lastFopCheck s1) n
         then do {
           n' \<leftarrow> hNow h;
           State_Monad.return (s1\<lparr>lastFop := evaluateFeasibility s1, lastFopCheck := Some n'\<rparr>)
         }
         else State_Monad.return s1)
      })"

fun schedulerLoop :: "host \<Rightarrow> genv \<Rightarrow> nat \<Rightarrow> invariantScheduler \<Rightarrow> invariantScheduler hprog" where
  "schedulerLoop h getenv 0 s = State_Monad.return s"
| "schedulerLoop h getenv (Suc n) s = (if s_stopped s then State_Monad.return s else do { s' \<leftarrow> schedulerTick h getenv s; schedulerLoop h getenv n s' })"

text \<open>The first \<open>n\<close> ticks of \<open>Start\<close>.\<close>

definition schedulerStart :: "host \<Rightarrow> genv \<Rightarrow> nat \<Rightarrow> invariantScheduler \<Rightarrow> invariantScheduler hprog" where
  "schedulerStart h getenv n s = do {
     s1 \<leftarrow> (if \<not> is_DryRun (s_config s) then performInitialPreDump h getenv s
           else State_Monad.return (s\<lparr>initialDumpDone := True\<rparr>));
     schedulerLoop h getenv n s1
   }"

text \<open>
  \<open>Stop\<close> sends on a channel without a buffer and gives up at once if the loop is not waiting at its select, which
  \<open>waiting\<close> tells.
\<close>

definition schedulerStop :: "bool \<Rightarrow> invariantScheduler \<Rightarrow> invariantScheduler" where
  "schedulerStop waiting s = (if waiting then s\<lparr>s_stopped := True\<rparr> else s)"


section \<open>What a pre-dump does to the invariant\<close>

lemma ReinitAfterCRIU_post:
  "io_post (ReinitAfterCRIU h p)
     (\<lambda>(e, p') d. filter isPreDump d = [] \<and>
        (if e = None then p_dirtyVolume p' = zeroVolume \<and> looping p'
         else p_dirtyVolume p' = p_dirtyVolume p \<and> looping p' = looping p))"
  unfolding ReinitAfterCRIU_def by (auto intro!: io_rules)

lemma evaluateInvariant_volume:
  "s_config s' = s_config s \<Longrightarrow> map_option p_dirtyVolume (s_profiler s') = map_option p_dirtyVolume (s_profiler s) \<Longrightarrow>
   evaluateInvariant s' = evaluateInvariant s"
  by (auto simp: evaluateInvariant_def GetDirtyVolume_def Let_def split: option.splits)

lemma evaluateInvariant_fresh:
  assumes "s_profiler s = Some p" and "p_dirtyVolume p = zeroVolume"
  shows "DCurrentBytes (evaluateInvariant s) = 0 \<and>
    (Violated (evaluateInvariant s) \<longleftrightarrow> is_TFreezeMs (s_config s) + is_TMarginMs (s_config s) \<ge> is_DeadlineSeconds (s_config s) * 1000)"
proof -
  let ?c = "s_config s"
  have "(of_int (is_DeadlineSeconds ?c * 1000) \<le> (of_int (is_TFreezeMs ?c + is_TMarginMs ?c) :: rat)) =
      (is_DeadlineSeconds ?c * 1000 \<le> is_TFreezeMs ?c + is_TMarginMs ?c)"
    by (simp only: of_int_le_iff)
  then show ?thesis
    using assms by (simp add: evaluateInvariant_def GetDirtyVolume_def zeroVolume_def Let_def)
qed

text \<open>What the preparation leaves behind: a stopped profiler with its old volume, and the hot regions to leave out.\<close>

definition prepared :: "profiler option \<Rightarrow> criuExcludeArgs option \<Rightarrow> profiler option \<Rightarrow> hostEvent list \<Rightarrow> bool" where
  "prepared prof excl prof' d \<longleftrightarrow> filter isPreDump d = [] \<and>
     (case prof of
        None \<Rightarrow> excl = None \<and> prof' = None
      | Some p \<Rightarrow>
          (case prof' of None \<Rightarrow> False | Some p' \<Rightarrow> \<not> looping p' \<and> p_dirtyVolume p' = p_dirtyVolume p) \<and>
          excl = (if GetHotRegions p = [] then None
                  else Some \<lparr>ExcludeRanges = map hotRange (GetHotRegions p), NoParentRanges = []\<rparr>) \<and>
          (targetUffdFd p < 0 \<or> list_ex (closesTarget (p_pid p) (targetUffdFd p)) d))"

lemma prepareDump_post: "io_post (prepareDump h prof) (\<lambda>(excl, prof') d. prepared prof excl prof' d)"
  unfolding prepareDump_def
  by (auto intro!: io_rules io_post_mono [OF CleanupBeforeCRIU_post] simp: prepared_def)

text \<open>The state of the profiler after a pre-dump: running on an empty volume, or stopped with the old one.\<close>

definition dumped :: "invariantScheduler \<Rightarrow> invariantScheduler \<Rightarrow> bool" where
  "dumped s s' \<longleftrightarrow> s_config s' = s_config s \<and>
     (case s_profiler s of
        None \<Rightarrow> s_profiler s' = None
      | Some p \<Rightarrow> (case s_profiler s' of None \<Rightarrow> False
          | Some p' \<Rightarrow> p_dirtyVolume p' = (if looping p' then zeroVolume else p_dirtyVolume p)))"

lemma dumped_failed: "prepared (s_profiler s) excl prof' d \<Longrightarrow> dumped s (s\<lparr>s_profiler := prof', s_cm := cm\<rparr>)"
  by (auto simp: dumped_def prepared_def split: option.splits)

lemma dumped_reinit:
  "prepared (s_profiler s) excl (Some p) d \<Longrightarrow>
   (if e = None then p_dirtyVolume p' = zeroVolume \<and> looping p' else p_dirtyVolume p' = p_dirtyVolume p \<and> looping p' = looping p) \<Longrightarrow>
   s_config s' = s_config s \<Longrightarrow> s_profiler s' = Some p' \<Longrightarrow> dumped s s'"
  by (cases "s_profiler s") (auto simp: dumped_def prepared_def split: if_splits)

lemma dumped_none:
  "prepared (s_profiler s) excl None d \<Longrightarrow> s_config s' = s_config s \<Longrightarrow> s_profiler s' = s_profiler s \<Longrightarrow> dumped s s'"
  by (cases "s_profiler s") (auto simp: dumped_def prepared_def)

lemma prepared_no_dump: "prepared prof excl prof' d \<Longrightarrow> filter isPreDump d = []"
  by (simp add: prepared_def)

lemma triggerPreDump_profiler:
  assumes "0 < s_mainPID s"
  shows "io_post (triggerPreDump h getenv s) (\<lambda>s' d. dumped s s' \<and> count isPreDump d = 1)"
  unfolding triggerPreDump_def using assms
  by (auto intro!: io_rules io_post_mono [OF prepareDump_post] io_post_mono [OF cmPreCheckpoint_post] io_post_mono [OF ReinitAfterCRIU_post]
      intro: dumped_failed dumped_reinit dumped_none simp: count_def prepared_no_dump quiet_no_dump)


definition calmHost :: host where
  "calmHost = silentHost\<lparr>h_stat := (\<lambda>_ _. True), h_latency := (\<lambda>_. 1), h_parseVMAs := (\<lambda>_ _. Inr []),
     h_setupUffd := (\<lambda>_ _ _. Inr (7, 5, [])), h_verifyWP := (\<lambda>_. Inr True)\<rparr>"

definition plainManager :: checkpointManager where
  "plainManager = \<lparr>cm_workDir = ''/checkpoints'', cm_s3 = minioClient, cm_podName = ''pod-0'', cm_appName = ''redis'', cm_nodeName = ''node-a'',
     cm_lastCheckpointID = ''d1'', cm_chainRoot = ''d1'', cm_chainDepth = 1, cm_generation = 0\<rparr>"

definition busyScheduler :: invariantScheduler where
  "busyScheduler =
     (NewInvariantScheduler \<lparr>is_DeadlineSeconds = 30, is_BandwidthMBps = 1, is_ScanIntervalMs = 0, is_TFreezeMs = 0,
        is_TMarginMs = 0, is_DryRun = False\<rparr>
      (Some ((New 42 DefaultConfig)\<lparr>looping := True, targetUffdFd := 5, trackerUffdFd := 7,
         p_dirtyVolume := zeroVolume\<lparr>CumulativeDirtyBytes := 30000000\<rparr>\<rparr>)) 42 plainManager)\<lparr>initialDumpDone := True\<rparr>"

lemmas busy_defs = busyScheduler_def NewInvariantScheduler_def Let_def

lemmas dump_run_defs = outcome_def triggerPreDump_def prepareDump_def cmPreCheckpoint_def recordPreDump_def generateDumpID_def
  appendExcludeArgs_def parentArgs_def getDirectorySize_def countPages_def uploadLogs_def CleanupBeforeCRIU_def ReinitAfterCRIU_def
  directUploadOn_def profilerStop_def New_def DefaultConfig_def GetHotRegions_def writableAnonymousVMAs_def

lemmas dump_run_host = hMkdirAll_def hUuid_def hNow_def hStat_def hCombined_def hWalk_def hGlob_def hGoUpload_def hPreDump_def
  hParseVMAs_def hSetupUffd_def hOpen_def hWriteProtect_def hClosePagemap_def hCloseTarget_def hCloseFd_def

lemma calmHost_sel:
  "h_stat calmHost = (\<lambda>_ _. True)" "h_latency calmHost = (\<lambda>_. 1)" "h_parseVMAs calmHost = (\<lambda>_ _. Inr [])"
  "h_setupUffd calmHost = (\<lambda>_ _ _. Inr (7, 5, []))" "h_verifyWP calmHost = (\<lambda>_. Inr True)"
  "h_mkdirAll calmHost = (\<lambda>_ _. None)" "h_combined calmHost = (\<lambda>_ _. (None, []))" "h_walk calmHost = (\<lambda>_ _. Inr [])" "h_glob calmHost = (\<lambda>_ _. Inr [])"
  "h_open calmHost = (\<lambda>_ _. None)" "h_writeProtect calmHost = (\<lambda>_ _. None)" "h_unregister calmHost = (\<lambda>_ _ _ _. None)" "h_closeTarget calmHost = (\<lambda>_ _ _. None)"
  by (simp_all add: calmHost_def silentHost_def)

lemma busy_dump_succeeds:
  "(case s_profiler (outcome (triggerPreDump calmHost (\<lambda>_. []) busyScheduler)) of Some p' \<Rightarrow> looping p' | None \<Rightarrow> False)"
  by (simp add: dump_run_defs dump_run_host io_simps busy_defs calmHost_sel split_beta)


lemma guardedBy_seen: "filter P d = [] \<Longrightarrow> list_ex G d \<Longrightarrow> guardedBy G P (d @ d')"
  by (induction d) (auto split: if_splits)

text \<open>What a request for a pre-dump says, given the state of the scheduler before it.\<close>

fun asksDump :: "invariantScheduler \<Rightarrow> hostEvent \<Rightarrow> bool" where
  "asksDump s (HPreDump pid parent excl) \<longleftrightarrow> pid = s_mainPID s \<and> parent = cm_lastCheckpointID (s_cm s) \<and>
     (case excl of None \<Rightarrow> [] | Some x \<Rightarrow> ExcludeRanges x) =
     (case s_profiler s of None \<Rightarrow> [] | Some p \<Rightarrow> map hotRange (GetHotRegions p)) \<and>
     (case excl of None \<Rightarrow> [] | Some x \<Rightarrow> NoParentRanges x) = []"
| "asksDump s _ = True"

lemma prepared_asks: "prepared (s_profiler s) excl prof' d \<Longrightarrow> asksDump s (HPreDump (s_mainPID s) (cm_lastCheckpointID (s_cm s)) excl)"
  by (auto simp: prepared_def split: option.splits if_splits)

lemma no_dump_asks: "filter isPreDump d = [] \<Longrightarrow> list_all (asksDump s) d"
  by (induction d) (auto split: if_splits elim: isPreDump.elims)

lemma triggerPreDump_asks: "io_post (triggerPreDump h getenv s) (\<lambda>s' d. list_all (asksDump s) d)"
  unfolding triggerPreDump_def
  by (auto intro!: io_rules io_post_mono [OF prepareDump_post] io_post_mono [OF cmPreCheckpoint_post] io_post_mono [OF ReinitAfterCRIU_post]
      simp: prepared_asks no_dump_asks prepared_no_dump quiet_no_dump simp del: asksDump.simps(1))


definition handsOver :: "invariantScheduler \<Rightarrow> hostEvent list \<Rightarrow> bool" where
  "handsOver s d \<longleftrightarrow>
     (case s_profiler s of
        None \<Rightarrow> True
      | Some p \<Rightarrow> targetUffdFd p < 0 \<or> guardedBy (closesTarget (p_pid p) (targetUffdFd p)) isPreDump d)"

lemma handsOver_prepared: "prepared (s_profiler s) excl prof' d \<Longrightarrow> handsOver s (d @ d')"
  by (auto simp: prepared_def handsOver_def guardedBy_seen split: option.splits)

lemma triggerPreDump_hands: "io_post (triggerPreDump h getenv s) (\<lambda>s' d. handsOver s d)"
  unfolding triggerPreDump_def
  by (auto intro!: io_rules io_post_mono [OF prepareDump_post] io_post_mono [OF cmPreCheckpoint_post] io_post_mono [OF ReinitAfterCRIU_post]
      simp: handsOver_prepared) (auto simp: handsOver_def split: option.splits)

lemma triggerPreDump_count: "io_post (triggerPreDump h getenv s) (\<lambda>s' d. count isPreDump d \<le> 1)"
proof (cases "0 < s_mainPID s")
  case True
  then show ?thesis by (rule io_post_mono [OF triggerPreDump_profiler]) simp
next
  case False
  then show ?thesis by (auto simp: triggerPreDump_def intro!: io_rules)
qed

text \<open>
  No dump while the target holds a userfaultfd: the scheduler asks for at most one pre-dump at a time, of its main process
  as an increment of the last checkpoint and without the hot regions, and only after the descriptor in the
  target process has been closed.
\<close>

theorem dump_after_cleanup:
  "io_post (triggerPreDump h getenv s) (\<lambda>s' d. count isPreDump d \<le> 1 \<and>
     list_all (\<lambda>e. case e of
        HPreDump pid parent excl \<Rightarrow> pid = s_mainPID s \<and> parent = cm_lastCheckpointID (s_cm s) \<and>
          (case excl of None \<Rightarrow> [] | Some x \<Rightarrow> ExcludeRanges x) =
          (case s_profiler s of None \<Rightarrow> [] | Some p \<Rightarrow> map hotRange (GetHotRegions p))
      | _ \<Rightarrow> True) d \<and>
     (case s_profiler s of
        None \<Rightarrow> True
      | Some p \<Rightarrow> targetUffdFd p < 0 \<or> guardedBy (closesTarget (p_pid p) (targetUffdFd p)) isPreDump d))"
proof (rule io_post_mono [OF io_post_conj [OF triggerPreDump_count
      io_post_conj [OF triggerPreDump_asks triggerPreDump_hands]]], goal_cases)
  case (1 s' d)
  then show ?case
    by (auto simp: handsOver_def list_all_iff split: hostEvent.splits option.splits)
qed

text \<open>
  The scheduler never tells a dump that a region has turned cold: none of its pre-dumps names a region that must not be taken
  from the parent, although the parent left out the regions that were hot at its time.
\<close>

lemma cold_regions_not_reported:
  "io_post (triggerPreDump h getenv s) (\<lambda>s' d.
     list_all (\<lambda>e. case e of HPreDump pid parent (Some x) \<Rightarrow> NoParentRanges x = [] | _ \<Rightarrow> True) d)"
proof (rule io_post_mono [OF triggerPreDump_asks], erule list.pred_mono_strong)
  fix e
  assume "asksDump s e"
  then show "case e of HPreDump pid parent (Some x) \<Rightarrow> NoParentRanges x = [] | _ \<Rightarrow> True"
    by (cases e) (auto split: option.splits)
qed

section \<open>Feasibility\<close>

text \<open>
  The feasibility score warns exactly when the migration cannot be guaranteed: with a known bandwidth there is no warning
  iff pages get dirty more slowly than they are uploaded and the freeze, the upload of the data of the steady
  state and the margin fit into the deadline.
\<close>

theorem feasibility_warning_exact:
  assumes "s_profiler s = Some p" and "0 < is_BandwidthMBps (s_config s)"
  shows "Warning (evaluateFeasibility s) = NoWarning \<longleftrightarrow>
    Alpha (evaluateFeasibility s) < 1 \<and>
    of_int (is_TFreezeMs (s_config s)) + of_int (is_TMarginMs (s_config s)) < of_int (is_DeadlineSeconds (s_config s)) * (1000 :: rat) \<and>
    of_int (is_TFreezeMs (s_config s)) + of_int (DMinBytes (evaluateFeasibility s)) / bandwidth (s_config s) +
      of_int (is_TMarginMs (s_config s)) \<le> of_int (is_DeadlineSeconds (s_config s)) * (1000 :: rat)"
proof -
  let ?c = "s_config s" let ?b = "bandwidth ?c"
  define avail :: rat where "avail = of_int (is_DeadlineSeconds ?c) * 1000 - of_int (is_TFreezeMs ?c) - of_int (is_TMarginMs ?c)"
  define rate where "rate = DirtyRatePerSec (GetDirtyVolume p) / 1000"
  define cold where "cold = rate * of_int (is_ScanIntervalMs ?c) * (rate / ?b) / (1 - rate / ?b)"
  define dMin where "dMin = hotBytes (GetHotRegions p) + \<lceil>if cold < 0 then 0 else cold\<rceil>"
  have b: "0 < ?b" using assms(2) by (simp add: bandwidth_def)
  have w: "Warning (evaluateFeasibility s) = NoWarning \<longleftrightarrow>
      0 < avail \<and> rate / ?b < 1 \<and> (dMin \<le> 0 \<or> 1 \<le> avail / (of_int dMin / ?b))"
    using assms(1) b
    by (auto simp: evaluateFeasibility_def Let_def avail_def rate_def cold_def dMin_def not_le not_less)
  have al: "Alpha (evaluateFeasibility s) = (if 0 < avail then rate / ?b else 0)"
    and dm: "DMinBytes (evaluateFeasibility s) = (if 0 < avail \<and> rate / ?b < 1 then dMin else 0)"
    using assms(1) b
    by (auto simp: evaluateFeasibility_def zeroScore_def Let_def avail_def rate_def cold_def dMin_def not_le not_less)
  have "(1 \<le> avail / (of_int dMin / ?b)) = (of_int dMin / ?b \<le> avail)" if "0 < dMin"
    using that b by (simp add: field_simps)
  moreover have "of_int dMin / ?b \<le> 0" if "dMin \<le> 0"
    using that b by (simp add: divide_nonpos_pos)
  ultimately have "(dMin \<le> 0 \<or> 1 \<le> avail / (of_int dMin / ?b)) = (of_int dMin / ?b \<le> avail)" if "0 < avail"
    using that by (cases "dMin \<le> 0") auto
  then show ?thesis unfolding w al dm by (auto simp: avail_def algebra_simps)
qed

theorem feasibility_warning_exact_witness:
  "Warning (evaluateFeasibility busyScheduler) = NoWarning \<and> Alpha (evaluateFeasibility busyScheduler) < 1"
proof -
  have "\<exists>p. s_profiler busyScheduler = Some p" "0 < is_BandwidthMBps (s_config busyScheduler)"
    by (simp_all add: busy_defs)
  then obtain p where "s_profiler busyScheduler = Some p" "0 < is_BandwidthMBps (s_config busyScheduler)" by blast
  note exact = feasibility_warning_exact [OF this]
  have "Warning (evaluateFeasibility busyScheduler) = NoWarning"
    by (simp add: busy_defs evaluateFeasibility_def bandwidth_def GetHotRegions_def New_def DefaultConfig_def hotBytes_def
        zeroVolume_def GetDirtyVolume_def)
  with exact show ?thesis by blast
qed

end
