(* ===== verification/Json.thy ===== *)
theory Json
  imports Checkpoint
begin

text \<open>
  Reading back the bundle of pipe inodes: \<open>json.Unmarshal\<close> into a map of strings, for text of ASCII characters
  and escapes, pairs of surrogates excepted. A member whose value is neither a string nor null makes the code ignore the bundle, like a syntax error,
  so both are the same failure here. What the source agent writes with \<open>json.Marshal\<close> is read back by the target.
\<close>

section \<open>Strings\<close>

definition hexNibble :: "char \<Rightarrow> nat option" where
  "hexNibble c =
     (let n = of_char c :: nat in
      if 48 \<le> n \<and> n \<le> 57 then Some (n - 48) else if 97 \<le> n \<and> n \<le> 102 then Some (n - 87)
      else if 65 \<le> n \<and> n \<le> 70 then Some (n - 55) else None)"

definition hexQuad :: "char \<Rightarrow> char \<Rightarrow> char \<Rightarrow> char \<Rightarrow> nat option" where
  "hexQuad a b c d =
     (case (hexNibble a, hexNibble b, hexNibble c, hexNibble d) of
        (Some w, Some x, Some y, Some z) \<Rightarrow> Some (4096 * w + 256 * x + 16 * y + z)
      | _ \<Rightarrow> None)"

text \<open>The bytes of a code point. A surrogate that stands alone is replaced.\<close>

definition utf8 :: "nat \<Rightarrow> string" where
  "utf8 n =
     (if n < 128 then [char_of n]
      else if n < 2048 then [char_of (192 + n div 64), char_of (128 + n mod 64)]
      else if 55296 \<le> n \<and> n < 57344 then [CHR 0xEF, CHR 0xBF, CHR 0xBD]
      else [char_of (224 + n div 4096), char_of (128 + n div 64 mod 64), char_of (128 + n mod 64)])"

definition plainEscape :: "char \<Rightarrow> char option" where
  "plainEscape c =
     (if c = dquote then Some dquote else if c = bslash then Some bslash else if c = CHR ''/'' then Some c
      else if c = CHR ''b'' then Some (CHR 0x08) else if c = CHR ''f'' then Some (CHR 0x0C)
      else if c = CHR ''n'' then Some newline else if c = CHR ''r'' then Some (CHR 0x0D)
      else if c = CHR ''t'' then Some tab else None)"

text \<open>A string after its opening quote: the text and what follows the closing quote.\<close>

fun jsonStr :: "string \<Rightarrow> (string \<times> string) option" where
  "jsonStr [] = None"
| "jsonStr (c # s) =
     (if c = dquote then Some ([], s)
      else if c = bslash then
        (case s of
           [] \<Rightarrow> None
         | e # s1 \<Rightarrow>
             if e = CHR ''u''
             then (case s1 of
                     w # x # y # z # s2 \<Rightarrow>
                       (case hexQuad w x y z of
                          None \<Rightarrow> None
                        | Some n \<Rightarrow> map_option (\<lambda>(t, rest). (utf8 n @ t, rest)) (jsonStr s2))
                   | _ \<Rightarrow> None)
             else (case plainEscape e of
                     None \<Rightarrow> None
                   | Some x \<Rightarrow> map_option (\<lambda>(t, rest). (x # t, rest)) (jsonStr s1)))
      else if (of_char c :: nat) < 32 then None
      else map_option (\<lambda>(t, rest). (c # t, rest)) (jsonStr s))"

section \<open>Objects\<close>

definition skipWs :: "string \<Rightarrow> string" where
  "skipWs s = dropWhile (\<lambda>c. c \<in> set [CHR '' '', tab, newline, CHR 0x0D]) s"

definition jsonValue :: "string \<Rightarrow> (string \<times> string) option" where
  "jsonValue s =
     (case skipWs s of
        c # r \<Rightarrow> if c = dquote then jsonStr r else if hasPrefix (c # r) ''null'' then Some ([], drop 4 (c # r)) else None
      | [] \<Rightarrow> None)"

text \<open>The members of an object after its opening brace; every member takes at least one character, so the length of the text is fuel enough.\<close>

fun jsonMembers :: "nat \<Rightarrow> string \<Rightarrow> smap \<Rightarrow> (smap \<times> string) option" where
  "jsonMembers 0 s m = None"
| "jsonMembers (Suc n) s m =
     (case skipWs s of
        [] \<Rightarrow> None
      | c # r \<Rightarrow>
          if c \<noteq> dquote then None
          else case jsonStr r of
            None \<Rightarrow> None
          | Some (k, r1) \<Rightarrow>
              (case skipWs r1 of
                 [] \<Rightarrow> None
               | c1 # r2 \<Rightarrow>
                   if c1 \<noteq> CHR '':'' then None
                   else case jsonValue r2 of
                     None \<Rightarrow> None
                   | Some (v, r3) \<Rightarrow>
                       (case skipWs r3 of
                          [] \<Rightarrow> None
                        | c3 # r4 \<Rightarrow>
                            if c3 = CHR '','' then jsonMembers n r4 (AList.update k v m)
                            else if c3 = CHR ''}'' then Some (AList.update k v m, r4)
                            else None)))"

definition unmarshalMap :: "string \<Rightarrow> smap option" where
  "unmarshalMap s =
     (case skipWs s of
        [] \<Rightarrow> None
      | c # r \<Rightarrow>
          if c \<noteq> CHR ''{'' then None
          else case (case skipWs r of
                       c1 # r1 \<Rightarrow> if c1 = CHR ''}'' then Some ([], r1) else jsonMembers (length r) r []
                     | [] \<Rightarrow> None) of
            Some (m, rest) \<Rightarrow> if skipWs rest = [] then Some m else None
          | None \<Rightarrow> None)"

section \<open>The round trip\<close>

definition asciiText :: "string \<Rightarrow> bool" where
  "asciiText s \<longleftrightarrow> list_all (\<lambda>c. (of_char c :: nat) < 128) s"

lemma hexNibble_hexDigit: "n < 16 \<Longrightarrow> hexNibble (hexDigit n) = Some n"
  by (auto simp: hexNibble_def hexDigit_def Let_def of_char_of)

lemma hexQuad_low: "n < 256 \<Longrightarrow> hexQuad (CHR ''0'') (CHR ''0'') (hexDigit (n div 16)) (hexDigit (n mod 16)) = Some n"
  by (simp add: hexQuad_def hexNibble_hexDigit) (simp add: hexNibble_def)

lemma jsonStr_escapes:
  "jsonStr (bslash # dquote # s) = map_option (\<lambda>(t, rest). (dquote # t, rest)) (jsonStr s)"
  "jsonStr (bslash # bslash # s) = map_option (\<lambda>(t, rest). (bslash # t, rest)) (jsonStr s)"
  "jsonStr (bslash # CHR ''n'' # s) = map_option (\<lambda>(t, rest). (newline # t, rest)) (jsonStr s)"
  "jsonStr (bslash # CHR ''t'' # s) = map_option (\<lambda>(t, rest). (tab # t, rest)) (jsonStr s)"
  "jsonStr (bslash # CHR ''r'' # s) = map_option (\<lambda>(t, rest). (CHR 0x0D # t, rest)) (jsonStr s)"
  "jsonStr (bslash # CHR ''b'' # s) = map_option (\<lambda>(t, rest). (CHR 0x08 # t, rest)) (jsonStr s)"
  "jsonStr (bslash # CHR ''f'' # s) = map_option (\<lambda>(t, rest). (CHR 0x0C # t, rest)) (jsonStr s)"
  by (simp_all add: plainEscape_def)

lemma jsonStr_unicode:
  "(of_char c :: nat) < 128 \<Longrightarrow>
   jsonStr (bslash # CHR ''u'' # CHR ''0'' # CHR ''0'' # hexDigit (of_char c div 16) # hexDigit (of_char c mod 16) # s) =
     map_option (\<lambda>(t, rest). (c # t, rest)) (jsonStr s)"
  using hexQuad_low [of "of_char c"] by (simp add: utf8_def)

lemma jsonStr_plain:
  "c \<noteq> dquote \<Longrightarrow> c \<noteq> bslash \<Longrightarrow> \<not> (of_char c :: nat) < 32 \<Longrightarrow>
   jsonStr (c # s) = map_option (\<lambda>(t, rest). (c # t, rest)) (jsonStr s)"
  by simp

lemma jsonStr_char:
  assumes "(of_char c :: nat) < 128"
  shows "jsonStr (jsonChar c @ s) = map_option (\<lambda>(t, rest). (c # t, rest)) (jsonStr s)"
proof (cases "c \<in> {dquote, bslash, newline, tab, CHR 0x0D, CHR 0x08, CHR 0x0C}")
  case True
  then show ?thesis by (elim insertE emptyE) (simp_all add: jsonChar_def jsonStr_escapes del: jsonStr.simps)
next
  case False
  then have ne: "c \<noteq> dquote" "c \<noteq> bslash" "c \<noteq> newline" "c \<noteq> tab" "c \<noteq> CHR 0x0D" "c \<noteq> CHR 0x08" "c \<noteq> CHR 0x0C" by auto
  show ?thesis
  proof (cases "(of_char c :: nat) < 32 \<or> c \<in> set ''<>&''")
    case True
    then have "jsonChar c = [bslash] @ ''u00'' @ [hexDigit (of_char c div 16), hexDigit (of_char c mod 16)]"
      unfolding jsonChar_def using ne by (simp only: if_False if_True)
    then show ?thesis using jsonStr_unicode [OF assms, of s] by (simp only: append.simps)
  next
    case False
    then have "jsonChar c = [c]" unfolding jsonChar_def using ne by (simp only: if_False)
    then show ?thesis using False jsonStr_plain [OF ne(1,2), of s] by (simp only: append.simps de_Morgan_disj simp_thms)
  qed
qed

lemma jsonStr_text: "asciiText t \<Longrightarrow> jsonStr (concat (map jsonChar t) @ dquote # s) = Some (t, s)"
  by (induction t) (simp_all add: asciiText_def jsonStr_char del: jsonStr.simps, simp)

lemma skipWs_quote: "skipWs (dquote # s) = dquote # s" "skipWs (CHR '':'' # s) = CHR '':'' # s"
  "skipWs (CHR '','' # s) = CHR '','' # s" "skipWs (CHR ''}'' # s) = CHR ''}'' # s" "skipWs (CHR ''{'' # s) = CHR ''{'' # s"
  by (simp_all add: skipWs_def)

lemma jsonMembers_last:
  "asciiText k \<Longrightarrow> asciiText v \<Longrightarrow>
   jsonMembers (Suc n) (jsonString k @ '':'' @ jsonString v @ ''}'' @ s) m = Some (AList.update k v m, s)"
  by (simp add: jsonString_def skipWs_quote jsonStr_text jsonValue_def del: jsonStr.simps)

lemma jsonMembers_more:
  "asciiText k \<Longrightarrow> asciiText v \<Longrightarrow>
   jsonMembers (Suc n) (jsonString k @ '':'' @ jsonString v @ '','' @ s) m = jsonMembers n s (AList.update k v m)"
  by (simp add: jsonString_def skipWs_quote jsonStr_text jsonValue_def del: jsonStr.simps)

lemma unmarshal_one:
  assumes "asciiText k" and "asciiText v"
  shows "unmarshalMap (''{'' @ (jsonString k @ '':'' @ jsonString v) @ ''}'') = Some [(k, v)]"
proof -
  let ?r = "jsonString k @ '':'' @ jsonString v @ ''}'' @ []"
  obtain n where n: "length ?r = Suc n" by (cases "length ?r") (auto simp: jsonString_def)
  have "skipWs ?r = dquote # tl ?r" by (simp add: jsonString_def skipWs_quote)
  moreover have "jsonMembers (length ?r) ?r [] = Some ([(k, v)], [])"
    unfolding n using jsonMembers_last [OF assms, of n "[]" "[]"] by (simp del: jsonMembers.simps)
  ultimately show ?thesis by (simp add: unmarshalMap_def skipWs_quote del: jsonMembers.simps) (simp add: skipWs_def)
qed

lemma unmarshal_two:
  assumes "asciiText k" and "asciiText v" and "asciiText k'" and "asciiText v'"
  shows "unmarshalMap (''{'' @ (jsonString k @ '':'' @ jsonString v @ '','' @ jsonString k' @ '':'' @ jsonString v') @ ''}'') =
    Some (AList.update k' v' [(k, v)])"
proof -
  let ?s = "jsonString k' @ '':'' @ jsonString v' @ ''}'' @ []"
  let ?r = "jsonString k @ '':'' @ jsonString v @ '','' @ ?s"
  have "2 \<le> length ?r" by (simp add: jsonString_def)
  moreover have "\<exists>n. l = Suc (Suc n)" if "2 \<le> l" for l :: nat using that by presburger
  ultimately obtain n where n: "length ?r = Suc (Suc n)" by blast
  have "skipWs ?r = dquote # tl ?r" by (simp add: jsonString_def skipWs_quote)
  moreover have "jsonMembers (length ?r) ?r [] = Some (AList.update k' v' [(k, v)], [])"
    unfolding n using jsonMembers_more [OF assms(1,2), of "Suc n" ?s "[]"] jsonMembers_last [OF assms(3,4), of n "[]" "[(k, v)]"]
    by (simp del: jsonMembers.simps)
  ultimately show ?thesis by (simp add: unmarshalMap_def skipWs_quote del: jsonMembers.simps) (simp add: skipWs_def)
qed

text \<open>
  The pipes of a dump survive the loss of the status: what the source writes into the bundle for the pipes of the standard
  outputs is read back by the target as the same inodes.
\<close>

theorem pipe_inodes_roundtrip:
  assumes "set (map fst m) \<subseteq> {''stdout'', ''stderr''}" and "m \<noteq> []" and "list_all (asciiText \<circ> snd) m"
  shows "case unmarshalMap (jsonPipes m) of None \<Rightarrow> False | Some m' \<Rightarrow> map_of m' = map_of m"
proof -
  let ?o = "map_of m ''stdout''" let ?e = "map_of m ''stderr''"
  have k: "asciiText ''stdout''" "asciiText ''stderr''" by (simp_all add: asciiText_def)
  have v: "asciiText x" if "map_of m k = Some x" for k x
    using that assms(3) by (auto simp: list_all_iff dest!: map_of_SomeD)
  have none: "map_of m k = None" if "k \<noteq> ''stdout''" "k \<noteq> ''stderr''" for k
    using assms(1) that by (auto simp: map_of_eq_None_iff)
  have same: "map_of m' = map_of m" if "map_of m' ''stdout'' = ?o" "map_of m' ''stderr'' = ?e" "fst ` set m' \<subseteq> {''stdout'', ''stderr''}" for m'
  proof
    fix k
    show "map_of m' k = map_of m k"
    proof (cases "k = ''stdout'' \<or> k = ''stderr''")
      case False
      then have "k \<notin> fst ` set m'" using that(3) by auto
      then have "map_of m' k = None" by (simp add: map_of_eq_None_iff)
      then show ?thesis using none [of k] False by simp
    qed (use that in auto)
  qed
  from assms(2) obtain kv m1 where kv: "m = kv # m1" by (cases m) auto
  then have "map_of m (fst kv) \<noteq> None" by (simp add: map_of_eq_None_iff)
  moreover have "fst kv = ''stdout'' \<or> fst kv = ''stderr''" using assms(1) kv by simp
  ultimately have "?o \<noteq> None \<or> ?e \<noteq> None" by (elim disjE) simp_all
  then consider (out) x where "?o = Some x" "?e = None" | (err) y where "?o = None" "?e = Some y"
    | (both) x y where "?o = Some x" "?e = Some y" by fastforce
  then show ?thesis
  proof cases
    case out
    have "unmarshalMap (jsonPipes m) = Some [(''stdout'', x)]"
      using out unmarshal_one [OF k(1) v [OF out(1)]] by (simp add: jsonPipes_def)
    then show ?thesis using out same [of "[(''stdout'', x)]"] by simp
  next
    case err
    have "unmarshalMap (jsonPipes m) = Some [(''stderr'', y)]"
      using err unmarshal_one [OF k(2) v [OF err(2)]] by (simp add: jsonPipes_def)
    then show ?thesis using err same [of "[(''stderr'', y)]"] by simp
  next
    case both
    have "unmarshalMap (jsonPipes m) = Some [(''stderr'', y), (''stdout'', x)]"
      using both unmarshal_two [OF k(2) v [OF both(2)] k(1) v [OF both(1)]] by (simp add: jsonPipes_def)
    then show ?thesis using both same [of "[(''stderr'', y), (''stdout'', x)]"] by simp
  qed
qed

theorem pipe_inodes_roundtrip_witness:
  "case unmarshalMap (jsonPipes [(''stdout'', ''232671''), (''stderr'', ''232672'')]) of None \<Rightarrow> False
   | Some m' \<Rightarrow> map_of m' = map_of [(''stdout'', ''232671''), (''stderr'', ''232672'')]"
  by (rule pipe_inodes_roundtrip) (simp_all add: asciiText_def)

end
