(* ===== verification/Net.thy ===== *)
theory Net
  imports Paths PodBuilder
begin

text \<open>
  \<open>pkg/agent/aws_instance.go\<close>: the network bandwidth of the machine, from the metadata service and the EC2 API, from the
  network interfaces, from the environment, or a default. Bandwidths are rational numbers. Two functions of Go's library that scan
  decimal fractions are parameters: \<open>sscanf\<close> gives the number that \<open>fmt.Sscanf\<close> reads with a format, \<open>parseFloat\<close> is
  \<open>strconv.ParseFloat\<close>. A reply of the metadata service whose body cannot be read is an error of the request.
\<close>

section \<open>AWS\<close>

record awsInstanceInfo =
  ai_InstanceType :: string
  ai_Region :: string
  ai_AvailabilityZone :: string
  BaselineBandwidthGbps :: rat
  PeakBandwidthGbps :: rat

definition imdsTokenURL :: string where "imdsTokenURL = ''http://169.254.169.254/latest/api/token''"

definition imdsMetadataURL :: string where "imdsMetadataURL = ''http://169.254.169.254/latest/meta-data''"

definition httpBody :: "string \<Rightarrow> string + int \<times> string \<Rightarrow> string + string" where
  "httpBody what r =
     (case r of
        Inl e \<Rightarrow> Inl e
      | Inr (code, body) \<Rightarrow> if code \<noteq> 200 then Inl (what @ '' returned '' @ itoa code) else Inr body)"

definition getIMDSv2Token :: "host \<Rightarrow> (string + string) hprog" where
  "getIMDSv2Token h = do {
     r \<leftarrow> hHttp h ''PUT'' imdsTokenURL [(''X-aws-ec2-metadata-token-ttl-seconds'', ''60'')];
     State_Monad.return
       (case r of Inl e \<Rightarrow> Inl (''IMDS token request failed: '' @ e) | Inr _ \<Rightarrow> httpBody ''IMDS token request'' r)
   }"

definition queryIMDS :: "host \<Rightarrow> string \<Rightarrow> string \<Rightarrow> (string + string) hprog" where
  "queryIMDS h token path = do {
     r \<leftarrow> hHttp h ''GET'' (imdsMetadataURL @ path) (if token \<noteq> [] then [(''X-aws-ec2-metadata-token'', token)] else []);
     State_Monad.return (httpBody (''IMDS '' @ path) r)
   }"

definition parseNetworkPerformance :: "(string \<Rightarrow> string \<Rightarrow> rat option) \<Rightarrow> string \<Rightarrow> rat" where
  "parseNetworkPerformance sscanf perf =
     (case sscanf ''Up to %f Gigabit'' perf of
        Some g \<Rightarrow> g
      | None \<Rightarrow>
          (case sscanf ''%f Gigabit'' perf of
             Some g \<Rightarrow> g
           | None \<Rightarrow> if perf = ''Low to Moderate'' then 3 / 10 else if perf = ''Moderate'' then 1 / 2
                     else if perf = ''High'' then 1 else 0))"

definition orZeroRat :: "rat option \<Rightarrow> rat" where
  "orZeroRat x = (case x of Some r \<Rightarrow> r | None \<Rightarrow> 0)"

definition cardBandwidth :: "(string \<Rightarrow> string \<Rightarrow> rat option) \<Rightarrow> networkInfo \<Rightarrow> rat \<times> rat" where
  "cardBandwidth sscanf info =
     (let (baseline, peak) = (case NetworkCards info of
            [] \<Rightarrow> (0, 0) | c # _ \<Rightarrow> (orZeroRat (nc_Baseline c), orZeroRat (nc_Peak c)))
      in case (if baseline = 0 then NetworkPerformance info else None) of
           Some perf \<Rightarrow> let b = parseNetworkPerformance sscanf perf in (b, if peak = 0 then b else peak)
         | None \<Rightarrow> (baseline, peak))"

definition queryEC2NetworkBandwidth ::
  "host \<Rightarrow> (string \<Rightarrow> string \<Rightarrow> rat option) \<Rightarrow> string \<Rightarrow> string \<Rightarrow> (string + rat \<times> rat) hprog" where
  "queryEC2NetworkBandwidth h sscanf instanceType region = do {
     r \<leftarrow> hDescribe h region instanceType;
     State_Monad.return
       (case r of
          Inl e \<Rightarrow> Inl (''DescribeInstanceTypes failed: '' @ e)
        | Inr [] \<Rightarrow> Inl (''no instance type info returned for '' @ instanceType)
        | Inr (None # _) \<Rightarrow> Inl (''no NetworkInfo for '' @ instanceType)
        | Inr (Some info # _) \<Rightarrow> Inr (cardBandwidth sscanf info))
   }"

definition DetectAWSInstance :: "host \<Rightarrow> (string \<Rightarrow> string \<Rightarrow> rat option) \<Rightarrow> awsInstanceInfo option hprog" where
  "DetectAWSInstance h sscanf = do {
     t \<leftarrow> getIMDSv2Token h;
     (case t of
        Inl _ \<Rightarrow> State_Monad.return None
      | Inr token \<Rightarrow> do {
          it \<leftarrow> queryIMDS h token ''/instance-type'';
          (case it of
             Inl _ \<Rightarrow> State_Monad.return None
           | Inr instanceType \<Rightarrow> do {
               z \<leftarrow> queryIMDS h token ''/placement/availability-zone'';
               (case z of
                  Inl _ \<Rightarrow> State_Monad.return None
                | Inr az \<Rightarrow> do {
                    b \<leftarrow> queryEC2NetworkBandwidth h sscanf instanceType (butlast az);
                    let info = \<lparr>ai_InstanceType = instanceType, ai_Region = butlast az, ai_AvailabilityZone = az,
                                BaselineBandwidthGbps = 0, PeakBandwidthGbps = 0\<rparr>;
                    State_Monad.return (Some
                      (case b of
                         Inl _ \<Rightarrow> info
                       | Inr (baseline, peak) \<Rightarrow> info\<lparr>BaselineBandwidthGbps := baseline, PeakBandwidthGbps := peak\<rparr>))
                  })
             })
        })
   }"

text \<open>A gigabit per second is 125 megabytes of a million bytes.\<close>

definition BaselineBandwidthMBps :: "awsInstanceInfo option \<Rightarrow> rat" where
  "BaselineBandwidthMBps info =
     (case info of None \<Rightarrow> 0 | Some i \<Rightarrow> if BaselineBandwidthGbps i = 0 then 0 else BaselineBandwidthGbps i * 125)"

section \<open>Network interfaces\<close>

record networkBandwidthInfo =
  ni_Source :: string
  ni_InstanceType :: string
  BaselineMBps :: rat
  PeakMBps :: rat
  InterfaceName :: string
  InterfaceSpeedMbps :: int

definition virtualInterface :: "string \<Rightarrow> bool" where
  "virtualInterface name \<longleftrightarrow> name = ''lo'' \<or>
     list_ex (hasPrefix name) [''veth'', ''docker'', ''br-'', ''flannel'', ''cni'', ''vxlan'']"

text \<open>The speed of an interface that counts.\<close>

definition interfaceSpeed :: "host \<Rightarrow> string \<Rightarrow> int option hprog" where
  "interfaceSpeed h name =
     (if virtualInterface name then State_Monad.return None
      else do {
        op \<leftarrow> hReadFile h (joinPath (joinPath ''/sys/class/net'' name) ''operstate'');
        (case op of
           Inl _ \<Rightarrow> State_Monad.return None
         | Inr state \<Rightarrow>
             if trimSpace state \<noteq> ''up'' then State_Monad.return None
             else do {
               s \<leftarrow> hReadFile h (joinPath (joinPath ''/sys/class/net'' name) ''speed'');
               State_Monad.return
                 (case s of
                    Inl _ \<Rightarrow> None
                  | Inr text \<Rightarrow> (case atoi (trimSpace text) of
                                  Some speed \<Rightarrow> if speed \<le> 0 then None else Some speed | None \<Rightarrow> None))
             })
      })"

fun bestInterface :: "host \<Rightarrow> string list \<Rightarrow> string \<times> int \<Rightarrow> (string \<times> int) hprog" where
  "bestInterface h [] best = State_Monad.return best"
| "bestInterface h (name # names) best = do {
     s \<leftarrow> interfaceSpeed h name;
     bestInterface h names
       (case s of Some speed \<Rightarrow> if speed > snd best then (name, speed) else best | None \<Rightarrow> best)
   }"

definition detectOnPremiseNIC :: "host \<Rightarrow> networkBandwidthInfo option hprog" where
  "detectOnPremiseNIC h = do {
     r \<leftarrow> hReadDir h ''/sys/class/net'';
     (case r of
        Inl _ \<Rightarrow> State_Monad.return None
      | Inr entries \<Rightarrow> do {
          (name, speed) \<leftarrow> bestInterface h (map fst entries) ([], 0);
          State_Monad.return
            (if speed \<le> 0 then None
             else Some \<lparr>ni_Source = ''on-premise'', ni_InstanceType = ''local'', BaselineMBps = of_int speed / 8,
                        PeakMBps = of_int speed / 8, InterfaceName = name, InterfaceSpeedMbps = speed\<rparr>)
        })
   }"

definition plainBandwidth :: "string \<Rightarrow> rat \<Rightarrow> networkBandwidthInfo" where
  "plainBandwidth source v =
     \<lparr>ni_Source = source, ni_InstanceType = [], BaselineMBps = v, PeakMBps = v, InterfaceName = [], InterfaceSpeedMbps = 0\<rparr>"

text \<open>The bandwidth of the environment, the last resort before the default.\<close>

definition manualBandwidth :: "genv \<Rightarrow> (string \<Rightarrow> rat option) \<Rightarrow> networkBandwidthInfo" where
  "manualBandwidth getenv parseFloat =
     (let bw = getenv ''BANDWIDTH_MBPS'' in
      case (if bw \<noteq> [] then parseFloat bw else None) of
        Some v \<Rightarrow> if v > 0 then plainBandwidth ''manual'' v else plainBandwidth ''default'' 100
      | None \<Rightarrow> plainBandwidth ''default'' 100)"

definition DetectNetworkBandwidth ::
  "host \<Rightarrow> genv \<Rightarrow> (string \<Rightarrow> string \<Rightarrow> rat option) \<Rightarrow> (string \<Rightarrow> rat option) \<Rightarrow> networkBandwidthInfo hprog" where
  "DetectNetworkBandwidth h getenv sscanf parseFloat = do {
     aws \<leftarrow> DetectAWSInstance h sscanf;
     (case (case aws of Some i \<Rightarrow> if BaselineBandwidthGbps i > 0 then Some i else None | None \<Rightarrow> None) of
        Some i \<Rightarrow> State_Monad.return
          \<lparr>ni_Source = ''aws'', ni_InstanceType = ai_InstanceType i, BaselineMBps = BaselineBandwidthMBps (Some i),
           PeakMBps = PeakBandwidthGbps i * 125, InterfaceName = [], InterfaceSpeedMbps = 0\<rparr>
      | None \<Rightarrow> do {
          nic \<leftarrow> detectOnPremiseNIC h;
          State_Monad.return (case nic of Some info \<Rightarrow> info | None \<Rightarrow> manualBandwidth getenv parseFloat)
        })
   }"

section \<open>The detected bandwidth\<close>

text \<open>The search never loses the best interface so far, and what it finds has a positive speed.\<close>

lemma bestInterface_post:
  "0 \<le> snd best \<Longrightarrow> io_post (bestInterface h names best) (\<lambda>r d. snd best \<le> snd r \<and> (r = best \<or> fst r \<in> set names \<and> 0 < snd r))"
proof (induction names arbitrary: best)
  case (Cons name names)
  have speed: "io_post (interfaceSpeed h name) (\<lambda>r d. case r of None \<Rightarrow> True | Some s \<Rightarrow> 0 < s)"
    unfolding interfaceSpeed_def by (auto intro!: io_rules split: option.splits sum.splits if_splits)
  have rest: "io_post (bestInterface h names b) (\<lambda>r d. snd best \<le> snd r \<and> (r = best \<or> (fst r = name \<or> fst r \<in> set names) \<and> 0 < snd r))"
    if "b = best \<or> fst b = name \<and> snd best < snd b" for b
    using that Cons.prems by (intro io_post_mono [OF Cons.IH]) auto
  show ?case
    by (auto intro!: io_rules io_post_mono [OF speed] rest split: option.splits)
qed (auto intro!: io_rules)

text \<open>
  The detected bandwidth is always positive, whatever the metadata service, the EC2 API, the interfaces and the environment say, so the
  computations that divide by it are defined.
\<close>

theorem detected_bandwidth_positive:
  "io_post (DetectNetworkBandwidth h getenv sscanf parseFloat) (\<lambda>info d. 0 < BaselineMBps info)"
proof -
  have nic: "io_post (detectOnPremiseNIC h) (\<lambda>r d. case r of None \<Rightarrow> True | Some i \<Rightarrow> 0 < BaselineMBps i)"
    unfolding detectOnPremiseNIC_def
    by (auto intro!: io_rules io_post_mono [OF bestInterface_post])
  have aws: "io_post (DetectAWSInstance h sscanf) (\<lambda>r d. True)"
    unfolding DetectAWSInstance_def getIMDSv2Token_def queryIMDS_def queryEC2NetworkBandwidth_def Let_def
    by (auto intro!: io_rules)
  have manual: "0 < BaselineMBps (manualBandwidth getenv parseFloat)"
    by (simp add: manualBandwidth_def plainBandwidth_def Let_def split: option.splits)
  show ?thesis
    unfolding DetectNetworkBandwidth_def
    by (auto intro!: io_rules io_post_mono [OF nic] io_post_mono [OF aws] simp: manual BaselineBandwidthMBps_def split: option.splits if_splits)
qed

end
