(* ===== verification/Restore.thy ===== *)
theory Restore
  imports Json Net
begin

text \<open>
  \<open>pkg/agent/restore.go\<close>: the restore manager, which fetches a checkpoint, starts the daemon that serves pages lazily and starts CRIU to restore
  the process into the namespaces of the main container. The started commands are known by their process ids. The descriptor of the namespace
  that stays open, and the goroutines that drain the pipes, have no effect on the results and are not represented.
\<close>

section \<open>State and results\<close>

record restoreManager =
  rm_workDir :: string
  rm_s3 :: s3Client

record restoreResult =
  rres_Success :: bool
  rres_NewPID :: int
  rres_Timestamp :: int
  rres_DurationMs :: int
  rres_PageServerPID :: int

text \<open>The conversion to \<open>int32\<close>, and the parameters of Go's library for decimal fractions.\<close>

definition int32_of :: "int \<Rightarrow> int" where
  "int32_of i = (i + 2 ^ 31) mod 2 ^ 32 - 2 ^ 31"

record floatLib =
  fl_sscanf :: "string \<Rightarrow> string \<Rightarrow> rat option"
  fl_parse :: "string \<Rightarrow> rat option"

definition NewRestoreManager :: "string \<Rightarrow> s3Client \<Rightarrow> restoreManager" where
  "NewRestoreManager workDir s3 = \<lparr>rm_workDir = workDir, rm_s3 = s3\<rparr>"

section \<open>The lazy-pages daemon\<close>

definition compressRestoreArgs :: "genv \<Rightarrow> string list" where
  "compressRestoreArgs getenv =
     (if getenv ''CRIU_COMPRESS'' = ''true''
      then [''--compress''] @ optionArg getenv ''--compress-level'' ''CRIU_COMPRESS_LEVEL'' else [])"

text \<open>The number of prefetch workers for a bandwidth: one for every 80 MB/s, and none given if one is enough.\<close>

definition derivedWorkers :: "rat \<Rightarrow> string" where
  "derivedWorkers baseline =
     (let n = \<lceil>baseline / 80\<rceil> in if baseline > 0 \<and> n > 1 then itoa n else [])"

definition prefetchArgs :: "host \<Rightarrow> genv \<Rightarrow> floatLib \<Rightarrow> string list hprog" where
  "prefetchArgs h getenv fl =
     (if getenv ''ASYNC_PREFETCH'' = ''true''
      then do {
        w \<leftarrow> (if getenv ''PREFETCH_WORKERS'' \<noteq> [] then State_Monad.return (getenv ''PREFETCH_WORKERS'')
             else do {
               info \<leftarrow> DetectNetworkBandwidth h getenv (fl_sscanf fl) (fl_parse fl);
               State_Monad.return (derivedWorkers (BaselineMBps info))
             });
        State_Monad.return
          ([''--async-prefetch''] @ (if w \<noteq> [] then [''--prefetch-workers'', w] else []) @
           (if getenv ''NO_HOT_VMA_SEED'' = ''true'' then [''--no-hot-vma-seed''] else []))
      }
      else State_Monad.return [])"

definition lazyLog :: "string \<Rightarrow> string" where
  "lazyLog dir = joinPath dir ''lazy-pages.log''"

definition lazyPagesArgs :: "genv \<Rightarrow> restoreManager \<Rightarrow> int \<Rightarrow> string \<Rightarrow> string \<Rightarrow> string \<Rightarrow> string list \<Rightarrow> string list" where
  "lazyPagesArgs getenv m port dir sourceAddr s3Prefix prefetch =
     [''lazy-pages'', ''--images-dir'', dir, ''-v4'', ''--log-file'', lazyLog dir] @ compressRestoreArgs getenv @
     (if sourceAddr \<noteq> [] then [''--page-server'', ''--address'', sourceAddr, ''--port'', itoa port] else []) @ prefetch @
     (if getenv ''NO_SEMI_SYNC_IOV'' = ''true'' then [''--no-semi-sync-iov''] else []) @
     BuildCRIUObjectStorageArgs getenv (rm_s3 m) s3Prefix"

definition lazyReadyText :: string where
  "lazyReadyText = ''Waiting for incoming connections on lazy-pages.socket''"

definition statProbe :: "host \<Rightarrow> string \<Rightarrow> unit option hprog" where
  "statProbe h path = do { ok \<leftarrow> hStat h path; State_Monad.return (if ok then Some () else None) }"

definition lazyReady :: "host \<Rightarrow> string \<Rightarrow> unit option hprog" where
  "lazyReady h logPath = do {
     r \<leftarrow> hReadFile h logPath;
     State_Monad.return (case r of Inl _ \<Rightarrow> None | Inr text \<Rightarrow> if str_contains text lazyReadyText then Some () else None)
   }"

definition waitForLazyPagesReady :: "host \<Rightarrow> string \<Rightarrow> int \<Rightarrow> string option hprog" where
  "waitForLazyPagesReady h logPath timeout = do {
     n \<leftarrow> hNow h;
     _ \<leftarrow> pollUntil h (n + timeout) 50000000 (statProbe h logPath);
     r \<leftarrow> pollUntil h (n + timeout) 50000000 (lazyReady h logPath);
     State_Monad.return (if r = None then Some ''lazy-pages did not become ready within timeout'' else None)
   }"

definition findPageServerPID :: "host \<Rightarrow> (string + int) hprog" where
  "findPageServerPID h = do {
     r \<leftarrow> hOutput h [''pgrep'', ''-n'', ''-f'', ''criu lazy-pages''];
     State_Monad.return
       (case r of
          Inl _ \<Rightarrow> Inl ''page-server process not found''
        | Inr out \<Rightarrow> (case atoi (trimSpace out) of
             Some pid \<Rightarrow> Inr pid | None \<Rightarrow> Inl (''failed to parse PID from '' @ [squote] @ trimSpace out @ [squote])))
   }"

definition StartPageServer ::
  "host \<Rightarrow> genv \<Rightarrow> floatLib \<Rightarrow> restoreManager \<Rightarrow> int \<Rightarrow> string \<Rightarrow> string \<Rightarrow> string \<Rightarrow> (string + int \<times> int) hprog" where
  "StartPageServer h getenv fl m port dir sourceAddr s3Prefix = do {
     prefetch \<leftarrow> prefetchArgs h getenv fl;
     s \<leftarrow> hStart h (''criu'' # lazyPagesArgs getenv m port dir sourceAddr s3Prefix prefetch);
     (case s of
        Inl e \<Rightarrow> State_Monad.return (Inl (''failed to start lazy-pages daemon: '' @ e))
      | Inr cmd \<Rightarrow> do {
          w \<leftarrow> waitForLazyPagesReady h (lazyLog dir) 60000000000;
          (case w of
             Some e \<Rightarrow> do {
               _ \<leftarrow> readLogFile h (lazyLog dir) 80;
               _ \<leftarrow> hKill h cmd;
               State_Monad.return (Inl (''lazy-pages failed to become ready: '' @ e))
             }
           | None \<Rightarrow> do {
               p \<leftarrow> findPageServerPID h;
               (case p of
                  Inl e \<Rightarrow> do {
                    _ \<leftarrow> hKill h cmd;
                    State_Monad.return (Inl (''failed to find lazy-pages PID: '' @ e))
                  }
                | Inr pid \<Rightarrow> State_Monad.return (Inr (pid, cmd)))
             })
        })
   }"

definition StopPageServer :: "host \<Rightarrow> int \<Rightarrow> string option hprog" where
  "StopPageServer h pid =
     (if pid \<le> 0 then State_Monad.return None
      else do { k \<leftarrow> hKill h pid; State_Monad.return (map_option (\<lambda>e. ''failed to kill page-server: '' @ e) k) })"

definition dialProbe :: "host \<Rightarrow> string \<Rightarrow> unit option hprog" where
  "dialProbe h addr = do { e \<leftarrow> hDial h addr; State_Monad.return (if e = None then Some () else None) }"

definition verifyPageServerConnection :: "host \<Rightarrow> string \<Rightarrow> int \<Rightarrow> int \<Rightarrow> string option hprog" where
  "verifyPageServerConnection h sourceAddr port timeout = do {
     n \<leftarrow> hNow h;
     r \<leftarrow> pollUntil h (n + timeout) 500000000 (dialProbe h (sourceAddr @ '':'' @ itoa port));
     State_Monad.return (if r = None then Some (''could not connect to page-server at '' @ sourceAddr @ '':'' @ itoa port) else None)
   }"

section \<open>The restore\<close>

definition defaultMounts :: smap where
  "defaultMounts =
     [(''/etc/hosts'', ''etc-hosts''), (''/etc/hostname'', ''etc-hostname''), (''/etc/resolv.conf'', ''etc-resolv.conf''),
      (''/dev/termination-log'', ''dev-termination-log''), (''/dev/shm'', ''dev-shm''),
      (''/run/secrets/kubernetes.io/serviceaccount'', ''run-secrets-kubernetes.io-serviceaccount'')]"

definition restoreMounts :: "smap \<Rightarrow> smap" where
  "restoreMounts mounts = (if mounts = [] then defaultMounts else mounts)"

definition needsLazyPages :: "string \<Rightarrow> bool" where
  "needsLazyPages strategy \<longleftrightarrow> strategy = ''lazy-storage'' \<or> strategy = ''lazy-direct'' \<or> strategy = ''lazy-hybrid''"

text \<open>The images the target needs on disk before it starts.\<close>

definition fetchImages :: "host \<Rightarrow> restoreManager \<Rightarrow> string \<Rightarrow> string \<Rightarrow> string \<Rightarrow> string option hprog" where
  "fetchImages h m strategy dumpID s3Prefix =
     (if strategy = ''full''
      then do {
        e \<leftarrow> DownloadFullCheckpoint h (rm_s3 m) s3Prefix (rm_workDir m);
        State_Monad.return (map_option (\<lambda>e. ''failed to download full checkpoint: '' @ e) e)
      }
      else if strategy = ''lazy-storage''
      then do {
        e \<leftarrow> hMkdirAll h (joinPath (rm_workDir m) dumpID);
        State_Monad.return (map_option (\<lambda>e. ''failed to mkdir lazy-storage images-dir: '' @ e) e)
      }
      else do {
        e \<leftarrow> DownloadMetadataOnly h (rm_s3 m) s3Prefix (rm_workDir m);
        State_Monad.return (map_option (\<lambda>e. ''failed to download checkpoint metadata: '' @ e) e)
      })"

fun waitSocket :: "host \<Rightarrow> string \<Rightarrow> nat \<Rightarrow> unit hprog" where
  "waitSocket h path 0 = State_Monad.return ()"
| "waitSocket h path (Suc n) = do {
     there \<leftarrow> hIsSocket h path;
     (if there then State_Monad.return () else do { _ \<leftarrow> hSleep 100000000; waitSocket h path n })
   }"

text \<open>The daemon of the lazy strategies: the process id of the page server and the command, 0 and none without it.\<close>

definition startLazy ::
  "host \<Rightarrow> genv \<Rightarrow> floatLib \<Rightarrow> restoreManager \<Rightarrow> string \<Rightarrow> int \<Rightarrow> string \<Rightarrow> string \<Rightarrow> string \<Rightarrow> (string + int \<times> int option) hprog" where
  "startLazy h getenv fl m strategy port dumpDir sourceAddr s3Prefix =
     (if needsLazyPages strategy
      then do {
        s \<leftarrow> StartPageServer h getenv fl m port dumpDir (if strategy = ''lazy-storage'' then [] else sourceAddr) s3Prefix;
        (case s of
           Inl e \<Rightarrow> State_Monad.return (Inl (''failed to start lazy-pages: '' @ e))
         | Inr (pid, cmd) \<Rightarrow> do {
             _ \<leftarrow> waitSocket h (joinPath dumpDir ''lazy-pages.socket'') 50;
             State_Monad.return (Inr (pid, Some cmd))
           })
      }
      else State_Monad.return (Inr (0, None)))"

definition restoreMountArgs :: "smap \<Rightarrow> string list" where
  "restoreMountArgs mounts = concat (map (\<lambda>(point, label). [''--external'', ''mnt['' @ label @ '']:'' @ point]) mounts)"

definition joinNs :: "int \<Rightarrow> string \<Rightarrow> string list" where
  "joinNs pid ns = [''--join-ns'', ns @ '':/proc/'' @ itoa pid @ ''/ns/'' @ ns]"

definition restoreArgs :: "genv \<Rightarrow> restoreManager \<Rightarrow> string \<Rightarrow> string \<Rightarrow> string \<Rightarrow> smap \<Rightarrow> int \<Rightarrow> string list" where
  "restoreArgs getenv m strategy dumpDir s3Prefix mounts mainPid =
     [''restore'', ''-D'', dumpDir, ''--pidfile'', joinPath dumpDir ''restored.pid'', ''--tcp-close'', ''--shell-job'', ''-v4'',
      ''--log-file'', joinPath dumpDir ''restore.log'', ''--inherit-fd'', ''fd[3]:main_pidns''] @
     joinNs mainPid ''mnt'' @ joinNs mainPid ''uts'' @ joinNs mainPid ''ipc'' @ joinNs mainPid ''net'' @
     restoreMountArgs mounts @ [''--ext-mount-map'', ''auto''] @ (if needsLazyPages strategy then [''--lazy-pages''] else []) @
     compressRestoreArgs getenv @ (if strategy \<noteq> ''full'' then BuildCRIUObjectStorageArgs getenv (rm_s3 m) s3Prefix else [])"

definition recoverPipes :: "host \<Rightarrow> string \<Rightarrow> smap \<Rightarrow> smap hprog" where
  "recoverPipes h dumpDir pipes =
     (if pipes = []
      then do {
        r \<leftarrow> hReadFile h (joinPath dumpDir ''pipe_inodes.json'');
        State_Monad.return
          (case r of Inl _ \<Rightarrow> []
           | Inr text \<Rightarrow> (case unmarshalMap text of Some m \<Rightarrow> m | None \<Rightarrow> []))
      }
      else State_Monad.return pipes)"

text \<open>A new pipe for each of the standard outputs that the dump recorded, at the next free descriptor.\<close>

fun replacePipes :: "host \<Rightarrow> smap \<Rightarrow> string list \<Rightarrow> int \<Rightarrow> (string + string list) hprog" where
  "replacePipes h pipes [] fd = State_Monad.return (Inr [])"
| "replacePipes h pipes (label # labels) fd =
     (case map_of pipes label of
        None \<Rightarrow> replacePipes h pipes labels fd
      | Some inode \<Rightarrow> do {
          p \<leftarrow> hPipe h;
          (case p of
             Some e \<Rightarrow> State_Monad.return (Inl (''failed to create '' @ label @ '' pipe: '' @ e))
           | None \<Rightarrow> do {
               rest \<leftarrow> replacePipes h pipes labels (fd + 1);
               State_Monad.return
                 (case rest of Inl e \<Rightarrow> Inl e
                  | Inr args \<Rightarrow> Inr ([''--inherit-fd'', ''fd['' @ itoa fd @ '']:pipe:['' @ inode @ '']''] @ args))
             })
        })"

definition fmtArgs :: "string list \<Rightarrow> string" where
  "fmtArgs args = ''['' @ join '' '' args @ '']''"

definition terminatedError :: "string list \<Rightarrow> string \<Rightarrow> string \<Rightarrow> string" where
  "terminatedError args restoreLog lazyPagesLog =
     ''criu restore process terminated immediately'' @ [newline, newline] @ ''=== CRIU Args ==='' @ [newline] @ fmtArgs args @
     [newline, newline] @ ''=== Restore Log (last 100 lines) ==='' @ [newline] @ restoreLog @
     [newline, newline] @ ''=== Lazy-Pages Log (last 50 lines) ==='' @ [newline] @ lazyPagesLog"

text \<open>The start of CRIU and the look after half a second whether it is still there.\<close>

definition launchRestore :: "host \<Rightarrow> string \<Rightarrow> string list \<Rightarrow> (string + int) hprog" where
  "launchRestore h dumpDir args = do {
     s \<leftarrow> hStart h (''criu'' # args);
     (case s of
        Inl e \<Rightarrow> State_Monad.return (Inl (''failed to start criu restore: '' @ e))
      | Inr cmd \<Rightarrow> do {
          _ \<leftarrow> hSleep 500000000;
          alive \<leftarrow> hExists h (''/proc/'' @ itoa cmd);
          (if alive then State_Monad.return (Inr cmd)
           else do {
             rl \<leftarrow> readLogFile h (joinPath dumpDir ''restore.log'') 100;
             ll \<leftarrow> readLogFile h (joinPath dumpDir ''lazy-pages.log'') 50;
             State_Monad.return (Inl (terminatedError args rl ll))
           })
        })
   }"

text \<open>From the running daemon to the running process.\<close>

definition joinAndRestore ::
  "host \<Rightarrow> genv \<Rightarrow> restoreManager \<Rightarrow> string \<Rightarrow> string \<Rightarrow> string \<Rightarrow> smap \<Rightarrow> smap \<Rightarrow> (string + int) hprog" where
  "joinAndRestore h getenv m strategy dumpDir s3Prefix mounts pipes = do {
     mp \<leftarrow> FindMainContainerPID h;
     (case mp of
        Inl e \<Rightarrow> State_Monad.return (Inl (''failed to find main container PID: '' @ e))
      | Inr mainPid \<Rightarrow> do {
          ns \<leftarrow> hOpen h (''/proc/'' @ itoa mainPid @ ''/ns/pid'');
          (case ns of
             Some e \<Rightarrow> State_Monad.return (Inl (''failed to open PID namespace: '' @ e))
           | None \<Rightarrow> do {
               inodes \<leftarrow> recoverPipes h dumpDir pipes;
               pa \<leftarrow> replacePipes h inodes [''stdout'', ''stderr''] 4;
               (case pa of
                  Inl e \<Rightarrow> State_Monad.return (Inl e)
                | Inr pipeArgs \<Rightarrow>
                    launchRestore h dumpDir (restoreArgs getenv m strategy dumpDir s3Prefix (restoreMounts mounts) mainPid @ pipeArgs))
             })
        })
   }"

text \<open>The result and the two commands, of the daemon and of CRIU.\<close>

definition rmRestore ::
  "host \<Rightarrow> genv \<Rightarrow> floatLib \<Rightarrow> restoreManager \<Rightarrow> string \<Rightarrow> string \<Rightarrow> int \<Rightarrow> string \<Rightarrow> smap \<Rightarrow> string \<Rightarrow> smap \<Rightarrow>
   (string + restoreResult \<times> int option \<times> int) hprog" where
  "rmRestore h getenv fl m dumpID s3Prefix port sourceAddr externalMounts strategy pipeInodes = do {
     t0 \<leftarrow> hNow h;
     f \<leftarrow> fetchImages h m strategy dumpID s3Prefix;
     (case f of
        Some e \<Rightarrow> State_Monad.return (Inl e)
      | None \<Rightarrow>
          let dumpDir = joinPath (rm_workDir m) dumpID in do {
            l \<leftarrow> startLazy h getenv fl m strategy port dumpDir sourceAddr s3Prefix;
            (case l of
               Inl e \<Rightarrow> State_Monad.return (Inl e)
             | Inr (pageServerPID, lazyCmd) \<Rightarrow> do {
                 r \<leftarrow> joinAndRestore h getenv m strategy dumpDir s3Prefix externalMounts pipeInodes;
                 (case r of
                    Inl e \<Rightarrow> State_Monad.return (Inl e)
                  | Inr cmd \<Rightarrow> do {
                      t1 \<leftarrow> hNow h;
                      p \<leftarrow> hReadFile h (joinPath dumpDir ''restored.pid'');
                      t2 \<leftarrow> hNow h;
                      State_Monad.return (Inr
                        (\<lparr>rres_Success = True, rres_NewPID = (case positivePid p of Some pid \<Rightarrow> int32_of pid | None \<Rightarrow> 0),
                          rres_Timestamp = t2, rres_DurationMs = (t1 - t0) div 1000000, rres_PageServerPID = pageServerPID\<rparr>, lazyCmd, cmd))
                    })
               })
          })
   }"

text \<open>The first checkpoint after a restore starts a new chain.\<close>

definition CreateBaselineCheckpoint :: "host \<Rightarrow> genv \<Rightarrow> checkpointManager \<Rightarrow> int \<Rightarrow> (string option \<times> checkpointManager) hprog" where
  "CreateBaselineCheckpoint h getenv cm pid = do {
     _ \<leftarrow> hSleep 2000000000;
     (r, cm1) \<leftarrow> cmPreCheckpoint h getenv cm pid [] None;
     State_Monad.return
       (case r of
          Inl e \<Rightarrow> (Some (''failed to create baseline checkpoint: '' @ e), cm1)
        | Inr res \<Rightarrow> (None, (ResetChain cm1)\<lparr>cm_chainRoot := cr_DumpID res, cm_lastCheckpointID := cr_DumpID res, cm_chainDepth := 1\<rparr>))
   }"

end
