(* ===== verification/AgentServer.thy ===== *)
theory AgentServer
  imports Deadline AgentStart Restore
begin

text \<open>
  \<open>pkg/agent/server.go\<close>, first part: the state of the agent, its creation, the search of the main process (in \<open>pkg/agent/checkpoint.go\<close>), the gRPC
  handlers of a pre-checkpoint, of profiling and of the status, and the ticks of the deadline scheduler as the agent sees them. The
  handlers of a final dump and of a restore are in \<open>AgentMigrate\<close>. The regions that the last pre-dump left out are the
  association list \<open>prevExcludeSet\<close> from their start to their end. Contexts and their cancel functions are not represented.
\<close>

section \<open>State\<close>

text \<open>
  A scheduler that the agent no longer points to and whose loop was not waiting when it was told to stop goes on: such loops are kept in
  \<open>a_loops\<close>.
\<close>

record agentState =
  a_cm :: checkpointManager
  a_rm :: restoreManager
  a_s3 :: s3Client
  a_mode :: string
  a_proc :: agentProc
  a_startTime :: int
  a_podName :: string
  a_nodeName :: string
  pageServerCmd :: "int option"
  pageServerDumpID :: string
  restoreLazyPagesCmd :: "int option"
  restoreCmd :: "int option"
  restoreDumpID :: string
  lazyPagesActive :: bool
  profilerInst :: "profiler option"
  prevExcludeSet :: "(nat \<times> nat) list"
  a_scheduler :: "invariantScheduler option"
  a_loops :: "invariantScheduler list"
  a_networkInfo :: "networkBandwidthInfo option"

abbreviation aPID :: "agentState \<Rightarrow> int" where "aPID a \<equiv> mainPID (a_proc a)"

definition NewAgent ::
  "host \<Rightarrow> genv \<Rightarrow> floatLib \<Rightarrow> (awsConfig \<Rightarrow> string option) \<Rightarrow> string \<Rightarrow> string \<Rightarrow> string \<Rightarrow> string \<Rightarrow> string \<Rightarrow> string \<Rightarrow> string \<Rightarrow>
   (string + agentState) hprog" where
  "NewAgent h getenv fl newSession workDir s3Bucket s3Endpoint s3Region mode podName nodeName =
     (case NewS3ClientWithOptions newSession s3Bucket s3Endpoint (getenv ''DOWNLOAD_ENDPOINT'') s3Region (getenv ''STORAGE_TYPE'')
             (getenv ''EXPRESS_ONE_ZONE'' = ''true'') of
        Inl e \<Rightarrow> State_Monad.return (Inl (''failed to create S3 client: '' @ e))
      | Inr s3 \<Rightarrow> do {
          cm \<leftarrow> NewCheckpointManager h getenv workDir s3 podName nodeName;
          netInfo \<leftarrow> DetectNetworkBandwidth h getenv (fl_sscanf fl) (fl_parse fl);
          n \<leftarrow> hNow h;
          State_Monad.return (Inr
            \<lparr>a_cm = cm, a_rm = NewRestoreManager workDir s3, a_s3 = s3, a_mode = mode,
             a_proc = \<lparr>mainPID = 0, knownMainPID = 0\<rparr>, a_startTime = n, a_podName = podName, a_nodeName = nodeName,
             pageServerCmd = None, pageServerDumpID = [], restoreLazyPagesCmd = None, restoreCmd = None, restoreDumpID = [],
             lazyPagesActive = False, profilerInst = None, prevExcludeSet = [], a_scheduler = None, a_loops = [],
             a_networkInfo = Some netInfo\<rparr>)
        })"

section \<open>The main process\<close>

definition processNames :: "string list" where
  "processNames = [''python'', ''python3'', ''node'', ''java'', ''ruby'', ''go'', ''bash'', ''sh'']"

fun findByName :: "host \<Rightarrow> string list \<Rightarrow> (string + int) hprog" where
  "findByName h [] = State_Monad.return (Inl ''main process not found'')"
| "findByName h (n # ns) = do {
     r \<leftarrow> hOutput h [''pgrep'', ''-f'', n];
     (case r of
        Inl _ \<Rightarrow> findByName h ns
      | Inr out \<Rightarrow>
          if out = [] then findByName h ns
          else case atoi (hd (split [newline] (trimSpace out))) of
            Some pid \<Rightarrow> State_Monad.return (Inr pid)
          | None \<Rightarrow> findByName h ns)
   }"

definition FindMainProcessPID :: "host \<Rightarrow> agentProc \<Rightarrow> ((string + int) \<times> agentProc) hprog" where
  "FindMainProcessPID h a =
     (if knownMainPID a > 0
      then do {
        alive \<leftarrow> hStat h (statusPath (knownMainPID a));
        (if alive then State_Monad.return (Inr (knownMainPID a), a)
         else do { r \<leftarrow> findByName h processNames; State_Monad.return (r, a\<lparr>knownMainPID := 0\<rparr>) })
      }
      else do { r \<leftarrow> findByName h processNames; State_Monad.return (r, a) })"

text \<open>The handlers look for the main process only if it is not known yet.\<close>

definition needMainPID :: "host \<Rightarrow> agentProc \<Rightarrow> (string option \<times> agentProc) hprog" where
  "needMainPID h a =
     (if mainPID a = 0
      then do {
        (r, a') \<leftarrow> FindMainProcessPID h a;
        State_Monad.return
          (case r of
             Inl e \<Rightarrow> (Some (''failed to find main process: '' @ e), a')
           | Inr pid \<Rightarrow> (None, a'\<lparr>mainPID := pid\<rparr>))
      }
      else State_Monad.return (None, a))"

section \<open>Pre-checkpoints\<close>

text \<open>The map of the current hot regions: a start that occurs twice keeps its last end.\<close>

definition hotSet :: "hotRegion list \<Rightarrow> (nat \<times> nat) list" where
  "hotSet rs = foldl (\<lambda>m r. AList.update (StartAddr r) (EndAddr r) m) [] rs"

definition excludeArgs :: "(nat \<times> nat) list \<Rightarrow> hotRegion list \<Rightarrow> criuExcludeArgs" where
  "excludeArgs prev rs =
     \<lparr>ExcludeRanges = map hotRange rs,
      NoParentRanges = map (\<lambda>(a, b). \<lparr>ar_Start = a, ar_End = b\<rparr>)
        (filter (\<lambda>(a, _). map_of (hotSet rs) a = None) prev)\<rparr>"

text \<open>The seconds of a time in nanoseconds.\<close>

definition unixSeconds :: "int \<Rightarrow> int" where
  "unixSeconds n = n div 1000000000"

definition preCheckpointReply :: "string + checkpointResult \<Rightarrow> string + preCheckpointResponse" where
  "preCheckpointReply r =
     (case r of
        Inl e \<Rightarrow> Inl (''pre-checkpoint failed: '' @ e)
      | Inr res \<Rightarrow> Inr \<lparr>pcr_DumpId = cr_DumpID res, pcr_Timestamp = unixSeconds (cr_Timestamp res), SizeBytes = cr_SizeBytes res,
                       PagesDumped = cr_PagesDumped res\<rparr>)"

definition agentPreCheckpoint ::
  "host \<Rightarrow> genv \<Rightarrow> agentState \<Rightarrow> preCheckpointRequest \<Rightarrow> ((string + preCheckpointResponse) \<times> agentState) hprog" where
  "agentPreCheckpoint h getenv a req =
     (if lazyPagesActive a
      then State_Monad.return (Inl ''pre-checkpoint blocked: lazy-pages is still transferring pages'', a)
      else do {
        (e, proc) \<leftarrow> needMainPID h (a_proc a);
        let a1 = a\<lparr>a_proc := proc\<rparr> in
        (case e of
           Some e \<Rightarrow> State_Monad.return (Inl e, a1)
         | None \<Rightarrow>
             (case profilerInst a1 of
                None \<Rightarrow> do {
                  (r, cm) \<leftarrow> cmPreCheckpoint h getenv (a_cm a1) (mainPID proc) (pcq_ParentDumpId req) None;
                  State_Monad.return (preCheckpointReply r, a1\<lparr>a_cm := cm\<rparr>)
                }
              | Some p \<Rightarrow> do {
                  p1 \<leftarrow> CleanupBeforeCRIU h p;
                  (r, cm) \<leftarrow> cmPreCheckpoint h getenv (a_cm a1) (mainPID proc) (pcq_ParentDumpId req)
                             (Some (excludeArgs (prevExcludeSet a1) (GetHotRegions p1)));
                  (_, p2) \<leftarrow> ReinitAfterCRIU h p1;
                  State_Monad.return
                    (preCheckpointReply r,
                     a1\<lparr>a_cm := cm, profilerInst := Some p2, prevExcludeSet := hotSet (GetHotRegions p1)\<rparr>)
                }))
      })"

section \<open>The parameters of the deadline scheduler\<close>

definition envIntOrDefault :: "genv \<Rightarrow> string \<Rightarrow> int \<Rightarrow> int" where
  "envIntOrDefault getenv key def =
     (if getenv key \<noteq> [] then (case atoi (getenv key) of Some n \<Rightarrow> n | None \<Rightarrow> def) else def)"

text \<open>The bandwidth: \<open>parseFloat\<close> is Go's \<open>strconv.ParseFloat\<close>, and \<open>detected\<close> the baseline found for the instance type.\<close>

definition resolvedBandwidthMBps :: "genv \<Rightarrow> (string \<Rightarrow> rat option) \<Rightarrow> rat option \<Rightarrow> rat" where
  "resolvedBandwidthMBps getenv parseFloat detected =
     (let auto = (case detected of Some b \<Rightarrow> if b > 0 then b else 100 | None \<Rightarrow> 100);
          v = getenv ''BANDWIDTH_MBPS''
      in if v \<noteq> [] then (case parseFloat v of Some f \<Rightarrow> if f > 0 then f else auto | None \<Rightarrow> auto) else auto)"

definition envFloatOrDefault :: "genv \<Rightarrow> (string \<Rightarrow> rat option) \<Rightarrow> string \<Rightarrow> rat \<Rightarrow> rat" where
  "envFloatOrDefault getenv parseFloat key def =
     (if getenv key \<noteq> [] then (case parseFloat (getenv key) of Some f \<Rightarrow> f | None \<Rightarrow> def) else def)"

definition schedulerConfig :: "genv \<Rightarrow> (string \<Rightarrow> rat option) \<Rightarrow> rat option \<Rightarrow> invariantSchedulerConfig" where
  "schedulerConfig getenv parseFloat detected =
     \<lparr>is_DeadlineSeconds = envIntOrDefault getenv ''DEADLINE_SECONDS'' 120,
      is_BandwidthMBps = resolvedBandwidthMBps getenv parseFloat detected,
      is_ScanIntervalMs = envIntOrDefault getenv ''DEADLINE_SCAN_INTERVAL_MS'' 5000,
      is_TFreezeMs = envIntOrDefault getenv ''DEADLINE_TFREEZE_MS'' 50,
      is_TMarginMs = envIntOrDefault getenv ''DEADLINE_TMARGIN_MS'' 5000,
      is_DryRun = (getenv ''DEADLINE_SCHEDULER_DRY_RUN'' = ''true'')\<rparr>"

section \<open>Profiling\<close>

text \<open>A scheduler that has a profiler shares it with the agent.\<close>

definition shareProfiler :: "profiler \<Rightarrow> invariantScheduler \<Rightarrow> invariantScheduler" where
  "shareProfiler p s = (if s_profiler s = None then s else s\<lparr>s_profiler := Some p\<rparr>)"

definition StopProfiling :: "agentState \<Rightarrow> agentState hprog" where
  "StopProfiling a =
     (case profilerInst a of
        None \<Rightarrow> State_Monad.return a
      | Some p \<Rightarrow> do {
          p' \<leftarrow> profilerClose p;
          State_Monad.return
            (a\<lparr>profilerInst := None, prevExcludeSet := [], a_scheduler := map_option (shareProfiler p') (a_scheduler a)\<rparr>)
        })"

text \<open>The configuration of a request: interval, threshold and number of consecutive hot samples.\<close>

definition profilingConfig :: "int \<Rightarrow> rat \<Rightarrow> int \<Rightarrow> profilerConfig" where
  "profilingConfig interval threshold consecutive =
     (let c1 = (if interval > 0 then DefaultConfig\<lparr>IntervalMs := interval\<rparr> else DefaultConfig);
          c2 = (if threshold > 0 then c1\<lparr>HotThreshold := threshold\<rparr> else c1)
      in if consecutive > 0 then c2\<lparr>HotConsecutive := consecutive\<rparr> else c2)"

definition detectedMBps :: "agentState \<Rightarrow> rat option" where
  "detectedMBps a = map_option BaselineMBps (a_networkInfo a)"

text \<open>A new scheduler takes the place of the one the agent had, which is not told to stop.\<close>

definition newScheduler :: "genv \<Rightarrow> floatLib \<Rightarrow> profiler option \<Rightarrow> agentState \<Rightarrow> agentState" where
  "newScheduler getenv fl prof a =
     a\<lparr>a_scheduler := Some (NewInvariantScheduler (schedulerConfig getenv (fl_parse fl) (detectedMBps a)) prof (aPID a) (a_cm a)),
       a_loops := (case a_scheduler a of None \<Rightarrow> a_loops a | Some s \<Rightarrow> s # a_loops a)\<rparr>"

text \<open>The answer of \<open>StartProfiling\<close> is an error text, or the process id and the number of areas.\<close>

definition StartProfiling ::
  "host \<Rightarrow> genv \<Rightarrow> floatLib \<Rightarrow> agentState \<Rightarrow> profilerConfig \<Rightarrow> ((string + int \<times> int) \<times> agentState) hprog" where
  "StartProfiling h getenv fl a cfg =
     (if profilerInst a \<noteq> None then State_Monad.return (Inl ''profiler already running'', a)
      else do {
        (e, proc) \<leftarrow> needMainPID h (a_proc a);
        let a1 = a\<lparr>a_proc := proc\<rparr> in
        (case e of
           Some e \<Rightarrow> State_Monad.return (Inl e, a1)
         | None \<Rightarrow> do {
             (e, p) \<leftarrow> profilerStart h (New (aPID a1) cfg);
             State_Monad.return
               (case e of
                  Some e \<Rightarrow> (Inl (''failed to start profiler: '' @ e), a1)
                | None \<Rightarrow>
                    let a2 = a1\<lparr>profilerInst := Some p\<rparr> in
                    (Inr (int32_of (aPID a1), int32_of (int (fst (GetVMACounts p)))),
                     if getenv ''AUTO_ADJUST'' = ''true'' then newScheduler getenv fl (Some p) a2 else a2))
           })
      })"

definition autoStartProfiler :: "host \<Rightarrow> genv \<Rightarrow> floatLib \<Rightarrow> agentState \<Rightarrow> agentState hprog" where
  "autoStartProfiler h getenv fl a = do {
     _ \<leftarrow> hSleep 3000000000;
     (if aPID a \<le> 0 then State_Monad.return a
      else if getenv ''AUTO_ADJUST'' = ''true'' then State_Monad.return (newScheduler getenv fl None a)
      else if profilerInst a \<noteq> None then State_Monad.return a
      else do {
        (e, p) \<leftarrow> profilerStart h (New (aPID a) DefaultConfig);
        State_Monad.return (if e \<noteq> None then a else a\<lparr>profilerInst := Some p\<rparr>)
      })
   }"

text \<open>
  The scheduler works on the process id, the checkpoint manager and the profiler of the agent. After its initial dump it publishes a
  profiler that it has started itself.
\<close>

definition schedulerView :: "agentState \<Rightarrow> invariantScheduler \<Rightarrow> invariantScheduler" where
  "schedulerView a s =
     s\<lparr>s_mainPID := aPID a, s_cm := a_cm a, s_published := False,
       s_profiler := (if s_profiler s = None \<or> profilerInst a = None then s_profiler s else profilerInst a)\<rparr>"

definition schedulerDone :: "agentState \<Rightarrow> invariantScheduler \<Rightarrow> agentState" where
  "schedulerDone a s =
     a\<lparr>a_cm := s_cm s, a_scheduler := Some s,
       profilerInst := (if s_published s \<or> profilerInst a \<noteq> None \<and> s_profiler s \<noteq> None then s_profiler s else profilerInst a)\<rparr>"

definition onScheduler ::
  "(invariantScheduler \<Rightarrow> invariantScheduler hprog) \<Rightarrow> agentState \<Rightarrow> agentState hprog" where
  "onScheduler step a =
     (case a_scheduler a of
        None \<Rightarrow> State_Monad.return a
      | Some s \<Rightarrow> do { s' \<leftarrow> step (schedulerView a s); State_Monad.return (schedulerDone a s') })"

definition agentInitialDump :: "host \<Rightarrow> genv \<Rightarrow> agentState \<Rightarrow> agentState hprog" where
  "agentInitialDump h getenv = onScheduler (schedulerStart h getenv 0)"

definition agentSchedulerTick :: "host \<Rightarrow> genv \<Rightarrow> agentState \<Rightarrow> agentState hprog" where
  "agentSchedulerTick h getenv = onScheduler (schedulerLoop h getenv 1)"

section \<open>Status\<close>

definition agentGetStatus :: "host \<Rightarrow> agentState \<Rightarrow> (statusResponse \<times> agentState) hprog" where
  "agentGetStatus h a = do {
     proc \<leftarrow> (if aPID a = 0
              then do {
                (r, proc) \<leftarrow> FindMainProcessPID h (a_proc a);
                State_Monad.return (proc\<lparr>mainPID := (case r of Inl _ \<Rightarrow> 0 | Inr pid \<Rightarrow> pid)\<rparr>)
              }
              else State_Monad.return (a_proc a));
     n \<leftarrow> hNow h;
     State_Monad.return
       (\<lparr>sr_Mode = a_mode a, MainProcessPid = int32_of (mainPID proc), sr_LastCheckpointId = cm_lastCheckpointID (a_cm a),
         sr_ChainDepth = int32_of (cm_chainDepth (a_cm a)), sr_NodeName = a_nodeName a, sr_PodName = a_podName a,
         UptimeSeconds = goQuot (n - a_startTime a) 1000000000, LazyPagesActive = lazyPagesActive a\<rparr>,
        a\<lparr>a_proc := proc\<rparr>)
   }"

text \<open>The deprecated start of a page server: always an error.\<close>

record pageServerResponse =
  psr_Success :: bool
  psr_Pid :: int
  psr_Port :: int

definition agentStartPageServer :: "int \<Rightarrow> pageServerResponse \<times> string option" where
  "agentStartPageServer port =
     (\<lparr>psr_Success = False, psr_Pid = 0, psr_Port = port\<rparr>,
      Some ''StartPageServer is deprecated - lazy-pages is started automatically during Restore'')"

definition pageServerGone :: "string \<Rightarrow> pageServerStatusResponse" where
  "pageServerGone msg = \<lparr>IsAlive = False, ExitCode = 0, StatusMessage = msg\<rparr>"

definition agentCheckPageServer :: "host \<Rightarrow> int \<Rightarrow> pageServerStatusResponse hprog" where
  "agentCheckPageServer h pid =
     (let name = ''Page-server process '' @ itoa pid in do {
        there \<leftarrow> hExists h (''/proc/'' @ itoa pid);
        (if \<not> there then State_Monad.return (pageServerGone (name @ '' has terminated''))
         else do {
           r \<leftarrow> hReadFile h (''/proc/'' @ itoa pid @ ''/cmdline'');
           State_Monad.return
             (case r of
                Inl _ \<Rightarrow> pageServerGone (name @ '' has terminated'')
              | Inr cmdline \<Rightarrow>
                  if cmdline = [] then pageServerGone (name @ '' has terminated (zombie)'')
                  else if \<not> str_contains cmdline ''criu'' then pageServerGone (''Process '' @ itoa pid @ '' is not a CRIU process'')
                  else \<lparr>IsAlive = True, ExitCode = 0, StatusMessage = name @ '' is still running''\<rparr>)
         })
      })"

record hotRegionProto =
  hp_StartAddr :: nat
  hp_EndAddr :: nat
  hp_WrittenRatio :: rat
  hp_ConsecutiveHot :: int

record vmaHotInfo =
  vi_StartAddr :: nat
  vi_EndAddr :: nat
  vi_Type :: string
  vi_Pathname :: string
  vi_IsHot :: bool
  vi_DirtyPages :: int
  vi_TotalPages :: int
  vi_DirtyRatio :: rat
  vi_ConsecutiveHot :: int

record hotRegionsResponse =
  hrr_Regions :: "hotRegionProto list"
  hrr_TimestampMs :: int
  hrr_TotalVmas :: int
  hrr_HotVmas :: int
  hrr_VmaDetails :: "vmaHotInfo list"

definition agentGetHotRegions :: "host \<Rightarrow> agentState \<Rightarrow> hotRegionsResponse hprog" where
  "agentGetHotRegions h a =
     (case profilerInst a of
        None \<Rightarrow> State_Monad.return \<lparr>hrr_Regions = [], hrr_TimestampMs = 0, hrr_TotalVmas = 0, hrr_HotVmas = 0, hrr_VmaDetails = []\<rparr>
      | Some p \<Rightarrow> do {
          n \<leftarrow> hNow h;
          State_Monad.return
            \<lparr>hrr_Regions = map (\<lambda>r. \<lparr>hp_StartAddr = StartAddr r, hp_EndAddr = EndAddr r, hp_WrittenRatio = WrittenRatio r,
                                   hp_ConsecutiveHot = int32_of (int (hr_ConsecutiveHot r))\<rparr>) (GetHotRegions p),
             hrr_TimestampMs = n div 1000000, hrr_TotalVmas = int32_of (int (fst (GetVMACounts p))),
             hrr_HotVmas = int32_of (int (snd (GetVMACounts p))),
             hrr_VmaDetails = map (\<lambda>v. \<lparr>vi_StartAddr = d_Start v, vi_EndAddr = d_End v, vi_Type = d_Type v, vi_Pathname = d_Pathname v,
                                      vi_IsHot = d_IsHot v, vi_DirtyPages = d_DirtyPages v, vi_TotalPages = int64_of (d_TotalPages v),
                                      vi_DirtyRatio = d_DirtyRatio v, vi_ConsecutiveHot = int32_of (int (d_ConsecutiveHot v))\<rparr>)
                                (GetVMADetails p)\<rparr>
        })"

definition agentGetDirtyVolume :: "agentState \<Rightarrow> dirtyVolume" where
  "agentGetDirtyVolume a = (case profilerInst a of None \<Rightarrow> zeroVolume | Some p \<Rightarrow> GetDirtyVolume p)"

section \<open>No region is lost between two pre-dumps\<close>

lemma foldl_update_keys:
  "fst ` set (foldl (\<lambda>m r. AList.update (f r) (g r) m) m0 rs) = fst ` set m0 \<union> f ` set rs"
  by (induction rs arbitrary: m0) (auto simp: dom_update)

lemma hotSet_starts: "fst ` set (hotSet rs) = ar_Start ` set (map hotRange rs)"
  by (force simp: hotSet_def foldl_update_keys hotRange_def)

lemma excludeArgs_covers:
  "list_all (\<lambda>(s, t). s \<in> ar_Start ` set (ExcludeRanges (excludeArgs prev rs)) \<or>
     \<lparr>ar_Start = s, ar_End = t\<rparr> \<in> set (NoParentRanges (excludeArgs prev rs))) prev"
proof -
  have "s \<in> ar_Start ` set (map hotRange rs)" if "map_of (hotSet rs) s = Some u" for s u
    using that unfolding hotSet_starts [symmetric] by (metis domI dom_map_of_conv_image_fst)
  then show ?thesis
    by (force simp: list_all_iff excludeArgs_def)
qed

lemma findByName_no_dump: "io_post (findByName h ns) (\<lambda>r d. filter isPreDump d = [])"
proof (induction ns)
  case Nil
  then show ?case by (auto intro!: io_rules)
next
  case (Cons n ns)
  show ?case by (auto intro!: io_rules io_post_mono [OF Cons.IH])
qed

lemma needMainPID_no_dump: "io_post (needMainPID h a) (\<lambda>r d. filter isPreDump d = [])"
  unfolding needMainPID_def FindMainProcessPID_def by (auto intro!: io_rules io_post_mono [OF findByName_no_dump])

text \<open>What a dump request says about the regions, with the agent before and after it.\<close>

fun keepsRegions :: "agentState \<Rightarrow> string \<Rightarrow> agentState \<Rightarrow> hostEvent \<Rightarrow> bool" where
  "keepsRegions a parent a' (HPreDump pid p excl) \<longleftrightarrow> \<not> lazyPagesActive a \<and> p = parent \<and>
     (case excl of
        None \<Rightarrow> profilerInst a = None
      | Some ex \<Rightarrow>
          list_all (\<lambda>(s, t). s \<in> ar_Start ` set (ExcludeRanges ex) \<or> \<lparr>ar_Start = s, ar_End = t\<rparr> \<in> set (NoParentRanges ex))
            (prevExcludeSet a) \<and>
          fst ` set (prevExcludeSet a') = ar_Start ` set (ExcludeRanges ex))"
| "keepsRegions a parent a' _ = True"

lemma no_dump_keeps: "filter isPreDump d = [] \<Longrightarrow> list_all (keepsRegions a parent a') d"
  by (induction d) (auto split: if_splits elim: isPreDump.elims)

lemma excludeArgs_starts: "ar_Start ` set (ExcludeRanges (excludeArgs prev rs)) = fst ` set (hotSet rs)"
  by (simp add: hotSet_starts excludeArgs_def)


text \<open>
  A failed pre-dump forgets the regions of the last one: whether or not the dump succeeds, the set kept for the next
  dump is replaced by the current hot regions, so a region that turned cold before a failed dump is not
  reported to the dump after it.
\<close>

lemma failed_dump_replaces_regions:
  "io_post (agentPreCheckpoint h getenv a req) (\<lambda>(r, a') d.
     case profilerInst a of
       None \<Rightarrow> prevExcludeSet a' = prevExcludeSet a
     | Some p \<Rightarrow> prevExcludeSet a' = (if count isPreDump d = 0 then prevExcludeSet a else hotSet (GetHotRegions p)))"
  unfolding agentPreCheckpoint_def
  by (auto intro!: io_rules io_post_mono [OF needMainPID_no_dump] io_post_mono [OF CleanupBeforeCRIU_post]
      io_post_mono [OF cmPreCheckpoint_post] io_post_mono [OF ReinitAfterCRIU_post] simp: count_def quiet_no_dump GetHotRegions_def split: option.splits)

end
