(* ===== verification/Metrics.thy ===== *)
theory Metrics
  imports Checkpoint
begin

text \<open>
  \<open>pkg/agent/metrics.go\<close>: the figures of a lazy restore from the log of the daemon. The regular expressions of the code are sequences of
  fixed texts and of nonempty runs of characters of a class; the matcher takes runs as long as possible, and \<open>rxMatch_complete\<close> shows that it
  finds a match whenever there is one, for expressions in which no run can be continued by what follows. A \<open>float64\<close> is a rational
  number; \<open>parseFloat\<close> is \<open>strconv.ParseFloat\<close>, whose value on an error is taken as 0.
\<close>

section \<open>Regular expressions\<close>

datatype rxTok = Lit string | Run "char \<Rightarrow> bool" | Cap "char \<Rightarrow> bool"

fun rxMatch :: "rxTok list \<Rightarrow> string \<Rightarrow> string list option" where
  "rxMatch [] s = Some []"
| "rxMatch (Lit l # ts) s = (if hasPrefix s l then rxMatch ts (drop (length l) s) else None)"
| "rxMatch (Run c # ts) s = (if takeWhile c s = [] then None else rxMatch ts (dropWhile c s))"
| "rxMatch (Cap c # ts) s =
     (if takeWhile c s = [] then None else map_option (\<lambda>caps. takeWhile c s # caps) (rxMatch ts (dropWhile c s)))"

text \<open>\<open>FindStringSubmatch\<close>: the first position at which the expression matches.\<close>

fun rxFind :: "rxTok list \<Rightarrow> string \<Rightarrow> string list option" where
  "rxFind ts [] = rxMatch ts []"
| "rxFind ts (x # s) = (case rxMatch ts (x # s) of Some caps \<Rightarrow> Some caps | None \<Rightarrow> rxFind ts s)"

definition isDigitChar :: "char \<Rightarrow> bool" where
  "isDigitChar c \<longleftrightarrow> c \<in> set ''0123456789''"

definition isHexChar :: "char \<Rightarrow> bool" where
  "isHexChar c \<longleftrightarrow> c \<in> set ''0123456789abcdef''"

definition isDash :: "char \<Rightarrow> bool" where
  "isDash c \<longleftrightarrow> c = CHR ''-''"

definition isNumChar :: "char \<Rightarrow> bool" where
  "isNumChar c \<longleftrightarrow> c \<in> set ''0123456789.''"

text \<open>\<open>\S\<close>: the complement of tab, newline, form feed, carriage return and space.\<close>

definition isNonSpace :: "char \<Rightarrow> bool" where
  "isNonSpace c \<longleftrightarrow> c \<notin> {CHR 0x09, CHR 0x0A, CHR 0x0C, CHR 0x0D, CHR '' ''}"

text \<open>\<open>uffd: (\d+)-+\d+: \<close>\<close>

definition uffdHead :: "rxTok list" where
  "uffdHead = [Lit ''uffd: '', Cap isDigitChar, Run isDash, Run isDigitChar]"

definition faultStartRe :: "rxTok list" where
  "faultStartRe = uffdHead @ [Lit '': === PAGE FAULT at 0x'', Run isHexChar]"

definition faultEndRe :: "rxTok list" where
  "faultEndRe = uffdHead @ [Lit '': === PAGE FAULT SERVED from '', Cap isNonSpace]"

definition uffdCopyRe :: "rxTok list" where
  "uffdCopyRe = uffdHead @ [Lit '': uffd_copy: 0x'', Run isHexChar, Lit ''/'', Cap isDigitChar]"

definition transferRe :: "rxTok list" where
  "transferRe = [Lit ''UFFD transferred pages: ('', Cap isDigitChar, Lit ''/'', Cap isDigitChar, Lit '')'']"

definition cacheStatsRe :: "rxTok list" where
  "cacheStatsRe = [Lit ''Cache stats: lookups='', Run isDigitChar, Lit '' hits='', Run isDigitChar, Lit '' misses='', Run isDigitChar,
     Lit '' hit_rate='', Cap isNumChar, Lit ''%'']"

definition prefetchRe :: "rxTok list" where
  "prefetchRe = [Lit ''STATS requests='', Run isDigitChar, Lit '' completed='', Cap isDigitChar, Lit '' failed='', Run isDigitChar]"

text \<open>\<open>^\((\d+\.\d+)\)\<close>: anchored, with the whole number as its group.\<close>

definition tsRe :: "rxTok list" where
  "tsRe = [Lit ''('', Cap isDigitChar, Lit ''.'', Cap isDigitChar, Lit '')'']"

definition timestampText :: "string \<Rightarrow> string option" where
  "timestampText line = (case rxMatch tsRe line of Some [a, b] \<Rightarrow> Some (a @ ''.'' @ b) | _ \<Rightarrow> None)"

section \<open>Averages, maxima, percentiles\<close>

text \<open>\<open>math.Round\<close>: to the nearest integer, halves away from zero. Three decimals are kept.\<close>

definition goRound :: "rat \<Rightarrow> int" where
  "goRound x = (if x < 0 then - \<lfloor>- x + 1 / 2\<rfloor> else \<lfloor>x + 1 / 2\<rfloor>)"

definition round3 :: "rat \<Rightarrow> rat" where
  "round3 x = of_int (goRound (x * 1000)) / 1000"

definition avg :: "rat list \<Rightarrow> rat" where
  "avg vals = (if vals = [] then 0 else round3 (sum_list vals / of_nat (length vals)))"

definition maxOf :: "rat list \<Rightarrow> rat" where
  "maxOf vals = (case vals of [] \<Rightarrow> 0 | v # vs \<Rightarrow> round3 (foldl (\<lambda>m x. if x > m then x else m) v vs))"

definition percentile :: "rat list \<Rightarrow> nat \<Rightarrow> rat" where
  "percentile vals pct =
     (if vals = [] then 0
      else let idx = length vals * pct div 100;
               i = (if idx \<ge> length vals then length vals - 1 else idx)
           in round3 (sort vals ! i))"

section \<open>The log\<close>

record faultEvent =
  fe_stallMs :: rat
  fe_source :: string
  fe_pages :: int

record lazyPagesMetrics =
  TotalFaults :: int
  S3Faults :: int
  CacheFaults :: int
  StallAvg :: rat
  StallP50 :: rat
  StallMax :: rat
  S3StallAvg :: rat
  S3StallMax :: rat
  CacheStallAvg :: rat
  CacheStallMax :: rat
  PagesPerFaultAvg :: rat
  PagesPerFaultMax :: int
  TotalPagesTransferred :: int
  TotalPagesExpected :: int
  CacheHitRate :: rat
  PrefetchCompleted :: int
  DaemonDurationS :: rat

definition zeroMetrics :: lazyPagesMetrics where
  "zeroMetrics = \<lparr>TotalFaults = 0, S3Faults = 0, CacheFaults = 0, StallAvg = 0, StallP50 = 0, StallMax = 0, S3StallAvg = 0, S3StallMax = 0,
     CacheStallAvg = 0, CacheStallMax = 0, PagesPerFaultAvg = 0, PagesPerFaultMax = 0, TotalPagesTransferred = 0,
     TotalPagesExpected = 0, CacheHitRate = 0, PrefetchCompleted = 0, DaemonDurationS = 0\<rparr>"

text \<open>The variables of the loop over the lines; the two maps go from a process to the start and to the bytes of its pending fault.\<close>

record parseState =
  ps_events :: "faultEvent list"
  ps_pendingFault :: "(string \<times> rat) list"
  ps_pendingBytes :: "(string \<times> int) list"
  ps_maxTs :: rat
  ps_metrics :: lazyPagesMetrics

definition parse0 :: parseState where
  "parse0 = \<lparr>ps_events = [], ps_pendingFault = [], ps_pendingBytes = [], ps_maxTs = 0, ps_metrics = zeroMetrics\<rparr>"

definition bytesOf :: "parseState \<Rightarrow> string \<Rightarrow> int" where
  "bytesOf st pid = (case map_of (ps_pendingBytes st) pid of Some n \<Rightarrow> n | None \<Rightarrow> 0)"

text \<open>
  The value of \<open>strconv.Atoi\<close> on digits, as the code uses it with its error dropped: what exceeds the range gives the largest
  \<open>int\<close>.
\<close>

definition atoiDigits :: "string \<Rightarrow> int" where
  "atoiDigits s = (case atoi s of Some n \<Rightarrow> n | None \<Rightarrow> int64_max)"

definition parseOr0 :: "(string \<Rightarrow> rat option) \<Rightarrow> string \<Rightarrow> rat" where
  "parseOr0 parseFloat s = (case parseFloat s of Some x \<Rightarrow> x | None \<Rightarrow> 0)"

definition lineTs :: "(string \<Rightarrow> rat option) \<Rightarrow> string \<Rightarrow> rat option" where
  "lineTs parseFloat line = map_option (parseOr0 parseFloat) (timestampText line)"

definition startFault :: "rat \<Rightarrow> string \<Rightarrow> parseState \<Rightarrow> parseState" where
  "startFault ts line st =
     (case rxFind faultStartRe line of
        Some [pid] \<Rightarrow> st\<lparr>ps_pendingFault := AList.update pid ts (ps_pendingFault st), ps_pendingBytes := AList.update pid 0 (ps_pendingBytes st)\<rparr>
      | _ \<Rightarrow> st)"

definition addCopy :: "string \<Rightarrow> parseState \<Rightarrow> parseState" where
  "addCopy line st =
     (case rxFind uffdCopyRe line of
        Some [pid, sz] \<Rightarrow> st\<lparr>ps_pendingBytes := AList.update pid (bytesOf st pid + atoiDigits sz) (ps_pendingBytes st)\<rparr>
      | _ \<Rightarrow> st)"

definition endFault :: "rat \<Rightarrow> string \<Rightarrow> parseState \<Rightarrow> parseState" where
  "endFault ts line st =
     (case rxFind faultEndRe line of
        Some [pid, source] \<Rightarrow>
          (case map_of (ps_pendingFault st) pid of
             None \<Rightarrow> st
           | Some startTs \<Rightarrow>
               st\<lparr>ps_events := ps_events st @ [\<lparr>fe_stallMs = (ts - startTs) * 1000, fe_source = source, fe_pages = bytesOf st pid div 4096\<rparr>],
                  ps_pendingFault := AList.delete pid (ps_pendingFault st), ps_pendingBytes := AList.delete pid (ps_pendingBytes st)\<rparr>)
      | _ \<Rightarrow> st)"

definition lineStats :: "(string \<Rightarrow> rat option) \<Rightarrow> string \<Rightarrow> lazyPagesMetrics \<Rightarrow> lazyPagesMetrics" where
  "lineStats parseFloat line m =
     (let m1 = (case rxFind transferRe line of
                  Some [a, b] \<Rightarrow> m\<lparr>TotalPagesTransferred := TotalPagesTransferred m + atoiDigits a,
                                  TotalPagesExpected := TotalPagesExpected m + atoiDigits b\<rparr>
                | _ \<Rightarrow> m);
          m2 = (case rxFind cacheStatsRe line of Some [r] \<Rightarrow> m1\<lparr>CacheHitRate := parseOr0 parseFloat r\<rparr> | _ \<Rightarrow> m1)
      in case rxFind prefetchRe line of Some [c] \<Rightarrow> m2\<lparr>PrefetchCompleted := atoiDigits c\<rparr> | _ \<Rightarrow> m2)"

definition parseLine :: "(string \<Rightarrow> rat option) \<Rightarrow> parseState \<Rightarrow> string \<Rightarrow> parseState" where
  "parseLine parseFloat st line =
     (let ts = (case lineTs parseFloat line of Some t \<Rightarrow> t | None \<Rightarrow> 0);
          st1 = (if ts > ps_maxTs st then st\<lparr>ps_maxTs := ts\<rparr> else st);
          st2 = endFault ts line (addCopy line (startFault ts line st1))
      in st2\<lparr>ps_metrics := lineStats parseFloat line (ps_metrics st2)\<rparr>)"

section \<open>The figures\<close>

fun countText :: "string \<Rightarrow> string \<Rightarrow> nat" where
  "countText sub [] = 0"
| "countText sub (x # s) = (if hasPrefix (x # s) sub then Suc (countText sub (drop (length sub - 1) s)) else countText sub s)"

definition pagesOf :: "faultEvent list \<Rightarrow> int list" where
  "pagesOf es = filter (\<lambda>p. p > 0) (map fe_pages es)"

definition stallsFrom :: "string \<Rightarrow> faultEvent list \<Rightarrow> rat list" where
  "stallsFrom source es = map fe_stallMs (filter (\<lambda>e. fe_source e = source) es)"

definition faultMetrics :: "faultEvent list \<Rightarrow> lazyPagesMetrics \<Rightarrow> lazyPagesMetrics" where
  "faultMetrics es m =
     (let allStalls = map fe_stallMs es; s3 = stallsFrom ''S3'' es; cache = stallsFrom ''CACHE'' es; pages = pagesOf es;
          m1 = m\<lparr>TotalFaults := int (length es), S3Faults := int (length s3), CacheFaults := int (length cache),
                 StallAvg := avg allStalls, StallP50 := percentile allStalls 50, StallMax := maxOf allStalls,
                 S3StallAvg := avg s3, S3StallMax := maxOf s3, CacheStallAvg := avg cache, CacheStallMax := maxOf cache\<rparr>
      in if pages \<noteq> []
         then m1\<lparr>PagesPerFaultMax := foldl max 0 pages, PagesPerFaultAvg := of_int (sum_list pages) / of_nat (length pages)\<rparr>
         else m1)"

definition metricsOf :: "(string \<Rightarrow> rat option) \<Rightarrow> string \<Rightarrow> lazyPagesMetrics" where
  "metricsOf parseFloat content =
     (let st = foldl (parseLine parseFloat) parse0 (split [newline] content);
          m = (if ps_events st = [] then (ps_metrics st)\<lparr>TotalFaults := int (countText ''PAGE FAULT at'' content)\<rparr>
               else faultMetrics (ps_events st) (ps_metrics st))
      in m\<lparr>DaemonDurationS := ps_maxTs st\<rparr>)"

definition ParseLazyPagesLog :: "host \<Rightarrow> (string \<Rightarrow> rat option) \<Rightarrow> string \<Rightarrow> (string + lazyPagesMetrics) hprog" where
  "ParseLazyPagesLog h parseFloat logPath = do {
     r \<leftarrow> hReadFile h logPath;
     State_Monad.return (case r of Inl e \<Rightarrow> Inl (''read lazy-pages log: '' @ e) | Inr content \<Rightarrow> Inr (metricsOf parseFloat content))
   }"

section \<open>The matcher finds what there is to find\<close>

text \<open>The words of an expression, and the condition under which a run is never cut short by what follows it.\<close>

fun rxWord :: "rxTok list \<Rightarrow> string \<Rightarrow> bool" where
  "rxWord [] w \<longleftrightarrow> w = []"
| "rxWord (Lit l # ts) w \<longleftrightarrow> (\<exists>w'. w = l @ w' \<and> rxWord ts w')"
| "rxWord (Run c # ts) w \<longleftrightarrow> (\<exists>r w'. w = r @ w' \<and> r \<noteq> [] \<and> list_all c r \<and> rxWord ts w')"
| "rxWord (Cap c # ts) w \<longleftrightarrow> (\<exists>r w'. w = r @ w' \<and> r \<noteq> [] \<and> list_all c r \<and> rxWord ts w')"

fun stopsRun :: "(char \<Rightarrow> bool) \<Rightarrow> rxTok list \<Rightarrow> bool" where
  "stopsRun c [] \<longleftrightarrow> True"
| "stopsRun c (Lit l # ts) \<longleftrightarrow> l \<noteq> [] \<and> \<not> c (hd l)"
| "stopsRun c (Run c' # ts) \<longleftrightarrow> (\<forall>x. \<not> (c x \<and> c' x))"
| "stopsRun c (Cap c' # ts) \<longleftrightarrow> (\<forall>x. \<not> (c x \<and> c' x))"

fun determinate :: "rxTok list \<Rightarrow> bool" where
  "determinate [] \<longleftrightarrow> True"
| "determinate (Lit l # ts) \<longleftrightarrow> determinate ts"
| "determinate (Run c # ts) \<longleftrightarrow> stopsRun c ts \<and> determinate ts"
| "determinate (Cap c # ts) \<longleftrightarrow> stopsRun c ts \<and> determinate ts"

lemma stopsRun_head: "stopsRun c ts \<Longrightarrow> rxWord ts w \<Longrightarrow> ts = [] \<or> w \<noteq> [] \<and> \<not> c (hd w)"
  by (induction c ts rule: stopsRun.induct) (auto simp: list_all_iff neq_Nil_conv)

lemma run_dropped:
  assumes "r \<noteq> []" "list_all c r" "ts = [] \<or> w \<noteq> [] \<and> \<not> c (hd w)"
  shows "takeWhile c (r @ w @ v) \<noteq> []" and "ts = [] \<or> dropWhile c (r @ w @ v) = w @ v"
proof -
  show "takeWhile c (r @ w @ v) \<noteq> []" using assms by (cases r) auto
  show "ts = [] \<or> dropWhile c (r @ w @ v) = w @ v"
    using assms by (cases w) (auto simp: list_all_iff dropWhile_append3 dropWhile_append1 dropWhile_append2)
qed

lemma rxMatch_complete: "determinate ts \<Longrightarrow> rxWord ts w \<Longrightarrow> rxMatch ts (w @ v) \<noteq> None"
proof (induction ts arbitrary: w)
  case (Cons t ts)
  have run: ?case if t: "t = Run c \<or> t = Cap c" for c
  proof -
    from t Cons.prems obtain r w' where w: "w = r @ w'" "r \<noteq> []" "list_all c r" "rxWord ts w'" "stopsRun c ts" "determinate ts"
      by auto
    note d = run_dropped [OF w(2,3) stopsRun_head [OF w(5,4)], of v]
    have "rxMatch ts (dropWhile c (r @ w' @ v)) \<noteq> None"
      using d(2) Cons.IH [OF w(6,4)] by (cases ts) auto
    then show ?thesis using t d(1) w(1) by auto
  qed
  show ?case
  proof (cases t)
    case (Lit l)
    with Cons.prems obtain w' where w: "w = l @ w'" "rxWord ts w'" "determinate ts" by auto
    then show ?thesis using Lit Cons.IH [OF w(3,2)] by simp
  qed (use run in auto)
qed simp

lemma rxMatch_sound: "rxMatch ts s = Some caps \<Longrightarrow> \<exists>w v. s = w @ v \<and> rxWord ts w"
proof (induction ts arbitrary: s caps)
  case (Cons t ts)
  have run: ?case if t: "t = Run c \<or> t = Cap c" for c
  proof -
    from t Cons.prems obtain caps' where m: "takeWhile c s \<noteq> []" "rxMatch ts (dropWhile c s) = Some caps'"
      by (auto split: if_splits)
    from Cons.IH [OF m(2)] obtain w v where "dropWhile c s = w @ v" "rxWord ts w" by blast
    moreover have "list_all c (takeWhile c s)" by (auto simp: list_all_iff dest: set_takeWhileD)
    ultimately have "s = (takeWhile c s @ w) @ v \<and> rxWord (t # ts) (takeWhile c s @ w)"
      using t m(1) by (metis append.assoc rxWord.simps(3,4) takeWhile_dropWhile_id)
    then show ?thesis by blast
  qed
  show ?case
  proof (cases t)
    case (Lit l)
    with Cons.prems obtain s' where s: "s = l @ s'" "rxMatch ts s' = Some caps"
      by (auto simp: hasPrefix_iff split: if_splits)
    from Cons.IH [OF s(2)] obtain w v where "s' = w @ v" "rxWord ts w" by blast
    with s Lit show ?thesis by (intro exI [of _ "l @ w"] exI [of _ v]) auto
  qed (use run in auto)
qed simp

lemma rxFind_split: "rxFind ts s \<noteq> None \<longleftrightarrow> (\<exists>u s'. s = u @ s' \<and> rxMatch ts s' \<noteq> None)"
proof (induction s)
  case (Cons x s)
  have "(\<exists>u s'. x # s = u @ s' \<and> rxMatch ts s' \<noteq> None) \<longleftrightarrow> rxMatch ts (x # s) \<noteq> None \<or> (\<exists>u s'. s = u @ s' \<and> rxMatch ts s' \<noteq> None)"
    by (metis append_eq_Cons_conv)
  then show ?case using Cons by (auto split: option.splits)
qed simp

lemma rxFind_iff: "determinate ts \<Longrightarrow> rxFind ts s \<noteq> None \<longleftrightarrow> (\<exists>u w v. s = u @ w @ v \<and> rxWord ts w)"
  unfolding rxFind_split by (metis append.assoc not_None_eq rxMatch_complete rxMatch_sound)

lemmas class_defs = isDigitChar_def isHexChar_def isDash_def isNumChar_def isNonSpace_def

lemmas expression_defs = faultStartRe_def faultEndRe_def uffdCopyRe_def transferRe_def cacheStatsRe_def prefetchRe_def uffdHead_def



section \<open>The figures are in order\<close>

lemma goRound_mono: "x \<le> y \<Longrightarrow> goRound x \<le> goRound y"
proof (cases "x < 0 \<and> 0 \<le> y")
  case True
  then have "0 \<le> \<lfloor>- x + 1 / 2\<rfloor>" "0 \<le> \<lfloor>y + 1 / 2\<rfloor>" by simp_all
  moreover have "goRound x = - \<lfloor>- x + 1 / 2\<rfloor>" "goRound y = \<lfloor>y + 1 / 2\<rfloor>" using True by (auto simp: goRound_def)
  ultimately show ?thesis by linarith
next
  case False
  assume "x \<le> y"
  then show ?thesis using False by (auto simp: goRound_def intro: floor_mono)
qed

lemma round3_mono: "x \<le> y \<Longrightarrow> round3 x \<le> round3 y"
  unfolding round3_def by (intro divide_right_mono of_int_le_iff [THEN iffD2] goRound_mono) auto

lemma foldl_max_rat: "foldl (\<lambda>m x. if x > m then x else m) v vs = Max (set (v # vs))" for v :: rat
proof (induction vs arbitrary: v)
  case (Cons x vs)
  have "Max (set ((if x > v then x else v) # vs)) = Max (set (v # x # vs))"
    by (cases vs) (auto simp: max_def Max_insert)
  with Cons [of "if x > v then x else v"] show ?case by simp
qed simp

lemma maxOf_upper: "x \<in> set vals \<Longrightarrow> round3 x \<le> maxOf vals"
  unfolding maxOf_def foldl_max_rat by (cases vals) (auto intro!: round3_mono)

lemma avg_le_max: "avg vals \<le> maxOf vals"
proof (cases vals)
  case (Cons v vs)
  have "sum_list vals \<le> of_nat (length vals) * Max (set vals)"
    using sum_list_mono [of vals "\<lambda>x. x" "\<lambda>_. Max (set vals)"] by (simp add: sum_list_triv)
  then have "sum_list vals / of_nat (length vals) \<le> Max (set vals)"
    using Cons by (simp add: divide_le_eq mult.commute)
  then show ?thesis unfolding avg_def maxOf_def foldl_max_rat using Cons by (auto intro: round3_mono)
qed (simp add: avg_def maxOf_def)

lemma percentile_le_max: "percentile vals pct \<le> maxOf vals"
proof (cases "vals = []")
  case False
  let ?i = "if length vals * pct div 100 \<ge> length vals then length vals - 1 else length vals * pct div 100"
  have "?i < length (sort vals)" using False by auto
  then have "sort vals ! ?i \<in> set vals" by (metis nth_mem set_sort)
  then show ?thesis using False by (simp add: percentile_def Let_def maxOf_upper split del: if_split)
qed (simp add: percentile_def maxOf_def)

definition stallsInOrder :: "lazyPagesMetrics \<Rightarrow> bool" where
  "stallsInOrder m \<longleftrightarrow> StallP50 m \<le> StallMax m \<and> StallAvg m \<le> StallMax m \<and> S3StallAvg m \<le> S3StallMax m \<and>
     CacheStallAvg m \<le> CacheStallMax m \<and> 0 \<le> S3Faults m \<and> 0 \<le> CacheFaults m \<and> S3Faults m + CacheFaults m \<le> TotalFaults m"

lemma sources_disjoint: "length (stallsFrom ''S3'' es) + length (stallsFrom ''CACHE'' es) \<le> length es"
  by (induction es) (auto simp: stallsFrom_def)

lemma faultMetrics_order: "stallsInOrder (faultMetrics es m)"
  using sources_disjoint [of es]
  by (simp add: stallsInOrder_def faultMetrics_def Let_def avg_le_max percentile_le_max)

definition noStalls :: "lazyPagesMetrics \<Rightarrow> bool" where
  "noStalls m \<longleftrightarrow> StallP50 m = 0 \<and> StallAvg m = 0 \<and> StallMax m = 0 \<and> S3StallAvg m = 0 \<and> S3StallMax m = 0 \<and> CacheStallAvg m = 0 \<and>
     CacheStallMax m = 0 \<and> S3Faults m = 0 \<and> CacheFaults m = 0"

lemma lineStats_noStalls: "noStalls m \<Longrightarrow> noStalls (lineStats pf line m)"
  by (auto simp: lineStats_def noStalls_def Let_def split: option.splits list.splits)

lemma fault_steps_sel [simp]:
  "ps_metrics (startFault ts line s) = ps_metrics s" "ps_maxTs (startFault ts line s) = ps_maxTs s"
  "ps_metrics (addCopy line s) = ps_metrics s" "ps_maxTs (addCopy line s) = ps_maxTs s"
  "ps_metrics (endFault ts line s) = ps_metrics s" "ps_maxTs (endFault ts line s) = ps_maxTs s"
  by (auto simp: startFault_def addCopy_def endFault_def split: option.split list.split)

lemma parseLine_keeps:
  assumes "noStalls (ps_metrics st)" and "0 \<le> ps_maxTs st"
  shows "noStalls (ps_metrics (parseLine pf st line)) \<and> 0 \<le> ps_maxTs (parseLine pf st line)"
  using assms by (simp add: parseLine_def Let_def lineStats_noStalls)


end
