(* ===== verification/AgentMigrate.thy ===== *)
theory AgentMigrate
  imports AgentServer Metrics
begin

text \<open>
  \<open>pkg/agent/server.go\<close>, second part, and \<open>cmd/agent/main.go\<close>: the handlers of the final dump on the source and of the restore on the target,
  the end of the page transfer, the restore at the start of an agent, and the start of the agent. A command that was started is known by its process
  id. The goroutines that reap commands have no effect; the one that waits for the end of lazy pages is \<open>lazyPagesCompleted\<close>. The
  parameter \<open>fmtFloat\<close> is the JSON text of a \<open>float64\<close>.
\<close>

section \<open>The hot regions beside the images\<close>

text \<open>A line break of \<open>json.MarshalIndent\<close> at a depth, with two spaces for each level.\<close>

definition jsonLine :: "nat \<Rightarrow> string" where
  "jsonLine depth = newline # replicate (2 * depth) (CHR '' '')"

definition jsonField :: "string \<Rightarrow> string \<Rightarrow> string" where
  "jsonField name text = jsonString name @ '': '' @ text"

definition jsonBlock :: "string \<Rightarrow> string \<Rightarrow> nat \<Rightarrow> string list \<Rightarrow> string" where
  "jsonBlock l r depth items =
     (if items = [] then l @ r else l @ jsonLine (depth + 1) @ join ('','' @ jsonLine (depth + 1)) items @ jsonLine depth @ r)"

definition hexText :: "nat \<Rightarrow> string" where
  "hexText n = ''0x'' @ hexOf n"

definition hotIOVsEntry :: "hotRegion \<Rightarrow> string" where
  "hotIOVsEntry r =
     jsonBlock ''{'' ''}'' 2 [jsonField ''start'' (jsonString (hexText (StartAddr r))), jsonField ''end'' (jsonString (hexText (EndAddr r)))]"

definition hotIOVsJSON :: "hotRegion list \<Rightarrow> string" where
  "hotIOVsJSON rs =
     jsonBlock ''{'' ''}'' 0 [jsonField ''excluded'' (jsonBlock ''['' '']'' 1 (map hotIOVsEntry rs)),
                        jsonField ''no_parent'' (jsonBlock ''['' '']'' 1 [])]"

definition saveHotIOVsJSON :: "host \<Rightarrow> string \<Rightarrow> hotRegion list \<Rightarrow> string option hprog" where
  "saveHotIOVsJSON h dumpDir rs = do {
     e \<leftarrow> hWriteFile h (joinPath dumpDir ''hot-iovs.json'') (hotIOVsJSON rs);
     State_Monad.return (map_option (\<lambda>e. ''failed to write hot-iovs.json: '' @ e) e)
   }"

definition vmaMetadataEntry :: "(rat \<Rightarrow> string) \<Rightarrow> vmaHotDetail \<Rightarrow> string" where
  "vmaMetadataEntry fmtFloat v =
     jsonBlock ''{'' ''}'' 1
       ([jsonField ''start'' (itoa (int (d_Start v))), jsonField ''end'' (itoa (int (d_End v))), jsonField ''type'' (jsonString (d_Type v))] @
        (if d_Pathname v \<noteq> [] then [jsonField ''pathname'' (jsonString (d_Pathname v))] else []) @
        [jsonField ''is_hot'' (formatBool (d_IsHot v)), jsonField ''dirty_pages'' (itoa (d_DirtyPages v)),
         jsonField ''total_pages'' (itoa (int (d_TotalPages v))), jsonField ''dirty_ratio'' (fmtFloat (d_DirtyRatio v)),
         jsonField ''consecutive_hot'' (itoa (int (d_ConsecutiveHot v)))])"

definition saveVMAMetadata :: "host \<Rightarrow> (rat \<Rightarrow> string) \<Rightarrow> string \<Rightarrow> vmaHotDetail list \<Rightarrow> string option hprog" where
  "saveVMAMetadata h fmtFloat dumpDir details =
     hWriteFile h (joinPath dumpDir ''hot_vma_metadata.json'') (jsonBlock ''['' '']'' 0 (map (vmaMetadataEntry fmtFloat) details))"

section \<open>The final dump\<close>

definition killCmd :: "host \<Rightarrow> int option \<Rightarrow> unit hprog" where
  "killCmd h cmd =
     (case cmd of None \<Rightarrow> State_Monad.return () | Some pid \<Rightarrow> do { _ \<leftarrow> hKill h pid; State_Monad.return () })"

text \<open>The agent gives its scheduler up; \<open>waiting\<close> tells whether the loop of the scheduler receives the signal.\<close>

definition dropScheduler :: "bool \<Rightarrow> agentState \<Rightarrow> agentState" where
  "dropScheduler waiting a =
     (case a_scheduler a of
        None \<Rightarrow> a
      | Some s \<Rightarrow> a\<lparr>a_scheduler := None,
                   a_loops := (if s_stopped (schedulerStop waiting s) then a_loops a else schedulerStop waiting s # a_loops a)\<rparr>)"

text \<open>What is read from the profiler before it is released: the exclude arguments, the hot regions and the details.\<close>

definition releaseProfiler ::
  "host \<Rightarrow> agentState \<Rightarrow> (criuExcludeArgs option \<times> hotRegion list \<times> vmaHotDetail list \<times> agentState) hprog" where
  "releaseProfiler h a =
     (case profilerInst a of
        None \<Rightarrow> State_Monad.return (None, [], [], a)
      | Some p \<Rightarrow> do {
          p1 \<leftarrow> CleanupBeforeCRIU h p;
          _ \<leftarrow> profilerClose p1;
          _ \<leftarrow> (if aPID a > 0 then awaitUntraced h (aPID a) else State_Monad.return ());
          State_Monad.return
            (Some \<lparr>ExcludeRanges = map hotRange (GetHotRegions p), NoParentRanges = []\<rparr>, GetHotRegions p, GetVMADetails p,
             a\<lparr>profilerInst := None\<rparr>)
        })"

definition saveProfile ::
  "host \<Rightarrow> (rat \<Rightarrow> string) \<Rightarrow> checkpointManager \<Rightarrow> string \<Rightarrow> hotRegion list \<Rightarrow> vmaHotDetail list \<Rightarrow> unit hprog" where
  "saveProfile h fmtFloat cm dumpID hot details =
     (if hot = [] \<and> details = [] then State_Monad.return ()
      else let dumpDir = joinPath (cm_workDir cm) dumpID in do {
        _ \<leftarrow> saveVMAMetadata h fmtFloat dumpDir details;
        e \<leftarrow> saveHotIOVsJSON h dumpDir hot;
        (if e \<noteq> None then State_Monad.return ()
         else uploadAgentMetadata h (cm_s3 cm) dumpDir (getS3Prefix cm dumpID))
      })"

definition finalDumpReply :: "checkpointResult \<Rightarrow> finalDumpResponse" where
  "finalDumpReply res =
     \<lparr>DumpId = cr_DumpID res, fdr_Timestamp = unixSeconds (cr_Timestamp res), MetadataSizeBytes = cr_SizeBytes res,
      ExternalMounts = cr_ExternalMounts res, PageServerPid = int32_of (cr_PageServerPID res), PipeInodes = cr_PipeInodes res\<rparr>"

definition orDefault :: "string \<Rightarrow> string \<Rightarrow> string" where
  "orDefault def s = (if s = [] then def else s)"

definition agentFinalDump ::
  "host \<Rightarrow> genv \<Rightarrow> (rat \<Rightarrow> string) \<Rightarrow> bool \<Rightarrow> agentState \<Rightarrow> finalDumpRequest \<Rightarrow> ((string + finalDumpResponse) \<times> agentState) hprog" where
  "agentFinalDump h getenv fmtFloat waiting a req =
     (if lazyPagesActive a
      then State_Monad.return (Inl ''final dump blocked: lazy-pages is still transferring pages'', a)
      else do {
        (e, proc) \<leftarrow> needMainPID h (a_proc a);
        let a1 = a\<lparr>a_proc := proc\<rparr> in
        (case e of
           Some e \<Rightarrow> State_Monad.return (Inl e, a1)
         | None \<Rightarrow> do {
             _ \<leftarrow> killCmd h (pageServerCmd a1);
             (excl, hot, details, a2) \<leftarrow> releaseProfiler h (dropScheduler waiting (a1\<lparr>pageServerCmd := None\<rparr>));
             r \<leftarrow> cmFinalDump h getenv (a_cm a2) (aPID a2) (fdq_PageServerPort req) (fdq_ParentDumpId req) excl
                   (orDefault ''lazy-hybrid'' (fdq_MigrationStrategy req));
             (case r of
                Inl e \<Rightarrow> State_Monad.return (Inl (''final dump failed: '' @ e), a2)
              | Inr (res, cmd) \<Rightarrow> do {
                  _ \<leftarrow> saveProfile h fmtFloat (a_cm a2) (cr_DumpID res) hot details;
                  State_Monad.return (Inr (finalDumpReply res), a2\<lparr>pageServerCmd := cmd, pageServerDumpID := cr_DumpID res\<rparr>)
                })
           })
      })"

section \<open>The restore\<close>

definition restoreStrategy :: "restoreRequest \<Rightarrow> string" where
  "restoreStrategy req = orDefault (if UseLazyPages req then ''lazy-hybrid'' else ''full'') (rq_MigrationStrategy req)"

text \<open>The process id of the restored process: from the file that CRIU wrote, or by a search for its name.\<close>

definition adoptProcess :: "host \<Rightarrow> restoreResult \<Rightarrow> agentState \<Rightarrow> (restoreResult \<times> agentState) hprog" where
  "adoptProcess h res a =
     (if rres_NewPID res > 0
      then State_Monad.return (res, a\<lparr>a_proc := \<lparr>mainPID = rres_NewPID res, knownMainPID = rres_NewPID res\<rparr>\<rparr>)
      else do {
        _ \<leftarrow> hSleep 500000000;
        (r, proc) \<leftarrow> FindMainProcessPID h (a_proc a);
        State_Monad.return
          (case r of
             Inl _ \<Rightarrow> (res, a\<lparr>a_proc := proc\<rparr>)
           | Inr pid \<Rightarrow> (res\<lparr>rres_NewPID := int32_of pid\<rparr>, a\<lparr>a_proc := proc\<lparr>mainPID := pid\<rparr>\<rparr>))
      })"

definition restoreReply :: "restoreResult \<Rightarrow> restoreResponse" where
  "restoreReply res =
     \<lparr>rr_Success = rres_Success res, NewPid = rres_NewPID res, rr_Timestamp = unixSeconds (rres_Timestamp res), DurationMs = rres_DurationMs res\<rparr>"

definition agentRestore ::
  "host \<Rightarrow> genv \<Rightarrow> floatLib \<Rightarrow> agentState \<Rightarrow> restoreRequest \<Rightarrow> ((string + restoreResponse) \<times> agentState) hprog" where
  "agentRestore h getenv fl a req =
     (let strategy = restoreStrategy req in do {
        _ \<leftarrow> killCmd h (restoreLazyPagesCmd a);
        _ \<leftarrow> killCmd h (restoreCmd a);
        r \<leftarrow> rmRestore h getenv fl (a_rm a) (rq_DumpId req) (rq_S3Prefix req) (rq_PageServerPort req) (SourceAddr req)
              (rq_ExternalMounts req) strategy (rq_PipeInodes req);
        (case r of
           Inl e \<Rightarrow> State_Monad.return (Inl (''restore failed: '' @ e), a)
         | Inr (res, lazyCmd, cmd) \<Rightarrow> do {
             (res', a') \<leftarrow> adoptProcess h res
               (a\<lparr>restoreLazyPagesCmd := lazyCmd, restoreCmd := Some cmd, restoreDumpID := rq_DumpId req,
                  lazyPagesActive := (lazyPagesActive a \<or> strategy \<noteq> ''full'')\<rparr>);
             State_Monad.return (Inr (restoreReply res'), a')
           })
      })"

text \<open>\<open>json.Marshal\<close> of the metrics, whose fields have no tags.\<close>

definition metricsJSON :: "(rat \<Rightarrow> string) \<Rightarrow> lazyPagesMetrics \<Rightarrow> string" where
  "metricsJSON fmtFloat m =
     ''{'' @ join '','' (map (\<lambda>(name, text). jsonString name @ '':'' @ text)
       [(''TotalFaults'', itoa (TotalFaults m)), (''S3Faults'', itoa (S3Faults m)), (''CacheFaults'', itoa (CacheFaults m)),
        (''StallAvg'', fmtFloat (StallAvg m)), (''StallP50'', fmtFloat (StallP50 m)), (''StallMax'', fmtFloat (StallMax m)),
        (''S3StallAvg'', fmtFloat (S3StallAvg m)), (''S3StallMax'', fmtFloat (S3StallMax m)),
        (''CacheStallAvg'', fmtFloat (CacheStallAvg m)), (''CacheStallMax'', fmtFloat (CacheStallMax m)),
        (''PagesPerFaultAvg'', fmtFloat (PagesPerFaultAvg m)), (''PagesPerFaultMax'', itoa (PagesPerFaultMax m)),
        (''TotalPagesTransferred'', itoa (TotalPagesTransferred m)), (''TotalPagesExpected'', itoa (TotalPagesExpected m)),
        (''CacheHitRate'', fmtFloat (CacheHitRate m)), (''PrefetchCompleted'', itoa (PrefetchCompleted m)),
        (''DaemonDurationS'', fmtFloat (DaemonDurationS m))]) @ ''}''"

text \<open>After the daemon has ended: dumps are allowed again, the figures are collected and the logs stored.\<close>

definition lazyPagesCompleted ::
  "host \<Rightarrow> genv \<Rightarrow> floatLib \<Rightarrow> (rat \<Rightarrow> string) \<Rightarrow> agentState \<Rightarrow> string \<Rightarrow> string \<Rightarrow> agentState hprog" where
  "lazyPagesCompleted h getenv fl fmtFloat a dumpID s3Prefix =
     (let dumpDir = joinPath (rm_workDir (a_rm a)) dumpID; logUpload = (getenv ''LOG_UPLOAD'' = ''true'') in do {
        m \<leftarrow> ParseLazyPagesLog h (fl_parse fl) (joinPath dumpDir ''lazy-pages.log'');
        _ \<leftarrow> (case m of
               Inl _ \<Rightarrow> State_Monad.return None
             | Inr m \<Rightarrow> if logUpload then hWriteFile h (joinPath dumpDir ''lazy-pages-metrics.json'') (metricsJSON fmtFloat m)
                       else State_Monad.return None);
        _ \<leftarrow> (if logUpload
             then uploadExisting h (rm_s3 (a_rm a)) dumpDir (s3Prefix @ ''/logs/'')
                    [''criu.log'', ''restore.log'', ''lazy-pages.log'', ''stats-dump'', ''stats-restore'', ''lazy-pages-metrics.json'']
             else State_Monad.return ());
        State_Monad.return (a\<lparr>lazyPagesActive := False\<rparr>)
      })"

section \<open>The start of an agent\<close>

text \<open>After the restore: the process is found and becomes the main process, and a first checkpoint is made.\<close>

definition adoptRestored :: "host \<Rightarrow> genv \<Rightarrow> agentState \<Rightarrow> (string option \<times> agentState) hprog" where
  "adoptRestored h getenv a = do {
     _ \<leftarrow> hSleep 1000000000;
     (r, proc) \<leftarrow> FindMainProcessPID h (a_proc a);
     (case r of
        Inl e \<Rightarrow> State_Monad.return (Some (''failed to find restored process: '' @ e), a\<lparr>a_proc := proc\<rparr>)
      | Inr pid \<Rightarrow> do {
          (_, cm) \<leftarrow> CreateBaselineCheckpoint h getenv (a_cm a) pid;
          State_Monad.return (None, a\<lparr>a_proc := proc\<lparr>mainPID := pid\<rparr>, a_mode := ''normal'', a_cm := cm\<rparr>)
        })
   }"

definition performRestoreOnStartup :: "host \<Rightarrow> genv \<Rightarrow> floatLib \<Rightarrow> agentState \<Rightarrow> (string option \<times> agentState) hprog" where
  "performRestoreOnStartup h getenv fl a =
     (let checkpointID = getenv ''CHECKPOINT_ID''; s3Prefix = getenv ''S3_PREFIX''; sourceAddr = getenv ''SOURCE_POD_IP'' in
      if checkpointID = [] \<or> s3Prefix = [] then State_Monad.return (Some ''CHECKPOINT_ID or S3_PREFIX not set'', a)
      else if sourceAddr = []
      then State_Monad.return
        (Some (''SOURCE_POD_IP environment variable not set - required for lazy-pages connection to source pod '' @
               ''(should be set via Downward API from annotation)''), a)
      else do {
        s \<leftarrow> WaitForSleepProcess h 10000000000;
        (case s of
           Inl e \<Rightarrow> State_Monad.return (Some (''failed to find sleep process: '' @ e), a)
         | Inr _ \<Rightarrow> do {
             r \<leftarrow> rmRestore h getenv fl (a_rm a) checkpointID s3Prefix 9999 sourceAddr [] ''lazy-hybrid'' [];
             (case r of
                Inl e \<Rightarrow> State_Monad.return (Some (''restore failed: '' @ e), a)
              | Inr (res, lazyCmd, cmd) \<Rightarrow> adoptRestored h getenv (a\<lparr>restoreLazyPagesCmd := lazyCmd, restoreCmd := Some cmd\<rparr>))
           })
      })"

text \<open>\<open>Start\<close> up to the gRPC server; the flag tells that the goroutine of \<open>autoStartProfiler\<close> is started.\<close>

definition agentStart :: "host \<Rightarrow> genv \<Rightarrow> floatLib \<Rightarrow> agentState \<Rightarrow> (bool \<times> agentState) hprog" where
  "agentStart h getenv fl a = do {
     (auto, a1) \<leftarrow>
       (if a_mode a = ''normal''
        then do {
          (_, proc) \<leftarrow> startUserProcess h (a_proc a);
          State_Monad.return (mainPID proc > 0 \<and> getenv ''DISABLE_AUTO_PROFILER'' \<noteq> ''true'', a\<lparr>a_proc := proc\<rparr>)
        }
        else State_Monad.return (False, a));
     (if a_mode a1 = ''restore''
      then do {
        (e, a2) \<leftarrow> performRestoreOnStartup h getenv fl a1;
        State_Monad.return (auto, if e \<noteq> None then a2\<lparr>a_mode := ''idle''\<rparr> else a2)
      }
      else State_Monad.return (auto, a1))
   }"

text \<open>The command: the environment with its defaults, the work directory, the agent; a fatal error ends it.\<close>

definition agentMain ::
  "host \<Rightarrow> genv \<Rightarrow> floatLib \<Rightarrow> (awsConfig \<Rightarrow> string option) \<Rightarrow> string \<Rightarrow> string \<Rightarrow> (string + bool \<times> agentState) hprog" where
  "agentMain h getenv fl newSession workDir mode =
     (if getenv ''S3_BUCKET'' = [] then State_Monad.return (Inl ''S3_BUCKET environment variable is required'')
      else do {
        mk \<leftarrow> hMkdirAll h workDir;
        (case mk of
           Some e \<Rightarrow> State_Monad.return (Inl (''Failed to create work directory: '' @ e))
         | None \<Rightarrow> do {
             r \<leftarrow> NewAgent h getenv fl newSession workDir (getenv ''S3_BUCKET'') (getenv ''S3_ENDPOINT'')
                   (orDefault ''us-east-1'' (getenv ''S3_REGION'')) mode (orDefault ''unknown-pod'' (getenv ''POD_NAME''))
                   (orDefault ''unknown-node'' (getenv ''NODE_NAME''));
             (case r of
                Inl e \<Rightarrow> State_Monad.return (Inl (''Failed to create agent: '' @ e))
              | Inr a \<Rightarrow> do { x \<leftarrow> agentStart h getenv fl a; State_Monad.return (Inr x) })
           })
      })"

end
