(* ===== verification/RestoreProps.thy ===== *)
theory RestoreProps
  imports Restore
begin

text \<open>
  What a restore promises: the order of its steps, the use of the page server, the bounds of the prefetch workers, and where the labels of
  mounts and the daemon of a failed restore go wrong.
\<close>

section \<open>The order of a restore\<close>

fun restoreStart :: "hostEvent \<Rightarrow> bool" where
  "restoreStart (HStartCmd (c # v # args) r) = (v = ''restore'')"
| "restoreStart _ = False"

fun daemonReady :: "string \<Rightarrow> hostEvent \<Rightarrow> bool" where
  "daemonReady dir (HReadFile p (Inr text)) = (p = lazyLog dir \<and> str_contains text lazyReadyText)"
| "daemonReady dir _ = False"

fun isKill :: "hostEvent \<Rightarrow> bool" where
  "isKill (HKill pid r) = True"
| "isKill _ = False"

text \<open>Neither the start of a restore nor the end of a process nor a dump.\<close>

definition calm :: "hostEvent \<Rightarrow> bool" where
  "calm e \<longleftrightarrow> \<not> restoreStart e \<and> \<not> isKill e \<and> \<not> dumpCall e"

lemma calm_simps [simp]:
  "calm (HNow n)" "calm (HSleep n)" "calm (HReadFile p r)" "calm (HReadDir p r')" "calm (HStat p b)" "calm (HOpenFile p e)"
  "calm (HOutput args r)" "calm (HFile f)" "calm (HStore s)" "calm (HHttp v u hs x)" "calm (HDescribe rg ty y)" "calm (HPipe e)"
  "calm (HStartCmd (c # ''lazy-pages'' # as) z)" "\<not> calm (HKill pid e)"
  by (simp_all add: calm_def)

lemma tryAll_all: "(\<And>x. io_post (f x) (\<lambda>r d. list_all P d)) \<Longrightarrow> io_post (tryAll f xs) (\<lambda>r d. list_all P d)"
proof (induction xs)
  case (Cons x xs)
  show ?case by (auto intro!: io_rules io_post_mono [OF Cons.prems] io_post_mono [OF Cons.IH [OF Cons.prems]])
qed (auto intro!: io_rules)

lemma downloadSelected_calm: "io_post (downloadSelected sel h c prefix dir) (\<lambda>r d. list_all calm d)"
proof -
  have "io_post (downloadSingleFile h c prefix dir k) (\<lambda>r d. list_all calm d)" for k
    unfolding downloadSingleFile_def by (auto intro!: io_rules)
  then show ?thesis
    unfolding downloadSelected_def downloadFilesParallel_def by (auto intro!: io_rules io_post_mono [OF tryAll_all])
qed

lemma fetchImages_calm: "io_post (fetchImages h m strategy i prefix) (\<lambda>r d. list_all calm d)"
  unfolding fetchImages_def DownloadFullCheckpoint_def DownloadMetadataOnly_def
  by (auto intro!: io_rules io_post_mono [OF downloadSelected_calm])

lemma bestInterface_calm: "io_post (bestInterface h names best) (\<lambda>r d. list_all calm d)"
proof (induction names arbitrary: best)
  case (Cons name names)
  have speed: "io_post (interfaceSpeed h name) (\<lambda>r d. list_all calm d)"
    unfolding interfaceSpeed_def by (auto intro!: io_rules)
  show ?case by (auto intro!: io_rules io_post_mono [OF speed] io_post_mono [OF Cons.IH])
qed (auto intro!: io_rules)

lemma DetectNetworkBandwidth_calm: "io_post (DetectNetworkBandwidth h getenv sscanf parseFloat) (\<lambda>r d. list_all calm d)"
  unfolding DetectNetworkBandwidth_def detectOnPremiseNIC_def DetectAWSInstance_def getIMDSv2Token_def queryIMDS_def
    queryEC2NetworkBandwidth_def Let_def
  by (auto intro!: io_rules io_post_mono [OF bestInterface_calm])

lemma prefetchArgs_calm: "io_post (prefetchArgs h getenv fl) (\<lambda>r d. list_all calm d)"
  unfolding prefetchArgs_def by (auto intro!: io_rules io_post_mono [OF DetectNetworkBandwidth_calm])

lemma lazyPagesArgs_verb: "lazyPagesArgs getenv m port dir src prefix pre = ''lazy-pages'' # tl (lazyPagesArgs getenv m port dir src prefix pre)"
  by (simp add: lazyPagesArgs_def)

lemma waitForLazyPagesReady_post:
  "io_post (waitForLazyPagesReady h (lazyLog dir) timeout)
     (\<lambda>r d. list_all calm d \<and> (r \<noteq> None \<or> list_ex (daemonReady dir) d))"
proof -
  have s: "io_post (pollUntil h t i (statProbe h p)) (\<lambda>r d. list_all calm d)" for t i p
    by (rule io_post_loop [where Q = "\<lambda>r d. list_all calm d"]) (auto simp: statProbe_def intro!: io_rules)
  have l: "io_post (pollUntil h t i (lazyReady h (lazyLog dir))) (\<lambda>r d. list_all calm d \<and> (r = None \<or> list_ex (daemonReady dir) d))" for t i
    by (rule io_post_loop [where Q = "\<lambda>r d. list_all calm d \<and> (r = None \<or> list_ex (daemonReady dir) d)"])
      (auto simp: lazyReady_def intro!: io_rules split: sum.splits)
  show ?thesis
    unfolding waitForLazyPagesReady_def
    by (auto intro!: io_rules io_post_mono [OF s] io_post_mono [OF l])
qed

lemma StartPageServer_post:
  "io_post (StartPageServer h getenv fl m port dir src prefix) (\<lambda>r d. list_all (\<lambda>e. \<not> restoreStart e \<and> \<not> dumpCall e) d \<and>
     (case r of Inl e \<Rightarrow> True | Inr x \<Rightarrow> list_all calm d \<and> list_ex (daemonReady dir) d))"
proof -
  have calm: "list_all calm d \<Longrightarrow> list_all (\<lambda>e. \<not> restoreStart e \<and> \<not> dumpCall e) d" for d by (auto simp: list_all_iff calm_def)
  show ?thesis
    unfolding StartPageServer_def readLogFile_def findPageServerPID_def
    by (subst lazyPagesArgs_verb)
      (auto intro!: io_rules io_post_mono [OF prefetchArgs_calm] io_post_mono [OF waitForLazyPagesReady_post] simp: calm split: sum.splits)
qed

lemma waitSocket_calm: "io_post (waitSocket h path n) (\<lambda>r d. list_all calm d)"
proof (induction n)
  case (Suc n)
  then show ?case by (auto intro!: io_rules io_post_mono [OF Suc.IH])
qed (auto intro!: io_rules)

lemma startLazy_post:
  "io_post (startLazy h getenv fl m strategy port dir src prefix) (\<lambda>r d. list_all (\<lambda>e. \<not> restoreStart e \<and> \<not> dumpCall e) d \<and>
     (case r of Inl e \<Rightarrow> True
      | Inr (pid, cmd) \<Rightarrow> list_all calm d \<and> (cmd \<noteq> None \<longleftrightarrow> needsLazyPages strategy) \<and>
          (if needsLazyPages strategy then list_ex (daemonReady dir) d else d = [])))"
proof -
  have calm: "list_all calm d \<Longrightarrow> list_all (\<lambda>e. \<not> restoreStart e \<and> \<not> dumpCall e) d" for d by (auto simp: list_all_iff calm_def)
  show ?thesis
    unfolding startLazy_def
    by (auto intro!: io_rules io_post_mono [OF StartPageServer_post] io_post_mono [OF waitSocket_calm] simp: calm)
qed

lemma mainCandidates_calm: "io_post (mainCandidates h entries) (\<lambda>r d. list_all calm d)"
proof (induction entries)
  case (Cons e entries)
  then show ?case by (cases e) (auto intro!: io_rules io_post_mono [OF Cons.IH])
qed (auto intro!: io_rules)

lemma FindMainContainerPID_calm: "io_post (FindMainContainerPID h) (\<lambda>r d. list_all calm d)"
  unfolding FindMainContainerPID_def by (auto intro!: io_rules io_post_mono [OF mainCandidates_calm])

lemma replacePipes_calm: "io_post (replacePipes h pipes labels fd) (\<lambda>r d. list_all calm d)"
proof (induction labels arbitrary: fd)
  case (Cons l labels)
  then show ?case by (auto intro!: io_rules io_post_mono [OF Cons.IH])
qed (auto intro!: io_rules)

lemma recoverPipes_calm: "io_post (recoverPipes h dir pipes) (\<lambda>r d. list_all calm d)"
  unfolding recoverPipes_def by (auto intro!: io_rules)

lemma restoreArgs_verb: "restoreArgs getenv m strategy dir prefix mounts pid @ as = ''restore'' # tl (restoreArgs getenv m strategy dir prefix mounts pid) @ as"
  by (simp add: restoreArgs_def)

lemma launchRestore_post:
  "io_post (launchRestore h dir (''restore'' # as)) (\<lambda>r d. count restoreStart d = 1 \<and> list_all (\<lambda>e. \<not> isKill e \<and> \<not> dumpCall e) d \<and>
     (case r of Inl e \<Rightarrow> True | Inr cmd \<Rightarrow> HFile (FExists (''/proc/'' @ itoa cmd) True) \<in> set d))"
  unfolding launchRestore_def readLogFile_def by (auto intro!: io_rules)

lemma calm_count: "list_all calm d \<Longrightarrow> count restoreStart d = 0 \<and> list_all (\<lambda>e. \<not> isKill e \<and> \<not> dumpCall e) d"
  by (induction d) (auto simp: calm_def)

lemma joinAndRestore_post:
  "io_post (joinAndRestore h getenv m strategy dir prefix mounts pipes) (\<lambda>r d. count restoreStart d \<le> 1 \<and> list_all (\<lambda>e. \<not> isKill e \<and> \<not> dumpCall e) d \<and>
     (case r of Inl e \<Rightarrow> True | Inr cmd \<Rightarrow> HFile (FExists (''/proc/'' @ itoa cmd) True) \<in> set d))"
  unfolding joinAndRestore_def restoreArgs_verb
  by (auto intro!: io_rules io_post_mono [OF FindMainContainerPID_calm] io_post_mono [OF recoverPipes_calm] io_post_mono [OF replacePipes_calm]
      io_post_mono [OF launchRestore_post] dest!: calm_count split: sum.splits)

lemma guardedBy_after: "list_all (\<lambda>e. \<not> P e) d \<Longrightarrow> list_ex G d \<Longrightarrow> guardedBy G P (d @ d')"
  by (induction d) auto

lemma count_none: "list_all (\<lambda>e. \<not> P e) d \<Longrightarrow> count P d = 0"
  by (induction d) auto

lemma calm_no_start: "list_all calm d \<Longrightarrow> list_all (\<lambda>e. \<not> restoreStart e) d"
  by (auto simp: list_all_iff calm_def)

lemma guardedBy_calm:
  "list_all calm d \<Longrightarrow> list_all calm d' \<Longrightarrow> list_ex G d' \<Longrightarrow> guardedBy G restoreStart (d @ d' @ d'')"
  by (intro guardedBy_skip guardedBy_after calm_no_start)

lemma no_start_parts: "list_all (\<lambda>e. \<not> restoreStart e \<and> \<not> dumpCall e) d \<Longrightarrow> list_all (\<lambda>e. \<not> restoreStart e) d \<and> quiet d"
  by (auto simp: list_all_iff)

lemma no_kill_parts: "list_all (\<lambda>e. \<not> isKill e \<and> \<not> dumpCall e) d \<Longrightarrow> list_all (\<lambda>e. \<not> isKill e) d \<and> quiet d"
  by (auto simp: list_all_iff)

text \<open>
  C15. A process is restored at most once per request and never too early: with a lazy strategy CRIU is started only after the daemon that serves the pages has
  reported that it waits for connections; and a restore that succeeds has the daemon exactly for the lazy strategies
  and has seen its CRIU process alive.
\<close>

theorem restore_after_daemon:
  "io_post (rmRestore h getenv fl m i prefix port src mounts strategy pipes) (\<lambda>r d. count restoreStart d \<le> 1 \<and>
     (if needsLazyPages strategy then guardedBy (daemonReady (joinPath (rm_workDir m) i)) restoreStart d else True) \<and>
     (case r of
        Inl e \<Rightarrow> True
      | Inr (res, lazy, cmd) \<Rightarrow> rres_Success res \<and> (lazy \<noteq> None \<longleftrightarrow> needsLazyPages strategy) \<and>
          HFile (FExists (''/proc/'' @ itoa cmd) True) \<in> set d))"
  unfolding rmRestore_def Let_def
  by (auto intro!: io_rules io_post_mono [OF fetchImages_calm] io_post_mono [OF startLazy_post] io_post_mono [OF joinAndRestore_post]
      intro: guardedBy_none guardedBy_skip dest!: no_start_parts simp: guardedBy_calm calm_no_start count_none split: if_splits)

text \<open>A restore makes no dump.\<close>

lemma rmRestore_quiet: "io_post (rmRestore h getenv fl m i prefix port src mounts strategy pipes) (\<lambda>r d. quiet d)"
proof -
  have "quiet d" if "list_all calm d" for d using that by (auto simp: list_all_iff calm_def)
  then show ?thesis
    unfolding rmRestore_def Let_def
    by (auto intro!: io_rules io_post_mono [OF fetchImages_calm] io_post_mono [OF startLazy_post] io_post_mono [OF joinAndRestore_post]
        dest!: no_start_parts no_kill_parts)
qed

text \<open>
  A restore that fails after its daemon has started leaves the daemon behind: no step after the daemon ends a process, and the
  command of the daemon is not part of an error, so the agent cannot end it later either.
\<close>

lemma failed_restore_leaves_daemon:
  "io_post (joinAndRestore h getenv m strategy dir prefix mounts pipes) (\<lambda>r d. list_all (\<lambda>e. \<not> isKill e) d)"
  by (rule io_post_mono [OF joinAndRestore_post]) (auto dest!: no_kill_parts)

section \<open>Prefetch workers\<close>

text \<open>
  The number of prefetch workers that is derived from the bandwidth covers it and not more: with workers of 80 MB/s each, the workers
  together reach the bandwidth and one worker fewer would not; no number is given exactly if one worker is enough.
\<close>

theorem prefetch_workers_bounds:
  assumes "0 < b" and "b \<le> 80 * of_int int64_max"
  shows "(case atoi (derivedWorkers b) of
      Some n \<Rightarrow> 1 < n \<and> b \<le> 80 * of_int n \<and> 80 * (of_int n - 1) < b
    | None \<Rightarrow> derivedWorkers b = []) \<and> (derivedWorkers b = [] \<longleftrightarrow> b \<le> 80)"
proof -
  define n where "n = \<lceil>b / 80\<rceil>"
  have up: "b \<le> 80 * of_int n" proof -
    have "b / 80 \<le> of_int n" unfolding n_def by (rule le_of_int_ceiling)
    then show ?thesis by (simp add: field_simps)
  qed
  have low: "80 * (of_int n - 1) < b" using ceiling_correct [of "b / 80"] by (simp add: n_def field_simps)
  have pos: "0 < n" using assms(1) by (simp add: n_def)
  have le: "n \<le> int64_max" unfolding n_def using assms(2) by (intro ceiling_le) (simp add: field_simps)
  have one: "n > 1 \<longleftrightarrow> \<not> b \<le> 80" unfolding n_def by (simp add: less_ceiling_iff field_simps not_le)
  show ?thesis
  proof (cases "n > 1")
    case True
    have "int64_min \<le> n" using pos by (simp add: int64_min_def)
    then have "atoi (itoa n) = Some n" "itoa n \<noteq> []" using le itoa_codec.dec_enc [of n] by (auto simp: itoa_def)
    then show ?thesis using True one up low assms(1) by (simp add: derivedWorkers_def Let_def flip: n_def)
  next
    case False
    then show ?thesis using one by (simp add: derivedWorkers_def Let_def flip: n_def)
  qed
qed

theorem prefetch_workers_bounds_witness: "derivedWorkers 1250 \<noteq> [] \<and> derivedWorkers 75 = []"
  using prefetch_workers_bounds [of 1250] prefetch_workers_bounds [of 75] by (simp add: int64_max_def)

text \<open>
  When nothing is detected the default of 100 MB/s counts as detected, so two workers are asked for, and the default of CRIU is not used.
\<close>

lemma default_bandwidth_workers: "derivedWorkers (BaselineMBps (manualBandwidth (\<lambda>_. []) parseFloat)) = ''2''"
proof -
  have "\<lceil>5 / 4 :: rat\<rceil> = 2" by (rule ceiling_unique) simp_all
  moreover have "char_of (50 :: nat) = CHR ''2''" by code_simp
  ultimately show ?thesis by (simp add: derivedWorkers_def manualBandwidth_def plainBandwidth_def itoa_def digits10.simps)
qed

section \<open>Mounts\<close>

text \<open>
  The default mounts of a restore do not carry the labels of a dump: a dump writes a dash for every dot, and two of the defaults keep theirs.
\<close>

lemma default_labels_differ:
  "map fst (filter (\<lambda>(point, label). label \<noteq> mountLabel point) defaultMounts) =
     [''/etc/resolv.conf'', ''/run/secrets/kubernetes.io/serviceaccount'']"
  by (simp add: defaultMounts_def mountLabel_map dashed_def trimPrefix_def)

text \<open>The mounts that a list of options names: the text in the brackets and the text after them.\<close>

definition mountOption :: "string \<Rightarrow> (string \<times> string) option" where
  "mountOption s = (if hasPrefix s ''mnt['' then breakAt '']:'' (drop 4 s) else None)"

fun mountOptions :: "string list \<Rightarrow> (string \<times> string) option list" where
  "mountOptions (f # v # args) = (if f = ''--external'' then mountOption v # mountOptions args else mountOptions (v # args))"
| "mountOptions _ = []"

lemma breakAt_bracket: "CHR '']'' \<notin> set a \<Longrightarrow> breakAt '']:'' (a @ '']:'' @ b) = Some (a, b)"
  by (induction a) auto

text \<open>
  The restore maps back what the dump took out: for mount points and labels without a closing bracket, the options of the dump name every
  external mount with its label, the options of the restore name the same pairs with the sides exchanged.
\<close>

theorem mount_options_mirror:
  assumes "list_all (\<lambda>(p, l). CHR '']'' \<notin> set p \<and> CHR '']'' \<notin> set l) mounts"
  shows "mountOptions (dumpMountArgs mounts) = map Some mounts \<and>
    mountOptions (restoreMountArgs mounts) = map (\<lambda>(p, l). Some (l, p)) mounts"
  using assms
proof (induction mounts)
  case (Cons x mounts)
  then show ?case
    using breakAt_bracket by (cases x) (auto simp: dumpMountArgs_def restoreMountArgs_def mountOption_def)
qed (simp add: dumpMountArgs_def restoreMountArgs_def)

theorem mount_options_mirror_witness:
  "mountOptions (restoreMountArgs [(''/etc/hosts'', mountLabel ''/etc/hosts'')]) = [Some (''etc-hosts'', ''/etc/hosts'')]"
proof -
  have "mountLabel ''/etc/hosts'' = ''etc-hosts''" by (simp add: mountLabel_map dashed_def trimPrefix_def)
  then show ?thesis using mount_options_mirror [of "[(''/etc/hosts'', ''etc-hosts'')]"] by simp
qed

end
