(* ===== verification/CheckpointProps.thy ===== *)
theory CheckpointProps
  imports Checkpoint PodProps Fsm
begin

text \<open>
  What the checkpoint manager promises to the controller, to the restoring agent and to CRIU: where the images are, when
  they are stored, how the chain of checkpoints is kept, and which areas of memory are left out.
\<close>

section \<open>The place of the images\<close>

lemma hasPrefix_key:
  "CHR ''='' \<notin> set k \<Longrightarrow> CHR ''='' \<notin> set p \<Longrightarrow> hasPrefix (k @ CHR ''='' # r) (p @ [CHR ''='']) \<longleftrightarrow> k = p"
proof (induction k arbitrary: p)
  case Nil
  then show ?case by (cases p) auto
next
  case (Cons a k)
  then show ?case by (cases p) auto
qed

definition entryLine :: "string \<times> string \<Rightarrow> string" where
  "entryLine = (\<lambda>(k, v). k @ ''='' @ [dquote] @ escaped v @ [dquote])"

lemma podinfoFile_lines: "podinfoFile al = join [newline] (map entryLine al @ [[]])"
  by (induction al) (auto simp: podinfoFile_def entryLine_def join_Cons)

lemma escaped_no_newline: "newline \<notin> set (escaped v)"
  by (auto simp: escaped_def escapeChar_def split: if_splits)

definition plainKey :: "string \<Rightarrow> bool" where
  "plainKey k \<longleftrightarrow> CHR ''='' \<notin> set k \<and> newline \<notin> set k"

lemma split_podinfo:
  assumes "list_all (\<lambda>(k, v). plainKey k) al"
  shows "split [newline] (podinfoFile al) = map entryLine al @ [[]]"
  unfolding podinfoFile_lines
  using assms by (intro split_join) (auto simp: list_all_iff plainKey_def entryLine_def escaped_no_newline)

definition plainName :: "string \<Rightarrow> bool" where
  "plainName v \<longleftrightarrow> list_all (\<lambda>c. c \<noteq> dquote \<and> c \<noteq> bslash \<and> c \<noteq> newline \<and> c \<noteq> tab) v"

lemma escaped_plain: "plainName v \<Longrightarrow> escaped v = v"
  by (induction v) (auto simp: escaped_def plainName_def escapeChar_def)

lemma trimChar_quoted: "dquote \<notin> set v \<Longrightarrow> trimChar dquote (dquote # v @ [dquote]) = v"
proof -
  assume v: "dquote \<notin> set v"
  have "dropWhile (\<lambda>x. x = dquote) (v @ [dquote]) = (if v = [] then [] else v @ [dquote])"
    using v by (cases v) auto
  moreover have "dropWhile (\<lambda>x. x = dquote) (rev v) = rev v"
    using v by (cases "rev v") (auto simp: rev_eq_Cons_iff)
  ultimately show ?thesis by (auto simp: trimChar_def)
qed

lemma appNameIn_podinfo:
  assumes "list_all (\<lambda>(k, v). plainKey k) al" and "plainName (mget al ''migration.io/app'')"
    and "mget al ''migration.io/app'' \<noteq> []"
  shows "appNameIn def (map entryLine al @ [[]]) = mget al ''migration.io/app''"
  using assms
proof (induction al)
  case (Cons kv al)
  obtain k v where kv: "kv = (k, v)" by (cases kv)
  have key: "hasPrefix (entryLine kv) ''migration.io/app='' \<longleftrightarrow> k = ''migration.io/app''"
    using hasPrefix_key [of k "''migration.io/app''"] Cons.prems(1) by (simp add: kv entryLine_def plainKey_def)
  show ?case
  proof (cases "k = ''migration.io/app''")
    case True
    then have "plainName v" using Cons.prems(2) by (simp add: kv mget_def)
    then have "entryLine kv = ''migration.io/app='' @ (dquote # v @ [dquote])" "dquote \<notin> set v"
      using True by (auto simp: kv entryLine_def escaped_plain) (auto simp: plainName_def list_all_iff)
    then have "appNameIn def (map entryLine (kv # al) @ [[]]) = v"
      using trimPrefix_append [of "''migration.io/app=''" "dquote # v @ [dquote]"]
      by (simp add: trimChar_quoted del: trimPrefix_append)
    then show ?thesis using True by (simp add: kv mget_def)
  next
    case False
    then show ?thesis using Cons key by (simp add: kv mget_def)
  qed
qed (simp add: mget_def)

lemma podGeneration_itoa:
  assumes "getenv ''POD_GENERATION'' = itoa g" and "int64_min \<le> g" and "g \<le> int64_max"
  shows "podGeneration getenv = g"
proof -
  have "itoa g \<noteq> []" by (simp add: itoa_def)
  then show ?thesis using assms itoa_codec.dec_enc [of g] by (simp add: podGeneration_def)
qed

text \<open>
  C22. The agent and the controller agree on where a checkpoint is: for a pod that the builder made for the current generation of a
  resource, whose annotations reach the agent through the Downward API, in whatever order and whatever others there are, the prefix
  under which the agent stores a dump is the prefix that the controller writes into the status and hands
  to the restoring agent.
\<close>

theorem agent_prefix_agrees:
  assumes "h_readFile h [] ''/etc/podinfo/annotations'' = Inr (podinfoFile al)"
    and "mget al ''migration.io/app'' = mget (pAnnotations (buildBasePod env b (Generation (Status (pb_mapp b))) mode)) ''migration.io/app''"
    and "list_all (\<lambda>(k, v). plainKey k) al" and "mName (pb_mapp b) \<noteq> []" and "plainName (mName (pb_mapp b))"
    and "getenv ''POD_GENERATION'' =
           mget (pAnnotations (buildBasePod env b (Generation (Status (pb_mapp b))) mode)) ''migration.io/generation''"
    and "int64_min \<le> Generation (Status (pb_mapp b))" and "Generation (Status (pb_mapp b)) \<le> int64_max"
  shows "getS3Prefix (outcome (NewCheckpointManager h getenv workDir s3 podName (pNodeName src))) dumpID =
    dumpPrefix (pb_mapp b) src dumpID"
proof -
  have "mget al ''migration.io/app'' = mName (pb_mapp b)"
    using assms(2) by (simp add: buildBasePod_annotations baseMeta_annotations)
  then have "appNameIn podName (split [newline] (podinfoFile al)) = mName (pb_mapp b)"
    using assms(3-5) by (simp add: split_podinfo appNameIn_podinfo)
  moreover have "podGeneration getenv = Generation (Status (pb_mapp b))"
    using assms(6-8) by (intro podGeneration_itoa) (simp_all add: buildBasePod_annotations baseMeta_annotations)
  ultimately show ?thesis
    using assms(1) by (simp add: outcome_def NewCheckpointManager_def hReadFile_def io_simps getS3Prefix_def dumpPrefix_def)
qed

definition exampleInfo :: smap where
  "exampleInfo = [(''kubernetes.io/config.seen'', ''today''), (''migration.io/app'', mName exampleApp), (''migration.io/mode'', ''normal'')]"

definition exampleHost :: host where
  "exampleHost = silentHost\<lparr>h_readFile := (\<lambda>_ _. Inr (podinfoFile exampleInfo))\<rparr>"

definition exampleEnv :: genv where
  "exampleEnv = (\<lambda>k. if k = ''POD_GENERATION'' then itoa (Generation (Status exampleApp)) else [])"

theorem agent_prefix_agrees_witness:
  "getS3Prefix (outcome (NewCheckpointManager exampleHost exampleEnv ''/checkpoints'' minioClient ''pod-0'' (pNodeName (examplePod ''redis-0'' ''node-a'' ''10.0.0.1'' 0)))) ''d1'' =
    dumpPrefix exampleApp (examplePod ''redis-0'' ''node-a'' ''10.0.0.1'' 0) ''d1''"
proof -
  have b: "pb_mapp (NewPodBuilder exampleApp) = exampleApp" by (simp add: NewPodBuilder_def)
  have "getS3Prefix (outcome (NewCheckpointManager exampleHost exampleEnv ''/checkpoints'' minioClient ''pod-0'' (pNodeName (examplePod ''redis-0'' ''node-a'' ''10.0.0.1'' 0)))) ''d1'' =
    dumpPrefix (pb_mapp (NewPodBuilder exampleApp)) (examplePod ''redis-0'' ''node-a'' ''10.0.0.1'' 0) ''d1''"
  proof (rule agent_prefix_agrees [where al = exampleInfo and env = "\<lambda>_. []" and mode = "''normal''"])
    show "mget exampleInfo ''migration.io/app'' =
        mget (pAnnotations (buildBasePod (\<lambda>_. []) (NewPodBuilder exampleApp) (Generation (Status (pb_mapp (NewPodBuilder exampleApp))))
          ''normal'')) ''migration.io/app''"
      by (simp add: buildBasePod_annotations baseMeta_annotations b) (simp add: exampleInfo_def mget_def)
    show "exampleEnv ''POD_GENERATION'' =
        mget (pAnnotations (buildBasePod (\<lambda>_. []) (NewPodBuilder exampleApp) (Generation (Status (pb_mapp (NewPodBuilder exampleApp))))
          ''normal'')) ''migration.io/generation''"
      by (simp add: buildBasePod_annotations baseMeta_annotations b exampleEnv_def)
  qed (simp_all add: NewPodBuilder_def exampleHost_def exampleInfo_def plainKey_def plainName_def exampleApp_def exampleStatus_def
      int64_min_def int64_max_def)
  then show ?thesis by (simp add: b)
qed

section \<open>From the source to the target\<close>

lemma plainPart_itoa: "plainPart (itoa i)"
proof -
  have d: "list_all is_digit (digits10 n)" for n by (rule digits10_digits)
  have "c \<in> set (itoa i) \<Longrightarrow> is_digit c \<or> c = CHR ''-''" for c
    using d [of "nat i"] d [of "nat (- i)"] by (auto simp: itoa_def list_all_iff split: if_splits)
  moreover have "\<not> is_digit (CHR ''/'')" "\<not> is_digit (CHR ''.'')" by (simp_all add: is_digit_def)
  ultimately have "CHR ''/'' \<notin> set (itoa i)" "CHR ''.'' \<notin> set (itoa i)" by force+
  moreover have "itoa i \<noteq> []" by (simp add: itoa_def)
  ultimately show ?thesis by (auto simp: plainPart_def)
qed

lemma getS3Prefix_pathOf: "getS3Prefix m i = pathOf False [cm_appName m, itoa (cm_generation m), cm_nodeName m, i]"
  by (simp add: getS3Prefix_def pathOf_def)

text \<open>
  C23. A file of a dump comes back at its place: a file below the directory of a dump on the source is stored under a key
  below the prefix of the dump; the restoring agent, which lists what is below that prefix without its last
  component, finds this key and puts it at the same place below the directory of the dump in its own work
  directory; and the key counts as a file of pages exactly if the file is one.
\<close>

theorem checkpoint_files_roundtrip:
  assumes "plainParts ws" and "plainParts ws'" and "plainPart i" and "list_all plainPart (qs @ [q])"
    and "plainPart (cm_appName m)" and "plainPart (cm_nodeName m)" and "cm_workDir m = pathOf r ws"
  shows "case uploadKey (joinPath (cm_workDir m) i) (getS3Prefix m i) (pathOf r (ws @ i # qs @ [q])) of
      Inl e \<Rightarrow> False
    | Inr key \<Rightarrow> hasPrefix key (chainBase (getS3Prefix m i)) \<and>
        downloadPath (chainBase (getS3Prefix m i)) (pathOf r' ws') key = pathOf r' (ws' @ i # qs @ [q]) \<and>
        isPagesFile (pathBase key) = isPagesFile q"
proof -
  let ?ps = "[cm_appName m, itoa (cm_generation m), cm_nodeName m]" let ?fs = "qs @ [q]"
  have dir: "joinPath (cm_workDir m) i = pathOf r (ws @ [i])"
    using assms joinPath_pathOf [of ws "[i]" r] by (simp add: pathOf_def)
  have pre: "getS3Prefix m i = pathOf False (?ps @ [i])" by (simp add: getS3Prefix_pathOf)
  have ps: "plainParts ?ps" using assms by (simp add: plainPart_itoa)
  have key: "uploadKey (pathOf r (ws @ [i])) (pathOf False (?ps @ [i])) (pathOf r (ws @ i # ?fs)) = Inr (pathOf False (?ps @ i # ?fs))"
    using assms ps uploadKey_pathOf [of "ws @ [i]" "?ps @ [i]" ?fs r] by simp
  have base: "chainBase (pathOf False (?ps @ [i])) = pathOf False ?ps @ ''/''"
    using chainBase_pathOf [OF ps assms(3)] by simp
  have under: "pathOf False (?ps @ i # ?fs) = (pathOf False ?ps @ ''/'') @ pathOf False (i # ?fs)"
    using pathOf_append [of ?ps "i # ?fs" False] by simp
  have "downloadPath (pathOf False ?ps @ ''/'') (pathOf r' ws') (pathOf False (?ps @ i # ?fs)) = pathOf r' (ws' @ i # ?fs)"
    using assms ps downloadPath_pathOf [of ?ps "i # ?fs" ws' r'] by simp
  moreover have "hasPrefix (pathOf False (?ps @ i # ?fs)) (pathOf False ?ps @ ''/'')"
    unfolding under by (rule hasPrefix_append)
  moreover have "pathBase (pathOf False (?ps @ i # ?fs)) = q"
    using assms ps pathBase_pathOf [of "?ps @ i # qs" q False] by simp
  ultimately show ?thesis
    unfolding dir pre key base by simp
qed

definition exampleManager :: checkpointManager where
  "exampleManager = outcome (NewCheckpointManager exampleHost exampleEnv ''/checkpoints'' minioClient ''pod-0'' ''node-a'')"

theorem checkpoint_files_roundtrip_witness:
  "uploadKey (joinPath (cm_workDir exampleManager) ''d1'') (getS3Prefix exampleManager ''d1'') ''/checkpoints/d1/pages-1.img'' =
     Inr ''redis/0/node-a/d1/pages-1.img'' \<and>
   downloadPath (chainBase (getS3Prefix exampleManager ''d1'')) ''/work'' ''redis/0/node-a/d1/pages-1.img'' = ''/work/d1/pages-1.img''"
proof -
  have m: "cm_workDir exampleManager = ''/checkpoints''" "cm_appName exampleManager = ''redis''"
    "cm_nodeName exampleManager = ''node-a''" "getS3Prefix exampleManager ''d1'' = ''redis/0/node-a/d1''"
    by code_simp+
  have key: "uploadKey ''/checkpoints/d1'' ''redis/0/node-a/d1'' ''/checkpoints/d1/pages-1.img'' = Inr ''redis/0/node-a/d1/pages-1.img''"
    by code_simp
  have dir: "joinPath ''/checkpoints'' ''d1'' = ''/checkpoints/d1''" by code_simp
  have "case uploadKey (joinPath (cm_workDir exampleManager) ''d1'') (getS3Prefix exampleManager ''d1'')
        (pathOf True ([''checkpoints''] @ ''d1'' # [] @ [''pages-1.img''])) of
      Inl e \<Rightarrow> False
    | Inr key \<Rightarrow> hasPrefix key (chainBase (getS3Prefix exampleManager ''d1'')) \<and>
        downloadPath (chainBase (getS3Prefix exampleManager ''d1'')) (pathOf True [''work'']) key =
          pathOf True ([''work''] @ ''d1'' # [] @ [''pages-1.img'']) \<and>
        isPagesFile (pathBase key) = isPagesFile ''pages-1.img''"
    by (rule checkpoint_files_roundtrip) (simp_all add: m plainPart_def pathOf_def)
  then show ?thesis unfolding m dir by (simp add: pathOf_def key)
qed

section \<open>A final dump is stored before it is reported\<close>

fun criuDump :: "hostEvent \<Rightarrow> bool" where
  "criuDump (HRun (c # v # args) None) = (c = ''criu'' \<and> v = ''dump'')"
| "criuDump (HStartCmd (c # v # args) (Inr pid)) = (c = ''criu'' \<and> v = ''dump'')"
| "criuDump _ = False"

text \<open>Somewhere in the log CRIU has dumped, and after that every regular file of the directory has been stored.\<close>

definition storedAfterDump :: "s3Client \<Rightarrow> string \<Rightarrow> string \<Rightarrow> hostEvent list \<Rightarrow> bool" where
  "storedAfterDump c dir prefix d \<longleftrightarrow>
     (\<exists>d0 d1 infos d2 d3. d = d0 @ d1 @ HFile (FWalk dir (Inr infos)) # d2 @ d3 \<and> list_ex criuDump d0 \<and>
        map (\<lambda>(b, k, p). (b, Inr k, p)) (storedIn d2) = uploadPlan fi_regular c dir prefix infos)"

lemma runFinalDump_post:
  "io_post (runFinalDump h strategy dir (''dump'' # args)) (\<lambda>r d.
     case r of Inl e \<Rightarrow> True | Inr (ps, cmd) \<Rightarrow> list_ex criuDump d \<and> (cmd \<noteq> None \<longleftrightarrow> servesPages strategy))"
proof -
  have wait: "io_post (waitForCheckpointFiles h dir t) (\<lambda>r d. True)" for t
    by (auto simp: waitForCheckpointFiles_def intro!: io_rules
        io_post_mono [OF io_post_pollUntil [where E = "\<lambda>_. True" and R = "\<lambda>_. True"]] simp: checkpointFilesThere_def)
  show ?thesis
    unfolding runFinalDump_def readLogFile_def by (auto intro!: io_rules io_post_mono [OF wait])
qed

lemma upload_stores:
  "io_post (UploadCheckpoint h c dir prefix) (\<lambda>r d. r = None \<longrightarrow>
     (\<exists>infos d2. d = HFile (FWalk dir (Inr infos)) # d2 \<and>
        map (\<lambda>(b, k, p). (b, Inr k, p)) (storedIn d2) = uploadPlan fi_regular c dir prefix infos))"
  unfolding UploadCheckpoint_def
  by (rule io_post_mono [OF uploadSelected_post])
    (auto split: list.splits hostEvent.splits fileEvent.splits sum.splits)

definition storesImages :: "genv \<Rightarrow> string \<Rightarrow> bool" where
  "storesImages getenv strategy \<longleftrightarrow>
     strategy \<in> set [''full'', ''lazy-storage'', ''lazy-direct'', ''lazy-hybrid''] \<and> \<not> directFinal getenv strategy"

lemma storeFinalDump_post:
  "io_post (storeFinalDump h getenv c strategy dir prefix) (\<lambda>r d. r = None \<and> storesImages getenv strategy \<longrightarrow>
     (\<exists>infos d2. d = HFile (FWalk dir (Inr infos)) # d2 \<and>
        map (\<lambda>(b, k, p). (b, Inr k, p)) (storedIn d2) = uploadPlan fi_regular c dir prefix infos))"
  unfolding storeFinalDump_def storesImages_def directFinal_def servesPages_def
  by (auto intro!: io_rules io_post_mono [OF upload_stores] io_post_mono [OF uploadAgentMetadata_quiet])

definition imagesStored :: "s3Client \<Rightarrow> string \<Rightarrow> string \<Rightarrow> hostEvent list \<Rightarrow> bool" where
  "imagesStored c dir prefix d \<longleftrightarrow>
     (\<exists>d1 infos d2 d3. d = d1 @ HFile (FWalk dir (Inr infos)) # d2 @ d3 \<and>
        map (\<lambda>(b, k, p). (b, Inr k, p)) (storedIn d2) = uploadPlan fi_regular c dir prefix infos)"

lemma imagesStoredI:
  "map (\<lambda>(b, k, p). (b, Inr k, p)) (storedIn d2) = uploadPlan fi_regular c dir prefix infos \<Longrightarrow>
   imagesStored c dir prefix (d1 @ e # HFile (FWalk dir (Inr infos)) # d2 @ d3)"
  unfolding imagesStored_def by (rule exI [of _ "d1 @ [e]"]) fastforce

lemma finishFinalDump_post:
  "io_post (finishFinalDump h getenv m strategy i mounts pipes ps) (\<lambda>r d.
     case r of Inl e \<Rightarrow> True
     | Inr res \<Rightarrow> cr_DumpID res = i \<and> cr_PageServerPID res = ps \<and>
         (storesImages getenv strategy \<longrightarrow> imagesStored (cm_s3 m) (joinPath (cm_workDir m) i) (getS3Prefix m i) d))"
proof -
  have quiet: "io_post (getDirectorySize h dir) (\<lambda>r d. True)" "io_post (uploadLogs h getenv c dir prefix) (\<lambda>r d. True)" for dir c prefix
    by (auto intro: io_post_mono [OF getDirectorySize_quiet] io_post_mono [OF uploadLogs_quiet])
  show ?thesis
    unfolding finishFinalDump_def Let_def
    by (auto intro!: io_rules io_post_mono [OF quiet(1)] io_post_mono [OF quiet(2)] io_post_mono [OF storeFinalDump_post]
        simp: imagesStoredI)
qed

lemma storedAfterDumpI:
  "list_ex criuDump d0 \<Longrightarrow> imagesStored c dir prefix d \<Longrightarrow> storedAfterDump c dir prefix (d' @ d0 @ d)"
  unfolding storedAfterDump_def imagesStored_def
  by (elim exE conjE, rule exI [of _ "d' @ d0"]) fastforce

text \<open>What a successful final dump leaves behind: a name, a page server for two strategies, and the images in the storage.\<close>

definition dumpDone :: "genv \<Rightarrow> checkpointManager \<Rightarrow> string \<Rightarrow> string + checkpointResult \<times> int option \<Rightarrow> hostEvent list \<Rightarrow> bool" where
  "dumpDone getenv m strategy r d \<longleftrightarrow>
     (case r of
        Inl e \<Rightarrow> True
      | Inr (res, cmd) \<Rightarrow> cr_DumpID res \<noteq> [] \<and> (cmd \<noteq> None \<longleftrightarrow> servesPages strategy) \<and>
          (storesImages getenv strategy \<longrightarrow>
             storedAfterDump (cm_s3 m) (joinPath (cm_workDir m) (cr_DumpID res)) (getS3Prefix m (cr_DumpID res)) d))"

lemma cmFinalDump_done:
  "io_post (cmFinalDump h getenv m pid port parent excl strategy) (\<lambda>r d. dumpDone getenv m strategy r d)"
proof -
  have q: "io_post (getExternalMounts h pid) (\<lambda>r d. True)" "io_post (recordPipes h pid) (\<lambda>r d. True)"
    "\<And>dir ps. io_post (persistPipes h dir ps) (\<lambda>r d. True)" "\<And>p. io_post (parentArgs h m p) (\<lambda>r d. True)"
    "\<And>x dir. io_post (appendExcludeArgs h x dir) (\<lambda>r d. True)" "io_post (generateDumpID h) (\<lambda>r d. r \<noteq> [])"
    unfolding getExternalMounts_def recordPipes_def persistPipes_def
    by (auto intro!: io_rules intro: io_post_mono [OF parentArgs_quiet] io_post_mono [OF appendExcludeArgs_quiet]
        io_post_mono [OF generateDumpID_post])
  have args: "finalDumpArgs getenv m pid port strategy i ns mounts @ rest =
      ''dump'' # tl (finalDumpArgs getenv m pid port strategy i ns mounts) @ rest" for i ns mounts rest
    by (simp add: finalDumpArgs_def Let_def)
  show ?thesis
    unfolding cmFinalDump_def Let_def args dumpDone_def
    by (auto intro!: io_rules io_post_mono [OF q(1)] io_post_mono [OF q(2)] io_post_mono [OF q(3)] io_post_mono [OF q(4)]
        io_post_mono [OF q(5)] io_post_mono [OF q(6)] io_post_mono [OF runFinalDump_post] io_post_mono [OF finishFinalDump_post]
        split: sum.splits)
      (metis append.assoc append_Cons storedAfterDumpI)+
qed

text \<open>
  C14. A final dump that is reported as done is in the storage: when CRIU does not upload by itself and the strategy is one of
  the four, a successful result means that CRIU has dumped and that after it every regular file of the
  directory of the dump has been stored under the prefix of the dump. A page server is left running exactly for the two strategies that use one.
\<close>

theorem final_dump_stored:
  "io_post (cmFinalDump h getenv m pid port parent excl strategy) (\<lambda>r d.
     case r of
       Inl e \<Rightarrow> True
     | Inr (res, cmd) \<Rightarrow> (cmd \<noteq> None \<longleftrightarrow> servesPages strategy) \<and>
         (if storesImages getenv strategy
          then storedAfterDump (cm_s3 m) (joinPath (cm_workDir m) (cr_DumpID res)) (getS3Prefix m (cr_DumpID res)) d
          else True))"
  by (rule io_post_mono [OF cmFinalDump_done]) (auto simp: dumpDone_def split: sum.splits)

section \<open>A pre-dump does not wait for the storage\<close>

fun storeEv :: "hostEvent \<Rightarrow> bool" where
  "storeEv (HStore e) = True"
| "storeEv _ = False"

lemma unstored_parts:
  "io_post (getDirectorySize h dir) (\<lambda>r d. filter storeEv d = [])"
  "io_post (sumPages h fs n) (\<lambda>r d. filter storeEv d = [])"
  "io_post (writeRanges h path rs) (\<lambda>r d. filter storeEv d = [])"
proof -
  show "io_post (getDirectorySize h dir) (\<lambda>r d. filter storeEv d = [])"
    unfolding getDirectorySize_def by (auto intro!: io_rules)
  show "io_post (sumPages h fs n) (\<lambda>r d. filter storeEv d = [])"
  proof (induction fs arbitrary: n)
    case (Cons f fs)
    then show ?case by (auto intro!: io_rules io_post_mono [OF Cons.IH])
  qed (auto intro!: io_rules)
  show "io_post (writeRanges h path rs) (\<lambda>r d. filter storeEv d = [])"
  proof (induction rs)
    case (Cons r rs)
    then show ?case by (auto intro!: io_rules io_post_mono [OF Cons.IH])
  qed (auto intro!: io_rules)
qed

text \<open>
  Without direct uploads and log uploads a pre-dump reports its checkpoint before anything of it is stored: its log has no storage
  interaction, only the start of the goroutine, whose errors nobody sees.
\<close>

lemma predump_upload_pending:
  assumes "\<not> directUploadOn getenv" and "getenv ''LOG_UPLOAD'' \<noteq> ''true''"
  shows "io_post (cmPreCheckpoint h getenv m pid parent excl) (\<lambda>(r, m') d. filter storeEv d = [] \<and>
     (case r of Inl e \<Rightarrow> True
      | Inr res \<Rightarrow> HGoUpload (joinPath (cm_workDir m) (cr_DumpID res)) (getS3Prefix m (cr_DumpID res)) \<in> set d))"
  using assms
  unfolding cmPreCheckpoint_def recordPreDump_def generateDumpID_def parentArgs_def appendExcludeArgs_def writeExcludeFile_def
    countPages_def uploadLogs_def
  by (auto intro!: io_rules io_post_mono [OF unstored_parts(1)] io_post_mono [OF unstored_parts(2)] io_post_mono [OF unstored_parts(3)])

section \<open>The chain of checkpoints\<close>

text \<open>The operations that change the chain: a pre-dump with any outcome, and a reset.\<close>

inductive cmStep :: "checkpointManager \<Rightarrow> checkpointManager \<Rightarrow> bool" where
  preDump: "cmStep m (snd (outcome (cmPreCheckpoint h getenv m pid parent excl)))"
| reset: "cmStep m (ResetChain m)"

inductive_cases cmStepE: "cmStep m m'"

definition chainWf :: "checkpointManager \<Rightarrow> bool" where
  "chainWf m \<longleftrightarrow> cm_chainDepth m \<ge> 0 \<and> (cm_chainDepth m = 0 \<longleftrightarrow> cm_chainRoot m = []) \<and>
     (cm_chainRoot m = [] \<or> cm_lastCheckpointID m \<noteq> [])"

lemma PreCheckpoint_outcome:
  "let m' = snd (outcome (cmPreCheckpoint h getenv m pid parent excl)) in m' = m \<or> (\<exists>i. i \<noteq> [] \<and> m' = chained m i)"
  using io_post_run [OF cmPreCheckpoint_post [of h getenv m pid parent excl]]
  by (auto simp: Let_def split: prod.splits sum.splits)

lemma cmStep_chainWf: "chainWf m \<Longrightarrow> cmStep m m' \<Longrightarrow> chainWf m'"
proof (erule cmStepE)
  fix h getenv pid parent excl
  assume "chainWf m" and "m' = snd (outcome (cmPreCheckpoint h getenv m pid parent excl))"
  then show "chainWf m'"
    using PreCheckpoint_outcome [of h getenv m pid parent excl] by (auto simp: Let_def chainWf_def chained_def)
qed (simp add: chainWf_def ResetChain_def)

lemma cmStep_identity: "cmStep m m' \<Longrightarrow> cm_appName m' = cm_appName m \<and> cm_generation m' = cm_generation m \<and> cm_nodeName m' = cm_nodeName m \<and> cm_workDir m' = cm_workDir m"
proof (erule cmStepE)
  fix h getenv pid parent excl
  assume "m' = snd (outcome (cmPreCheckpoint h getenv m pid parent excl))"
  then show ?thesis
    using PreCheckpoint_outcome [of h getenv m pid parent excl] by (auto simp: Let_def chained_def)
qed (simp add: ResetChain_def)

definition freshManager :: "checkpointManager \<Rightarrow> bool" where
  "freshManager m \<longleftrightarrow> (\<exists>h getenv workDir s3 podName nodeName. m = outcome (NewCheckpointManager h getenv workDir s3 podName nodeName))"

lemma NewCheckpointManager_chain: "io_post (NewCheckpointManager h getenv workDir s3 podName nodeName) (\<lambda>m d. chainWf m)"
  unfolding NewCheckpointManager_def by (auto intro!: io_rules simp: chainWf_def)

interpretation chain: invariant_system freshManager cmStep chainWf
proof
  show "chainWf m" if "freshManager m" for m
    using that io_post_run [OF NewCheckpointManager_chain] by (auto simp: freshManager_def)
qed (rule cmStep_chainWf)

text \<open>
  In every state that a checkpoint manager can reach the chain is consistent: its depth is never negative, it has a root
  exactly if its depth is not zero, and then there is a last checkpoint to continue from.
\<close>

theorem manager_chain_invariant:
  assumes "reachable freshManager cmStep m"
  shows "cm_chainDepth m \<ge> 0 \<and> (cm_chainDepth m = 0 \<longleftrightarrow> cm_chainRoot m = []) \<and> (cm_chainRoot m = [] \<or> cm_lastCheckpointID m \<noteq> [])"
  using chain.inv_reachable [OF assms] by (simp add: chainWf_def)

theorem manager_chain_invariant_witness:
  "cm_chainDepth (snd (outcome (cmPreCheckpoint silentHost exampleEnv exampleManager 42 [] None))) = 1 \<and>
   cm_chainRoot (snd (outcome (cmPreCheckpoint silentHost exampleEnv exampleManager 42 [] None))) \<noteq> []"
proof -
  let ?m = "snd (outcome (cmPreCheckpoint silentHost exampleEnv exampleManager 42 [] None))"
  have "reachable freshManager cmStep ?m"
    by (rule reach_step, rule reach_init, unfold freshManager_def exampleManager_def, blast, rule preDump)
  from manager_chain_invariant [OF this] have "cm_chainDepth ?m = 0 \<longleftrightarrow> cm_chainRoot ?m = []" by blast
  moreover have "cm_chainDepth ?m = 1" by code_simp
  ultimately show ?thesis by simp
qed

section \<open>The areas left out of a dump\<close>

definition hexVal :: "char \<Rightarrow> nat option" where
  "hexVal c =
     (let n = of_char c :: nat in
      if 48 \<le> n \<and> n \<le> 57 then Some (n - 48) else if 97 \<le> n \<and> n \<le> 102 then Some (n - 87) else None)"

text \<open>A number in hexadecimal digits as CRIU reads it.\<close>

fun readHex :: "nat \<Rightarrow> string \<Rightarrow> nat option" where
  "readHex acc [] = Some acc"
| "readHex acc (c # s) = (case hexVal c of None \<Rightarrow> None | Some v \<Rightarrow> readHex (16 * acc + v) s)"

lemma hexVal_hexDigit: "n < 16 \<Longrightarrow> hexVal (hexDigit n) = Some n"
  by (auto simp: hexVal_def hexDigit_def Let_def of_char_of)

lemma readHex_append: "readHex acc (s @ s') = (case readHex acc s of None \<Rightarrow> None | Some v \<Rightarrow> readHex v s')"
  by (induction acc s rule: readHex.induct) (auto split: option.splits)

lemma readHex_hexOf: "readHex 0 (hexOf n) = Some n"
proof (induction n rule: hexOf.induct)
  case (1 n)
  show ?case
  proof (cases "n < 16")
    case True
    then show ?thesis by (subst hexOf.simps) (simp add: hexVal_hexDigit)
  next
    case False
    then show ?thesis using 1 by (subst hexOf.simps) (simp add: readHex_append hexVal_hexDigit)
  qed
qed

interpretation hex_codec: codec hexOf "readHex 0" Some "\<lambda>_. True"
  by unfold_locales (auto simp: readHex_hexOf)

lemma hexDigit_not_colon: "n < 16 \<Longrightarrow> hexDigit n \<noteq> CHR '':''"
  using hexVal_hexDigit [of n] by (auto simp: hexVal_def Let_def)

lemma hexOf_no_colon: "CHR '':'' \<notin> set (hexOf n)"
proof (induction n rule: hexOf.induct)
  case (1 n)
  then show ?case
    by (subst hexOf.simps) (auto simp: hexDigit_not_colon [symmetric] dest: hexDigit_not_colon)
qed

definition readRange :: "string \<Rightarrow> addrRange option" where
  "readRange s =
     (case split '':'' s of
        [a, b] \<Rightarrow> (case (readHex 0 a, readHex 0 b) of (Some x, Some y) \<Rightarrow> Some \<lparr>ar_Start = x, ar_End = y\<rparr> | _ \<Rightarrow> None)
      | _ \<Rightarrow> None)"

lemma readRange_text: "readRange (rangeText '':'' r) = Some r"
proof -
  have "split '':'' (rangeText '':'' r) = [hexOf (ar_Start r), hexOf (ar_End r)]"
    using split_join [of "[hexOf (ar_Start r), hexOf (ar_End r)]" "CHR '':''" "[]"] by (simp add: rangeText_def hexOf_no_colon)
  then show ?thesis by (simp add: readRange_def readHex_hexOf)
qed

text \<open>The ranges that a list of options with one value each gives for a flag.\<close>

fun flagRanges :: "string \<Rightarrow> string list \<Rightarrow> addrRange option list" where
  "flagRanges flag (f # v # args) = (if f = flag then readRange v # flagRanges flag args else flagRanges flag args)"
| "flagRanges flag _ = []"

lemma flagRanges_rangeArgs:
  "flagRanges flag (rangeArgs flag' rs @ args) = (if flag' = flag then map Some rs else []) @ flagRanges flag args"
  by (induction rs) (auto simp: rangeArgs_def readRange_text)

lemmas flagRanges_simps = flagRanges_rangeArgs flagRanges_rangeArgs [where args = "[]", simplified]

lemma rangeArgs_file: "''--exclude-file'' \<notin> set (rangeArgs ''--no-parent-range'' rs)"
proof -
  have "rangeText '':'' r \<noteq> ''--exclude-file''" for r
  proof
    assume "rangeText '':'' r = ''--exclude-file''"
    then have "readRange ''--exclude-file'' = Some r" by (metis readRange_text)
    moreover have "readRange ''--exclude-file'' = None" by code_simp
    ultimately show False by simp
  qed
  then have "''--exclude-file'' \<noteq> rangeText '':'' r" for r by metis
  then show ?thesis by (auto simp: rangeArgs_def)
qed


section \<open>Old checkpoints\<close>

text \<open>
  The cleanup of old checkpoints does not look at their age: it removes all but the first directories in the order of
  the names, which begin with random digits.
\<close>

fun removedIn :: "hostEvent list \<Rightarrow> string list" where
  "removedIn [] = []"
| "removedIn (HFile (FRemoveAll p r) # d) = p # removedIn d"
| "removedIn (e # d) = removedIn d"

lemma cleanup_by_name:
  "io_post (CleanupOldCheckpoints h m (int n)) (\<lambda>r d. case d of
     HReadDir p (Inr entries) # d' \<Rightarrow> r = None \<and>
       removedIn d' = map (joinPath (cm_workDir m)) (drop n (map fst (filter snd entries)))
   | _ \<Rightarrow> r \<noteq> None)"
proof -
  have loop: "io_post (forEach names (\<lambda>name. do { _ \<leftarrow> hRemoveAll h (joinPath dir name); State_Monad.return () }))
      (\<lambda>r d. removedIn d = map (joinPath dir) names)" for names dir
  proof (induction names)
    case (Cons x xs)
    then show ?case by (auto intro!: io_rules io_post_mono [OF Cons.IH])
  qed (auto intro!: io_rules)
  show ?thesis
    unfolding CleanupOldCheckpoints_def Let_def by (auto intro!: io_rules io_post_mono [OF loop])
qed

end
