(* ===== verification/AgentProps.thy ===== *)
theory AgentProps
  imports AgentMigrate RestoreProps CheckpointProps
begin

text \<open>
  What the agent promises across its handlers: no dump while pages are transferred, the release of the profiler and of the old page server before
  the final dump, the hot regions stored beside the images, the end of old processes before a restore, the process that an agent
  follows after a restore, and the start of the agent of a restore pod.
\<close>

section \<open>Requests without a dump\<close>

lemma findByName_quiet [quiet_posts]: "io_post (findByName h ns) (\<lambda>r d. quiet d)"
proof (induction ns)
  case (Cons n ns)
  show ?case by (auto intro!: io_rules io_post_mono [OF Cons.IH])
qed (auto intro!: io_rules)

lemma FindMainProcessPID_quiet [quiet_posts]: "io_post (FindMainProcessPID h a) (\<lambda>r d. quiet d)"
  unfolding FindMainProcessPID_def by (auto intro!: io_rules io_post_mono [OF findByName_quiet])

lemma needMainPID_quiet [quiet_posts]: "io_post (needMainPID h a) (\<lambda>r d. quiet d)"
  unfolding needMainPID_def by (auto intro!: io_rules io_post_mono [OF FindMainProcessPID_quiet])

lemma profilerClose_quiet [quiet_posts]: "io_post (profilerClose p) (\<lambda>r d. quiet d)"
  unfolding profilerClose_def Let_def by (auto intro!: io_rules)

lemma profilerStart_quiet [quiet_posts]: "io_post (profilerStart h p) (\<lambda>r d. quiet d)"
  unfolding profilerStart_def startLoop_def by (auto intro!: io_rules io_post_mono [OF profilerClose_quiet])

lemma killCmd_quiet [quiet_posts]: "io_post (killCmd h cmd) (\<lambda>r d. quiet d)"
  unfolding killCmd_def by (auto intro!: io_rules)

lemma adoptProcess_quiet [quiet_posts]: "io_post (adoptProcess h res a) (\<lambda>(res', a') d. quiet d \<and> lazyPagesActive a' = lazyPagesActive a)"
  unfolding adoptProcess_def by (auto intro!: io_rules io_post_mono [OF FindMainProcessPID_quiet] split: sum.splits)

lemma StartProfiling_quiet [quiet_posts]:
  "io_post (StartProfiling h getenv fl a cfg) (\<lambda>(r, a') d. quiet d \<and> lazyPagesActive a' = lazyPagesActive a)"
  unfolding StartProfiling_def
  by (auto intro!: io_rules io_post_mono [OF needMainPID_quiet] io_post_mono [OF profilerStart_quiet]
      simp: newScheduler_def Let_def split: option.splits if_splits)

lemma agentRestore_quiet [quiet_posts]:
  "io_post (agentRestore h getenv fl a req) (\<lambda>(r, a') d. quiet d \<and>
     (case r of Inl e \<Rightarrow> a' = a | Inr resp \<Rightarrow> lazyPagesActive a' = (lazyPagesActive a \<or> restoreStrategy req \<noteq> ''full'')))"
  unfolding agentRestore_def Let_def
  by (auto intro!: io_rules io_post_mono [OF killCmd_quiet] io_post_mono [OF rmRestore_quiet] io_post_mono [OF adoptProcess_quiet])

section \<open>No dump while pages are transferred\<close>

text \<open>The requests that the gRPC server hands to the agent; \<open>waiting\<close> is that of \<open>dropScheduler\<close>.\<close>

datatype rpc =
    RpcPreCheckpoint preCheckpointRequest
  | RpcFinalDump bool finalDumpRequest
  | RpcRestore restoreRequest
  | RpcGetStatus
  | RpcCheckPageServer int
  | RpcStartProfiling profilerConfig
  | RpcStopProfiling
  | RpcGetHotRegions

fun serve :: "host \<Rightarrow> genv \<Rightarrow> floatLib \<Rightarrow> (rat \<Rightarrow> string) \<Rightarrow> rpc \<Rightarrow> agentState \<Rightarrow> agentState hprog" where
  "serve h getenv fl fmtFloat (RpcPreCheckpoint req) a = do { (_, a') \<leftarrow> agentPreCheckpoint h getenv a req; State_Monad.return a' }"
| "serve h getenv fl fmtFloat (RpcFinalDump waiting req) a = do { (_, a') \<leftarrow> agentFinalDump h getenv fmtFloat waiting a req; State_Monad.return a' }"
| "serve h getenv fl fmtFloat (RpcRestore req) a = do { (_, a') \<leftarrow> agentRestore h getenv fl a req; State_Monad.return a' }"
| "serve h getenv fl fmtFloat RpcGetStatus a = do { (_, a') \<leftarrow> agentGetStatus h a; State_Monad.return a' }"
| "serve h getenv fl fmtFloat (RpcCheckPageServer pid) a = do { _ \<leftarrow> agentCheckPageServer h pid; State_Monad.return a }"
| "serve h getenv fl fmtFloat (RpcStartProfiling cfg) a = do { (_, a') \<leftarrow> StartProfiling h getenv fl a cfg; State_Monad.return a' }"
| "serve h getenv fl fmtFloat RpcStopProfiling a = StopProfiling a"
| "serve h getenv fl fmtFloat RpcGetHotRegions a = do { _ \<leftarrow> agentGetHotRegions h a; State_Monad.return a }"

fun serveAll :: "host \<Rightarrow> genv \<Rightarrow> floatLib \<Rightarrow> (rat \<Rightarrow> string) \<Rightarrow> rpc list \<Rightarrow> agentState \<Rightarrow> agentState hprog" where
  "serveAll h getenv fl fmtFloat [] a = State_Monad.return a"
| "serveAll h getenv fl fmtFloat (c # cs) a = do { a' \<leftarrow> serve h getenv fl fmtFloat c a; serveAll h getenv fl fmtFloat cs a' }"

lemma serve_transferring:
  assumes "lazyPagesActive a"
  shows "io_post (serve h getenv fl fmtFloat c a) (\<lambda>a' d. quiet d \<and> lazyPagesActive a')"
  using assms
  by (cases c) (auto intro!: io_rules io_post_mono [OF agentRestore_quiet] io_post_mono [OF StartProfiling_quiet]
      io_post_mono [OF FindMainProcessPID_quiet] io_post_mono [OF profilerClose_quiet]
      simp: agentPreCheckpoint_def agentFinalDump_def agentGetStatus_def agentCheckPageServer_def StopProfiling_def
        agentGetHotRegions_def Let_def split: sum.splits)

lemma serveAll_transferring:
  "lazyPagesActive a \<Longrightarrow> io_post (serveAll h getenv fl fmtFloat cs a) (\<lambda>a' d. quiet d \<and> lazyPagesActive a')"
proof (induction cs arbitrary: a)
  case (Cons c cs)
  show ?case
    by (auto intro!: io_rules io_post_mono [OF serve_transferring [OF Cons.prems]] io_post_mono [OF Cons.IH])
qed (auto intro!: io_rules)


section \<open>The final dump\<close>

lemma uploadSelected_quiet [quiet_posts]: "io_post (uploadSelected sel h c dir prefix) (\<lambda>r d. quiet d)"
proof -
  have "io_post (uploadSingleFile h c dir prefix f) (\<lambda>r d. quiet d)" for f
    unfolding uploadSingleFile_def by (auto intro!: io_rules)
  then show ?thesis
    unfolding uploadSelected_def uploadFilesParallel_def by (auto intro!: io_rules io_post_mono [OF tryAll_all])
qed

lemma storeFinalDump_quiet [quiet_posts]: "io_post (storeFinalDump h getenv c strategy dir prefix) (\<lambda>r d. quiet d)"
  unfolding storeFinalDump_def UploadCheckpoint_def
  by (auto intro!: io_rules io_post_mono [OF uploadAgentMetadata_quiet] io_post_mono [OF uploadSelected_quiet])

lemma finishFinalDump_quiet [quiet_posts]: "io_post (finishFinalDump h getenv m strategy i mounts pipes ps) (\<lambda>r d. quiet d)"
  unfolding finishFinalDump_def Let_def
  by (auto intro!: io_rules io_post_mono [OF getDirectorySize_quiet] io_post_mono [OF storeFinalDump_quiet] io_post_mono [OF uploadLogs_quiet])

lemma waitForCheckpointFiles_quiet [quiet_posts]: "io_post (waitForCheckpointFiles h dir timeout) (\<lambda>r d. quiet d)"
proof -
  have p: "io_post (pollUntil h t i (checkpointFilesThere h dir)) (\<lambda>r d. quiet d)" for t i
    by (rule io_post_loop [where Q = "\<lambda>r d. quiet d"]) (auto simp: checkpointFilesThere_def intro!: io_rules)
  show ?thesis unfolding waitForCheckpointFiles_def by (auto intro!: io_rules io_post_mono [OF p])
qed

lemma runFinalDump_quiet [quiet_posts]: "io_post (runFinalDump h strategy dir args) (\<lambda>r d. quiet d)"
  unfolding runFinalDump_def readLogFile_def by (auto intro!: io_rules io_post_mono [OF waitForCheckpointFiles_quiet])

lemma cmFinalDump_call:
  "io_post (cmFinalDump h getenv m pid port parent excl strategy) (\<lambda>r d. \<exists>d'. d = HFinalDump pid parent excl strategy # d' \<and> quiet d')"
  unfolding cmFinalDump_def getExternalMounts_def recordPipes_def persistPipes_def
  by (auto intro!: io_rules io_post_mono [OF generateDumpID_post] io_post_mono [OF parentArgs_quiet] io_post_mono [OF appendExcludeArgs_quiet]
      io_post_mono [OF runFinalDump_quiet] io_post_mono [OF finishFinalDump_quiet])

lemma CleanupBeforeCRIU_quiet [quiet_posts]: "io_post (CleanupBeforeCRIU h p) (\<lambda>r d. quiet d)"
  unfolding CleanupBeforeCRIU_def Let_def
  by (rule io_post_bind, rule io_post_mono [OF io_post_forEach [where P = "\<lambda>e. \<not> dumpCall e"]]) (auto intro!: io_rules)

lemma awaitUntraced_quiet [quiet_posts]: "io_post (awaitUntraced h pid) (\<lambda>r d. quiet d)"
proof -
  have p: "io_post (pollUntil h t i (untraced h pid)) (\<lambda>r d. quiet d)" for t i
    by (rule io_post_loop [where Q = "\<lambda>r d. quiet d"]) (auto simp: untraced_def intro!: io_rules)
  show ?thesis unfolding awaitUntraced_def by (auto intro!: io_rules io_post_mono [OF p])
qed

text \<open>What the release of the profiler reads from it, and that it closes the descriptor in the target.\<close>

definition released :: "profiler option \<Rightarrow> criuExcludeArgs option \<Rightarrow> hotRegion list \<Rightarrow> hostEvent list \<Rightarrow> bool" where
  "released prof excl hot d \<longleftrightarrow> quiet d \<and>
     excl = map_option (\<lambda>p. \<lparr>ExcludeRanges = map hotRange (GetHotRegions p), NoParentRanges = []\<rparr>) prof \<and>
     hot = (case prof of None \<Rightarrow> [] | Some p \<Rightarrow> GetHotRegions p) \<and>
     (case prof of None \<Rightarrow> True | Some p \<Rightarrow> targetUffdFd p < 0 \<or> list_ex (closesTarget (p_pid p) (targetUffdFd p)) d)"

lemma releasedD:
  "released prof excl hot d \<Longrightarrow> quiet d"
  "released prof excl hot d \<Longrightarrow> excl = map_option (\<lambda>p. \<lparr>ExcludeRanges = map hotRange (GetHotRegions p), NoParentRanges = []\<rparr>) prof"
  by (simp_all add: released_def)

lemma releaseProfiler_post:
  "io_post (releaseProfiler h a) (\<lambda>(excl, hot, details, a') d. a' = a\<lparr>profilerInst := None\<rparr> \<and> released (profilerInst a) excl hot d)"
  unfolding releaseProfiler_def released_def
  by (auto intro!: io_rules io_post_mono [OF io_post_conj [OF CleanupBeforeCRIU_quiet CleanupBeforeCRIU_post]]
      io_post_mono [OF profilerClose_quiet] io_post_mono [OF awaitUntraced_quiet])

lemma saveProfile_post:
  "io_post (saveProfile h fmtFloat cm i hot details) (\<lambda>r d. quiet d \<and>
     (hot = [] \<or> (\<exists>e. HFile (FWriteFile (joinPath (joinPath (cm_workDir cm) i) ''hot-iovs.json'') (hotIOVsJSON hot) e) \<in> set d)))"
  unfolding saveProfile_def saveVMAMetadata_def saveHotIOVsJSON_def Let_def
  by (auto intro!: io_rules io_post_mono [OF uploadAgentMetadata_quiet])

fun killsPid :: "int \<Rightarrow> hostEvent \<Rightarrow> bool" where
  "killsPid pid (HKill p r) \<longleftrightarrow> p = pid"
| "killsPid pid _ \<longleftrightarrow> False"

definition killEvents :: "int option \<Rightarrow> string option \<Rightarrow> hostEvent list" where
  "killEvents cmd e = (case cmd of None \<Rightarrow> [] | Some pid \<Rightarrow> [HKill pid e])"

lemma killCmd_post: "io_post (killCmd h cmd) (\<lambda>r d. \<exists>e. d = killEvents cmd e)"
  unfolding killCmd_def by (auto intro!: io_rules simp: killEvents_def)

lemma killEvents_quiet [simp]: "quiet (killEvents cmd e)"
  by (auto simp: killEvents_def split: option.splits)

text \<open>What is asked of CRIU in a final dump of the agent.\<close>

fun asksFinalDump :: "agentState \<Rightarrow> finalDumpRequest \<Rightarrow> agentState \<Rightarrow> hostEvent \<Rightarrow> bool" where
  "asksFinalDump a req a' (HFinalDump pid parent excl strategy) \<longleftrightarrow> lazyPagesActive a = False \<and> pid = aPID a' \<and>
     parent = fdq_ParentDumpId req \<and> strategy = orDefault ''lazy-hybrid'' (fdq_MigrationStrategy req) \<and>
     excl = map_option (\<lambda>p. \<lparr>ExcludeRanges = map hotRange (GetHotRegions p), NoParentRanges = []\<rparr>) (profilerInst a) \<and>
     profilerInst a' = None \<and> a_scheduler a' = None"
| "asksFinalDump a req a' (HPreDump pid parent excl) \<longleftrightarrow> False"
| "asksFinalDump a req a' _ \<longleftrightarrow> True"

lemma quiet_asks: "quiet d \<Longrightarrow> list_all (asksFinalDump a req a') d"
  by (induction d) (auto elim: dumpCall.elims(3))

lemma quiet_count: "quiet d \<Longrightarrow> count dumpCall d = 0"
  by (induction d) auto

lemma quiet_guarded: "quiet d \<Longrightarrow> guardedBy G dumpCall d"
  by (rule guardedBy_none)

definition releasedFirst :: "agentState \<Rightarrow> hostEvent list \<Rightarrow> bool" where
  "releasedFirst a d \<longleftrightarrow>
     (case profilerInst a of None \<Rightarrow> True | Some p \<Rightarrow> targetUffdFd p < 0 \<or> guardedBy (closesTarget (p_pid p) (targetUffdFd p)) dumpCall d) \<and>
     (case pageServerCmd a of None \<Rightarrow> True | Some c \<Rightarrow> guardedBy (killsPid c) dumpCall d)"

lemma releasedFirst_quiet: "quiet d \<Longrightarrow> releasedFirst a d"
  by (auto simp: releasedFirst_def quiet_guarded split: option.splits)

lemma releasedFirstI:
  assumes "quiet d0" and "released (profilerInst a) excl hot d2"
  shows "releasedFirst a (d0 @ killEvents (pageServerCmd a) e @ d2 @ d3)"
proof -
  let ?d1 = "killEvents (pageServerCmd a) e"
  have q: "quiet d2" "quiet (d0 @ ?d1)" using assms by (simp_all add: released_def)
  then have "guardedBy G dumpCall (d0 @ ?d1 @ d2 @ d3)" if "list_ex G d2" for G
    using guardedBy_skip [OF q(2) guardedBy_after [OF q(1) that]] by simp
  moreover have "guardedBy (killsPid c) dumpCall (d0 @ ?d1 @ d2 @ d3)" if "pageServerCmd a = Some c" for c
    using that assms(1) by (auto simp: killEvents_def intro: guardedBy_skip)
  ultimately show ?thesis using assms(2) by (auto simp: releasedFirst_def released_def split: option.splits)
qed

lemma dropScheduler_sel [simp]:
  "profilerInst (dropScheduler w a) = profilerInst a" "pageServerCmd (dropScheduler w a) = pageServerCmd a" "a_proc (dropScheduler w a) = a_proc a"
  "a_scheduler (dropScheduler w a) = None" "a_cm (dropScheduler w a) = a_cm a" "lazyPagesActive (dropScheduler w a) = lazyPagesActive a"
  by (auto simp: dropScheduler_def split: option.splits)

text \<open>The hot regions are written to the directory of the dump after it.\<close>

definition hotIOVsSaved :: "agentState \<Rightarrow> (string + finalDumpResponse) \<Rightarrow> hostEvent list \<Rightarrow> bool" where
  "hotIOVsSaved a r d \<longleftrightarrow>
     (case (r, profilerInst a) of
        (Inr resp, Some p) \<Rightarrow> GetHotRegions p = [] \<or>
          (\<exists>d1 d2 e. d = d1 @ HFile (FWriteFile (joinPath (joinPath (cm_workDir (a_cm a)) (DumpId resp)) ''hot-iovs.json'')
                                     (hotIOVsJSON (GetHotRegions p)) e) # d2 \<and> list_ex dumpCall d1 \<and> quiet d2)
      | _ \<Rightarrow> True)"

lemma hotIOVsSavedI:
  assumes "released (profilerInst a) excl hot d2"
    and "hot = [] \<or> (\<exists>e. HFile (FWriteFile (joinPath (joinPath (cm_workDir (a_cm a)) (cr_DumpID res)) ''hot-iovs.json'') (hotIOVsJSON hot) e) \<in> set d4)"
    and "quiet d4"
  shows "hotIOVsSaved a (Inr (finalDumpReply res)) (d0 @ d1 @ d2 @ (HFinalDump pid parent x strategy # d3) @ d4)"
proof (cases "profilerInst a")
  case (Some p)
  then have hot: "hot = GetHotRegions p" using assms(1) by (simp add: released_def)
  show ?thesis
  proof (cases "hot = []")
    case False
    let ?w = "\<lambda>e. HFile (FWriteFile (joinPath (joinPath (cm_workDir (a_cm a)) (cr_DumpID res)) ''hot-iovs.json'') (hotIOVsJSON hot) e)"
    from False assms(2) obtain e x' y where d4: "d4 = x' @ ?w e # y" by (meson split_list)
    let ?d = "d0 @ d1 @ d2 @ HFinalDump pid parent x strategy # d3 @ x'"
    have "d0 @ d1 @ d2 @ (HFinalDump pid parent x strategy # d3) @ d4 = ?d @ ?w e # y \<and> list_ex dumpCall ?d \<and> quiet y"
      using d4 assms(3) by simp
    then have "\<exists>d1' d2' e. d0 @ d1 @ d2 @ (HFinalDump pid parent x strategy # d3) @ d4 = d1' @ ?w e # d2' \<and> list_ex dumpCall d1' \<and> quiet d2'"
      by blast
    then show ?thesis using hot Some unfolding hotIOVsSaved_def by (simp only: finalDumpReply_def finalDumpResponse.simps prod.case sum.case option.case) blast
  qed (use hot Some in \<open>simp add: hotIOVsSaved_def\<close>)
qed (simp add: hotIOVsSaved_def)

lemma hotIOVsSaved_error [simp]: "hotIOVsSaved a (Inl e) d"
  by (simp add: hotIOVsSaved_def)

lemma agentFinalDump_post:
  "io_post (agentFinalDump h getenv fmtFloat waiting a req)
     (\<lambda>(r, a') d. count dumpCall d \<le> 1 \<and> list_all (asksFinalDump a req a') d \<and> releasedFirst a d \<and> hotIOVsSaved a r d)"
  unfolding agentFinalDump_def
  by (auto intro!: io_rules io_post_mono [OF needMainPID_quiet] io_post_mono [OF killCmd_post] io_post_mono [OF releaseProfiler_post]
      io_post_mono [OF cmFinalDump_call] io_post_mono [OF saveProfile_post] releasedFirstI hotIOVsSavedI
      intro: releasedD simp: quiet_count quiet_asks releasedD(1) releasedFirst_quiet simp del: append.simps)


text \<open>
  The regions that a final dump leaves out are saved for the target: if the dump succeeds and the profiler had hot regions, then after the dump the
  file \<open>hot-iovs.json\<close> with exactly these regions is written into the directory of that dump.
\<close>

theorem hot_regions_saved:
  "io_post (agentFinalDump h getenv fmtFloat waiting a req) (\<lambda>(r, a') d.
     case (r, profilerInst a) of
       (Inr resp, Some p) \<Rightarrow> GetHotRegions p = [] \<or>
         (\<exists>d1 d2 e. d = d1 @ HFile (FWriteFile (joinPath (joinPath (cm_workDir (a_cm a)) (DumpId resp)) ''hot-iovs.json'')
                                    (hotIOVsJSON (GetHotRegions p)) e) # d2 \<and> list_ex dumpCall d1 \<and> quiet d2)
     | _ \<Rightarrow> True)"
  by (rule io_post_mono [OF agentFinalDump_post]) (clarsimp simp only: hotIOVsSaved_def prod.case)

section \<open>The restore\<close>

fun startsCmd :: "hostEvent \<Rightarrow> bool" where
  "startsCmd (HStartCmd args r) \<longleftrightarrow> True"
| "startsCmd _ \<longleftrightarrow> False"

definition killedFirst :: "int option \<Rightarrow> hostEvent list \<Rightarrow> bool" where
  "killedFirst cmd d \<longleftrightarrow> (case cmd of None \<Rightarrow> True | Some c \<Rightarrow> guardedBy (killsPid c) startsCmd d)"

lemma killedFirstI:
  "killedFirst c1 (killEvents c1 e1 @ killEvents c2 e2 @ d)" "killedFirst c2 (killEvents c1 e1 @ killEvents c2 e2 @ d)"
  by (auto simp: killedFirst_def killEvents_def split: option.splits)

lemma int32_idem: "int32_of (int32_of i) = int32_of i"
  by (simp add: int32_of_def)

text \<open>The process id of a result fits into 32 bits.\<close>

lemma rmRestore_result:
  "io_post (rmRestore h getenv fl m i prefix port src mounts strategy pipes) (\<lambda>r d.
     case r of Inl e \<Rightarrow> True
     | Inr (res, lazy, cmd) \<Rightarrow> rres_Success res \<and> (lazy \<noteq> None \<longleftrightarrow> needsLazyPages strategy) \<and> int32_of (rres_NewPID res) = rres_NewPID res)"
proof -
  have zero: "int32_of 0 = 0" by (simp add: int32_of_def)
  show ?thesis
    unfolding rmRestore_def Let_def
    by (auto intro!: io_rules io_post_mono [OF fetchImages_calm] io_post_mono [OF startLazy_post] io_post_mono [OF joinAndRestore_post]
        simp: int32_idem zero split: option.splits if_splits)
qed

text \<open>The process that the agent follows: the one it reports, or the one it followed before if none was found.\<close>

definition follows :: "agentState \<Rightarrow> restoreResult \<Rightarrow> agentState \<Rightarrow> bool" where
  "follows a res a' \<longleftrightarrow> rres_NewPID res = int32_of (aPID a') \<or> rres_NewPID res \<le> 0 \<and> aPID a' = aPID a"

lemma FindMainProcessPID_keeps: "io_post (FindMainProcessPID h a) (\<lambda>(r, a') d. mainPID a' = mainPID a)"
  unfolding FindMainProcessPID_def by (auto intro!: io_rules io_post_mono [OF findByName_quiet])

lemma adoptProcess_follows:
  assumes "int32_of (rres_NewPID res) = rres_NewPID res"
  shows "io_post (adoptProcess h res a) (\<lambda>(res', a') d. follows a res' a' \<and> rres_Success res' = rres_Success res \<and>
    restoreDumpID a' = restoreDumpID a \<and> restoreLazyPagesCmd a' = restoreLazyPagesCmd a \<and> lazyPagesActive a' = lazyPagesActive a)"
  unfolding adoptProcess_def using assms
  by (auto intro!: io_rules io_post_mono [OF FindMainProcessPID_keeps] simp: follows_def split: sum.splits)

text \<open>
  A restore request replaces what an earlier one left: the earlier daemon and the earlier CRIU process are killed before any
  process is started. If it fails the agent is as before. If it succeeds, the agent records the dump, has a daemon exactly for the three lazy
  strategies, forbids dumps for every strategy but the full one, and follows the process it
  reports; if no process was found it goes on with the one it followed before.
\<close>

theorem restore_replaces_processes:
  "io_post (agentRestore h getenv fl a req) (\<lambda>(r, a') d.
     (case restoreLazyPagesCmd a of None \<Rightarrow> True | Some c \<Rightarrow> guardedBy (killsPid c) startsCmd d) \<and>
     (case restoreCmd a of None \<Rightarrow> True | Some c \<Rightarrow> guardedBy (killsPid c) startsCmd d) \<and>
     (case r of
        Inl e \<Rightarrow> a' = a
      | Inr resp \<Rightarrow> restoreResponse.rr_Success resp \<and> restoreDumpID a' = rq_DumpId req \<and>
          (restoreLazyPagesCmd a' \<noteq> None \<longleftrightarrow> needsLazyPages (restoreStrategy req)) \<and>
          lazyPagesActive a' = (lazyPagesActive a \<or> restoreStrategy req \<noteq> ''full'') \<and>
          (NewPid resp = int32_of (aPID a') \<or> NewPid resp \<le> 0 \<and> aPID a' = aPID a)))"
proof -
  have "io_post (agentRestore h getenv fl a req) (\<lambda>(r, a') d. killedFirst (restoreLazyPagesCmd a) d \<and> killedFirst (restoreCmd a) d \<and>
     (case r of
        Inl e \<Rightarrow> a' = a
      | Inr resp \<Rightarrow> restoreResponse.rr_Success resp \<and> restoreDumpID a' = rq_DumpId req \<and>
          (restoreLazyPagesCmd a' \<noteq> None \<longleftrightarrow> needsLazyPages (restoreStrategy req)) \<and>
          lazyPagesActive a' = (lazyPagesActive a \<or> restoreStrategy req \<noteq> ''full'') \<and>
          (NewPid resp = int32_of (aPID a') \<or> NewPid resp \<le> 0 \<and> aPID a' = aPID a)))"
    unfolding agentRestore_def Let_def
    by (auto intro!: io_rules io_post_mono [OF killCmd_post] io_post_mono [OF rmRestore_result] io_post_mono [OF adoptProcess_follows]
        killedFirstI simp: restoreReply_def follows_def)
  then show ?thesis by (simp add: killedFirst_def)
qed

section \<open>The start of the agent of a restore pod\<close>

text \<open>The environment of a container: its own variables, later ones first, over those of its image.\<close>

definition containerEnv :: "(envVar \<Rightarrow> string) \<Rightarrow> genv \<Rightarrow> container \<Rightarrow> genv" where
  "containerEnv resolve inherited c key =
     (case map_of (rev (map (\<lambda>v. (ev_Name v, resolve v)) (Env c))) key of Some x \<Rightarrow> x | None \<Rightarrow> inherited key)"

lemma agentEnv_no_checkpoint: "''CHECKPOINT_ID'' \<notin> ev_Name ` set (agentEnv env b mode)"
  by (auto simp: agentEnv_def agentEnvBase_def agentEnvTuning_def agentEnvDeadline_def lit_def fieldRef_def Let_def)

lemma containerEnv_checkpoint:
  "inherited ''CHECKPOINT_ID'' = [] \<Longrightarrow> containerEnv resolve inherited (BuildAgentContainer env b mode) ''CHECKPOINT_ID'' = []"
proof -
  assume "inherited ''CHECKPOINT_ID'' = []"
  moreover have "map_of (rev (map (\<lambda>v. (ev_Name v, resolve v)) (agentEnv env b mode))) ''CHECKPOINT_ID'' = None"
    using agentEnv_no_checkpoint [of env b mode] by (force simp: map_of_eq_None_iff)
  ultimately show ?thesis by (simp add: containerEnv_def BuildAgentContainer_def)
qed

text \<open>
  C38. The agent of a restore pod does not restore on its own: in the environment that the pod builder gives it there is no checkpoint to restore, so the agent does
  nothing, starts no profiler, and waits in the mode idle for the request of the controller.
\<close>

theorem restore_agent_waits:
  assumes "inherited ''CHECKPOINT_ID'' = []" and "a_mode a = ''restore''"
  shows "io_post (agentStart h (containerEnv resolve inherited (BuildAgentContainer env b ''restore'')) fl a)
    (\<lambda>(auto, a') d. d = [] \<and> auto = False \<and> a' = a\<lparr>a_mode := ''idle''\<rparr>)"
  using assms(2) containerEnv_checkpoint [where inherited = inherited, OF assms(1)]
  by (auto simp: agentStart_def performRestoreOnStartup_def Let_def intro!: io_rules)

definition exampleAgent :: agentState where
  "exampleAgent =
     \<lparr>a_cm = exampleManager, a_rm = NewRestoreManager ''/checkpoints'' minioClient, a_s3 = minioClient, a_mode = ''restore'',
      a_proc = \<lparr>mainPID = 0, knownMainPID = 0\<rparr>, a_startTime = 0, a_podName = ''redis-1'', a_nodeName = ''node-b'',
      pageServerCmd = None, pageServerDumpID = [], restoreLazyPagesCmd = None, restoreCmd = None, restoreDumpID = [],
      lazyPagesActive = False, profilerInst = None, prevExcludeSet = [], a_scheduler = None, a_loops = [], a_networkInfo = None\<rparr>"

theorem restore_agent_waits_witness:
  "a_mode (snd (outcome (agentStart silentHost
     (containerEnv (\<lambda>_. ''x'') (\<lambda>_. []) (BuildAgentContainer (\<lambda>_. []) (NewPodBuilder exampleApp) ''restore''))
     \<lparr>fl_sscanf = (\<lambda>_ _. None), fl_parse = (\<lambda>_. None)\<rparr> exampleAgent))) = ''idle''"
proof -
  let ?env = "containerEnv (\<lambda>_. ''x'') (\<lambda>_. []) (BuildAgentContainer (\<lambda>_. []) (NewPodBuilder exampleApp) ''restore'')"
  let ?fl = "\<lparr>fl_sscanf = (\<lambda>_ _. None), fl_parse = (\<lambda>_. None)\<rparr> :: floatLib"
  have "io_post (agentStart silentHost ?env ?fl exampleAgent)
      (\<lambda>(auto, a') d. d = [] \<and> auto = False \<and> a' = exampleAgent\<lparr>a_mode := ''idle''\<rparr>)"
    by (rule restore_agent_waits) (simp_all add: exampleAgent_def)
  from io_post_run [OF this] show ?thesis by (auto simp: split_beta)
qed

text \<open>
  A restore at the start would not forbid dumps: it leaves the flag of the transfer as it was and makes a pre-dump at once, although it uses a lazy
  strategy.
\<close>

lemma startup_restore_dumps:
  "io_post (performRestoreOnStartup h getenv fl a) (\<lambda>(e, a') d. lazyPagesActive a' = lazyPagesActive a \<and> (e \<noteq> None \<or> list_ex isPreDump d))"
proof -
  have s: "io_post (pollUntil h t i (sleepPid h)) (\<lambda>r d. quiet d)" for t i
    by (rule io_post_loop [where Q = "\<lambda>r d. quiet d"]) (auto simp: sleepPid_def intro!: io_rules)
  show ?thesis
    unfolding performRestoreOnStartup_def adoptRestored_def WaitForSleepProcess_def CreateBaselineCheckpoint_def Let_def
    by (auto intro!: io_rules io_post_mono [OF s] io_post_mono [OF rmRestore_quiet] io_post_mono [OF FindMainProcessPID_quiet]
        io_post_mono [OF cmPreCheckpoint_post] split: sum.splits)
qed

text \<open>The scheduler does not look at the flag of the transfer: with a violated invariant its tick makes a pre-dump, whether pages are being transferred or not.\<close>

lemma scheduler_ignores_transfer:
  assumes "a_scheduler a = Some s" and "s_stopped s = False" and "initialDumpDone s" and "is_DryRun (s_config s) = False"
    and "Violated (evaluateInvariant (schedulerView a s))" and "0 < aPID a"
  shows "io_post (agentSchedulerTick h getenv a) (\<lambda>a' d. count isPreDump d = 1)"
proof -
  let ?v = "schedulerView a s"
  have v: "s_mainPID ?v = aPID a" "s_stopped ?v = s_stopped s" "initialDumpDone ?v = initialDumpDone s" "s_config ?v = s_config s"
    by (simp_all add: schedulerView_def)
  then have pid: "0 < s_mainPID ?v" using assms by simp
  show ?thesis
    unfolding agentSchedulerTick_def onScheduler_def using assms v
    by (auto simp: schedulerTick_def intro!: io_rules io_post_mono [OF triggerPreDump_profiler [OF pid]])
qed

end
