(* ===== verification/Ptrace.thy ===== *)
theory Ptrace
  imports Io Scan
begin

unbundle bit_operations_syntax

text \<open>
  \<open>pkg/profiler/ptrace.go\<close>: system calls injected into a stopped process, to create and to close a userfaultfd there, and the scan requests of \<open>scan.go\<close>
  that set and verify the write protection. The calls of the kernel are events of a log with their answers, which a parameter gives. Registers and addresses are 64-bit
  words, memory is bytes. A structure that is passed to the kernel is its little-endian bytes.
\<close>

section \<open>The kernel\<close>

type_synonym u64 = "64 word"
type_synonym bytes = "8 word list"

text \<open>The registers that the code names, and the others as they are.\<close>

record ptraceRegs =
  Rip :: u64
  Rax :: u64
  Rdi :: u64
  Rsi :: u64
  Rdx :: u64
  R10 :: u64
  R8 :: u64
  R9 :: u64
  otherRegs :: "u64 list"

record pmScanArg =
  ps_Flags :: u64
  ps_Start :: u64
  ps_End :: u64
  ps_VecLen :: u64
  ps_MaxPages :: u64
  ps_CategoryInverted :: u64
  ps_CategoryMask :: u64
  ps_CategoryAnyofMask :: u64
  ps_ReturnMask :: u64

datatype (plugins only: code) ptEvent =
    PSeize "string option"
  | PInterrupt "string option"
  | PWait "string + 32 word"
  | PGetRegs "string + ptraceRegs"
  | PSetRegs ptraceRegs "string option"
  | PStep "string option"
  | PPeek u64 "string + bytes"
  | PPoke u64 bytes "string option"
  | PDetach "string option"
  | PPidfdOpen "string + int"
  | PPidfdGetfd int "string + int"
  | PCloseFd int
  | PScan pmScanArg "string + u64"
  | PIoctl int u64 bytes "string option"

record tracer =
  k_seize :: "ptEvent list \<Rightarrow> string option"
  k_interrupt :: "ptEvent list \<Rightarrow> string option"
  k_wait :: "ptEvent list \<Rightarrow> string + 32 word"
  k_getRegs :: "ptEvent list \<Rightarrow> string + ptraceRegs"
  k_setRegs :: "ptEvent list \<Rightarrow> ptraceRegs \<Rightarrow> string option"
  k_step :: "ptEvent list \<Rightarrow> string option"
  k_peek :: "ptEvent list \<Rightarrow> u64 \<Rightarrow> string + bytes"
  k_poke :: "ptEvent list \<Rightarrow> u64 \<Rightarrow> bytes \<Rightarrow> string option"
  k_detach :: "ptEvent list \<Rightarrow> string option"
  k_pidfdOpen :: "ptEvent list \<Rightarrow> string + int"
  k_pidfdGetfd :: "ptEvent list \<Rightarrow> int \<Rightarrow> string + int"
  k_scan :: "ptEvent list \<Rightarrow> pmScanArg \<Rightarrow> string + u64"
  k_ioctl :: "ptEvent list \<Rightarrow> int \<Rightarrow> u64 \<Rightarrow> bytes \<Rightarrow> string option"

type_synonym 'a pprog = "(ptEvent, 'a) io"

definition kSeize :: "tracer \<Rightarrow> string option pprog" where "kSeize k = ask (k_seize k) PSeize"
definition kInterrupt :: "tracer \<Rightarrow> string option pprog" where "kInterrupt k = ask (k_interrupt k) PInterrupt"
definition kWait :: "tracer \<Rightarrow> (string + 32 word) pprog" where "kWait k = ask (k_wait k) PWait"
definition kGetRegs :: "tracer \<Rightarrow> (string + ptraceRegs) pprog" where "kGetRegs k = ask (k_getRegs k) PGetRegs"
definition kSetRegs :: "tracer \<Rightarrow> ptraceRegs \<Rightarrow> string option pprog" where "kSetRegs k regs = ask (\<lambda>t. k_setRegs k t regs) (PSetRegs regs)"
definition kStep :: "tracer \<Rightarrow> string option pprog" where "kStep k = ask (k_step k) PStep"
definition kPeek :: "tracer \<Rightarrow> u64 \<Rightarrow> (string + bytes) pprog" where "kPeek k addr = ask (\<lambda>t. k_peek k t addr) (PPeek addr)"
definition kPoke :: "tracer \<Rightarrow> u64 \<Rightarrow> bytes \<Rightarrow> string option pprog" where "kPoke k addr bs = ask (\<lambda>t. k_poke k t addr bs) (PPoke addr bs)"
definition kDetach :: "tracer \<Rightarrow> string option pprog" where "kDetach k = ask (k_detach k) PDetach"
definition kPidfdOpen :: "tracer \<Rightarrow> (string + int) pprog" where "kPidfdOpen k = ask (k_pidfdOpen k) PPidfdOpen"
definition kPidfdGetfd :: "tracer \<Rightarrow> int \<Rightarrow> (string + int) pprog" where "kPidfdGetfd k fd = ask (\<lambda>t. k_pidfdGetfd k t fd) (PPidfdGetfd fd)"
definition kCloseFd :: "int \<Rightarrow> unit pprog" where "kCloseFd fd = ask (\<lambda>_. ()) (\<lambda>_. PCloseFd fd)"
definition kScan :: "tracer \<Rightarrow> pmScanArg \<Rightarrow> (string + u64) pprog" where "kScan k arg = ask (\<lambda>t. k_scan k t arg) (PScan arg)"
definition kIoctl :: "tracer \<Rightarrow> int \<Rightarrow> u64 \<Rightarrow> bytes \<Rightarrow> string option pprog" where "kIoctl k fd nr bs = ask (\<lambda>t. k_ioctl k t fd nr bs) (PIoctl fd nr bs)"

lemma io_post_kernel [io_rules]:
  "(\<And>r. Qo r [PSeize r]) \<Longrightarrow> io_post (kSeize k) Qo"
  "(\<And>r. Qo r [PInterrupt r]) \<Longrightarrow> io_post (kInterrupt k) Qo"
  "(\<And>r. Qw r [PWait r]) \<Longrightarrow> io_post (kWait k) Qw"
  "(\<And>r. Qr r [PGetRegs r]) \<Longrightarrow> io_post (kGetRegs k) Qr"
  "(\<And>r. Qo r [PSetRegs regs r]) \<Longrightarrow> io_post (kSetRegs k regs) Qo"
  "(\<And>r. Qo r [PStep r]) \<Longrightarrow> io_post (kStep k) Qo"
  "(\<And>r. Qb r [PPeek addr r]) \<Longrightarrow> io_post (kPeek k addr) Qb"
  "(\<And>r. Qo r [PPoke addr bs r]) \<Longrightarrow> io_post (kPoke k addr bs) Qo"
  "(\<And>r. Qo r [PDetach r]) \<Longrightarrow> io_post (kDetach k) Qo"
  "(\<And>r. Qi r [PPidfdOpen r]) \<Longrightarrow> io_post (kPidfdOpen k) Qi"
  "(\<And>r. Qi r [PPidfdGetfd fd r]) \<Longrightarrow> io_post (kPidfdGetfd k fd) Qi"
  "Qu () [PCloseFd fd] \<Longrightarrow> io_post (kCloseFd fd) Qu"
  "(\<And>r. Qx r [PScan arg r]) \<Longrightarrow> io_post (kScan k arg) Qx"
  "(\<And>r. Qo r [PIoctl fd nr bs r]) \<Longrightarrow> io_post (kIoctl k fd nr bs) Qo"
  by (simp_all add: io_post_ask kSeize_def kInterrupt_def kWait_def kGetRegs_def kSetRegs_def kStep_def kPeek_def kPoke_def kDetach_def
      kPidfdOpen_def kPidfdGetfd_def kCloseFd_def kScan_def kIoctl_def)

section \<open>Injection\<close>

text \<open>The status of a wait: stopped, and by which signal.\<close>

definition wsStopped :: "32 word \<Rightarrow> bool" where
  "wsStopped ws \<longleftrightarrow> ws AND 0xFF = 0x7F"

definition wsStopSignal :: "32 word \<Rightarrow> int" where
  "wsStopSignal ws = (if wsStopped ws then uint (drop_bit 8 ws AND 0xFF) else -1)"

definition SIGTRAP :: int where "SIGTRAP = 5"

record ptraceInjector =
  pi_savedRegs :: ptraceRegs
  pi_savedCode :: bytes

definition callRegs :: "ptraceInjector \<Rightarrow> ptraceRegs \<Rightarrow> u64 \<Rightarrow> u64 \<Rightarrow> u64 \<Rightarrow> u64 \<Rightarrow> u64 \<Rightarrow> u64 \<Rightarrow> u64 \<Rightarrow> ptraceRegs" where
  "callRegs ij regs nr a1 a2 a3 a4 a5 a6 =
     regs\<lparr>Rip := Rip (pi_savedRegs ij), Rax := nr, Rdi := a1, Rsi := a2, Rdx := a3, R10 := a4, R8 := a5, R9 := a6\<rparr>"

definition injectSyscall ::
  "tracer \<Rightarrow> ptraceInjector \<Rightarrow> u64 \<Rightarrow> u64 \<Rightarrow> u64 \<Rightarrow> u64 \<Rightarrow> u64 \<Rightarrow> u64 \<Rightarrow> u64 \<Rightarrow> (string + u64) pprog" where
  "injectSyscall k ij nr a1 a2 a3 a4 a5 a6 = do {
     g \<leftarrow> kGetRegs k;
     (case g of
        Inl e \<Rightarrow> State_Monad.return (Inl (''GETREGS: '' @ e))
      | Inr regs \<Rightarrow> do {
          s \<leftarrow> kSetRegs k (callRegs ij regs nr a1 a2 a3 a4 a5 a6);
          (case s of
             Some e \<Rightarrow> State_Monad.return (Inl (''SETREGS: '' @ e))
           | None \<Rightarrow> do {
               st \<leftarrow> kStep k;
               (case st of
                  Some e \<Rightarrow> State_Monad.return (Inl (''SINGLESTEP: '' @ e))
                | None \<Rightarrow> do {
                    w \<leftarrow> kWait k;
                    (case w of
                       Inl e \<Rightarrow> State_Monad.return (Inl (''waitpid: '' @ e))
                     | Inr ws \<Rightarrow>
                         if \<not> wsStopped ws \<or> wsStopSignal ws \<noteq> SIGTRAP then State_Monad.return (Inl ''unexpected stop'')
                         else do {
                           g2 \<leftarrow> kGetRegs k;
                           State_Monad.return (case g2 of Inl e \<Rightarrow> Inl (''GETREGS after step: '' @ e) | Inr r \<Rightarrow> Inr (Rax r))
                         })
                  })
             })
        })
   }"

text \<open>A call that failed: no result, or a negative one.\<close>

definition callFailed :: "string + u64 \<Rightarrow> bool" where
  "callFailed r \<longleftrightarrow> (case r of Inl _ \<Rightarrow> True | Inr v \<Rightarrow> sint v < 0)"

definition callValue :: "string + u64 \<Rightarrow> u64" where
  "callValue r = (case r of Inl _ \<Rightarrow> 0 | Inr v \<Rightarrow> v)"

function writeToTarget :: "tracer \<Rightarrow> u64 \<Rightarrow> bytes \<Rightarrow> string option pprog" where
  "writeToTarget k addr bs =
     (if length bs \<ge> 8
      then do {
        e \<leftarrow> kPoke k addr (take 8 bs);
        (case e of Some e \<Rightarrow> State_Monad.return (Some (''POKEDATA: '' @ e)) | None \<Rightarrow> writeToTarget k (addr + 8) (drop 8 bs))
      }
      else if bs \<noteq> []
      then do {
        p \<leftarrow> kPeek k addr;
        (case p of
           Inl e \<Rightarrow> State_Monad.return (Some (''PEEKDATA: '' @ e))
         | Inr existing \<Rightarrow> do {
             e \<leftarrow> kPoke k addr (bs @ drop (length bs) existing);
             State_Monad.return (map_option (\<lambda>e. ''POKEDATA trailing: '' @ e) e)
           })
      }
      else State_Monad.return None)"
  by pat_completeness auto
termination by (relation "measure (\<lambda>(k, addr, bs). length bs)") auto

declare writeToTarget.simps [simp del]

section \<open>The setup of write protection\<close>

definition sysUserfaultfd :: u64 where "sysUserfaultfd = 323"
definition sysMmap :: u64 where "sysMmap = 9"
definition sysMunmap :: u64 where "sysMunmap = 11"
definition sysIoctl :: u64 where "sysIoctl = 16"
definition sysClose :: u64 where "sysClose = 3"

definition O_CLOEXEC :: u64 where "O_CLOEXEC = 0x80000"
definition O_NONBLOCK :: u64 where "O_NONBLOCK = 0x800"
definition uffdUserModeOnly :: u64 where "uffdUserModeOnly = 1"
definition uffdioAPIIoctl :: u64 where "uffdioAPIIoctl = 0xC018AA3F"
definition uffdioRegisterIoctl :: u64 where "uffdioRegisterIoctl = 0xC020AA00"

definition le64 :: "u64 \<Rightarrow> bytes" where
  "le64 w = map (\<lambda>i. ucast (drop_bit (8 * i) w)) [0..<8]"

text \<open>\<open>struct uffdio_api\<close> with the features asynchronous and unpopulated, and \<open>struct uffdio_register\<close>.\<close>

definition apiBytes :: bytes where
  "apiBytes = le64 0xAA @ le64 (push_bit 15 1 OR push_bit 13 1) @ le64 0"

definition rangeBytes :: "nat \<Rightarrow> nat \<Rightarrow> bytes" where
  "rangeBytes a b = le64 (of_nat a) @ le64 (of_nat b - of_nat a) @ le64 (push_bit 1 1) @ le64 0"

definition regBytes :: "vmaInfo \<Rightarrow> bytes" where
  "regBytes v = rangeBytes (Start v) (End v)"

definition withSyscall :: "bytes \<Rightarrow> bytes" where
  "withSyscall code = code[0 := 0x0F, 1 := 0x05]"

text \<open>Seize, interrupt and wait, the saved state, and the instruction; after a failure the process is detached.\<close>

definition attach :: "tracer \<Rightarrow> int \<Rightarrow> (string + ptraceInjector) pprog" where
  "attach k pid = do {
     s \<leftarrow> kSeize k;
     (case s of
        Some e \<Rightarrow> State_Monad.return (Inl (''SEIZE pid='' @ itoa pid @ '': '' @ e))
      | None \<Rightarrow>
          let abandon = (\<lambda>msg. do { _ \<leftarrow> kDetach k; State_Monad.return (Inl msg) }) in do {
            i \<leftarrow> kInterrupt k;
            (case i of
               Some e \<Rightarrow> abandon (''INTERRUPT: '' @ e)
             | None \<Rightarrow> do {
                 w \<leftarrow> kWait k;
                 (case w of
                    Inl e \<Rightarrow> abandon (''waitpid: '' @ e)
                  | Inr _ \<Rightarrow> do {
                      g \<leftarrow> kGetRegs k;
                      (case g of
                         Inl e \<Rightarrow> abandon (''GETREGS: '' @ e)
                       | Inr regs \<Rightarrow> do {
                           p \<leftarrow> kPeek k (Rip regs);
                           (case p of
                              Inl e \<Rightarrow> abandon (''PEEKDATA: '' @ e)
                            | Inr code \<Rightarrow> do {
                                e \<leftarrow> kPoke k (Rip regs) (withSyscall code);
                                (case e of
                                   Some e \<Rightarrow> abandon (''POKEDATA syscall: '' @ e)
                                 | None \<Rightarrow> State_Monad.return (Inr \<lparr>pi_savedRegs = regs, pi_savedCode = code\<rparr>))
                              })
                         })
                    })
               })
          })
   }"

definition restoreState :: "tracer \<Rightarrow> ptraceInjector \<Rightarrow> unit pprog" where
  "restoreState k ij = do {
     _ \<leftarrow> kPoke k (Rip (pi_savedRegs ij)) (pi_savedCode ij);
     _ \<leftarrow> kSetRegs k (pi_savedRegs ij);
     _ \<leftarrow> kDetach k;
     State_Monad.return ()
   }"

definition cleanupMmap :: "tracer \<Rightarrow> ptraceInjector \<Rightarrow> u64 \<Rightarrow> unit pprog" where
  "cleanupMmap k ij scratch = do {
     _ \<leftarrow> injectSyscall k ij sysMunmap scratch (of_nat pageSize) 0 0 0 0;
     restoreState k ij
   }"

definition cleanupUffd :: "tracer \<Rightarrow> ptraceInjector \<Rightarrow> u64 \<Rightarrow> u64 \<Rightarrow> unit pprog" where
  "cleanupUffd k ij scratch uffd = do {
     _ \<leftarrow> injectSyscall k ij sysClose uffd 0 0 0 0 0;
     cleanupMmap k ij scratch
   }"

definition createUffd :: "tracer \<Rightarrow> ptraceInjector \<Rightarrow> (string + u64) pprog" where
  "createUffd k ij = do {
     r \<leftarrow> injectSyscall k ij sysUserfaultfd (O_CLOEXEC OR O_NONBLOCK OR uffdUserModeOnly) 0 0 0 0 0;
     (if callFailed r then injectSyscall k ij sysUserfaultfd (O_CLOEXEC OR O_NONBLOCK) 0 0 0 0 0 else State_Monad.return r)
   }"

definition enableWP :: "tracer \<Rightarrow> ptraceInjector \<Rightarrow> u64 \<Rightarrow> u64 \<Rightarrow> string option pprog" where
  "enableWP k ij scratch uffd = do {
     e \<leftarrow> writeToTarget k scratch apiBytes;
     (case e of
        Some e \<Rightarrow> State_Monad.return (Some (''write uffdio_api: '' @ e))
      | None \<Rightarrow> do {
          r \<leftarrow> injectSyscall k ij sysIoctl uffd uffdioAPIIoctl scratch 0 0 0;
          State_Monad.return (if callFailed r then Some ''UFFDIO_API failed'' else None)
        })
   }"

fun registerAll :: "tracer \<Rightarrow> ptraceInjector \<Rightarrow> u64 \<Rightarrow> u64 \<Rightarrow> vmaInfo list \<Rightarrow> addrRange list \<Rightarrow> addrRange list pprog" where
  "registerAll k ij scratch uffd [] acc = State_Monad.return acc"
| "registerAll k ij scratch uffd (v # vmas) acc =
     (if \<not> IsWritableAnonymous v then registerAll k ij scratch uffd vmas acc
      else do {
        e \<leftarrow> writeToTarget k scratch (regBytes v);
        (if e \<noteq> None then registerAll k ij scratch uffd vmas acc
         else do {
           r \<leftarrow> injectSyscall k ij sysIoctl uffd uffdioRegisterIoctl scratch 0 0 0;
           registerAll k ij scratch uffd vmas (if callFailed r then acc else acc @ [\<lparr>ar_Start = Start v, ar_End = End v\<rparr>])
         })
      })"

text \<open>The copy of the descriptor for the tracker; the descriptor of the process is closed at the end of the function.\<close>

definition copyUffd :: "tracer \<Rightarrow> ptraceInjector \<Rightarrow> u64 \<Rightarrow> u64 \<Rightarrow> (string + int) pprog" where
  "copyUffd k ij scratch uffd = do {
     p \<leftarrow> kPidfdOpen k;
     (case p of
        Inl e \<Rightarrow> do { _ \<leftarrow> cleanupUffd k ij scratch uffd; State_Monad.return (Inl (''pidfd_open: '' @ e)) }
      | Inr pidfd \<Rightarrow> do {
          g \<leftarrow> kPidfdGetfd k (sint uffd);
          (case g of
             Inl e \<Rightarrow> do { _ \<leftarrow> cleanupUffd k ij scratch uffd; _ \<leftarrow> kCloseFd pidfd; State_Monad.return (Inl (''pidfd_getfd: '' @ e)) }
           | Inr tfd \<Rightarrow> do { _ \<leftarrow> cleanupMmap k ij scratch; _ \<leftarrow> kCloseFd pidfd; State_Monad.return (Inr tfd) })
        })
   }"

definition registerUffd ::
  "tracer \<Rightarrow> ptraceInjector \<Rightarrow> u64 \<Rightarrow> u64 \<Rightarrow> int \<Rightarrow> vmaInfo list \<Rightarrow> (string + int \<times> int \<times> addrRange list) pprog" where
  "registerUffd k ij scratch uffd pid vmas = do {
     e \<leftarrow> enableWP k ij scratch uffd;
     (case e of
        Some e \<Rightarrow> do { _ \<leftarrow> cleanupUffd k ij scratch uffd; State_Monad.return (Inl e) }
      | None \<Rightarrow> do {
          registered \<leftarrow> registerAll k ij scratch uffd vmas [];
          (if registered = []
           then do { _ \<leftarrow> cleanupUffd k ij scratch uffd; State_Monad.return (Inl (''no VMAs registered for WP (pid='' @ itoa pid @ '')'')) }
           else do {
             c \<leftarrow> copyUffd k ij scratch uffd;
             State_Monad.return (case c of Inl e \<Rightarrow> Inl e | Inr tfd \<Rightarrow> Inr (tfd, sint uffd, registered))
           })
        })
   }"

text \<open>The part of the setup that runs in the stopped process, and the whole.\<close>

definition installUffd ::
  "tracer \<Rightarrow> ptraceInjector \<Rightarrow> int \<Rightarrow> vmaInfo list \<Rightarrow> (string + int \<times> int \<times> addrRange list) pprog" where
  "installUffd k ij pid vmas = do {
     m \<leftarrow> injectSyscall k ij sysMmap 0 (of_nat pageSize) 3 0x22 (-1) 0;
     (if callFailed m then do { _ \<leftarrow> restoreState k ij; State_Monad.return (Inl ''inject mmap'') }
      else do {
        u \<leftarrow> createUffd k ij;
        (if callFailed u then do { _ \<leftarrow> cleanupMmap k ij (callValue m); State_Monad.return (Inl ''inject userfaultfd'') }
         else registerUffd k ij (callValue m) (callValue u) pid vmas)
      })
   }"

definition setupUffdWP :: "tracer \<Rightarrow> int \<Rightarrow> vmaInfo list \<Rightarrow> (string + int \<times> int \<times> addrRange list) pprog" where
  "setupUffdWP k pid vmas = do {
     a \<leftarrow> attach k pid;
     (case a of Inl e \<Rightarrow> State_Monad.return (Inl e) | Inr ij \<Rightarrow> installUffd k ij pid vmas)
   }"

section \<open>The close in the target\<close>

definition closeInjected :: "tracer \<Rightarrow> ptraceInjector \<Rightarrow> int \<Rightarrow> string option pprog" where
  "closeInjected k ij targetFd = do {
     r \<leftarrow> injectSyscall k ij sysClose (word_of_int targetFd) 0 0 0 0 0;
     _ \<leftarrow> kPoke k (Rip (pi_savedRegs ij)) (pi_savedCode ij);
     _ \<leftarrow> kSetRegs k (pi_savedRegs ij);
     State_Monad.return
       (case r of
          Inl e \<Rightarrow> Some (''inject close: '' @ e)
        | Inr v \<Rightarrow> if sint v < 0 then Some (''close('' @ itoa targetFd @ '') returned '' @ itoa (sint v)) else None)
   }"

definition closeSeized :: "tracer \<Rightarrow> int \<Rightarrow> string option pprog" where
  "closeSeized k targetFd = do {
     i \<leftarrow> kInterrupt k;
     (case i of
        Some e \<Rightarrow> State_Monad.return (Some (''ptrace interrupt: '' @ e))
      | None \<Rightarrow> do {
          w \<leftarrow> kWait k;
          (case w of
             Inl e \<Rightarrow> State_Monad.return (Some (''wait4: '' @ e))
           | Inr _ \<Rightarrow> do {
               g \<leftarrow> kGetRegs k;
               (case g of
                  Inl e \<Rightarrow> State_Monad.return (Some (''getregs: '' @ e))
                | Inr regs \<Rightarrow> do {
                    p \<leftarrow> kPeek k (Rip regs);
                    (case p of
                       Inl e \<Rightarrow> State_Monad.return (Some (''peektext: '' @ e))
                     | Inr code \<Rightarrow>
                         if length code \<noteq> 8 then State_Monad.return (Some ''peektext: %!w(<nil>)'')
                         else do {
                           e \<leftarrow> kPoke k (Rip regs) (withSyscall code);
                           (case e of
                              Some e \<Rightarrow> State_Monad.return (Some (''poketext: '' @ e))
                            | None \<Rightarrow> closeInjected k \<lparr>pi_savedRegs = regs, pi_savedCode = code\<rparr> targetFd)
                         })
                  })
             })
        })
   }"

definition closeTargetUffd :: "tracer \<Rightarrow> int \<Rightarrow> string option pprog" where
  "closeTargetUffd k targetFd = do {
     s \<leftarrow> kSeize k;
     (case s of
        Some e \<Rightarrow> State_Monad.return (Some (''ptrace seize: '' @ e))
      | None \<Rightarrow> do { r \<leftarrow> closeSeized k targetFd; _ \<leftarrow> kDetach k; State_Monad.return r })
   }"

section \<open>Areas that come and go\<close>

text \<open>An area that was mapped later is registered, and one is unregistered before a dump, through the descriptor on the side of the agent.\<close>

definition uffdioUnregisterIoctl :: u64 where "uffdioUnregisterIoctl = 0x4010AA01"

definition uffdioUnregister :: "tracer \<Rightarrow> int \<Rightarrow> nat \<Rightarrow> nat \<Rightarrow> string option pprog" where
  "uffdioUnregister k trackerFd a b = do {
     e \<leftarrow> kIoctl k trackerFd uffdioUnregisterIoctl (le64 (of_nat a) @ le64 (of_nat b - of_nat a));
     State_Monad.return (map_option (\<lambda>e. ''UFFDIO_UNREGISTER: '' @ e) e)
   }"

definition uffdioRegister :: "tracer \<Rightarrow> int \<Rightarrow> nat \<Rightarrow> nat \<Rightarrow> string option pprog" where
  "uffdioRegister k trackerFd a b = do {
     e \<leftarrow> kIoctl k trackerFd uffdioRegisterIoctl (rangeBytes a b);
     State_Monad.return (map_option (\<lambda>e. ''UFFDIO_REGISTER: '' @ e) e)
   }"

section \<open>The scan requests\<close>

definition pageIsWPAllowed :: u64 where "pageIsWPAllowed = 1"
definition pageIsFile :: u64 where "pageIsFile = 4"
definition pageIsPresent :: u64 where "pageIsPresent = 8"
definition pageIsSwapped :: u64 where "pageIsSwapped = 16"
definition pageIsPFNZero :: u64 where "pageIsPFNZero = 32"

definition wpArg :: "vmaInfo \<Rightarrow> pmScanArg" where
  "wpArg v =
     \<lparr>ps_Flags = 1, ps_Start = of_nat (Start v), ps_End = of_nat (End v), ps_VecLen = 65536, ps_MaxPages = 0,
      ps_CategoryInverted = pageIsPFNZero OR pageIsFile, ps_CategoryMask = pageIsPFNZero OR pageIsFile,
      ps_CategoryAnyofMask = pageIsPresent OR pageIsSwapped, ps_ReturnMask = 0\<rparr>"

fun wpAllWritablePages :: "tracer \<Rightarrow> vmaInfo list \<Rightarrow> string option pprog" where
  "wpAllWritablePages k [] = State_Monad.return None"
| "wpAllWritablePages k (v # vmas) =
     (if \<not> IsWritable v then wpAllWritablePages k vmas
      else do {
        r \<leftarrow> kScan k (wpArg v);
        (case r of
           Inl e \<Rightarrow> if e \<noteq> ''ENOENT'' then State_Monad.return (Some (''WP baseline scan VMA: '' @ e)) else wpAllWritablePages k vmas
         | Inr _ \<Rightarrow> wpAllWritablePages k vmas)
      })"

definition verifyArg :: pmScanArg where
  "verifyArg =
     \<lparr>ps_Flags = 0, ps_Start = 0, ps_End = 0x7fffffffffff, ps_VecLen = 1, ps_MaxPages = 1, ps_CategoryInverted = 0,
      ps_CategoryMask = pageIsWPAllowed, ps_CategoryAnyofMask = pageIsPresent OR pageIsSwapped, ps_ReturnMask = pageIsWPAllowed\<rparr>"

definition verifyWPActive :: "tracer \<Rightarrow> (string + bool) pprog" where
  "verifyWPActive k = do {
     r \<leftarrow> kScan k verifyArg;
     State_Monad.return (case r of Inl e \<Rightarrow> Inl (''verify WP scan: '' @ e) | Inr n \<Rightarrow> Inr (sint n > 0))
   }"

end
