(* ===== verification/PtraceProps.thy ===== *)
theory PtraceProps
  imports Ptrace
begin

text \<open>
  What the injection of system calls leaves behind: the process gets its instruction and its registers back and is detached once, on every path; what is
  reported as registered was asked for; and a write to the memory of the process changes exactly its bytes.
\<close>

section \<open>The process is given back\<close>

text \<open>The calls that change the process, if they succeed, and the end of tracing.\<close>

fun touches :: "ptEvent \<Rightarrow> bool" where
  "touches (PSetRegs regs None) \<longleftrightarrow> True"
| "touches (PStep None) \<longleftrightarrow> True"
| "touches (PPoke addr bs None) \<longleftrightarrow> True"
| "touches _ \<longleftrightarrow> False"

fun isDetach :: "ptEvent \<Rightarrow> bool" where
  "isDetach (PDetach e) \<longleftrightarrow> True"
| "isDetach _ \<longleftrightarrow> False"

fun isCloseFd :: "ptEvent \<Rightarrow> bool" where
  "isCloseFd (PCloseFd fd) \<longleftrightarrow> True"
| "isCloseFd _ \<longleftrightarrow> False"

abbreviation attached :: "ptEvent list \<Rightarrow> bool" where
  "attached d \<equiv> list_all (\<lambda>e. \<not> isDetach e) d"

text \<open>The process was not changed, and it is detached if it was seized.\<close>

definition leftAlone :: "ptEvent list \<Rightarrow> bool" where
  "leftAlone d \<longleftrightarrow> list_all (\<lambda>e. \<not> touches e) d \<and>
     ((\<exists>e. d = [PSeize (Some e)]) \<or> (\<exists>d' e. d = d' @ [PDetach e] \<and> attached d'))"

text \<open>
  The process was changed after its registers and the instruction were read, and at the end they are written back, in this order, and the
  process is detached; only descriptors of the tracer are closed after that.
\<close>

definition handedBack :: "ptEvent list \<Rightarrow> bool" where
  "handedBack d \<longleftrightarrow> (\<exists>d0 d1 regs code e1 e2 e3 rest.
     d = d0 @ d1 @ PPoke (Rip regs) code e1 # PSetRegs regs e2 # PDetach e3 # rest \<and>
     PGetRegs (Inr regs) \<in> set d0 \<and> PPeek (Rip regs) (Inr code) \<in> set d0 \<and> list_all (\<lambda>e. \<not> touches e) d0 \<and>
     attached d0 \<and> attached d1 \<and> list_all isCloseFd rest)"

definition saved :: "ptraceInjector \<Rightarrow> ptEvent list \<Rightarrow> bool" where
  "saved ij d \<longleftrightarrow> (\<exists>d0. d = d0 @ [PPoke (Rip (pi_savedRegs ij)) (withSyscall (pi_savedCode ij)) None] \<and>
     PGetRegs (Inr (pi_savedRegs ij)) \<in> set d0 \<and> PPeek (Rip (pi_savedRegs ij)) (Inr (pi_savedCode ij)) \<in> set d0 \<and>
     list_all (\<lambda>e. \<not> touches e) d0 \<and> attached d0)"

lemma leftAloneI: "list_all (\<lambda>e. \<not> touches e) d \<Longrightarrow> attached d \<Longrightarrow> leftAlone (d @ [PDetach e])"
  by (auto simp: leftAlone_def)

lemma leftAlone_refused: "leftAlone [PSeize (Some e)]"
  by (simp add: leftAlone_def)

lemma attach_post: "io_post (attach k pid) (\<lambda>r d. case r of Inl e \<Rightarrow> leftAlone d | Inr ij \<Rightarrow> saved ij d)"
proof -
  have alone: "leftAlone (PSeize None # d @ [PDetach e])" if "list_all (\<lambda>e. \<not> touches e) d" "attached d" for d e
    using leftAloneI [of "PSeize None # d" e] that by simp
  note alone1 = alone [of "[x]" for x, simplified] and alone2 = alone [of "[x, y]" for x y, simplified]
    and alone3 = alone [of "[x, y, z]" for x y z, simplified] and alone4 = alone [of "[x, y, z, v]" for x y z v, simplified]
    and alone5 = alone [of "[x, y, z, v, w]" for x y z v w, simplified]
  show ?thesis
    unfolding attach_def Let_def
    by (auto intro!: io_rules leftAlone_refused alone1 alone2 alone3 alone4 alone5 simp: saved_def)
qed

lemma injectSyscall_attached: "io_post (injectSyscall k ij nr a1 a2 a3 a4 a5 a6) (\<lambda>r d. attached d)"
  unfolding injectSyscall_def by (auto intro!: io_rules)

lemma writeToTarget_attached: "io_post (writeToTarget k addr bs) (\<lambda>r d. attached d)"
proof (induction k addr bs rule: writeToTarget.induct)
  case (1 k addr bs)
  show ?case
    by (subst writeToTarget.simps) (auto intro!: io_rules io_post_mono [OF 1])
qed

lemma registerAll_attached: "io_post (registerAll k ij scratch uffd vmas acc) (\<lambda>r d. attached d)"
proof (induction vmas arbitrary: acc)
  case (Cons v vmas)
  show ?case
    by (auto intro!: io_rules io_post_mono [OF writeToTarget_attached] io_post_mono [OF injectSyscall_attached] io_post_mono [OF Cons.IH])
qed (auto intro!: io_rules)

text \<open>The last steps of every path that has changed the process.\<close>

definition givesBack :: "ptraceInjector \<Rightarrow> ptEvent list \<Rightarrow> bool" where
  "givesBack ij d \<longleftrightarrow> (\<exists>d1 e1 e2 e3 rest. d = d1 @ PPoke (Rip (pi_savedRegs ij)) (pi_savedCode ij) e1 # PSetRegs (pi_savedRegs ij) e2 # PDetach e3 # rest \<and>
     attached d1 \<and> list_all isCloseFd rest)"

lemma givesBackI:
  "attached d1 \<Longrightarrow> list_all isCloseFd rest \<Longrightarrow>
   givesBack ij (d1 @ PPoke (Rip (pi_savedRegs ij)) (pi_savedCode ij) e1 # PSetRegs (pi_savedRegs ij) e2 # PDetach e3 # rest)"
  unfolding givesBack_def by blast

lemmas givesBack_now = givesBackI [of "[]" "[]", simplified]

lemma givesBack_skip: "attached d \<Longrightarrow> givesBack ij d' \<Longrightarrow> givesBack ij (d @ d')"
  unfolding givesBack_def by (elim exE conjE) (metis append.assoc list_all_append)

lemma givesBack_more:
  assumes "givesBack ij d" and "list_all isCloseFd d'"
  shows "givesBack ij (d @ d')"
proof -
  from assms(1) obtain d1 e1 e2 e3 rest where
    "d = d1 @ PPoke (Rip (pi_savedRegs ij)) (pi_savedCode ij) e1 # PSetRegs (pi_savedRegs ij) e2 # PDetach e3 # rest"
    "attached d1" "list_all isCloseFd rest"
    unfolding givesBack_def by blast
  then show ?thesis using givesBackI [of d1 "rest @ d'" ij e1 e2 e3] assms(2) by simp
qed

lemma handedBackI: "saved ij d \<Longrightarrow> givesBack ij d' \<Longrightarrow> handedBack (d @ d')"
proof -
  assume "saved ij d" "givesBack ij d'"
  then obtain d0 d1 e1 e2 e3 rest where
    d: "d = d0 @ [PPoke (Rip (pi_savedRegs ij)) (withSyscall (pi_savedCode ij)) None]"
      "PGetRegs (Inr (pi_savedRegs ij)) \<in> set d0" "PPeek (Rip (pi_savedRegs ij)) (Inr (pi_savedCode ij)) \<in> set d0"
      "list_all (\<lambda>e. \<not> touches e) d0" "attached d0"
    and d': "d' = d1 @ PPoke (Rip (pi_savedRegs ij)) (pi_savedCode ij) e1 # PSetRegs (pi_savedRegs ij) e2 # PDetach e3 # rest"
      "attached d1" "list_all isCloseFd rest"
    unfolding saved_def givesBack_def by blast
  let ?d1 = "PPoke (Rip (pi_savedRegs ij)) (withSyscall (pi_savedCode ij)) None # d1"
  have "d @ d' = d0 @ ?d1 @ PPoke (Rip (pi_savedRegs ij)) (pi_savedCode ij) e1 # PSetRegs (pi_savedRegs ij) e2 # PDetach e3 # rest"
    "attached ?d1" using d(1) d' by simp_all
  then show ?thesis using d d'(3) unfolding handedBack_def by blast
qed

lemma restoreState_post: "io_post (restoreState k ij) (\<lambda>r d. givesBack ij d)"
  unfolding restoreState_def by (auto intro!: io_rules givesBack_now)

lemma cleanupMmap_post: "io_post (cleanupMmap k ij scratch) (\<lambda>r d. givesBack ij d)"
  unfolding cleanupMmap_def
  by (auto intro!: io_rules io_post_mono [OF injectSyscall_attached] io_post_mono [OF restoreState_post] givesBack_skip)

lemma cleanupUffd_post: "io_post (cleanupUffd k ij scratch uffd) (\<lambda>r d. givesBack ij d)"
  unfolding cleanupUffd_def
  by (auto intro!: io_rules io_post_mono [OF injectSyscall_attached] io_post_mono [OF cleanupMmap_post] givesBack_skip)

lemma copyUffd_post: "io_post (copyUffd k ij scratch uffd) (\<lambda>r d. givesBack ij d)"
proof -
  have skip1: "givesBack ij (PPidfdOpen p # d)" if "givesBack ij d" for p d
    using givesBack_skip [of "[PPidfdOpen p]" ij d] that by simp
  have skip2: "givesBack ij (PPidfdOpen p # PPidfdGetfd fd g # d @ [PCloseFd x])" if "givesBack ij d" for p fd g d x
    using givesBack_skip [of "[PPidfdOpen p, PPidfdGetfd fd g]" ij "d @ [PCloseFd x]"] givesBack_more [OF that, of "[PCloseFd x]"] by simp
  show ?thesis
    unfolding copyUffd_def
    by (auto intro!: io_rules io_post_mono [OF cleanupUffd_post] io_post_mono [OF cleanupMmap_post] skip1 skip2)
qed

lemma enableWP_attached: "io_post (enableWP k ij scratch uffd) (\<lambda>r d. attached d)"
  unfolding enableWP_def by (auto intro!: io_rules io_post_mono [OF writeToTarget_attached] io_post_mono [OF injectSyscall_attached])

lemma registerUffd_post: "io_post (registerUffd k ij scratch uffd pid vmas) (\<lambda>r d. givesBack ij d)"
  unfolding registerUffd_def
  by (auto intro!: io_rules io_post_mono [OF enableWP_attached] io_post_mono [OF registerAll_attached] io_post_mono [OF cleanupUffd_post]
      io_post_mono [OF copyUffd_post] simp: givesBack_skip)

lemma createUffd_attached: "io_post (createUffd k ij) (\<lambda>r d. attached d)"
  unfolding createUffd_def by (auto intro!: io_rules io_post_mono [OF injectSyscall_attached])

lemma installUffd_post: "io_post (installUffd k ij pid vmas) (\<lambda>r d. givesBack ij d)"
  unfolding installUffd_def
  by (auto intro!: io_rules io_post_mono [OF injectSyscall_attached] io_post_mono [OF createUffd_attached]
      io_post_mono [OF restoreState_post] io_post_mono [OF cleanupMmap_post] io_post_mono [OF registerUffd_post] simp: givesBack_skip)

lemma setup_gives_target_back: "io_post (setupUffdWP k pid vmas) (\<lambda>r d. leftAlone d \<or> handedBack d)"
  unfolding setupUffdWP_def
  by (auto intro!: io_rules io_post_mono [OF attach_post] io_post_mono [OF installUffd_post] dest: handedBackI)

lemma handedBack_close:
  assumes "attached d1"
  shows "handedBack (PSeize None # PInterrupt None # PWait w # PGetRegs (Inr regs) # PPeek (Rip regs) (Inr code) #
    PPoke (Rip regs) (withSyscall code) None # d1 @ [PPoke (Rip regs) code e1, PSetRegs regs e2, PDetach e3])"
proof -
  let ?ij = "\<lparr>pi_savedRegs = regs, pi_savedCode = code\<rparr>"
  have "saved ?ij ([PSeize None, PInterrupt None, PWait w, PGetRegs (Inr regs), PPeek (Rip regs) (Inr code)] @ [PPoke (Rip regs) (withSyscall code) None])"
    unfolding saved_def by (rule exI, rule conjI, simp) simp
  from handedBackI [OF this givesBackI [OF assms, of "[]" ?ij e1 e2 e3]] show ?thesis by simp
qed

lemma close_gives_target_back: "io_post (closeTargetUffd k fd) (\<lambda>r d. leftAlone d \<or> handedBack d)"
  unfolding closeTargetUffd_def closeSeized_def closeInjected_def
  by (auto intro!: io_rules io_post_mono [OF injectSyscall_attached] simp: handedBack_close) (simp_all add: leftAlone_def)

text \<open>
  C16. The setup of write protection, and the close of its descriptor before a dump, give the process back, whatever the kernel answers: either the
  process was never changed, and it is detached if it was seized; or its registers and the instruction at its counter were read before the first change,
  and at the end the instruction is written back, then the registers, then the process is detached, once and for all.
\<close>

theorem target_given_back:
  "io_post (setupUffdWP k pid vmas) (\<lambda>r d. leftAlone d \<or> handedBack d) \<and>
   io_post (closeTargetUffd k fd) (\<lambda>r d. leftAlone d \<or> handedBack d)"
  by (intro conjI setup_gives_target_back close_gives_target_back)

section \<open>What is registered\<close>

lemma registerAll_sound:
  "list_all P acc \<Longrightarrow> (\<And>v. v \<in> set vmas \<Longrightarrow> IsWritableAnonymous v \<Longrightarrow> P \<lparr>ar_Start = Start v, ar_End = End v\<rparr>) \<Longrightarrow>
   io_post (registerAll k ij scratch uffd vmas acc) (\<lambda>r d. list_all P r)"
proof (induction vmas arbitrary: acc)
  case (Cons v vmas)
  have "io_post (registerAll k ij scratch uffd vmas acc') (\<lambda>r d. list_all P r)" if "list_all P acc'" for acc'
    using that Cons by simp
  then show ?case
    using Cons.prems by (auto intro!: io_rules io_post_mono [OF writeToTarget_attached] io_post_mono [OF injectSyscall_attached])
qed (auto intro!: io_rules)

text \<open>
  A setup that succeeds has registered at least one area, only writable private areas that it was asked for, and its descriptor in the
  process is not negative, which is how the profiler knows that there is one to close.
\<close>

lemma setup_registers:
  "io_post (setupUffdWP k pid vmas) (\<lambda>r d.
     case r of
       Inl e \<Rightarrow> True
     | Inr (tracker, target, registered) \<Rightarrow> 0 \<le> target \<and> registered \<noteq> [] \<and>
         list_all (\<lambda>r. \<exists>v \<in> set vmas. IsWritableAnonymous v \<and> r = \<lparr>ar_Start = Start v, ar_End = End v\<rparr>) registered)"
proof -
  have reg: "io_post (registerAll k ij scratch uffd vmas [])
      (\<lambda>rs d. list_all (\<lambda>r. \<exists>v \<in> set vmas. IsWritableAnonymous v \<and> r = \<lparr>ar_Start = Start v, ar_End = End v\<rparr>) rs)" for ij scratch uffd
    by (rule registerAll_sound) auto
  show ?thesis
    unfolding setupUffdWP_def installUffd_def registerUffd_def
    by (auto intro!: io_rules io_post_mono [OF attach_post] io_post_mono [OF injectSyscall_attached] io_post_mono [OF createUffd_attached]
        io_post_mono [OF restoreState_post] io_post_mono [OF cleanupMmap_post] io_post_mono [OF enableWP_attached] io_post_mono [OF reg]
        io_post_mono [OF cleanupUffd_post] io_post_mono [OF copyUffd_post] simp: callFailed_def callValue_def split: sum.splits)
qed

section \<open>Writing to the memory of the process\<close>

type_synonym memory = "u64 \<Rightarrow> 8 word"

definition pokeMem :: "memory \<Rightarrow> u64 \<Rightarrow> bytes \<Rightarrow> memory" where
  "pokeMem mem a bs x = (if unat (x - a) < length bs then bs ! unat (x - a) else mem x)"

definition peekMem :: "memory \<Rightarrow> u64 \<Rightarrow> bytes" where
  "peekMem mem a = map (\<lambda>i. mem (a + of_nat i)) [0..<8]"

text \<open>The memory after a log, and that every read of the log shows the memory at its time.\<close>

fun memAfter :: "memory \<Rightarrow> ptEvent list \<Rightarrow> memory" where
  "memAfter mem [] = mem"
| "memAfter mem (PPoke a bs None # d) = memAfter (pokeMem mem a bs) d"
| "memAfter mem (_ # d) = memAfter mem d"

fun readsTrue :: "memory \<Rightarrow> ptEvent list \<Rightarrow> bool" where
  "readsTrue mem [] \<longleftrightarrow> True"
| "readsTrue mem (PPoke a bs None # d) \<longleftrightarrow> readsTrue (pokeMem mem a bs) d"
| "readsTrue mem (PPeek a (Inr bs) # d) \<longleftrightarrow> bs = peekMem mem a \<and> readsTrue mem d"
| "readsTrue mem (_ # d) \<longleftrightarrow> readsTrue mem d"

lemma pokeMem_Nil: "pokeMem mem a [] = mem"
  by (simp add: pokeMem_def fun_eq_iff)

lemma pokeMem_split:
  assumes "8 \<le> length bs" and "length bs < 2 ^ 64"
  shows "pokeMem (pokeMem mem a (take 8 bs)) (a + 8) (drop 8 bs) = pokeMem mem a bs"
proof
  fix x
  let ?n = "unat (x - a)"
  have n: "?n < 2 ^ 64" using unsigned_less [of "x - a"] by simp
  have eq: "unat (x - (a + 8)) = (if 8 \<le> ?n then ?n - 8 else ?n + 2 ^ 64 - 8)"
    using unat_sub_if' [of "x - a" 8] by (simp add: diff_diff_eq word_le_nat_alt)
  show "pokeMem (pokeMem mem a (take 8 bs)) (a + 8) (drop 8 bs) x = pokeMem mem a bs x"
    using assms n unfolding pokeMem_def eq by (auto simp: nth_append)
qed

lemma pokeMem_tail:
  assumes "length bs < 8"
  shows "pokeMem mem a (bs @ drop (length bs) (peekMem mem a)) = pokeMem mem a bs"
proof
  fix x
  have "a + of_nat (unat (x - a)) = x" by simp
  then show "pokeMem mem a (bs @ drop (length bs) (peekMem mem a)) x = pokeMem mem a bs x"
    using assms by (auto simp: pokeMem_def peekMem_def nth_append)
qed

lemma writeToTarget_exact:
  "length bs < 2 ^ 64 \<Longrightarrow>
   io_post (writeToTarget k addr bs) (\<lambda>r d. \<forall>mem. r = None \<longrightarrow> readsTrue mem d \<longrightarrow> memAfter mem d = pokeMem mem addr bs)"
proof (induction k addr bs rule: writeToTarget.induct)
  case (1 k addr bs)
  have rec: "io_post (writeToTarget k (addr + 8) (drop 8 bs))
      (\<lambda>r d. \<forall>mem. r = None \<longrightarrow> readsTrue mem d \<longrightarrow> memAfter mem d = pokeMem mem (addr + 8) (drop 8 bs))" if "8 \<le> length bs"
    using that 1 by simp
  show ?case
    using 1(2) by (subst writeToTarget.simps)
      (auto intro!: io_rules io_post_mono [OF rec] simp: pokeMem_split pokeMem_tail pokeMem_Nil)
qed

text \<open>
  C34. A write to the memory of the process changes exactly its bytes: if the write succeeds and the kernel shows the memory as it is, then
  afterwards the bytes from the address on are the ones to be written, and every other byte is what it was, although whole words
  are written.
\<close>

theorem write_exact:
  assumes "length bs < 2 ^ 64"
  shows "io_post (writeToTarget k addr bs) (\<lambda>r d.
    if r = None \<and> readsTrue mem d
    then \<forall>x. memAfter mem d x = (if unat (x - addr) < length bs then bs ! unat (x - addr) else mem x) else True)"
  by (rule io_post_mono [OF writeToTarget_exact [OF assms]]) (simp add: pokeMem_def)

definition plainRegs :: ptraceRegs where
  "plainRegs = \<lparr>Rip = 0x400000, Rax = 7, Rdi = 0, Rsi = 0, Rdx = 0, R10 = 0, R8 = 0, R9 = 0, otherRegs = []\<rparr>"

text \<open>A kernel that grants every request and shows the memory, which is zero at first.\<close>

definition grantingTracer :: tracer where
  "grantingTracer =
     \<lparr>k_seize = (\<lambda>_. None), k_interrupt = (\<lambda>_. None), k_wait = (\<lambda>_. Inr 0x57F), k_getRegs = (\<lambda>_. Inr plainRegs), k_setRegs = (\<lambda>_ _. None),
      k_step = (\<lambda>_. None), k_peek = (\<lambda>t a. Inr (peekMem (memAfter (\<lambda>_. 0) t) a)), k_poke = (\<lambda>_ _ _. None), k_detach = (\<lambda>_. None),
      k_pidfdOpen = (\<lambda>_. Inr 11), k_pidfdGetfd = (\<lambda>_ _. Inr 12), k_scan = (\<lambda>_ _. Inr 1), k_ioctl = (\<lambda>_ _ _ _. None)\<rparr>"

theorem write_exact_witness:
  "outcome (writeToTarget grantingTracer 0x1000 [1, 2, 3]) = None \<and>
   memAfter (\<lambda>_. 0) (events (writeToTarget grantingTracer 0x1000 [1, 2, 3])) 0x1002 = 3 \<and>
   memAfter (\<lambda>_. 0) (events (writeToTarget grantingTracer 0x1000 [1, 2, 3])) 0x1003 = 0"
proof -
  let ?m = "writeToTarget grantingTracer 0x1000 [1, 2, 3]"
  have run: "outcome ?m = None" "readsTrue (\<lambda>_. 0) (events ?m)"
    by (simp_all add: outcome_def events_def writeToTarget.simps io_simps kPeek_def kPoke_def grantingTracer_def)
  have "io_post ?m (\<lambda>r d. if r = None \<and> readsTrue (\<lambda>_. 0) d
      then \<forall>x. memAfter (\<lambda>_. 0) d x = (if unat (x - 0x1000) < length [1, 2, 3 :: 8 word] then [1, 2, 3] ! unat (x - 0x1000) else 0) else True)"
    by (rule write_exact) simp
  from io_post_run [OF this] run
  have "memAfter (\<lambda>_. 0) (events ?m) x = (if unat (x - 0x1000) < 3 then [1, 2, 3] ! unat (x - 0x1000) else 0)" for x by simp
  from this [of "0x1002"] this [of "0x1003"] run(1) show ?thesis by simp
qed

end
