(* ===== verification/Maps.thy ===== *)
theory Maps
  imports CheckpointProps
begin

text \<open>
  \<open>pkg/profiler/vma.go\<close>: the memory map of a process. The format \<open>%x-%x %s %x %d:%d %d\<close> of \<open>fmt.Sscanf\<close> is a list of items; the scan
  gives the values it has read before the first item that does not match.
\<close>

section \<open>\<open>fmt.Sscanf\<close>\<close>

datatype scanItem = ItHex | ItUint | ItInt | ItStr | ItLit char | ItSpace

datatype scanVal = SVNum nat | SVInt int | SVStr string

definition isHexAny :: "char \<Rightarrow> bool" where
  "isHexAny c \<longleftrightarrow> c \<in> set ''0123456789aAbBcCdDeEfF''"

definition hexAnyVal :: "char \<Rightarrow> nat" where
  "hexAnyVal c = (let n = of_char c :: nat in if n \<le> 57 then n - 48 else if n \<le> 70 then n - 55 else n - 87)"

definition hexNumber :: "string \<Rightarrow> nat" where
  "hexNumber s = foldl (\<lambda>a c. 16 * a + hexAnyVal c) 0 s"

definition dropSign :: "string \<Rightarrow> string" where
  "dropSign s = (if s \<noteq> [] \<and> hd s \<in> set ''+-'' then tl s else s)"

definition signed :: "string \<Rightarrow> nat \<Rightarrow> int" where
  "signed s n = (if s \<noteq> [] \<and> hd s = CHR ''-'' then - int n else int n)"

fun scanItems :: "scanItem list \<Rightarrow> string \<Rightarrow> scanVal list" where
  "scanItems [] s = []"
| "scanItems (ItLit c # fmt) s = (if s \<noteq> [] \<and> hd s = c then scanItems fmt (tl s) else [])"
| "scanItems (ItSpace # fmt) s = (if s = [] \<or> isSpace (hd s) then scanItems fmt (dropWhile isSpace s) else [])"
| "scanItems (ItHex # fmt) s =
     (let t = dropWhile isSpace s; w = takeWhile isHexAny t in
      if w = [] \<or> hexNumber w \<ge> 2 ^ 64 then [] else SVNum (hexNumber w) # scanItems fmt (dropWhile isHexAny t))"
| "scanItems (ItUint # fmt) s =
     (let t = dropWhile isSpace s; w = takeWhile is_digit t in
      if w = [] \<or> nat_of_digits w \<ge> 2 ^ 64 then [] else SVNum (nat_of_digits w) # scanItems fmt (dropWhile is_digit t))"
| "scanItems (ItInt # fmt) s =
     (let t = dropWhile isSpace s; w = takeWhile is_digit (dropSign t); v = signed t (nat_of_digits w) in
      if w = [] \<or> v < int64_min \<or> v > int64_max then [] else SVInt v # scanItems fmt (dropWhile is_digit (dropSign t)))"
| "scanItems (ItStr # fmt) s =
     (let t = dropWhile isSpace s; w = takeWhile (\<lambda>c. \<not> isSpace c) t in
      if w = [] then [] else SVStr w # scanItems fmt (dropWhile (\<lambda>c. \<not> isSpace c) t))"

section \<open>The lines of the map\<close>

definition mapsFormat :: "scanItem list" where
  "mapsFormat = [ItHex, ItLit CHR ''-'', ItHex, ItSpace, ItStr, ItSpace, ItHex, ItSpace, ItInt, ItLit CHR '':'', ItInt, ItSpace, ItUint]"

text \<open>The last word of a line of six words or more, unless it is the inode.\<close>

definition linePathname :: "string \<Rightarrow> nat \<Rightarrow> string" where
  "linePathname line inode =
     (let fs = strFields line in if length fs \<ge> 6 \<and> last fs \<noteq> itoa (int inode) then last fs else [])"

definition parseMapsLine :: "string \<Rightarrow> vmaInfo option" where
  "parseMapsLine line =
     (case scanItems mapsFormat line of
        SVNum a # SVNum b # SVStr perms # SVNum offset # major # rest \<Rightarrow>
          let pathname = linePathname line (case rest of [minor, SVNum inode] \<Rightarrow> inode | _ \<Rightarrow> 0) in
          Some \<lparr>Start = a, End = b, Perms = perms, Pathname = pathname, vma_Type = classifyVMA pathname perms\<rparr>
      | _ \<Rightarrow> None)"

text \<open>The lines as \<open>bufio.Scanner\<close> gives them: without a carriage return at the end, and no empty last line.\<close>

definition scannerLines :: "string \<Rightarrow> string list" where
  "scannerLines text =
     (let ls = split [newline] text; ls' = (if last ls = [] then butlast ls else ls)
      in map (\<lambda>l. if l \<noteq> [] \<and> last l = CHR 0x0D then butlast l else l) ls')"

text \<open>A line that does not fit into the buffer ends the loop with an error.\<close>

definition parseVMAs :: "host \<Rightarrow> int \<Rightarrow> (string + vmaInfo list) hprog" where
  "parseVMAs h pid =
     (let path = ''/proc/'' @ itoa pid @ ''/maps'' in do {
        r \<leftarrow> hReadFile h path;
        State_Monad.return
          (case r of
             Inl e \<Rightarrow> Inl (''open '' @ path @ '': '' @ e)
           | Inr text \<Rightarrow>
               if list_ex (\<lambda>l. length l \<ge> 65536) (split [newline] text) then Inl ''bufio.Scanner: token too long''
               else Inr (List.map_filter parseMapsLine (scannerLines text)))
      })"

section \<open>What the kernel writes is read back\<close>

definition padHex :: "nat \<Rightarrow> nat \<Rightarrow> string" where
  "padHex k n = replicate (k - length (hexOf n)) (CHR ''0'') @ hexOf n"

text \<open>A line of \<open>/proc/pid/maps\<close>, where device numbers are hexadecimal and the path comes after a field of spaces.\<close>

definition kernelLine :: "nat \<Rightarrow> nat \<Rightarrow> string \<Rightarrow> nat \<Rightarrow> nat \<Rightarrow> nat \<Rightarrow> nat \<Rightarrow> nat \<Rightarrow> string \<Rightarrow> string" where
  "kernelLine a b perms offset major minor inode gap path =
     padHex 8 a @ ''-'' @ padHex 8 b @ '' '' @ perms @ '' '' @ padHex 8 offset @ '' '' @ padHex 2 major @ '':'' @ padHex 2 minor @ '' '' @
     itoa (int inode) @ '' '' @ (if path = [] then [] else replicate gap (CHR '' '') @ path)"

lemma isHexAny_not_space: "isHexAny c \<Longrightarrow> \<not> isSpace c"
  by (auto simp: isHexAny_def isSpace_def)

lemma hexDigit_any: "n < 16 \<Longrightarrow> isHexAny (hexDigit n) \<and> hexAnyVal (hexDigit n) = n"
proof -
  have "\<forall>n \<in> set [0..<16]. isHexAny (hexDigit n) \<and> hexAnyVal (hexDigit n) = n" by code_simp
  then show "n < 16 \<Longrightarrow> ?thesis" by simp
qed

lemma hexNumber_snoc: "hexNumber (s @ [c]) = 16 * hexNumber s + hexAnyVal c"
  by (simp add: hexNumber_def)

lemma hexOf_any: "list_all isHexAny (hexOf n) \<and> hexNumber (hexOf n) = n \<and> hexOf n \<noteq> []"
proof (induction n rule: hexOf.induct)
  case (1 n)
  show ?case
  proof (cases "n < 16")
    case True
    then show ?thesis by (subst (1 2 3) hexOf.simps) (simp add: hexDigit_any hexNumber_def)
  next
    case False
    with 1 have "list_all isHexAny (hexOf (n div 16)) \<and> hexNumber (hexOf (n div 16)) = n div 16" by blast
    then show ?thesis using False by (subst (1 2 3) hexOf.simps) (simp add: hexDigit_any hexNumber_snoc)
  qed
qed

lemma hexNumber_zeros: "hexNumber (replicate k (CHR ''0'') @ s) = hexNumber s"
proof -
  have "hexAnyVal (CHR ''0'') = 0" by code_simp
  then have "foldl (\<lambda>a c. 16 * a + hexAnyVal c) 0 (replicate k (CHR ''0'')) = 0" by (induction k) simp_all
  then show ?thesis by (simp add: hexNumber_def)
qed

lemma padHex_any: "list_all isHexAny (padHex k n)" "hexNumber (padHex k n) = n" "padHex k n \<noteq> []"
proof -
  have "isHexAny (CHR ''0'')" by (simp add: isHexAny_def)
  then show "list_all isHexAny (padHex k n)" using hexOf_any [of n] by (auto simp: padHex_def list_all_iff)
  show "hexNumber (padHex k n) = n" "padHex k n \<noteq> []" using hexOf_any [of n] by (simp_all add: padHex_def hexNumber_zeros)
qed

text \<open>One item of the format, on a word that ends where the item ends.\<close>

lemma takeDrop_word:
  assumes "list_all P w" and "r = [] \<or> \<not> P (hd r)"
  shows "takeWhile P (w @ r) = w" and "dropWhile P (w @ r) = r"
  using assms by (induction w) (cases r; auto)+

lemma skip_word: "w \<noteq> [] \<Longrightarrow> \<not> isSpace (hd w) \<Longrightarrow> dropWhile isSpace (w @ r) = w @ r"
  by (cases w) auto

lemma scan_hex:
  assumes "r = [] \<or> \<not> isHexAny (hd r)" and "n < 2 ^ 64"
  shows "scanItems (ItHex # fmt) (padHex k n @ r) = SVNum n # scanItems fmt r"
proof -
  note w = padHex_any [of k n]
  have "\<not> isSpace (hd (padHex k n))" using w(1,3) by (cases "padHex k n") (auto dest: isHexAny_not_space)
  then have "dropWhile isSpace (padHex k n @ r) = padHex k n @ r" by (rule skip_word [OF w(3)])
  then show ?thesis using takeDrop_word [OF w(1) assms(1)] w(2,3) assms(2) by (simp add: Let_def)
qed

lemma scan_str:
  assumes "w \<noteq> []" and "list_all (\<lambda>c. \<not> isSpace c) w" and "r = [] \<or> isSpace (hd r)"
  shows "scanItems (ItStr # fmt) (w @ r) = SVStr w # scanItems fmt r"
proof -
  have "dropWhile isSpace (w @ r) = w @ r" using assms(1,2) by (intro skip_word) (cases w; auto)+
  then show ?thesis using takeDrop_word [OF assms(2), of r] assms(1,3) by (simp add: Let_def)
qed

lemma scan_space: "w \<noteq> [] \<Longrightarrow> \<not> isSpace (hd w) \<Longrightarrow> scanItems (ItSpace # fmt) (CHR '' '' # w @ r) = scanItems fmt (w @ r)"
  by (simp add: skip_word isSpace_def [of "CHR '' ''"])

text \<open>The words of a line.\<close>

lemma fields_word: "list_all (\<lambda>c. \<not> isSpace c) w \<Longrightarrow> fields_from acc (w @ r) = fields_from (rev w @ acc) r"
  by (induction w arbitrary: acc) auto

lemma strFields_word:
  assumes "w \<noteq> []" and "list_all (\<lambda>c. \<not> isSpace c) w"
  shows "strFields (w @ CHR '' '' # r) = w # strFields r" and "strFields w = [w]"
  using assms fields_word [OF assms(2), of "[]" "CHR '' '' # r"] fields_word [OF assms(2), of "[]" "[]"]
  by (simp_all add: strFields_def isSpace_def [of "CHR '' ''"])

lemma strFields_spaces: "strFields (replicate k (CHR '' '') @ s) = strFields s"
  by (induction k) (simp_all add: strFields_def isSpace_def [of "CHR '' ''"])

lemma strFields_Nil: "strFields [] = []"
  by (simp add: strFields_def)

lemma padHex_word: "list_all (\<lambda>c. \<not> isSpace c) (padHex k n)"
  using padHex_any(1) [of k n] by (auto simp: list_all_iff dest: isHexAny_not_space)

lemma itoa_nat_word: "list_all (\<lambda>c. \<not> isSpace c) (itoa (int n))" "itoa (int n) \<noteq> []" "is_digit (hd (itoa (int n)))"
proof -
  have d: "list_all is_digit (itoa (int n))" "itoa (int n) \<noteq> []" by (simp_all add: itoa_def digits10_digits)
  have "\<not> isSpace c" if "is_digit c" for c using that by (auto simp: is_digit_def isSpace_def)
  with d(1) show "list_all (\<lambda>c. \<not> isSpace c) (itoa (int n))" by (auto simp: list_all_iff)
  show "itoa (int n) \<noteq> []" "is_digit (hd (itoa (int n)))" using d by (cases "itoa (int n)"; simp)+
qed

lemma linePathname_kernel:
  assumes "perms \<noteq> []" and "list_all (\<lambda>c. \<not> isSpace c) perms" and "list_all (\<lambda>c. \<not> isSpace c) path"
    and "path = [] \<or> \<not> is_digit (hd path)"
  shows "linePathname (kernelLine a b perms offset major minor inode gap path) i = path"
proof -
  define dev where "dev = padHex 2 major @ '':'' @ padHex 2 minor"
  define range where "range = padHex 8 a @ ''-'' @ padHex 8 b"
  have w: "range \<noteq> []" "list_all (\<lambda>c. \<not> isSpace c) range" "dev \<noteq> []" "list_all (\<lambda>c. \<not> isSpace c) dev"
    using padHex_word padHex_any(3) by (simp_all add: dev_def range_def isSpace_def)
  have line: "kernelLine a b perms offset major minor inode gap path =
      range @ CHR '' '' # perms @ CHR '' '' # padHex 8 offset @ CHR '' '' # dev @ CHR '' '' # itoa (int inode) @ CHR '' '' #
      (if path = [] then [] else replicate gap (CHR '' '') @ path)"
    by (simp add: kernelLine_def range_def dev_def)
  have fields: "strFields (kernelLine a b perms offset major minor inode gap path) =
      [range, perms, padHex 8 offset, dev, itoa (int inode)] @ (if path = [] then [] else [path])"
    unfolding line using w assms padHex_word padHex_any(3) itoa_nat_word
    by (simp add: strFields_word strFields_spaces strFields_Nil)
  have "path \<noteq> itoa (int i)" if "path \<noteq> []" using itoa_nat_word(3) [of i] assms(4) that by auto
  then show ?thesis unfolding linePathname_def fields by (simp add: Let_def)
qed

text \<open>The device: its first digit decides whether the number is read at all.\<close>

lemma nat_of_digits_bound: "list_all is_digit s \<Longrightarrow> nat_of_digits s < 10 ^ length s"
proof (induction s rule: rev_induct)
  case (snoc c s)
  then have "digit_val c < 10" by (auto simp: is_digit_def digit_val_def)
  with snoc show ?case by simp
qed (simp add: nat_of_digits_def)

lemma hexOf_length: "n < 16 ^ k \<Longrightarrow> 0 < k \<Longrightarrow> length (hexOf n) \<le> k"
proof (induction k arbitrary: n)
  case (Suc k)
  show ?case
  proof (cases "n < 16")
    case False
    then have "n div 16 < 16 ^ k" "0 < k" using Suc.prems by (auto simp: less_mult_imp_div_less mult.commute intro: Nat.gr0I)
    then show ?thesis using False Suc.IH [of "n div 16"] by (subst hexOf.simps) simp
  qed (subst hexOf.simps, simp)
qed simp

lemma takeWhile_shorter: "r = [] \<or> \<not> P (hd r) \<Longrightarrow> length (takeWhile P (w @ r)) \<le> length w"
  by (induction w) (cases r; auto)+

lemma small_int64: "n < 10 ^ 8 \<Longrightarrow> int64_min \<le> int n \<and> int n \<le> int64_max"
  by (simp add: int64_min_def int64_max_def)

lemma scan_major:
  assumes "major < 16 ^ 8" and "r = [] \<or> \<not> is_digit (hd r)"
  shows "if is_digit (hd (padHex 2 major)) then \<exists>v vs. scanItems (ItInt # fmt) (padHex 2 major @ r) = SVInt v # vs
    else scanItems (ItInt # fmt) (padHex 2 major @ r) = []"
proof -
  let ?w = "padHex 2 major" and ?d = "takeWhile is_digit (padHex 2 major @ r)"
  obtain c s where w: "?w = c # s" using padHex_any(3) by (cases ?w) auto
  have c: "isHexAny c" "\<not> isSpace c" using padHex_any(1) [of 2 major] w by (auto dest: isHexAny_not_space)
  have sign: "dropSign (?w @ r) = ?w @ r" "\<And>n. signed (?w @ r) n = int n"
    using w c(1) by (auto simp: dropSign_def signed_def isHexAny_def)
  have skip: "dropWhile isSpace (?w @ r) = ?w @ r" using w c(2) by simp
  have "length ?w \<le> 8" using hexOf_length [OF assms(1)] by (simp add: padHex_def)
  then have "length ?d \<le> 8" using takeWhile_shorter [of r is_digit ?w] assms(2) by simp
  then have pow: "(10 :: nat) ^ length ?d \<le> 10 ^ 8" by (rule power_increasing) simp
  have "list_all is_digit ?d" unfolding list_all_iff by (blast dest: set_takeWhileD)
  from small_int64 [OF less_le_trans [OF nat_of_digits_bound [OF this] pow]]
  have "int64_min \<le> int (nat_of_digits ?d) \<and> int (nat_of_digits ?d) \<le> int64_max" .
  moreover have "?d \<noteq> [] \<longleftrightarrow> is_digit (hd ?w)" using w by simp
  ultimately show ?thesis by (auto simp: Let_def skip sign)
qed



end
