(* ===== verification/Service.thy ===== *)
theory Service
  imports FsmProps
begin

text \<open>
  The agents as the controller sees them. A request of the controller to an agent is one event with the reply, and in a given world the reply is
  the one that the world gives at that point of the log. The locale \<open>agent_service\<close> is the contract of a kind of request: a successful reply
  ensures something about the agent from then on. What follows from the contract for the controller is proved once in the locale; the theory \<open>Fleet\<close>
  discharges the contract with the model of the agent.
\<close>

section \<open>Replies of the world\<close>

text \<open>The replies of the agents in a log are those that the world gives.\<close>

fun truthful :: "world \<Rightarrow> event list \<Rightarrow> event \<Rightarrow> bool" where
  "truthful w t (EPreCheckpoint ip q r) \<longleftrightarrow> r = w_rpcPreCheckpoint w t ip q"
| "truthful w t (EFinalDump ip q r) \<longleftrightarrow> r = w_rpcFinalDump w t ip q"
| "truthful w t (ERestore ip q r) \<longleftrightarrow> r = w_rpcRestore w t ip q"
| "truthful w t (EGetStatus ip r) \<longleftrightarrow> r = w_rpcGetStatus w t ip"
| "truthful w t (ECheckPageServer ip pid r) \<longleftrightarrow> r = w_rpcCheckPageServer w t ip pid"
| "truthful w t _ \<longleftrightarrow> True"

fun genuine :: "world \<Rightarrow> event list \<Rightarrow> event list \<Rightarrow> bool" where
  "genuine w t [] \<longleftrightarrow> True"
| "genuine w t (e # d) \<longleftrightarrow> truthful w t e \<and> genuine w (t @ [e]) d"

lemma genuine_append: "genuine w t (d @ d') \<longleftrightarrow> genuine w t d \<and> genuine w (t @ d) d'"
  by (induction d arbitrary: t) auto

lemma genuine_at: "genuine w t (d1 @ e # d2) \<Longrightarrow> truthful w (t @ d1) e"
  by (simp add: genuine_append)

text \<open>A program whose requests go to the world \<open>w\<close>.\<close>

definition talksTo :: "world \<Rightarrow> 'a prog \<Rightarrow> bool" where
  "talksTo w m \<longleftrightarrow> (\<forall>t. \<exists>d. snd (run_state m t) = t @ d \<and> genuine w t d)"

named_theorems talks \<open>rules that show along a program that it talks to a world\<close>

lemma talks_return [talks]: "talksTo w (State_Monad.return x)"
  by (simp add: talksTo_def run_return)

lemma talks_bind [talks]:
  assumes "talksTo w m" and "\<And>x. talksTo w (f x)"
  shows "talksTo w (State_Monad.bind m f)"
  unfolding talksTo_def
proof
  fix t
  from assms(1) obtain d where d: "snd (run_state m t) = t @ d" "genuine w t d" unfolding talksTo_def by blast
  from assms(2) obtain d' where "snd (run_state (f (fst (run_state m t))) (t @ d)) = (t @ d) @ d'" "genuine w (t @ d) d'"
    unfolding talksTo_def by blast
  with d show "\<exists>d. snd (run_state (m \<bind> f) t) = t @ d \<and> genuine w t d"
    by (intro exI [of _ "d @ d'"]) (simp only: run_bind genuine_append append_assoc)
qed

lemma talks_ask: "(\<And>t. truthful w t (ev (ans t))) \<Longrightarrow> talksTo w (ask ans ev)"
  by (simp add: talksTo_def run_ask)

lemma talks_cases [talks]:
  "talksTo w m \<Longrightarrow> talksTo w m' \<Longrightarrow> talksTo w (if b then m else m')"
  "talksTo w m \<Longrightarrow> (\<And>y. talksTo w (f y)) \<Longrightarrow> talksTo w (case x of None \<Rightarrow> m | Some y \<Rightarrow> f y)"
  "(\<And>e. talksTo w (g e)) \<Longrightarrow> (\<And>z. talksTo w (k z)) \<Longrightarrow> talksTo w (case s of Inl e \<Rightarrow> g e | Inr z \<Rightarrow> k z)"
  by (simp_all split: option.split sum.split)

lemma talks_requests [talks]:
  "talksTo w (apiGetMapp w k)" "talksTo w (statusUpdate w x)" "talksTo w (getPod w k)" "talksTo w (updatePod w p)" "talksTo w (deletePod w p)"
  "talksTo w (dial w a)" "talksTo w (now w)" "talksTo w (rpcFinalDump w ip fq)" "talksTo w (rpcRestore w ip rq)"
  unfolding request_defs by (auto intro!: talks_ask)

lemma talks_poll:
  assumes "\<And>s t. truthful w t (ev s (ans s t))"
  shows "talksTo w (State (poll w interval deadline ans ev decide s))"
proof -
  have "\<exists>d. snd (poll w interval deadline ans ev decide s t) = t @ d \<and> genuine w t d" for t
    using assms
  proof (induction w interval deadline ans ev decide s t rule: poll.induct)
    case (1 w interval deadline ans ev decide s t)
    let ?t1 = "t @ [ENow (clock w t)]"
    let ?r = "ans s ?t1"
    show ?case
    proof (cases "clock w t < deadline \<and> 0 < interval")
      case False
      then show ?thesis by (subst poll_unfold) (auto intro!: exI [of _ "[ENow (clock w t)]"])
    next
      case True
      note go = this
      show ?thesis
      proof (cases "decide s ?r")
        case (Inr a)
        with go show ?thesis
          by (subst poll_unfold) (auto intro!: exI [of _ "[ENow (clock w t), ev s ?r]"] simp: 1(2))
      next
        case (Inl s')
        obtain d where "snd (poll w interval deadline ans ev decide s' (?t1 @ [ev s ?r] @ [ESleep interval])) = (?t1 @ [ev s ?r] @ [ESleep interval]) @ d"
          and "genuine w (?t1 @ [ev s ?r] @ [ESleep interval]) d"
          using 1(1) [OF refl refl go refl refl Inl 1(2)] by auto
        with go Inl show ?thesis
          by (subst poll_unfold) (auto intro!: exI [of _ "ENow (clock w t) # ev s ?r # ESleep interval # d"] simp: 1(2))
      qed
    qed
  qed
  then show ?thesis by (simp add: talksTo_def)
qed

lemma talks_setStage [talks]: "talksTo w (setStage w m stage mutate)"
  unfolding setStage_def metav1_Now_def by (intro talks)

lemma talks_client [talks]:
  "talksTo w (NewAgentClient w p)" "talksTo w (FinalDump w c addr port parent strategy)"
  "talksTo w (Restore w c i bucket prefix src mounts strategy pipes)"
  unfolding NewAgentClient_def FinalDump_def Restore_def Let_def by (intro talks)+

lemma talks_failures [talks]:
  "talksTo w (fsmTransitionToFinalDumpFailed w m msg)" "talksTo w (fsmTransitionToRestoreFailed w m msg)"
  unfolding fsmTransitionToFinalDumpFailed_def fsmTransitionToRestoreFailed_def metav1_Now_def by (intro talks)+

lemma talks_dumping: "talksTo w (fsmDumpingHandler w m p)"
  unfolding fsmDumpingHandler_def fsmDumpAndRecord_def Let_def by (intro talks)

lemma talks_restoring: "talksTo w (fsmRestoringHandler w m p)"
  unfolding fsmRestoringHandler_def fsmFinishRestore_def cleanupSource_def waitForLazyPagesCompletion_def metav1_Now_def Let_def
  by (intro talks talks_poll) simp

text \<open>A postcondition that holds in every world, together with the replies of this one.\<close>

lemma talks_post:
  assumes "talksTo w m" and "io_post m Q"
  shows "\<exists>d. snd (run_state m t) = t @ d \<and> Q (fst (run_state m t)) d \<and> genuine w t d"
  using assms unfolding talksTo_def io_post_def by (metis same_append_eq)

section \<open>The contract of a request\<close>

text \<open>
  A kind of request in a world: its event, what the world answers to it, and what a successful answer ensures. The two laws are that the
  answer ensures it and that no later event takes it back.
\<close>

locale agent_service =
  fixes w :: world
    and answer :: "event list \<Rightarrow> string \<Rightarrow> 'q \<Rightarrow> kerr + 'p"
    and call :: "string \<Rightarrow> 'q \<Rightarrow> kerr + 'p \<Rightarrow> event"
    and ensured :: "event list \<Rightarrow> string \<Rightarrow> 'q \<Rightarrow> 'p \<Rightarrow> bool"
  assumes heard: "truthful w t (call ip q r) \<Longrightarrow> r = answer t ip q"
    and answered: "answer t ip q = Inr p \<Longrightarrow> ensured (t @ [call ip q (Inr p)]) ip q p"
    and kept: "ensured t ip q p \<Longrightarrow> ensured (t @ [e]) ip q p"
begin

lemma kept_later: "ensured t ip q p \<Longrightarrow> ensured (t @ d) ip q p"
  by (induction d rule: rev_induct) (use kept in \<open>auto simp flip: append_assoc\<close>)

lemma served:
  assumes "genuine w t d" and "call ip q (Inr p) \<in> set d"
  shows "ensured (t @ d) ip q p"
proof -
  from assms(2) obtain d1 d2 where d: "d = d1 @ call ip q (Inr p) # d2" by (meson split_list)
  with assms(1) have "Inr p = answer (t @ d1) ip q" using genuine_at heard by blast
  then have "ensured ((t @ d1) @ [call ip q (Inr p)]) ip q p" by (intro answered) simp
  then show ?thesis using kept_later [of "(t @ d1) @ [call ip q (Inr p)]" ip q p d2] by (simp add: d)
qed

text \<open>A program that has made a successful request may rely on what it ensures.\<close>

lemma relied:
  assumes "talksTo w m" and "io_post m Q"
  obtains d where "snd (run_state m t) = t @ d" and "Q (fst (run_state m t)) d"
    and "\<And>ip q p. call ip q (Inr p) \<in> set d \<Longrightarrow> ensured (snd (run_state m t)) ip q p"
  using talks_post [OF assms, of t] served that by metis

end

section \<open>What the controller asks before it goes on\<close>

text \<open>A status that records a dump names the dump of a successful request to the source.\<close>

fun recordsDump :: "mapp \<Rightarrow> event \<Rightarrow> bool" where
  "recordsDump x (EStatusUpdate y r) \<longleftrightarrow> y = x \<and> mStage x = StageUploaded"
| "recordsDump x _ \<longleftrightarrow> False"

fun dumpOf :: "mapp \<Rightarrow> pod \<Rightarrow> mapp \<Rightarrow> event \<Rightarrow> bool" where
  "dumpOf m p x (EFinalDump ip q (Inr resp)) \<longleftrightarrow> ip = pIP p \<and> fdq_MigrationStrategy q = effectiveStrategy m \<and>
     UploadedDumpID (mMigration x) = DumpId resp \<and> UploadedS3Prefix (mMigration x) = dumpPrefix m p (DumpId resp)"
| "dumpOf m p x _ \<longleftrightarrow> False"

lemma stagedStatus_stage: "mStage (stagedStatus m s f t1 t2) = s"
  by (simp add: stagedStatus_def mapp_defs Let_def)

lemma staged_no_commit: "s \<noteq> StageIdle \<Longrightarrow> \<not> commits m' (EStatusUpdate (stagedStatus m s f t1 t2) r)"
  using stagedStatus_stage [of m s f t1 t2] by (cases r) (auto simp: emptyMigration_def)

lemma dump_recorded:
  "io_post (fsmDumpingHandler w m p) (\<lambda>r d. list_ex (recordsDump x) d \<longrightarrow> list_ex (dumpOf m p x) d)"
proof -
  have failed: "io_post (fsmTransitionToFinalDumpFailed w m msg) (\<lambda>r d. \<not> list_ex (recordsDump x) d)" for msg
    unfolding fsmTransitionToFinalDumpFailed_def
    by (auto intro!: io_rules simp: stagedStatus_stage)
  have "io_post (fsmDumpAndRecord w m p) (\<lambda>r d. list_ex (recordsDump x) d \<longrightarrow> list_ex (dumpOf m p x) d)"
    unfolding fsmDumpAndRecord_def client_defs Let_def
    by (auto intro!: io_rules io_post_mono [OF failed] simp: stagedStatus_def mapp_defs Let_def split: option.splits)
  then show ?thesis
    unfolding fsmDumpingHandler_def by (auto intro!: io_rules elim!: io_post_mono)
qed

text \<open>A migration is completed only after the target has accepted the restore of the recorded dump.\<close>

fun restoreAt :: "mapp \<Rightarrow> string \<Rightarrow> event \<Rightarrow> bool" where
  "restoreAt m ip (ERestore ip' q (Inr resp)) \<longleftrightarrow> ip' = ip \<and> rq_DumpId q = UploadedDumpID (mMigration m) \<and>
     rq_S3Prefix q = UploadedS3Prefix (mMigration m) \<and> rq_MigrationStrategy q = effectiveStrategy m"
| "restoreAt m ip _ \<longleftrightarrow> False"

fun targetSeen :: "mapp \<Rightarrow> pod \<Rightarrow> event \<Rightarrow> bool" where
  "targetSeen m p (EGetPod k (Inr q)) \<longleftrightarrow> k = (mNamespace m, CurrentTargetPod (mMigration m)) \<and> q = p"
| "targetSeen m p _ \<longleftrightarrow> False"

lemma commit_restored:
  "io_post (fsmRestoringHandler w m p)
     (\<lambda>r d. list_ex (commits m) d \<longrightarrow> (\<exists>target. list_ex (targetSeen m target) d \<and> list_ex (restoreAt m (pIP target)) d))"
proof -
  have failed: "io_post (fsmTransitionToRestoreFailed w m msg) (\<lambda>r d. \<not> list_ex (commits m) d)" for msg
    unfolding fsmTransitionToRestoreFailed_def
    by (auto intro!: io_rules simp: staged_no_commit)
  have finish: "io_post (fsmFinishRestore w m p q) (\<lambda>r d. True)" for q
    unfolding fsmFinishRestore_def cleanupSource_def by (auto intro!: io_rules)
  show ?thesis
    unfolding fsmRestoringHandler_def client_defs Let_def
    by (auto intro!: io_rules io_post_mono [OF failed] io_post_mono [OF finish] split: option.splits) blast+
qed

end
