(* ===== verification/AgentSystem.thy ===== *)
theory AgentSystem
  imports AgentProps
begin

text \<open>
  The agent as a whole: its requests, its schedulers, the loop of its profiler and the end of a lazy transfer as operations on one
  state, which may come in any order and at any time. What is well-formed in that state, and that every operation keeps it so. What
  identifies an agent (its directories, its storage, the place of its checkpoints) never changes.
\<close>

section \<open>Operations\<close>

datatype (plugins only: code) agentOp =
    OpStart
  | OpRpc rpc
  | OpAutoStart
  | OpInitialDump
  | OpSchedulerTick
  | OpProfilerTick
  | OpLazyCompleted string string

record agentEnv =
  e_host :: host
  e_getenv :: genv
  e_floats :: floatLib
  e_fmt :: "rat \<Rightarrow> string"

text \<open>The first operation is the start; it includes the restore at the start. A turn of the loop of the profiler that the agent holds.\<close>

definition agentProfilerTick :: "host \<Rightarrow> agentState \<Rightarrow> agentState hprog" where
  "agentProfilerTick h a =
     (case profilerInst a of
        None \<Rightarrow> State_Monad.return a
      | Some p \<Rightarrow> do { p' \<leftarrow> profilerTick h p; State_Monad.return (a\<lparr>profilerInst := Some p'\<rparr>) })"

fun perform :: "agentEnv \<Rightarrow> agentOp \<Rightarrow> agentState \<Rightarrow> agentState hprog" where
  "perform E OpStart a = do { (_, a') \<leftarrow> agentStart (e_host E) (e_getenv E) (e_floats E) a; State_Monad.return a' }"
| "perform E (OpRpc c) a = serve (e_host E) (e_getenv E) (e_floats E) (e_fmt E) c a"
| "perform E OpAutoStart a = autoStartProfiler (e_host E) (e_getenv E) (e_floats E) a"
| "perform E OpInitialDump a = agentInitialDump (e_host E) (e_getenv E) a"
| "perform E OpSchedulerTick a = agentSchedulerTick (e_host E) (e_getenv E) a"
| "perform E OpProfilerTick a = agentProfilerTick (e_host E) a"
| "perform E (OpLazyCompleted dumpID prefix) a =
     lazyPagesCompleted (e_host E) (e_getenv E) (e_floats E) (e_fmt E) a dumpID prefix"

section \<open>Well-formed profilers\<close>

text \<open>The ring of a chunk: ten places, filled from the first one on and then around.\<close>

definition ringOk :: "chunkHeatState \<Rightarrow> bool" where
  "ringOk s \<longleftrightarrow> length (Ratios s) = windowSize \<and> Head s < windowSize \<and>
     (if Count s < windowSize then Head s = Count s else Count s = windowSize)"

definition chunkOk :: "int \<Rightarrow> chunkKey \<times> chunkHeatState \<Rightarrow> bool" where
  "chunkOk n = (\<lambda>(k, s). k = (hs_VMAStart s, hs_ChunkIdx s) \<and> ringOk s \<and> (IsHot s \<longleftrightarrow> int (ConsecutiveHot s) \<ge> n))"

definition heatOk :: "heatClassifier \<Rightarrow> bool" where
  "heatOk h \<longleftrightarrow> distinct (map fst (states h)) \<and> list_all (chunkOk (hotConsecutive h)) (states h)"

definition profilerOk :: "profiler \<Rightarrow> bool" where
  "profilerOk p \<longleftrightarrow> 0 < IntervalMs (p_config p) \<and> 0 < HotThreshold (p_config p) \<and> 0 < HotConsecutive (p_config p) \<and>
     hotThreshold (heat p) = HotThreshold (p_config p) \<and> hotConsecutive (heat p) = HotConsecutive (p_config p) \<and> heatOk (heat p) \<and>
     0 \<le> sampleCount p \<and> CumulativeDirtyBytes (p_dirtyVolume p) = cumulativeDirtyBytes p \<and>
     DirtyBytes (p_dirtyVolume p) = dv_DirtyPages (p_dirtyVolume p) * int pageSize \<and> (looping p \<longrightarrow> pagemapFile p)"

lemma newHeat_ok [simp]: "heatOk (newHeatClassifier t n)"
  by (simp add: heatOk_def newHeatClassifier_def)

lemma heatReset_ok [simp]: "heatOk (heatReset h)"
  by (simp add: heatOk_def heatReset_def)

lemma ringOk_push: "ringOk s \<Longrightarrow> ringOk (pushRatio threshold n ratio s)"
  by (auto simp: ringOk_def pushRatio_def Let_def windowSize_def mod_Suc)

lemma ringOk_new: "ringOk (newChunkState a ci)"
  by (simp add: ringOk_def newChunkState_def windowSize_def)

lemma set_alist_update: "set (AList.update k v al) \<subseteq> insert (k, v) (set al)"
  by (induction al) auto

lemma updateChunk_ok:
  assumes "heatOk h"
  shows "heatOk (updateChunk h r ci) \<and> hotThreshold (updateChunk h r ci) = hotThreshold h \<and>
    hotConsecutive (updateChunk h r ci) = hotConsecutive h"
proof -
  let ?k = "(VMAStart r, ci)"
  obtain s where s: "s = (case map_of (states h) ?k of Some s \<Rightarrow> s | None \<Rightarrow> newChunkState (VMAStart r) ci)" by simp
  have key: "hs_VMAStart s = VMAStart r \<and> hs_ChunkIdx s = ci \<and> ringOk s"
  proof (cases "map_of (states h) ?k")
    case None
    then show ?thesis by (simp add: s ringOk_new) (simp add: newChunkState_def)
  next
    case (Some s')
    then have "(?k, s') \<in> set (states h)" by (rule map_of_SomeD)
    with assms show ?thesis by (auto simp: Some s heatOk_def list_all_iff chunkOk_def)
  qed
  let ?s = "s\<lparr>hs_VMAEnd := VMAEnd r, ChunkStart := chunkStartOf r ci, ChunkEnd := chunkEndOf r ci,
            LastDirty := chunkDirtyOf r ci, LastTotal := chunkPagesOf r ci, hs_VMAType := sr_VMAType r,
            hs_Pathname := sr_Pathname r\<rparr>"
  let ?p = "pushRatio (hotThreshold h) (hotConsecutive h) (chunkRatio r ci) ?s"
  have "ringOk ?s" using key by (simp add: ringOk_def)
  then have "chunkOk (hotConsecutive h) (?k, ?p)"
    using key ringOk_push [of ?s] by (simp add: chunkOk_def) (simp add: pushRatio_def Let_def)
  moreover have "set (AList.update ?k ?p (states h)) \<subseteq> insert (?k, ?p) (set (states h))" by (rule set_alist_update)
  ultimately show ?thesis
    using assms unfolding updateChunk_def Let_def s [symmetric]
    by (auto simp: heatOk_def list_all_iff distinct_update)
qed

lemma updateChunks_ok:
  "heatOk h \<Longrightarrow> heatOk (foldl (\<lambda>h (r, ci). updateChunk h r ci) h ks) \<and>
     hotThreshold (foldl (\<lambda>h (r, ci). updateChunk h r ci) h ks) = hotThreshold h \<and>
     hotConsecutive (foldl (\<lambda>h (r, ci). updateChunk h r ci) h ks) = hotConsecutive h"
  by (induction ks arbitrary: h) (auto simp: updateChunk_ok)

lemma heatUpdate_ok:
  "heatOk h \<Longrightarrow> heatOk (fst (heatUpdate h rs)) \<and> hotThreshold (fst (heatUpdate h rs)) = hotThreshold h \<and>
     hotConsecutive (fst (heatUpdate h rs)) = hotConsecutive h"
  using updateChunks_ok [of h "chunkKeys rs"]
  by (auto simp: heatUpdate_def Let_def heatOk_def list_all_iff intro: distinct_map_filter)

section \<open>Every operation of a profiler keeps it well-formed\<close>

lemma New_ok: "profilerOk (New pid c) \<and> \<not> looping (New pid c)"
  by (simp add: profilerOk_def New_def Let_def zeroVolume_def newHeatClassifier_def heatOk_def)

lemma profilerClose_ok: "profilerOk p \<Longrightarrow> io_post (profilerClose p) (\<lambda>p' d. profilerOk p')"
  unfolding profilerClose_def profilerStop_def Let_def by (auto intro!: io_rules simp: profilerOk_def)

lemma startLoop_ok: "profilerOk p \<Longrightarrow> pagemapFile p \<Longrightarrow> io_post (startLoop h vmas p) (\<lambda>(e, p') d. profilerOk p')"
  unfolding startLoop_def
  by (auto intro!: io_rules io_post_mono [OF profilerClose_ok]) (simp_all add: profilerOk_def)

lemma profilerStart_ok:
  "profilerOk p \<Longrightarrow> \<not> looping p \<Longrightarrow> io_post (profilerStart h p) (\<lambda>(e, p') d. profilerOk p')"
  unfolding profilerStart_def
  by (auto intro!: io_rules io_post_mono [OF startLoop_ok] simp: profilerOk_def [of "p\<lparr>pagemapFile := _\<rparr>"])
    (simp_all add: profilerOk_def)

lemma recordSample_ok: "profilerOk p \<Longrightarrow> profilerOk (recordSample p rs n t1 t2)"
  using heatUpdate_ok [of "heat p" rs]
  by (auto simp: profilerOk_def recordSample_def Let_def split_beta)

lemma collectSample_ok: "profilerOk p \<Longrightarrow> io_post (collectSample h p) (\<lambda>p' d. profilerOk p')"
proof -
  assume ok: "profilerOk p"
  then have reg: "profilerOk (p\<lparr>registeredVMAs := rs\<rparr>)" for rs by (simp add: profilerOk_def)
  have any: "io_post (registerNew h fd vmas rs) (\<lambda>r d. True)" for fd vmas rs
    by (rule io_post_mono [OF registerNew_scans]) simp
  show ?thesis
    unfolding collectSample_def by (auto intro!: io_rules io_post_mono [OF any] recordSample_ok reg ok)
qed

lemma profilerTick_ok: "profilerOk p \<Longrightarrow> io_post (profilerTick h p) (\<lambda>p' d. profilerOk p')"
  unfolding profilerTick_def by (auto intro!: io_rules collectSample_ok)

lemma Cleanup_ok: "profilerOk p \<Longrightarrow> io_post (CleanupBeforeCRIU h p) (\<lambda>p' d. profilerOk p' \<and> \<not> looping p')"
  unfolding CleanupBeforeCRIU_def profilerStop_def Let_def
  by (auto intro!: io_rules io_post_mono [OF unregister_all]) (auto simp: profilerOk_def heatReset_def heatOk_def)

lemma Reinit_ok:
  "profilerOk p \<Longrightarrow> \<not> looping p \<Longrightarrow> io_post (ReinitAfterCRIU h p) (\<lambda>(e, p') d. profilerOk p')"
  unfolding ReinitAfterCRIU_def Let_def by (auto intro!: io_rules) (simp_all add: profilerOk_def zeroVolume_def)

section \<open>The scheduler\<close>

definition optOk :: "('a \<Rightarrow> bool) \<Rightarrow> 'a option \<Rightarrow> bool" where
  "optOk P x \<longleftrightarrow> (case x of None \<Rightarrow> True | Some y \<Rightarrow> P y)"

lemma optOk_simps [simp]: "optOk P None" "optOk P (Some y) = P y"
  by (simp_all add: optOk_def)

definition schedulerOk :: "invariantScheduler \<Rightarrow> bool" where
  "schedulerOk s \<longleftrightarrow> optOk profilerOk (s_profiler s) \<and> 0 < is_ScanIntervalMs (s_config s) \<and> 0 < is_TFreezeMs (s_config s) \<and>
     0 < is_TMarginMs (s_config s) \<and> 0 < is_DeadlineSeconds (s_config s) \<and> (lastPreDumpTime s = None \<longleftrightarrow> preDumpCount s = 0)"

text \<open>A manager after some pre-dumps: the same one, with a chain that is still consistent.\<close>

definition managerId :: "checkpointManager \<Rightarrow> string \<times> s3Client \<times> string \<times> string \<times> string \<times> int" where
  "managerId m = (cm_workDir m, cm_s3 m, cm_podName m, cm_appName m, cm_nodeName m, cm_generation m)"

definition sameManager :: "checkpointManager \<Rightarrow> checkpointManager \<Rightarrow> bool" where
  "sameManager m m' \<longleftrightarrow> managerId m' = managerId m \<and> (chainWf m \<longrightarrow> chainWf m')"

lemma sameManager_refl [simp]: "sameManager m m"
  by (simp add: sameManager_def)

lemma sameManager_trans: "sameManager m m' \<Longrightarrow> sameManager m' m'' \<Longrightarrow> sameManager m m''"
  by (simp add: sameManager_def)

lemma sameManager_chained: "i \<noteq> [] \<Longrightarrow> sameManager m (chained m i)"
  by (auto simp: sameManager_def managerId_def chained_def chainWf_def)

lemma cmPreCheckpoint_same: "io_post (cmPreCheckpoint h getenv m pid parent excl) (\<lambda>(r, m') d. sameManager m m')"
  by (rule io_post_mono [OF cmPreCheckpoint_post]) (auto simp: sameManager_chained split: sum.splits)

lemma NewInvariantScheduler_ok: "optOk profilerOk prof \<Longrightarrow> schedulerOk (NewInvariantScheduler c prof pid cm)"
  by (simp add: schedulerOk_def NewInvariantScheduler_def Let_def)

definition keepsScheduler :: "invariantScheduler \<Rightarrow> invariantScheduler \<Rightarrow> bool" where
  "keepsScheduler s s' \<longleftrightarrow> sameManager (s_cm s) (s_cm s') \<and> (schedulerOk s \<longrightarrow> schedulerOk s')"

lemma keepsScheduler_refl [simp]: "keepsScheduler s s"
  by (simp add: keepsScheduler_def)

lemma keepsScheduler_trans: "keepsScheduler s s' \<Longrightarrow> keepsScheduler s' s'' \<Longrightarrow> keepsScheduler s s''"
  by (auto simp: keepsScheduler_def intro: sameManager_trans)

lemma awaitUntraced_any: "io_post (awaitUntraced h pid) (\<lambda>r d. True)"
  by (rule io_post_mono [OF awaitUntraced_quiet]) simp

lemma profilerStart_new: "io_post (profilerStart h (New pid c)) (\<lambda>(e, p) d. profilerOk p)"
  using New_ok by (intro profilerStart_ok) auto

lemma performInitialPreDump_keeps: "io_post (performInitialPreDump h getenv s) (\<lambda>s' d. keepsScheduler s s')"
  unfolding performInitialPreDump_def Let_def
  by (auto intro!: io_rules io_post_mono [OF cmPreCheckpoint_same] io_post_mono [OF awaitUntraced_any] io_post_mono [OF profilerStart_new]
      simp: keepsScheduler_def schedulerOk_def split: if_splits)

lemma prepareDump_ok:
  "io_post (prepareDump h prof) (\<lambda>(excl, prof') d. (prof' = None \<longleftrightarrow> prof = None) \<and>
     (optOk profilerOk prof \<longrightarrow> optOk (\<lambda>p. profilerOk p \<and> \<not> looping p) prof'))"
proof (cases "\<exists>p. prof = Some p \<and> profilerOk p")
  case True
  then show ?thesis
    unfolding prepareDump_def by (auto intro!: io_rules io_post_mono [OF Cleanup_ok])
next
  case False
  then show ?thesis
    unfolding prepareDump_def by (auto intro!: io_rules io_post_mono [OF CleanupBeforeCRIU_post])
qed

lemma Reinit_any:
  "io_post (ReinitAfterCRIU h p) (\<lambda>(e, p') d. profilerOk p \<and> \<not> looping p \<longrightarrow> profilerOk p')"
proof (cases "profilerOk p \<and> \<not> looping p")
  case True
  then show ?thesis using Reinit_ok [of p h] by simp
next
  case False
  then show ?thesis by (intro io_post_mono [OF ReinitAfterCRIU_post]) auto
qed

lemma triggerPreDump_keeps: "io_post (triggerPreDump h getenv s) (\<lambda>s' d. keepsScheduler s s')"
  unfolding triggerPreDump_def Let_def
  by (auto intro!: io_rules io_post_mono [OF prepareDump_ok] io_post_mono [OF cmPreCheckpoint_same] io_post_mono [OF Reinit_any]
      simp: keepsScheduler_def schedulerOk_def optOk_def split: option.splits)

lemma schedulerTick_keeps: "io_post (schedulerTick h getenv s) (\<lambda>s' d. keepsScheduler s s')"
  unfolding schedulerTick_def
  by (auto intro!: io_rules io_post_mono [OF triggerPreDump_keeps] simp: keepsScheduler_def schedulerOk_def)

lemma schedulerLoop_keeps: "io_post (schedulerLoop h getenv n s) (\<lambda>s' d. keepsScheduler s s')"
proof (induction n arbitrary: s)
  case (Suc n)
  show ?case
    by (auto intro!: io_rules io_post_mono [OF schedulerTick_keeps] io_post_mono [OF Suc.IH] intro: keepsScheduler_trans)
qed (auto intro!: io_rules)

lemma schedulerStart_keeps: "io_post (schedulerStart h getenv n s) (\<lambda>s' d. keepsScheduler s s')"
  unfolding schedulerStart_def
  by (auto intro!: io_rules io_post_mono [OF performInitialPreDump_keeps] io_post_mono [OF schedulerLoop_keeps] intro: keepsScheduler_trans)
    (auto intro: keepsScheduler_trans simp: keepsScheduler_def schedulerOk_def)

section \<open>The agent\<close>

definition agentWf :: "agentState \<Rightarrow> bool" where
  "agentWf a \<longleftrightarrow> optOk profilerOk (profilerInst a) \<and> optOk schedulerOk (a_scheduler a) \<and> list_all schedulerOk (a_loops a) \<and>
     (restoreCmd a = None \<longrightarrow> restoreLazyPagesCmd a = None) \<and> (pageServerDumpID a = [] \<longrightarrow> pageServerCmd a = None)"

text \<open>What identifies an agent, and what an operation keeps.\<close>

definition agentId :: "agentState \<Rightarrow> restoreManager \<times> s3Client \<times> string \<times> string \<times> int" where
  "agentId a = (a_rm a, a_s3 a, a_podName a, a_nodeName a, a_startTime a)"

definition keepsAgent :: "agentState \<Rightarrow> agentState \<Rightarrow> bool" where
  "keepsAgent a a' \<longleftrightarrow> agentId a' = agentId a \<and> sameManager (a_cm a) (a_cm a') \<and> (agentWf a \<longrightarrow> agentWf a')"

lemma keepsAgent_refl [simp]: "keepsAgent a a"
  by (simp add: keepsAgent_def)

lemma keepsAgent_trans: "keepsAgent a a' \<Longrightarrow> keepsAgent a' a'' \<Longrightarrow> keepsAgent a a''"
  by (auto simp: keepsAgent_def intro: sameManager_trans)

lemma keepsAgent_proc [simp]: "keepsAgent a (a\<lparr>a_proc := proc\<rparr>)"
  by (simp add: keepsAgent_def agentId_def agentWf_def)

lemma quiet_any: "io_post m (\<lambda>r d. quiet d) \<Longrightarrow> io_post m (\<lambda>r d. True)"
  by (erule io_post_mono) simp

lemmas any_posts = needMainPID_quiet [THEN quiet_any] FindMainProcessPID_quiet [THEN quiet_any] killCmd_quiet [THEN quiet_any]
  profilerClose_quiet [THEN quiet_any] uploadExisting_quiet [THEN quiet_any]

lemma agentPreCheckpoint_keeps: "io_post (agentPreCheckpoint h getenv a req) (\<lambda>(r, a') d. keepsAgent a a')"
proof (cases "optOk profilerOk (profilerInst a)")
  case True
  then show ?thesis
    unfolding agentPreCheckpoint_def Let_def
    by (auto intro!: io_rules io_post_mono [OF any_posts(1)] io_post_mono [OF cmPreCheckpoint_same] io_post_mono [OF Cleanup_ok]
        io_post_mono [OF Reinit_any] simp: keepsAgent_def agentId_def agentWf_def)
next
  case False
  then have no: "\<not> agentWf a" by (simp add: agentWf_def)
  have any: "io_post (CleanupBeforeCRIU h p) (\<lambda>r d. True)" "io_post (ReinitAfterCRIU h p) (\<lambda>r d. True)" for p
    by (rule io_post_mono [OF CleanupBeforeCRIU_post], simp) (rule io_post_mono [OF Reinit_any], simp)
  from no show ?thesis
    unfolding agentPreCheckpoint_def Let_def
    by (auto intro!: io_rules io_post_mono [OF any_posts(1)] io_post_mono [OF cmPreCheckpoint_same] io_post_mono [OF any(1)]
        io_post_mono [OF any(2)] simp: keepsAgent_def agentId_def)
qed

lemma dropScheduler_keeps: "keepsAgent a (dropScheduler waiting a)"
  by (auto simp: dropScheduler_def keepsAgent_def agentId_def agentWf_def schedulerStop_def schedulerOk_def split: option.splits)

text \<open>A final dump: besides, a success has stored the images under the prefix of the agent.\<close>

definition dumpStored :: "genv \<Rightarrow> agentState \<Rightarrow> finalDumpRequest \<Rightarrow> string + finalDumpResponse \<Rightarrow> hostEvent list \<Rightarrow> bool" where
  "dumpStored getenv a req r d \<longleftrightarrow>
     (case r of
        Inl e \<Rightarrow> True
      | Inr resp \<Rightarrow> storesImages getenv (orDefault ''lazy-hybrid'' (fdq_MigrationStrategy req)) \<longrightarrow>
          storedAfterDump (cm_s3 (a_cm a)) (joinPath (cm_workDir (a_cm a)) (DumpId resp)) (getS3Prefix (a_cm a) (DumpId resp)) d)"

lemma storedAfterDump_more: "storedAfterDump c dir prefix d \<Longrightarrow> storedAfterDump c dir prefix (d1 @ d @ d2)"
  unfolding storedAfterDump_def
proof (elim exE conjE, goal_cases)
  case (1 d0 d1' infos d2' d3)
  then show ?case
    by (intro exI [of _ "d1 @ d0"] exI [of _ d1'] exI [of _ infos] exI [of _ d2'] exI [of _ "d3 @ d2"]) simp
qed

lemma storedAfterDump_fourth: "storedAfterDump c dir prefix d \<Longrightarrow> storedAfterDump c dir prefix (d1 @ d2 @ d3 @ d @ d4)"
  using storedAfterDump_more [of c dir prefix d "d1 @ d2 @ d3" d4] by simp

lemma dumpStored_more: "dumpStored getenv a req r d \<Longrightarrow> dumpStored getenv a req r (d1 @ d @ d2)"
  by (auto simp: dumpStored_def storedAfterDump_more split: sum.splits)

lemma agentFinalDump_keeps:
  "io_post (agentFinalDump h getenv fmtFloat waiting a req) (\<lambda>(r, a') d. keepsAgent a a' \<and> dumpStored getenv a req r d)"
proof -
  let ?a = "\<lambda>proc. dropScheduler waiting (a\<lparr>a_proc := proc, pageServerCmd := None\<rparr>)\<lparr>profilerInst := None\<rparr>"
  have keeps: "keepsAgent a (?a proc)" for proc
  proof -
    have "keepsAgent a (a\<lparr>a_proc := proc, pageServerCmd := None\<rparr>)" by (simp add: keepsAgent_def agentId_def agentWf_def)
    moreover have "keepsAgent a1 (a1\<lparr>profilerInst := None\<rparr>)" for a1 by (simp add: keepsAgent_def agentId_def agentWf_def)
    ultimately show ?thesis using dropScheduler_keeps keepsAgent_trans by blast
  qed
  have cm: "a_cm (?a proc) = a_cm a" for proc by (simp add: dropScheduler_def split: option.splits)
  have fin: "keepsAgent a ((?a proc)\<lparr>pageServerCmd := cmd, pageServerDumpID := i\<rparr>)" if "i \<noteq> []" for proc cmd i
    using keeps [of proc] that by (simp add: keepsAgent_def agentId_def agentWf_def)
  have save: "io_post (saveProfile h fmtFloat m i hot details) (\<lambda>r d. True)" for m i hot details
    by (rule io_post_mono [OF saveProfile_post]) simp
  show ?thesis
    unfolding agentFinalDump_def Let_def
    using keeps fin
    by (auto intro!: io_rules io_post_mono [OF any_posts(1)] io_post_mono [OF any_posts(3)] io_post_mono [OF releaseProfiler_post]
        io_post_mono [OF cmFinalDump_done] io_post_mono [OF save]
        simp: cm dumpDone_def dumpStored_def finalDumpReply_def storedAfterDump_fourth)
qed

lemma adoptProcess_keeps: "keepsAgent a a1 \<Longrightarrow> io_post (adoptProcess h res a1) (\<lambda>(res', a') d. keepsAgent a a')"
  unfolding adoptProcess_def
  by (auto intro!: io_rules io_post_mono [OF any_posts(2)] split: sum.splits)
    (auto elim: keepsAgent_trans simp: keepsAgent_def agentId_def agentWf_def)

lemma agentRestore_keeps: "io_post (agentRestore h getenv fl a req) (\<lambda>(r, a') d. keepsAgent a a')"
proof -
  have any: "io_post (rmRestore h getenv fl m i prefix port src mounts strategy pipes) (\<lambda>r d. True)" for m i prefix port src mounts strategy pipes
    by (rule io_post_mono [OF rmRestore_quiet]) simp
  have keeps: "keepsAgent a (a\<lparr>restoreLazyPagesCmd := lazy, restoreCmd := Some cmd, restoreDumpID := i, lazyPagesActive := b\<rparr>)" for lazy cmd i b
    by (simp add: keepsAgent_def agentId_def agentWf_def)
  show ?thesis
    unfolding agentRestore_def Let_def
    by (auto intro!: io_rules io_post_mono [OF any_posts(3)] io_post_mono [OF any] io_post_mono [OF adoptProcess_keeps] keeps)
qed

lemma newScheduler_keeps: "optOk profilerOk prof \<Longrightarrow> keepsAgent a (newScheduler getenv fl prof a)"
  by (auto simp: newScheduler_def keepsAgent_def agentId_def agentWf_def NewInvariantScheduler_ok split: option.splits)

lemma StartProfiling_keeps: "io_post (StartProfiling h getenv fl a cfg) (\<lambda>(r, a') d. keepsAgent a a')"
proof -
  have prof: "keepsAgent a (a\<lparr>a_proc := proc, profilerInst := Some p\<rparr>)" if "profilerOk p" for proc p
    using that by (simp add: keepsAgent_def agentId_def agentWf_def)
  have sched: "keepsAgent a (newScheduler getenv fl (Some p) (a\<lparr>a_proc := proc, profilerInst := Some p\<rparr>))" if "profilerOk p" for proc p
    by (rule keepsAgent_trans [OF prof [OF that] newScheduler_keeps]) (simp add: that)
  show ?thesis
    unfolding StartProfiling_def Let_def
    by (auto intro!: io_rules io_post_mono [OF any_posts(1)] io_post_mono [OF profilerStart_new] split: option.splits simp: prof sched)
qed

lemma autoStartProfiler_keeps: "io_post (autoStartProfiler h getenv fl a) (\<lambda>a' d. keepsAgent a a')"
  unfolding autoStartProfiler_def
  by (auto intro!: io_rules io_post_mono [OF profilerStart_new] newScheduler_keeps) (auto simp: keepsAgent_def agentId_def agentWf_def)

lemma StopProfiling_keeps: "io_post (StopProfiling a) (\<lambda>a' d. keepsAgent a a')"
proof (cases "profilerInst a")
  case None
  then show ?thesis unfolding StopProfiling_def by (auto intro!: io_rules)
next
  case (Some p)
  show ?thesis
  proof (cases "profilerOk p")
    case True
    then show ?thesis
      unfolding StopProfiling_def Some
      by (auto intro!: io_rules io_post_mono [OF profilerClose_ok]
          simp: keepsAgent_def agentId_def agentWf_def shareProfiler_def schedulerOk_def optOk_def split: option.splits)
  next
    case False
    then show ?thesis
      unfolding StopProfiling_def Some
      by (auto intro!: io_rules io_post_mono [OF any_posts(4)] simp: Some keepsAgent_def agentId_def agentWf_def)
  qed
qed

lemma agentGetStatus_keeps: "io_post (agentGetStatus h a) (\<lambda>(r, a') d. keepsAgent a a')"
  unfolding agentGetStatus_def by (auto intro!: io_rules io_post_mono [OF any_posts(2)])

lemma onScheduler_keeps:
  assumes "\<And>s. io_post (step s) (\<lambda>s' d. keepsScheduler s s')"
  shows "io_post (onScheduler step a) (\<lambda>a' d. keepsAgent a a')"
  unfolding onScheduler_def
  by (auto intro!: io_rules io_post_mono [OF assms]
      simp: keepsAgent_def agentId_def agentWf_def keepsScheduler_def schedulerView_def schedulerDone_def schedulerOk_def optOk_def
      split: option.splits)

lemma agentProfilerTick_keeps: "io_post (agentProfilerTick h a) (\<lambda>a' d. keepsAgent a a')"
proof (cases "optOk profilerOk (profilerInst a)")
  case True
  then show ?thesis
    unfolding agentProfilerTick_def
    by (auto intro!: io_rules io_post_mono [OF profilerTick_ok] simp: keepsAgent_def agentId_def agentWf_def)
next
  case False
  then have no: "\<not> agentWf a" by (simp add: agentWf_def)
  have any: "io_post (profilerTick h p) (\<lambda>r d. True)" for p
    unfolding profilerTick_def by (auto intro!: io_rules io_post_mono [OF collectSample_accounts])
  from no show ?thesis
    unfolding agentProfilerTick_def by (auto intro!: io_rules io_post_mono [OF any] simp: keepsAgent_def agentId_def)
qed

lemma ParseLazyPagesLog_any: "io_post (ParseLazyPagesLog h parseFloat path) (\<lambda>r d. True)"
  unfolding ParseLazyPagesLog_def by (auto intro!: io_rules)

lemma lazyPagesCompleted_keeps: "io_post (lazyPagesCompleted h getenv fl fmtFloat a i prefix) (\<lambda>a' d. keepsAgent a a')"
  unfolding lazyPagesCompleted_def Let_def
  by (auto intro!: io_rules io_post_mono [OF ParseLazyPagesLog_any] io_post_mono [OF any_posts(5)]
      simp: keepsAgent_def agentId_def agentWf_def)

lemma serve_keeps: "io_post (serve h getenv fl fmtFloat c a) (\<lambda>a' d. keepsAgent a a')"
proof -
  have check: "io_post (agentCheckPageServer h pid) (\<lambda>r d. True)" "io_post (agentGetHotRegions h a) (\<lambda>r d. True)" for pid
    unfolding agentCheckPageServer_def agentGetHotRegions_def by (auto intro!: io_rules)
  show ?thesis
    by (cases c) (auto intro!: io_rules io_post_mono [OF agentPreCheckpoint_keeps] io_post_mono [OF agentFinalDump_keeps]
        io_post_mono [OF agentRestore_keeps] io_post_mono [OF agentGetStatus_keeps] io_post_mono [OF StartProfiling_keeps]
        StopProfiling_keeps io_post_mono [OF check(1)] io_post_mono [OF check(2)])
qed

lemma CreateBaselineCheckpoint_same: "io_post (CreateBaselineCheckpoint h getenv cm pid) (\<lambda>(e, cm') d. sameManager cm cm')"
  unfolding CreateBaselineCheckpoint_def
  by (auto intro!: io_rules io_post_mono [OF cmPreCheckpoint_post] split: sum.splits)
    (auto simp: sameManager_def managerId_def chained_def chainWf_def ResetChain_def)

lemma performRestoreOnStartup_keeps: "io_post (performRestoreOnStartup h getenv fl a) (\<lambda>(e, a') d. keepsAgent a a')"
proof -
  have sleep: "io_post (WaitForSleepProcess h t) (\<lambda>r d. True)" for t
    unfolding WaitForSleepProcess_def
    by (auto intro!: io_rules io_post_loop [where Q = "\<lambda>r d. True"] simp: sleepPid_def)
  have any: "io_post (rmRestore h getenv fl m i prefix port src mounts strategy pipes) (\<lambda>r d. True)" for m i prefix port src mounts strategy pipes
    by (rule io_post_mono [OF rmRestore_quiet]) simp
  have adopt: "io_post (adoptRestored h getenv (a\<lparr>restoreLazyPagesCmd := lazy, restoreCmd := Some cmd\<rparr>)) (\<lambda>(e, a') d. keepsAgent a a')" for lazy cmd
    unfolding adoptRestored_def
    by (auto intro!: io_rules io_post_mono [OF any_posts(2)] io_post_mono [OF CreateBaselineCheckpoint_same]
        simp: keepsAgent_def agentId_def agentWf_def)
  show ?thesis
    unfolding performRestoreOnStartup_def Let_def
    by (auto intro!: io_rules io_post_mono [OF sleep] io_post_mono [OF any] io_post_mono [OF adopt])
qed

lemma startUserProcess_any: "io_post (startUserProcess h p) (\<lambda>r d. True)"
proof -
  have any: "io_post (FindMainContainerPID h) (\<lambda>r d. True)" "io_post (workdirPrefix h pid dir) (\<lambda>r d. True)"
    "io_post (launchUser h pid script) (\<lambda>r d. True)" for pid dir script
    by (auto intro: io_post_mono [OF FindMainContainerPID_starts] io_post_mono [OF workdirPrefix_cd] io_post_mono [OF launchUser_starts])
  show ?thesis
    unfolding startUserProcess_def by (auto intro!: io_rules io_post_mono [OF any(1)] io_post_mono [OF any(2)] io_post_mono [OF any(3)])
qed

lemma agentStart_keeps: "io_post (agentStart h getenv fl a) (\<lambda>(auto, a') d. keepsAgent a a')"
proof -
  have mode: "keepsAgent a2 (a2\<lparr>a_mode := m\<rparr>)" for a2 m by (simp add: keepsAgent_def agentId_def agentWf_def)
  show ?thesis
    unfolding agentStart_def
    by (auto intro!: io_rules io_post_mono [OF startUserProcess_any] io_post_mono [OF performRestoreOnStartup_keeps] keepsAgent_trans [OF _ mode])
qed

lemma perform_keeps: "io_post (perform E op a) (\<lambda>a' d. keepsAgent a a')"
proof (cases op)
  case OpSchedulerTick
  then show ?thesis by (simp only: perform.simps agentSchedulerTick_def) (rule onScheduler_keeps, rule schedulerLoop_keeps)
next
  case OpInitialDump
  then show ?thesis by (simp only: perform.simps agentInitialDump_def) (rule onScheduler_keeps, rule schedulerStart_keeps)
next
  case OpStart
  then show ?thesis by (auto intro!: io_rules io_post_mono [OF agentStart_keeps])
qed (simp_all add: serve_keeps autoStartProfiler_keeps agentProfilerTick_keeps lazyPagesCompleted_keeps)

section \<open>The life of an agent\<close>

text \<open>A step is one operation, with any environment and any log before it.\<close>

inductive agentStep :: "agentState \<Rightarrow> agentState \<Rightarrow> bool" where
  "agentStep a (fst (run_state (perform E op a) t))"

inductive_cases agentStepE: "agentStep a a'"

definition freshAgent :: "agentState \<Rightarrow> bool" where
  "freshAgent a \<longleftrightarrow> (\<exists>h getenv fl newSession workDir bucket endpoint region mode podName nodeName.
     outcome (NewAgent h getenv fl newSession workDir bucket endpoint region mode podName nodeName) = Inr a)"

definition agentOk :: "agentState \<Rightarrow> bool" where
  "agentOk a \<longleftrightarrow> agentWf a \<and> chainWf (a_cm a)"

lemma agentStep_keeps: "agentStep a a' \<Longrightarrow> keepsAgent a a'"
  by (erule agentStepE) (use io_post_at [OF perform_keeps] in blast)

lemma NewAgent_ok:
  "io_post (NewAgent h getenv fl newSession workDir bucket endpoint region mode podName nodeName)
     (\<lambda>r d. case r of Inl e \<Rightarrow> True | Inr a \<Rightarrow> agentOk a)"
  unfolding NewAgent_def
  by (auto intro!: io_rules io_post_mono [OF NewCheckpointManager_chain] io_post_mono [OF DetectNetworkBandwidth_calm]
      simp: agentOk_def agentWf_def split: sum.splits)

interpretation agent: invariant_system freshAgent agentStep agentOk
proof
  show "agentOk a" if "freshAgent a" for a
    using that io_post_run [OF NewAgent_ok] unfolding freshAgent_def by (metis sum.case(2))
  show "agentOk a'" if "agentOk a" and "agentStep a a'" for a a'
    using that agentStep_keeps [of a a'] by (simp add: agentOk_def keepsAgent_def sameManager_def)
qed

text \<open>
  C7. The state of an agent is well-formed at all times: whatever requests, turns of its scheduler and of its profiler, and ends of
  transfers it goes through, in whatever order and whatever the host answers, its profiler has a valid configuration, a ring of ten ratios with
  a place in range for each chunk, one state per chunk, chunks marked hot exactly from the configured streak on, a volume that agrees with its counters, and an open
  pagemap while it runs; its schedulers have positive periods; a daemon or a page server is known only with the restore or the dump it belongs to; and its
  chain of checkpoints is consistent.
\<close>

theorem agent_well_formed:
  assumes "reachable freshAgent agentStep a"
  shows "agentWf a \<and> chainWf (a_cm a)"
  using agent.inv_reachable [OF assms] by (simp add: agentOk_def)

definition exampleAgentEnv :: agentEnv where
  "exampleAgentEnv = \<lparr>e_host = silentHost, e_getenv = exampleEnv, e_floats = \<lparr>fl_sscanf = (\<lambda>_ _. None), fl_parse = (\<lambda>_. None)\<rparr>,
     e_fmt = (\<lambda>_. ''0'')\<rparr>"

theorem agent_well_formed_witness:
  "case outcome (NewAgent silentHost exampleEnv \<lparr>fl_sscanf = (\<lambda>_ _. None), fl_parse = (\<lambda>_. None)\<rparr> (\<lambda>_. None) ''/checkpoints''
      ''bucket'' ''endpoint'' ''us-east-1'' ''normal'' ''pod-0'' ''node-a'') of
     Inl e \<Rightarrow> False
   | Inr a \<Rightarrow> agentWf (fst (run_state (perform exampleAgentEnv OpAutoStart a) []))"
proof -
  let ?new = "NewAgent silentHost exampleEnv \<lparr>fl_sscanf = (\<lambda>_ _. None), fl_parse = (\<lambda>_. None)\<rparr> (\<lambda>_. None) ''/checkpoints''
      ''bucket'' ''endpoint'' ''us-east-1'' ''normal'' ''pod-0'' ''node-a''"
  obtain a where a: "outcome ?new = Inr a"
    by (simp add: NewAgent_def NewS3ClientWithOptions_def outcome_def io_simps Let_def split_beta)
  have "reachable freshAgent agentStep (fst (run_state (perform exampleAgentEnv OpAutoStart a) []))"
  proof (rule reach_step)
    show "reachable freshAgent agentStep a" unfolding freshAgent_def by (rule reach_init) (intro exI, rule a)
  qed (rule agentStep.intros)
  from agent_well_formed [OF this] a show ?thesis by simp
qed

end
