(* ===== verification/Fleet.thy ===== *)
theory Fleet
  imports Service AgentSystem
begin

text \<open>
  The controller and the agents together. Every pod address has an agent; the requests in the log of the controller are carried out by the agent
  they are addressed to, in the order of the log, and the replies that the controller gets are those that the handlers of the agent give. Between two
  requests an agent does whatever it does on its own: ticks of its schedulers and of its profiler, ends of transfers, requests of others. A
  request or its reply may get lost on the way.
\<close>

section \<open>What a restore leaves behind\<close>

text \<open>CRIU was started to restore the images of the directory, with the prefix as the place of its pages, and was seen alive after that.\<close>

definition restoredFrom :: "genv \<Rightarrow> restoreManager \<Rightarrow> string \<Rightarrow> string \<Rightarrow> string \<Rightarrow> hostEvent list \<Rightarrow> bool" where
  "restoredFrom getenv m strategy dir prefix d \<longleftrightarrow>
     (\<exists>d1 mounts mainPid pipeArgs cmd d2.
        d = d1 @ HStartCmd (''criu'' # restoreArgs getenv m strategy dir prefix mounts mainPid @ pipeArgs) (Inr cmd) # d2 \<and>
        HFile (FExists (''/proc/'' @ itoa cmd) True) \<in> set d2)"

lemma restoredFrom_more: "restoredFrom getenv m strategy dir prefix d \<Longrightarrow> restoredFrom getenv m strategy dir prefix (d0 @ d @ d3)"
  unfolding restoredFrom_def
proof (elim exE conjE, goal_cases)
  case (1 d1 mounts mainPid pipeArgs cmd d2)
  then show ?case
    by (intro exI [of _ "d0 @ d1"] exI [of _ mounts] exI [of _ mainPid] exI [of _ pipeArgs] exI [of _ cmd] exI [of _ "d2 @ d3"]) simp
qed

lemma restoredFrom_front: "restoredFrom getenv m strategy dir prefix d \<Longrightarrow> restoredFrom getenv m strategy dir prefix (d0 @ d)"
  using restoredFrom_more [of getenv m strategy dir prefix d d0 "[]"] by simp

lemma launchRestore_from:
  "io_post (launchRestore h dir (restoreArgs getenv m strategy dir prefix mounts mainPid @ pipeArgs))
     (\<lambda>r d. case r of Inl e \<Rightarrow> True | Inr cmd \<Rightarrow> restoredFrom getenv m strategy dir prefix d)"
proof -
  have "restoredFrom getenv m strategy dir prefix
      [HStartCmd (''criu'' # restoreArgs getenv m strategy dir prefix mounts mainPid @ pipeArgs) (Inr cmd), HSleep n,
       HFile (FExists (''/proc/'' @ itoa cmd) True)]" for cmd n
    unfolding restoredFrom_def
    by (intro exI [of _ "[]"] exI [of _ mounts] exI [of _ mainPid] exI [of _ pipeArgs] exI [of _ cmd]
        exI [of _ "[HSleep n, HFile (FExists (''/proc/'' @ itoa cmd) True)]"]) simp
  then show ?thesis
    unfolding launchRestore_def readLogFile_def by (auto intro!: io_rules)
qed

lemma joinAndRestore_from:
  "io_post (joinAndRestore h getenv m strategy dir prefix mounts pipes)
     (\<lambda>r d. case r of Inl e \<Rightarrow> True | Inr cmd \<Rightarrow> restoredFrom getenv m strategy dir prefix d)"
  unfolding joinAndRestore_def
  by (auto intro!: io_rules io_post_mono [OF FindMainContainerPID_calm] io_post_mono [OF recoverPipes_calm] io_post_mono [OF replacePipes_calm]
      io_post_mono [OF launchRestore_from] split: sum.splits) (metis restoredFrom_front append_Cons append_assoc)+

lemma rmRestore_from:
  "io_post (rmRestore h getenv fl m i prefix port src mounts strategy pipes)
     (\<lambda>r d. case r of Inl e \<Rightarrow> True | Inr x \<Rightarrow> restoredFrom getenv m strategy (joinPath (rm_workDir m) i) prefix d)"
proof -
  have any: "io_post (fetchImages h m strategy i prefix) (\<lambda>r d. True)"
    "io_post (startLazy h getenv fl m strategy port dir src prefix) (\<lambda>r d. True)" for dir
    by (rule io_post_mono [OF fetchImages_calm], simp) (rule io_post_mono [OF startLazy_post], simp)
  have framed: "restoredFrom getenv m strategy dir prefix d \<Longrightarrow> restoredFrom getenv m strategy dir prefix (e # d1 @ d2 @ d @ d3)" for dir e d1 d2 d d3
    using restoredFrom_more [of getenv m strategy dir prefix d "e # d1 @ d2" d3] by simp
  show ?thesis
    unfolding rmRestore_def Let_def
    by (auto intro!: io_rules io_post_mono [OF any(1)] io_post_mono [OF any(2)] io_post_mono [OF joinAndRestore_from] framed split: sum.splits)
qed

definition restoreDone :: "genv \<Rightarrow> agentState \<Rightarrow> restoreRequest \<Rightarrow> string + restoreResponse \<Rightarrow> hostEvent list \<Rightarrow> bool" where
  "restoreDone getenv a req r d \<longleftrightarrow>
     (case r of
        Inl e \<Rightarrow> True
      | Inr resp \<Rightarrow> restoredFrom getenv (a_rm a) (restoreStrategy req) (joinPath (rm_workDir (a_rm a)) (rq_DumpId req)) (rq_S3Prefix req) d)"

lemma agentRestore_done: "io_post (agentRestore h getenv fl a req) (\<lambda>(r, a') d. restoreDone getenv a req r d)"
proof -
  have any: "io_post (adoptProcess h res a1) (\<lambda>x d. True)" for res a1
    unfolding adoptProcess_def by (auto intro!: io_rules io_post_mono [OF any_posts(2)])
  have third: "restoredFrom getenv m strategy dir prefix d \<Longrightarrow> restoredFrom getenv m strategy dir prefix (d1 @ d2 @ d @ d3)" for m strategy dir prefix d1 d2 d d3
    using restoredFrom_more [of getenv m strategy dir prefix d "d1 @ d2" d3] by simp
  show ?thesis
    unfolding agentRestore_def Let_def restoreDone_def
    by (auto intro!: io_rules io_post_mono [OF any_posts(3)] io_post_mono [OF rmRestore_from] io_post_mono [OF any] third split: sum.splits)
qed

section \<open>Many operations\<close>

text \<open>An agent with the log of its host, and what any number of operations keep of the two.\<close>

type_synonym hosted = "agentState \<times> hostEvent list"

definition performed :: "agentEnv \<Rightarrow> agentOp \<Rightarrow> hosted \<Rightarrow> hosted" where
  "performed E op s = run_state (perform E op (fst s)) (snd s)"

fun performAll :: "agentEnv \<Rightarrow> agentOp list \<Rightarrow> hosted \<Rightarrow> hosted" where
  "performAll E [] s = s"
| "performAll E (op # ops) s = performAll E ops (performed E op s)"

definition advances :: "hosted \<Rightarrow> hosted \<Rightarrow> bool" where
  "advances s s' \<longleftrightarrow> keepsAgent (fst s) (fst s') \<and> (\<exists>d. snd s' = snd s @ d)"

lemma advances_refl [simp]: "advances s s"
  by (simp add: advances_def)

lemma advances_trans: "advances s s' \<Longrightarrow> advances s' s'' \<Longrightarrow> advances s s''"
  unfolding advances_def by (auto intro: keepsAgent_trans)

lemma performed_advances: "advances s (performed E op s)"
  using io_post_at [OF perform_keeps [of E op "fst s"], of "snd s"] unfolding advances_def performed_def by blast

lemma performAll_advances: "advances s (performAll E ops s)"
proof (induction ops arbitrary: s)
  case (Cons op ops)
  show ?case using advances_trans [OF performed_advances Cons.IH] by simp
qed simp

section \<open>The fleet\<close>

text \<open>
  A request is delivered and answered, or carried out with its answer lost, or lost on the way. The rest of the world is \<open>f_world\<close>, whose
  own answers for agents are not used. \<open>f_wire\<close> is the error that a client gets for the error text of a handler.
\<close>

datatype transport = Delivered | ReplyLost kerr | RequestLost kerr

record fleet =
  f_world :: world
  f_env :: "string \<Rightarrow> agentEnv"
  f_start :: "string \<Rightarrow> hosted"
  f_own :: "event list \<Rightarrow> string \<Rightarrow> agentOp list"
  f_transport :: "event list \<Rightarrow> string \<Rightarrow> transport"
  f_waiting :: "event list \<Rightarrow> bool"
  f_wire :: "string \<Rightarrow> kerr"

fun requestOf :: "bool \<Rightarrow> event \<Rightarrow> (string \<times> rpc) option" where
  "requestOf waiting (EPreCheckpoint ip q r) = Some (ip, RpcPreCheckpoint q)"
| "requestOf waiting (EFinalDump ip q r) = Some (ip, RpcFinalDump waiting q)"
| "requestOf waiting (ERestore ip q r) = Some (ip, RpcRestore q)"
| "requestOf waiting (EGetStatus ip r) = Some (ip, RpcGetStatus)"
| "requestOf waiting (ECheckPageServer ip pid r) = Some (ip, RpcCheckPageServer pid)"
| "requestOf waiting _ = None"

fun carriedOut :: "transport \<Rightarrow> bool" where
  "carriedOut (RequestLost e) = False"
| "carriedOut _ = True"

text \<open>The agent at an address after a log of the controller, the latest event first; and what it has become when the next request arrives.\<close>

fun agentRev :: "fleet \<Rightarrow> string \<Rightarrow> event list \<Rightarrow> hosted" where
  "agentRev F ip [] = f_start F ip"
| "agentRev F ip (e # r) =
     (let s = performAll (f_env F ip) (f_own F (rev r) ip) (agentRev F ip r) in
      case requestOf (f_waiting F (rev r)) e of
        None \<Rightarrow> s
      | Some (ip', c) \<Rightarrow>
          if ip' = ip \<and> carriedOut (f_transport F (rev r) ip) then performed (f_env F ip) (OpRpc c) s else s)"

definition agentAt :: "fleet \<Rightarrow> event list \<Rightarrow> string \<Rightarrow> hosted" where
  "agentAt F t ip = agentRev F ip (rev t)"

definition arriving :: "fleet \<Rightarrow> event list \<Rightarrow> string \<Rightarrow> hosted" where
  "arriving F t ip = performAll (f_env F ip) (f_own F t ip) (agentAt F t ip)"

lemma agentAt_snoc:
  "agentAt F (t @ [e]) ip =
     (case requestOf (f_waiting F t) e of
        None \<Rightarrow> arriving F t ip
      | Some (ip', c) \<Rightarrow>
          if ip' = ip \<and> carriedOut (f_transport F t ip) then performed (f_env F ip) (OpRpc c) (arriving F t ip) else arriving F t ip)"
  by (simp add: agentAt_def arriving_def Let_def split: option.split)

lemma agentAt_advances: "advances (agentAt F t ip) (agentAt F (t @ [e]) ip)"
  unfolding agentAt_snoc arriving_def
  by (auto split: option.splits intro: performAll_advances advances_trans [OF performAll_advances performed_advances])

text \<open>The reply that the controller gets from a handler.\<close>

definition fleetReply :: "fleet \<Rightarrow> event list \<Rightarrow> string \<Rightarrow> (agentState \<Rightarrow> ((string + 'p) \<times> agentState) hprog) \<Rightarrow> kerr + 'p" where
  "fleetReply F t ip handler =
     (case f_transport F t ip of
        RequestLost e \<Rightarrow> Inl e
      | ReplyLost e \<Rightarrow> Inl e
      | Delivered \<Rightarrow>
          (case fst (fst (run_state (handler (fst (arriving F t ip))) (snd (arriving F t ip)))) of
             Inl e \<Rightarrow> Inl (f_wire F e)
           | Inr p \<Rightarrow> Inr p))"

definition fleetPreCheckpoint :: "fleet \<Rightarrow> event list \<Rightarrow> string \<Rightarrow> preCheckpointRequest \<Rightarrow> kerr + preCheckpointResponse" where
  "fleetPreCheckpoint F t ip q =
     (let E = f_env F ip in fleetReply F t ip (\<lambda>a. agentPreCheckpoint (e_host E) (e_getenv E) a q))"

definition fleetFinalDump :: "fleet \<Rightarrow> event list \<Rightarrow> string \<Rightarrow> finalDumpRequest \<Rightarrow> kerr + finalDumpResponse" where
  "fleetFinalDump F t ip q =
     (let E = f_env F ip in fleetReply F t ip (\<lambda>a. agentFinalDump (e_host E) (e_getenv E) (e_fmt E) (f_waiting F t) a q))"

definition fleetRestore :: "fleet \<Rightarrow> event list \<Rightarrow> string \<Rightarrow> restoreRequest \<Rightarrow> kerr + restoreResponse" where
  "fleetRestore F t ip q =
     (let E = f_env F ip in fleetReply F t ip (\<lambda>a. agentRestore (e_host E) (e_getenv E) (e_floats E) a q))"

definition fleetGetStatus :: "fleet \<Rightarrow> event list \<Rightarrow> string \<Rightarrow> kerr + statusResponse" where
  "fleetGetStatus F t ip =
     fleetReply F t ip (\<lambda>a. do { (r, a') \<leftarrow> agentGetStatus (e_host (f_env F ip)) a; State_Monad.return (Inr r, a') })"

definition fleetCheckPageServer :: "fleet \<Rightarrow> event list \<Rightarrow> string \<Rightarrow> int \<Rightarrow> kerr + pageServerStatusResponse" where
  "fleetCheckPageServer F t ip pid =
     fleetReply F t ip (\<lambda>a. do { r \<leftarrow> agentCheckPageServer (e_host (f_env F ip)) pid; State_Monad.return (Inr r, a) })"

definition fleetWorld :: "fleet \<Rightarrow> world" where
  "fleetWorld F =
     (f_world F)\<lparr>w_rpcPreCheckpoint := fleetPreCheckpoint F, w_rpcFinalDump := fleetFinalDump F, w_rpcRestore := fleetRestore F,
       w_rpcGetStatus := fleetGetStatus F, w_rpcCheckPageServer := fleetCheckPageServer F\<rparr>"

lemma fleetReply_delivered:
  "fleetReply F t ip handler = Inr p \<Longrightarrow>
     f_transport F t ip = Delivered \<and> fst (fst (run_state (handler (fst (arriving F t ip))) (snd (arriving F t ip)))) = Inr p"
  unfolding fleetReply_def by (auto split: transport.splits sum.splits)

section \<open>The contracts of the dump and of the restore\<close>

definition dumpEnsured :: "fleet \<Rightarrow> event list \<Rightarrow> string \<Rightarrow> finalDumpRequest \<Rightarrow> finalDumpResponse \<Rightarrow> bool" where
  "dumpEnsured F t ip q resp \<longleftrightarrow> dumpStored (e_getenv (f_env F ip)) (fst (agentAt F t ip)) q (Inr resp) (snd (agentAt F t ip))"

definition restoreEnsured :: "fleet \<Rightarrow> event list \<Rightarrow> string \<Rightarrow> restoreRequest \<Rightarrow> restoreResponse \<Rightarrow> bool" where
  "restoreEnsured F t ip q resp \<longleftrightarrow> restoreDone (e_getenv (f_env F ip)) (fst (agentAt F t ip)) q (Inr resp) (snd (agentAt F t ip))"

lemma dumpStored_advances:
  assumes "advances s s'" and "dumpStored getenv (fst s) q r d0" and "snd s' = d1 @ d0 @ d2"
  shows "dumpStored getenv (fst s') q r (snd s')"
proof -
  from assms(1) have id: "managerId (a_cm (fst s')) = managerId (a_cm (fst s))"
    by (simp add: advances_def keepsAgent_def sameManager_def)
  then have "getS3Prefix (a_cm (fst s')) = getS3Prefix (a_cm (fst s))"
    by (simp add: fun_eq_iff getS3Prefix_def managerId_def)
  with id dumpStored_more [OF assms(2), of d1 d2] assms(3) show ?thesis
    by (auto simp: dumpStored_def managerId_def split: sum.splits)
qed

lemma restoreDone_advances:
  assumes "advances s s'" and "restoreDone getenv (fst s) q r d0" and "snd s' = d1 @ d0 @ d2"
  shows "restoreDone getenv (fst s') q r (snd s')"
proof -
  from assms(1) have "a_rm (fst s') = a_rm (fst s)" by (simp add: advances_def keepsAgent_def agentId_def)
  with assms(2,3) show ?thesis by (auto simp: restoreDone_def restoredFrom_more split: sum.splits)
qed

lemma dump_answered:
  assumes "fleetFinalDump F t ip q = Inr p"
  shows "dumpEnsured F (t @ [EFinalDump ip q (Inr p)]) ip q p"
proof -
  let ?E = "f_env F ip" and ?s = "arriving F t ip"
  let ?run = "run_state (agentFinalDump (e_host ?E) (e_getenv ?E) (e_fmt ?E) (f_waiting F t) (fst ?s) q) (snd ?s)"
  from fleetReply_delivered [OF assms [unfolded fleetFinalDump_def Let_def]]
  have go: "f_transport F t ip = Delivered" and reply: "fst (fst ?run) = Inr p" by auto
  have after: "agentAt F (t @ [EFinalDump ip q (Inr p)]) ip = (snd (fst ?run), snd ?run)"
    by (simp add: agentAt_snoc go performed_def io_simps split_beta)
  from io_post_at [OF agentFinalDump_keeps [of "e_host ?E" "e_getenv ?E" "e_fmt ?E" "f_waiting F t" "fst ?s" q], of "snd ?s"]
  obtain d where d: "snd ?run = snd ?s @ d" "keepsAgent (fst ?s) (snd (fst ?run))" "dumpStored (e_getenv ?E) (fst ?s) q (fst (fst ?run)) d"
    by (auto simp: split_beta)
  from dumpStored_advances [of ?s "(snd (fst ?run), snd ?run)" "e_getenv ?E" q "Inr p" d "snd ?s" "[]"] d reply
  show ?thesis by (simp add: dumpEnsured_def after advances_def)
qed

lemma restore_answered:
  assumes "fleetRestore F t ip q = Inr p"
  shows "restoreEnsured F (t @ [ERestore ip q (Inr p)]) ip q p"
proof -
  let ?E = "f_env F ip" and ?s = "arriving F t ip"
  let ?run = "run_state (agentRestore (e_host ?E) (e_getenv ?E) (e_floats ?E) (fst ?s) q) (snd ?s)"
  from fleetReply_delivered [OF assms [unfolded fleetRestore_def Let_def]]
  have go: "f_transport F t ip = Delivered" and reply: "fst (fst ?run) = Inr p" by auto
  have after: "agentAt F (t @ [ERestore ip q (Inr p)]) ip = (snd (fst ?run), snd ?run)"
    by (simp add: agentAt_snoc go performed_def io_simps split_beta)
  from io_post_at [OF io_post_conj [OF agentRestore_keeps agentRestore_done, of "e_host ?E" "e_getenv ?E" "e_floats ?E" "fst ?s" q], of "snd ?s"]
  obtain d where d: "snd ?run = snd ?s @ d" "keepsAgent (fst ?s) (snd (fst ?run))" "restoreDone (e_getenv ?E) (fst ?s) q (fst (fst ?run)) d"
    by (auto simp: split_beta)
  from restoreDone_advances [of ?s "(snd (fst ?run), snd ?run)" "e_getenv ?E" q "Inr p" d "snd ?s" "[]"] d reply
  show ?thesis by (simp add: restoreEnsured_def after advances_def)
qed

lemma still_stored:
  assumes "advances s s'" and "dumpStored getenv (fst s) q r (snd s)"
  shows "dumpStored getenv (fst s') q r (snd s')"
proof -
  from assms(1) obtain d where "snd s' = snd s @ d" by (auto simp: advances_def)
  with dumpStored_advances [OF assms, of "[]" d] show ?thesis by simp
qed

lemma still_restored:
  assumes "advances s s'" and "restoreDone getenv (fst s) q r (snd s)"
  shows "restoreDone getenv (fst s') q r (snd s')"
proof -
  from assms(1) obtain d where "snd s' = snd s @ d" by (auto simp: advances_def)
  with restoreDone_advances [OF assms, of "[]" d] show ?thesis by simp
qed

interpretation dumps: agent_service "fleetWorld F" "fleetFinalDump F" EFinalDump "dumpEnsured F" for F
proof
  show "r = fleetFinalDump F t ip q" if "truthful (fleetWorld F) t (EFinalDump ip q r)" for t ip q r
    using that by (simp add: fleetWorld_def)
  show "dumpEnsured F (t @ [EFinalDump ip q (Inr p)]) ip q p" if "fleetFinalDump F t ip q = Inr p" for t ip q p
    using that by (rule dump_answered)
  show "dumpEnsured F (t @ [e]) ip q p" if "dumpEnsured F t ip q p" for t ip q p e
    using that still_stored [OF agentAt_advances] unfolding dumpEnsured_def by blast
qed

interpretation restores: agent_service "fleetWorld F" "fleetRestore F" ERestore "restoreEnsured F" for F
proof
  show "r = fleetRestore F t ip q" if "truthful (fleetWorld F) t (ERestore ip q r)" for t ip q r
    using that by (simp add: fleetWorld_def)
  show "restoreEnsured F (t @ [ERestore ip q (Inr p)]) ip q p" if "fleetRestore F t ip q = Inr p" for t ip q p
    using that by (rule restore_answered)
  show "restoreEnsured F (t @ [e]) ip q p" if "restoreEnsured F t ip q p" for t ip q p e
    using that still_restored [OF agentAt_advances] unfolding restoreEnsured_def by blast
qed

end
