(* ===== verification/Journey.thy ===== *)
theory Journey
  imports Fleet
begin

text \<open>
  A whole migration in a fleet: the runs of the handlers for one resource, with anything else that the controller does between them, and what
  the recorded status says of the agents at every moment until the migration is completed.
\<close>

section \<open>What the status keeps of a dump\<close>

text \<open>The stages at which a dump is recorded.\<close>

definition later :: "migrationStage \<Rightarrow> bool" where
  "later s \<longleftrightarrow> s = StageUploaded \<or> s = StageRestoring \<or> s = StageRestoreFailed \<or> s = StageFailed"

text \<open>A new status is of the same resource; only a restore makes it idle, and a recorded dump stays the recorded one.\<close>

definition sameResource :: "mapp \<Rightarrow> mapp \<Rightarrow> bool" where
  "sameResource m x \<longleftrightarrow> mName x = mName m \<and> Spec x = Spec m \<and>
     (if mStage x = StageIdle then mStage m = StageRestoring else Generation (Status x) = Generation (Status m))"

definition sameDump :: "mapp \<Rightarrow> mapp \<Rightarrow> bool" where
  "sameDump m x \<longleftrightarrow> later (mStage m) \<and> UploadedDumpID (mMigration x) = UploadedDumpID (mMigration m) \<and>
     UploadedS3Prefix (mMigration x) = UploadedS3Prefix (mMigration m)"

definition keepsDump :: "mapp \<Rightarrow> mapp \<Rightarrow> bool" where
  "keepsDump m x \<longleftrightarrow> sameResource m x \<and> (later (mStage x) \<longrightarrow> sameDump m x)"

lemma stagedStatus_fields:
  "mName (stagedStatus m s f t1 t2) = mName m" "Spec (stagedStatus m s f t1 t2) = Spec m"
  "Generation (Status (stagedStatus m s f t1 t2)) = Generation (Status m)"
  "UploadedDumpID (mMigration (stagedStatus m s f t1 t2)) = UploadedDumpID (f (mMigration m))"
  "UploadedS3Prefix (mMigration (stagedStatus m s f t1 t2)) = UploadedS3Prefix (f (mMigration m))"
  by (simp_all add: stagedStatus_def mapp_defs Let_def)

lemma appendHistory_fields:
  "mName (appendHistory h m) = mName m" "Spec (appendHistory h m) = Spec m" "mMigration (appendHistory h m) = mMigration m"
  "Generation (Status (appendHistory h m)) = Generation (Status m)"
  by (simp_all add: appendHistory_def mapp_defs)

lemma migratedStatus_resource:
  "mStage m = StageRestoring \<Longrightarrow> keepsDump m (migratedStatus m p t d t')"
  by (simp add: keepsDump_def sameResource_def later_def migratedStatus_def resetMigrationFSM_def mapp_defs emptyMigration_def)

lemmas keepsDump_defs = keepsDump_def sameResource_def sameDump_def later_def stagedStatus_fields stagedStatus_stage appendHistory_fields

lemma keeps_readonly: "list_all readonly d \<Longrightarrow> list_all (keepsDump m) (statusWrites d)"
  by (simp add: readonly_statusWrites)

lemma keeps_quiescing:
  assumes "mStage m = StageQuiescing"
  shows "io_post (fsmQuiescingHandler w m) (\<lambda>r d. list_all (keepsDump m) (statusWrites d))"
proof -
  have act: "io_post (if Action q = quiesceActionScaleZero then quiesceScaleOwnersToZero w pods
      else forEach pods (\<lambda>p. do { _ \<leftarrow> deletePod w p; State_Monad.return () })) (\<lambda>r d. statusWrites d = [])" for q pods
  proof (rule io_post_mono [OF quiesce_action_events])
    fix r d
    show "statusWrites d = []" if "list_all quiesceEvent d"
      using that
    proof (induction d)
      case (Cons e d)
      then show ?case by (cases e) auto
    qed simp
  qed
  have go: "io_post (fsmAdvanceToDumping w m) (\<lambda>r d. list_all (keepsDump m) (statusWrites d))"
    unfolding fsmAdvanceToDumping_def by (auto intro!: io_rules simp: keepsDump_defs)
  show ?thesis
    unfolding fsmQuiescingHandler_def listQuiesceTargets_def
    using assms
    by (auto intro!: io_rules io_post_mono [OF act] io_post_mono [OF go] simp: keepsDump_defs split: sum.splits)
qed

lemma keeps_failures:
  "io_post (fsmTransitionToFinalDumpFailed w m msg) (\<lambda>r d. list_all (keepsDump m) (statusWrites d))"
  "later (mStage m) \<Longrightarrow> io_post (fsmTransitionToRestoreFailed w m msg) (\<lambda>r d. list_all (keepsDump m) (statusWrites d))"
  unfolding fsmTransitionToFinalDumpFailed_def fsmTransitionToRestoreFailed_def
  by (auto intro!: io_rules simp: keepsDump_defs)

text \<open>Only the dumping handler records a dump, and what it records is the dump it has been told of.\<close>

lemma keeps_dumping:
  assumes "mStage m = StageDumping"
  shows "io_post (fsmDumpingHandler w m p)
     (\<lambda>r d. list_all (\<lambda>x. sameResource m x \<and> (later (mStage x) \<longrightarrow> list_ex (dumpOf m p x) d)) (statusWrites d))"
proof -
  have failed: "io_post (fsmTransitionToFinalDumpFailed w m msg) (\<lambda>r d. list_all (\<lambda>x. sameResource m x \<and> \<not> later (mStage x)) (statusWrites d))" for msg
    unfolding fsmTransitionToFinalDumpFailed_def by (auto intro!: io_rules simp: keepsDump_defs)
  have "io_post (fsmDumpAndRecord w m p)
     (\<lambda>r d. list_all (\<lambda>x. sameResource m x \<and> (later (mStage x) \<longrightarrow> list_ex (dumpOf m p x) d)) (statusWrites d))"
    unfolding fsmDumpAndRecord_def client_defs Let_def
    by (auto intro!: io_rules io_post_mono [OF failed] simp: keepsDump_defs list_all_iff split: option.splits)
  then show ?thesis
    unfolding fsmDumpingHandler_def by (auto intro!: io_rules elim!: io_post_mono)
qed

lemma keeps_uploaded:
  assumes "mStage m = StageUploaded"
  shows "io_post (fsmUploadedHandler getenv w m) (\<lambda>r d. list_all (keepsDump m) (statusWrites d))"
proof -
  have "later (mStage m)" using assms by (simp add: later_def)
  then show ?thesis
    unfolding fsmUploadedHandler_def fsmCreateTarget_def
    using assms
    by (auto intro!: io_rules io_post_mono [OF keeps_failures(2)] simp: keeps_readonly keepsDump_defs)
qed

lemma keeps_restoring:
  assumes "mStage m = StageRestoring"
  shows "io_post (fsmRestoringHandler w m p) (\<lambda>r d. list_all (keepsDump m) (statusWrites d))"
proof -
  have l: "later (mStage m)" using assms by (simp add: later_def)
  have clean: "io_post (cleanupSource w x q) (\<lambda>r d. statusWrites d = [])" for x q
    unfolding cleanupSource_def by (auto intro!: io_rules)
  have finish: "io_post (fsmFinishRestore w m p q) (\<lambda>r d. list_all (keepsDump m) (statusWrites d))" for q
    unfolding fsmFinishRestore_def
    by (auto intro!: io_rules io_post_mono [OF clean] simp: migratedStatus_resource assms)
  show ?thesis
    unfolding fsmRestoringHandler_def client_defs Let_def
    by (auto intro!: io_rules io_post_mono [OF keeps_failures(2) [OF l]] io_post_mono [OF finish] simp: keeps_readonly split: option.splits)
qed

lemma keeps_restoreFailed:
  assumes "mStage m = StageRestoreFailed"
  shows "io_post (fsmRestoreFailedHandler w m) (\<lambda>r d. list_all (keepsDump m) (statusWrites d))"
  unfolding fsmRestoreFailedHandler_def fsmFail_def fsmDropTarget_def fsmBackToUploaded_def Let_def
  using assms by (auto intro!: io_rules simp: keepsDump_defs)

lemma advance_keeps:
  "io_post (advanceMigrationFSM getenv w m p)
     (\<lambda>r d. list_all (\<lambda>x. sameResource m x \<and> (later (mStage x) \<longrightarrow> sameDump m x \<or> mStage m = StageDumping \<and> list_ex (dumpOf m p x) d)) (statusWrites d))"
proof (cases "mStage m")
  case StageDumping
  then show ?thesis
    by (auto simp: advanceMigrationFSM_def list_all_iff intro!: io_post_mono [OF keeps_dumping [OF StageDumping]])
next
  case StageQuiescing
  then show ?thesis
    by (auto simp: advanceMigrationFSM_def list_all_iff keepsDump_def intro!: io_post_mono [OF keeps_quiescing [OF StageQuiescing]])
next
  case StageUploaded
  then show ?thesis
    by (auto simp: advanceMigrationFSM_def list_all_iff keepsDump_def intro!: io_post_mono [OF keeps_uploaded [OF StageUploaded]])
next
  case StageRestoring
  then show ?thesis
    by (auto simp: advanceMigrationFSM_def list_all_iff keepsDump_def intro!: io_post_mono [OF keeps_restoring [OF StageRestoring]])
next
  case StageRestoreFailed
  then show ?thesis
    by (auto simp: advanceMigrationFSM_def list_all_iff keepsDump_def intro!: io_post_mono [OF keeps_restoreFailed [OF StageRestoreFailed]])
qed (auto simp: advanceMigrationFSM_def intro!: io_rules)

section \<open>The run of a migration\<close>

text \<open>After a run of a handler the resource is what the API server has accepted last.\<close>

definition newest :: "mapp \<Rightarrow> event list \<Rightarrow> mapp" where
  "newest m d = (if acceptedWrites d = [] then m else last (acceptedWrites d))"

text \<open>
  A step: one run of the handler of the stage, or anything else that adds to the log of the controller. The pod that the reconciler hands to a
  handler as the source is the source \<open>p\<close> while the migration is dumping; after that, with two pods of the application running, it may be any.
\<close>

inductive journeyStep :: "genv \<Rightarrow> fleet \<Rightarrow> pod \<Rightarrow> mapp \<times> event list \<Rightarrow> mapp \<times> event list \<Rightarrow> bool" for getenv F p where
  handled: "run_state (advanceMigrationFSM getenv (fleetWorld F) m q) t = (r, t @ d) \<Longrightarrow> (mStage m = StageDumping \<longrightarrow> q = p) \<Longrightarrow>
     journeyStep getenv F p (m, t) (newest m d, t @ d)"
| elsewhere: "genuine (fleetWorld F) t d \<Longrightarrow> journeyStep getenv F p (m, t) (m, t @ d)"

inductive_cases journeyStepE: "journeyStep getenv F p (m, t) s"

definition startsAt :: "mapp \<Rightarrow> mapp \<times> event list \<Rightarrow> bool" where
  "startsAt m0 s \<longleftrightarrow> fst s = m0 \<and> \<not> later (mStage m0)"

text \<open>
  The agent of the source belongs to the resource: its checkpoint manager has the name of the resource, its generation and the node of the pod, and
  its dumps go to the storage.
\<close>

definition fitting :: "fleet \<Rightarrow> mapp \<Rightarrow> pod \<Rightarrow> bool" where
  "fitting F m p \<longleftrightarrow>
     (let cm = a_cm (fst (f_start F (pIP p))) in
      cm_appName cm = mName m \<and> cm_generation cm = Generation (Status m) \<and> cm_nodeName cm = pNodeName p \<and>
      storesImages (e_getenv (f_env F (pIP p))) (effectiveStrategy m))"

text \<open>The images of the recorded dump are in the storage, under the recorded prefix.\<close>

definition storedAt :: "fleet \<Rightarrow> pod \<Rightarrow> mapp \<Rightarrow> event list \<Rightarrow> bool" where
  "storedAt F p m t \<longleftrightarrow>
     (case agentAt F t (pIP p) of (a, hl) \<Rightarrow>
        storedAfterDump (cm_s3 (a_cm a)) (joinPath (cm_workDir (a_cm a)) (UploadedDumpID (mMigration m)))
          (UploadedS3Prefix (mMigration m)) hl)"

text \<open>CRIU has been started on the target from the recorded dump.\<close>

definition restoredAt :: "fleet \<Rightarrow> pod \<Rightarrow> mapp \<Rightarrow> event list \<Rightarrow> bool" where
  "restoredAt F target m t \<longleftrightarrow>
     (case agentAt F t (pIP target) of (a, hl) \<Rightarrow>
        restoredFrom (e_getenv (f_env F (pIP target))) (a_rm a) (effectiveStrategy m)
          (joinPath (rm_workDir (a_rm a)) (UploadedDumpID (mMigration m))) (UploadedS3Prefix (mMigration m)) hl)"

lemma agentAt_later: "advances (agentAt F t ip) (agentAt F (t @ d) ip)"
proof (induction d rule: rev_induct)
  case (snoc e d)
  show ?case using advances_trans [OF snoc agentAt_advances [of F "t @ d" ip e]] by simp
qed simp

lemma agentAt_manager: "managerId (a_cm (fst (agentAt F t ip))) = managerId (a_cm (fst (f_start F ip)))"
  using agentAt_later [of F "[]" ip t] by (simp add: advances_def keepsAgent_def sameManager_def agentAt_def)

lemma storedAt_keeps:
  assumes "sameDump m x" and "storedAt F p m t"
  shows "storedAt F p x (t @ d)"
proof -
  obtain d' where d': "snd (agentAt F (t @ d) (pIP p)) = snd (agentAt F t (pIP p)) @ d'"
    using agentAt_later [of F t "pIP p" d] by (auto simp: advances_def)
  show ?thesis
    using assms agentAt_manager [of F t "pIP p"] agentAt_manager [of F "t @ d" "pIP p"]
      storedAfterDump_more [of _ _ _ "snd (agentAt F t (pIP p))" "[]" d']
    by (auto simp: storedAt_def sameDump_def split_beta d' managerId_def)
qed

lemma effectiveStrategy_set: "orDefault def (effectiveStrategy m) = effectiveStrategy m"
  by (simp add: orDefault_def effectiveStrategy_def Let_def)

lemma dumpEnsured_stored:
  assumes "fitting F m p" and "dumpOf m p x (EFinalDump ip q (Inr resp))" and "dumpEnsured F t ip q resp"
  shows "storedAt F p x t"
proof -
  have "getS3Prefix (a_cm (fst (agentAt F t (pIP p)))) i = dumpPrefix m p i" for i
    using assms(1) agentAt_manager [of F t "pIP p"] by (simp add: getS3Prefix_def dumpPrefix_def managerId_def fitting_def Let_def)
  with assms show ?thesis
    by (simp add: dumpEnsured_def dumpStored_def storedAt_def split_beta fitting_def Let_def effectiveStrategy_set)
qed

definition recordedOk :: "fleet \<Rightarrow> pod \<Rightarrow> mapp \<Rightarrow> mapp \<times> event list \<Rightarrow> bool" where
  "recordedOk F p m0 = (\<lambda>(m, t). mStage m \<noteq> StageIdle \<longrightarrow>
     mName m = mName m0 \<and> Spec m = Spec m0 \<and> Generation (Status m) = Generation (Status m0) \<and>
     (fitting F m0 p \<and> later (mStage m) \<longrightarrow> storedAt F p m t))"

lemma fitting_same:
  "mName m = mName m0 \<Longrightarrow> Spec m = Spec m0 \<Longrightarrow> Generation (Status m) = Generation (Status m0) \<Longrightarrow> fitting F m p = fitting F m0 p"
  by (simp add: fitting_def Let_def effectiveStrategy_def)

text \<open>A run of a handler: every status it writes records a dump that is stored, whatever it has recorded before.\<close>

lemma handled_stored:
  assumes "run_state (advanceMigrationFSM getenv (fleetWorld F) m q) t = (r, t @ d)" and "mStage m = StageDumping \<longrightarrow> q = p"
    and "x \<in> set (statusWrites d)" and "fitting F m p" and "later (mStage m) \<Longrightarrow> storedAt F p m t" and "later (mStage x)"
  shows "storedAt F p x (t @ d)"
proof (cases "mStage m = StageDumping")
  case False
  from io_post_at [OF advance_keeps [of getenv "fleetWorld F" m q], of t] assms(1,3,6) False
  have "sameDump m x" by (auto simp: list_all_iff)
  then show ?thesis using assms(5) by (intro storedAt_keeps [of m]) (auto simp: sameDump_def)
next
  case True
  have run: "run_state (fsmDumpingHandler (fleetWorld F) m p) t = (r, t @ d)" using assms(1,2) True by (simp add: advanceMigrationFSM_def)
  obtain d' where d': "snd (run_state (fsmDumpingHandler (fleetWorld F) m p) t) = t @ d'"
    and kept: "list_all (\<lambda>x. sameResource m x \<and> (later (mStage x) \<longrightarrow> list_ex (dumpOf m p x) d')) (statusWrites d')"
    and told: "\<And>ip q resp. EFinalDump ip q (Inr resp) \<in> set d' \<Longrightarrow>
        dumpEnsured F (snd (run_state (fsmDumpingHandler (fleetWorld F) m p) t)) ip q resp"
    using dumps.relied [OF talks_dumping keeps_dumping [OF True], of F p t] by blast
  have "d' = d" using d' run by simp
  with kept assms(3,6) obtain e where e: "e \<in> set d" "dumpOf m p x e" by (auto simp: list_all_iff list_ex_iff)
  then obtain ip q resp where "e = EFinalDump ip q (Inr resp)" by (elim dumpOf.elims) auto
  with e told run \<open>d' = d\<close> show ?thesis by (intro dumpEnsured_stored [OF assms(4), of x ip q resp]) auto
qed

interpretation journey: invariant_system "startsAt m0" "journeyStep getenv F p" "recordedOk F p m0" for m0 getenv F p
proof
  show "recordedOk F p m0 s" if "startsAt m0 s" for s
    using that by (auto simp: startsAt_def recordedOk_def)
  show "recordedOk F p m0 s'" if ok: "recordedOk F p m0 s" and step: "journeyStep getenv F p s s'" for s s'
  proof -
    obtain m t where s: "s = (m, t)" by (cases s)
    from step [unfolded s] consider (handled) q r d where "s' = (newest m d, t @ d)"
        "run_state (advanceMigrationFSM getenv (fleetWorld F) m q) t = (r, t @ d)" "mStage m = StageDumping \<longrightarrow> q = p"
      | (elsewhere) d where "s' = (m, t @ d)" "genuine (fleetWorld F) t d"
      by (elim journeyStepE) blast+
    then show ?thesis
    proof cases
      case elsewhere
      have "storedAt F p m (t @ d)" if "storedAt F p m t" "later (mStage m)"
        using storedAt_keeps [of m m F p t d] that by (simp add: sameDump_def)
      with elsewhere ok show ?thesis by (auto simp: recordedOk_def s later_def)
    next
      case handled
      show ?thesis
      proof (cases "acceptedWrites d")
        case Nil
        have "storedAt F p m (t @ d)" if "storedAt F p m t" "later (mStage m)"
          using storedAt_keeps [of m m F p t d] that by (simp add: sameDump_def)
        with handled ok Nil show ?thesis by (auto simp: recordedOk_def s newest_def later_def)
      next
        case (Cons y ys)
        let ?x = "newest m d"
        have x: "?x \<in> set (statusWrites d)"
          using acceptedWrites_subset [of d] Cons by (auto simp: newest_def)
        have same: "sameResource m ?x"
          using io_post_at [OF advance_keeps [of getenv "fleetWorld F" m q], of t] handled(2) x by (auto simp: list_all_iff)
        have idle: "mStage m \<noteq> StageIdle"
        proof
          assume "mStage m = StageIdle"
          then have "statusWrites d = []"
            using io_post_at [OF io_post_return [of "\<lambda>r d. d = []"], of "Inr (requeueAfter (30 * second))" t] handled(2)
            by (simp add: advanceMigrationFSM_def run_return)
          with x show False by simp
        qed
        then have m: "mName m = mName m0" "Spec m = Spec m0" "Generation (Status m) = Generation (Status m0)"
          and st: "fitting F m0 p \<Longrightarrow> later (mStage m) \<Longrightarrow> storedAt F p m t"
          using ok by (auto simp: recordedOk_def s)
        have "storedAt F p ?x (t @ d)" if "fitting F m0 p" "later (mStage ?x)"
          using handled_stored [OF handled(2,3) x _ _ that(2)] st fitting_same [OF m, of F p] that(1) by simp
        then show ?thesis
          using same m by (auto simp: recordedOk_def handled(1) sameResource_def split: if_splits)
      qed
    qed
  qed
qed

text \<open>
  C6. What the status says of a dump is true: from the moment a dump is recorded until the migration is over, all images of the recorded dump are
  in the storage under the recorded prefix, where the agent of the source put them after CRIU had dumped; whatever the API server and the
  network do, whatever the agents do on their own, and however often the restore is tried again.
\<close>

theorem recorded_dump_is_stored:
  assumes "reachable (startsAt m0) (journeyStep getenv F p) (m, t)" and "fitting F m0 p" and "later (mStage m)"
  shows "storedAt F p m t"
  using journey.inv_reachable [OF assms(1)] assms(2,3) by (auto simp: recordedOk_def later_def)

text \<open>The completion of a migration.\<close>

lemma commits_write: "commits m e \<Longrightarrow> \<exists>x r. e = EStatusUpdate x r \<and> mStage x = StageIdle"
  by (induction m e rule: commits.induct) (auto simp: emptyMigration_def)

lemma commit_in_restoring:
  assumes "run_state (advanceMigrationFSM getenv w m p) t = (r, t @ d)" and "list_ex (commits m) d"
  shows "mStage m = StageRestoring"
proof -
  from assms(2) obtain e where e: "e \<in> set d" "commits m e" by (auto simp: list_ex_iff)
  from commits_write [OF e(2)] obtain x r' where "e = EStatusUpdate x r'" and idle: "mStage x = StageIdle" by blast
  then have "x \<in> set (statusWrites d)" using e(1) by (force simp: statusWrites_def map_filter_def)
  with io_post_at [OF advance_keeps [of getenv w m p], of t] assms(1)
  have "sameResource m x" by (auto simp: list_all_iff)
  with idle show ?thesis by (simp add: sameResource_def)
qed

lemma restoreEnsured_restored:
  assumes "restoreAt m (pIP target) (ERestore ip q (Inr resp))" and "restoreEnsured F t ip q resp"
  shows "restoredAt F target m t"
  using assms by (simp add: restoreEnsured_def restoreDone_def restoredAt_def split_beta restoreStrategy_def effectiveStrategy_set)

text \<open>
  C5. A migration that completes has moved the process: when the status that ends the migration is accepted, the images of the recorded dump are in
  the storage, and on the pod that the status names as the target CRIU has been started from this dump and this prefix and has been
  seen alive.
\<close>

theorem completed_migration_restored:
  assumes "reachable (startsAt m0) (journeyStep getenv F p) (m, t)" and "fitting F m0 p"
    and "run_state (advanceMigrationFSM getenv (fleetWorld F) m q) t = (r, t @ d)" and "list_ex (commits m) d"
  shows "storedAt F p m t \<and> (\<exists>target. list_ex (targetSeen m target) d \<and> restoredAt F target m (t @ d))"
proof
  have st: "mStage m = StageRestoring" by (rule commit_in_restoring [OF assms(3,4)])
  then show "storedAt F p m t"
    using journey.inv_reachable [OF assms(1)] assms(2) by (auto simp: recordedOk_def later_def)
  have run: "run_state (fsmRestoringHandler (fleetWorld F) m q) t = (r, t @ d)" using assms(3) st by (simp add: advanceMigrationFSM_def)
  obtain d' where d': "snd (run_state (fsmRestoringHandler (fleetWorld F) m q) t) = t @ d'"
    and seen: "list_ex (commits m) d' \<longrightarrow> (\<exists>target. list_ex (targetSeen m target) d' \<and> list_ex (restoreAt m (pIP target)) d')"
    and told: "\<And>ip q' resp. ERestore ip q' (Inr resp) \<in> set d' \<Longrightarrow>
        restoreEnsured F (snd (run_state (fsmRestoringHandler (fleetWorld F) m q) t)) ip q' resp"
    using restores.relied [OF talks_restoring commit_restored, of F m q t] by blast
  have "d' = d" using d' run by simp
  with seen assms(4) obtain target e where t: "list_ex (targetSeen m target) d" "e \<in> set d" "restoreAt m (pIP target) e"
    by (auto simp: list_ex_iff)
  from t(3) obtain ip q resp where "e = ERestore ip q (Inr resp)" by (elim restoreAt.elims) auto
  with t told run \<open>d' = d\<close> show "\<exists>target. list_ex (targetSeen m target) d \<and> restoredAt F target m (t @ d)"
    by (intro exI [of _ target] conjI restoreEnsured_restored [of m target ip q resp]) auto
qed

end
