(* ===== verification/JourneyRun.thy ===== *)
theory JourneyRun
  imports Journey
begin

text \<open>
  A migration that goes all the way, on which the theorems of \<open>Journey\<close> are exercised: a resource with the strategy \<open>full\<close>, a source whose
  agent dumps, a target whose agent restores, and an API server that accepts every status. The predicate \<open>runs\<close> is the counterpart of \<open>io_post\<close>
  for one world and one log before the program.
\<close>

section \<open>The source and the target\<close>

definition fullApp :: mapp where
  "fullApp = (setMigration (\<lambda>i. i\<lparr>Stage := StageDumping, MaxRetries := 3, PreviousNode := ''node-a''\<rparr>) exampleApp)
     \<lparr>Spec := exampleSpec\<lparr>MigrationPolicy := (MigrationPolicy exampleSpec)\<lparr>Strategy := ''full''\<rparr>\<rparr>\<rparr>"

definition noFloats :: floatLib where "noFloats = \<lparr>fl_sscanf = (\<lambda>_ _. None), fl_parse = (\<lambda>_. None)\<rparr>"

text \<open>The host of the source, whose links can be read, and the host of the target, where a container runs and a command starts.\<close>

definition sourceHost :: host where
  "sourceHost = silentHost\<lparr>h_readlink := (\<lambda>_ _. Inr ''pid:[7]'')\<rparr>"

definition targetHost :: host where
  "targetHost = silentHost\<lparr>h_readDir := (\<lambda>_ _. Inr [(''5'', True)]), h_start := (\<lambda>_ _. Inr 42), h_exists := (\<lambda>_ _. True),
     h_readFile := (\<lambda>_ _. Inr ''sleep'')\<rparr>"

definition hostEnv :: "host \<Rightarrow> agentEnv" where
  "hostEnv h = \<lparr>e_host = h, e_getenv = (\<lambda>_. []), e_floats = noFloats, e_fmt = (\<lambda>_. ''0'')\<rparr>"

definition idleAgent :: "string \<Rightarrow> int \<Rightarrow> int \<Rightarrow> agentState" where
  "idleAgent node pid gen =
     \<lparr>a_cm = \<lparr>cm_workDir = ''/checkpoints'', cm_s3 = minioClient, cm_podName = ''redis'', cm_appName = ''redis'', cm_nodeName = node,
        cm_lastCheckpointID = [], cm_chainRoot = [], cm_chainDepth = 0, cm_generation = gen\<rparr>,
      a_rm = \<lparr>rm_workDir = ''/checkpoints'', rm_s3 = minioClient\<rparr>, a_s3 = minioClient, a_mode = ''normal'',
      a_proc = \<lparr>mainPID = pid, knownMainPID = 0\<rparr>, a_startTime = 0, a_podName = ''redis'', a_nodeName = node,
      pageServerCmd = None, pageServerDumpID = [], restoreLazyPagesCmd = None, restoreCmd = None, restoreDumpID = [],
      lazyPagesActive = False, profilerInst = None, prevExcludeSet = [], a_scheduler = None, a_loops = [], a_networkInfo = None\<rparr>"


text \<open>The rules for the shape of a program, to be used with the answers of one host.\<close>

lemmas io_shape = io_post_return io_post_bind io_post_if io_post_option io_post_sum io_post_prod io_post_let

lemma io_post_ask_const: "Q x [ev x] \<Longrightarrow> io_post (ask (\<lambda>t. x) ev) Q"
  by (simp add: io_post_def run_ask)

lemma source_answers:
  "Q (Inr ''pid:[7]'') [HReadlink p (Inr ''pid:[7]'')] \<Longrightarrow> io_post (hReadlink sourceHost p) Q"
  "Qm None [HFile (FMkdirAll p None)] \<Longrightarrow> io_post (hMkdirAll sourceHost p) Qm"
  "Qm None [HRun args None] \<Longrightarrow> io_post (hRun sourceHost args) Qm"
  "Qw (Inr []) [HFile (FWalk p (Inr []))] \<Longrightarrow> io_post (hWalk sourceHost p) Qw"
  by (simp_all add: io_post_ask_const hReadlink_def hMkdirAll_def hRun_def hWalk_def sourceHost_def silentHost_def)

lemma source_free:
  "(\<And>r. Q r [HReadFile path r]) \<Longrightarrow> io_post (hReadFile h path) Q"
  "(\<And>r. Qn r [HNow r]) \<Longrightarrow> io_post (hNow h) Qn"
  "(\<And>r. Qt r [HStat path r]) \<Longrightarrow> io_post (hStat h path) Qt"
  "(\<And>r. R6 r [HUuid r]) \<Longrightarrow> io_post (hUuid h) R6"
  "Qu () [HFinalDump pid parent excl strategy] \<Longrightarrow> io_post (hFinalDump pid parent excl strategy) Qu"
  by (auto intro!: io_rules)

lemma source_dumps:
  assumes "fdq_MigrationStrategy q = ''full''"
  shows "io_post (agentFinalDump sourceHost (\<lambda>_. []) (\<lambda>_. ''0'') False (idleAgent ''node-a'' 9 0) q) (\<lambda>(r, a) d. \<exists>resp. r = Inr resp \<and> PipeInodes resp = [])"
  using assms
  unfolding agentFinalDump_def needMainPID_def killCmd_def releaseProfiler_def dropScheduler_def Let_def idleAgent_def
     cmFinalDump_def generateDumpID_def getExternalMounts_def recordPipes_def persistPipes_def parentArgs_def appendExcludeArgs_def
      runFinalDump_def finishFinalDump_def getDirectorySize_def storeFinalDump_def UploadCheckpoint_def uploadSelected_def uploadFilesParallel_def uploadLogs_def saveProfile_def
  by (auto intro!: io_shape source_answers source_free simp: orDefault_def servesPages_def directFinal_def directUploadOn_def pipeInode_def finalDumpReply_def)

lemma target_answers:
  "Qr (Inr [(''5'', True)]) [HReadDir p (Inr [(''5'', True)])] \<Longrightarrow> io_post (hReadDir targetHost p) Qr"
  "Qs (Inr 42) [HStartCmd args (Inr 42)] \<Longrightarrow> io_post (hStart targetHost args) Qs"
  "Qb True [HFile (FExists p True)] \<Longrightarrow> io_post (hExists targetHost p) Qb"
  "Qm None [HOpenFile p None] \<Longrightarrow> io_post (hOpen targetHost p) Qm"
  "Ql (Inr []) [HStore (S3List b p n (Inr []))] \<Longrightarrow> io_post (hS3List targetHost b p n) Ql"
  "Qi (Inr ''sleep'') [HReadFile p (Inr ''sleep'')] \<Longrightarrow> io_post (hReadFile targetHost p) Qi"
  "Qu () [HSleep i] \<Longrightarrow> io_post (hSleep i) Qu"
  "(\<And>r. Qn r [HNow r]) \<Longrightarrow> io_post (hNow h) Qn"
  by (auto intro: io_rules simp: io_post_ask_const hReadDir_def hStart_def hExists_def hOpen_def hS3List_def hReadFile_def targetHost_def silentHost_def)

lemma five: "atoi_digits False ''5'' = Some 5" "itoa 5 = ''5''"
  by code_simp+

lemma sleeper: "cmdlineOf ''sleep'' = ''sleep''" "\<not> agentCmdline ''sleep''" "\<not> str_contains ''sleep'' ''criu''" "str_contains ''sleep'' ''sleep''"
  "unmarshalMap ''sleep'' = None" "positivePid (Inr ''sleep'') = None"
  by code_simp+

lemma target_main: "(\<And>d. Q (Inr 5) d) \<Longrightarrow> io_post (FindMainContainerPID targetHost) Q"
  unfolding FindMainContainerPID_def
  by (auto intro!: io_shape target_answers simp: five sleeper)

lemma target_search: "(\<And>r d. Q r d) \<Longrightarrow> io_post (FindMainProcessPID targetHost a) Q"
  by (rule io_post_mono [OF any_posts(2)])

lemma target_restores:
  assumes "rq_MigrationStrategy q = ''full''" "rq_PipeInodes q = []"
  shows "io_post (agentRestore targetHost (\<lambda>_. []) noFloats (idleAgent ''node-b'' 0 1) q)
    (\<lambda>(r, a) d. (\<exists>resp. r = Inr resp) \<and> \<not> lazyPagesActive a)"
  using assms
  unfolding agentRestore_def Let_def idleAgent_def killCmd_def rmRestore_def fetchImages_def startLazy_def joinAndRestore_def
    DownloadFullCheckpoint_def downloadSelected_def downloadFilesParallel_def recoverPipes_def launchRestore_def adoptProcess_def
  by (auto intro!: io_shape target_answers target_main target_search simp: restoreStrategy_def orDefault_def needsLazyPages_def sleeper split: sum.splits)

section \<open>The fleet\<close>

definition sourcePod :: pod where "sourcePod = examplePod ''redis-0'' ''node-a'' ''10.0.0.1'' 0"

definition targetPod :: pod where "targetPod = examplePod ''redis-gen1'' ''node-b'' ''10.0.0.2'' 1"

definition exampleFleet :: fleet where
  "exampleFleet =
     \<lparr>f_world = (downWorld 0)\<lparr>w_statusUpdate := (\<lambda>_ x. Inr x), w_createPod := (\<lambda>_ _. Inr targetPod), w_getPod := (\<lambda>_ _. Inr targetPod),
        w_dial := (\<lambda>_ _. None)\<rparr>,
      f_env = (\<lambda>ip. hostEnv (if ip = ''10.0.0.1'' then sourceHost else targetHost)),
      f_start = (\<lambda>ip. (if ip = ''10.0.0.1'' then idleAgent ''node-a'' 9 0 else idleAgent ''node-b'' 0 1, [])),
      f_own = (\<lambda>_ _. []), f_transport = (\<lambda>_ _. Delivered), f_waiting = (\<lambda>_. False), f_wire = OtherErr\<rparr>"

definition untouched :: "string \<Rightarrow> event list \<Rightarrow> bool" where
  "untouched ip t \<longleftrightarrow> list_all (\<lambda>e. case requestOf False e of None \<Rightarrow> True | Some (ip', c) \<Rightarrow> ip' \<noteq> ip) t"

lemma untouched_simps [simp]:
  "untouched ip []" "untouched ip (t @ d) \<longleftrightarrow> untouched ip t \<and> untouched ip d"
  "untouched ip (e # d) \<longleftrightarrow> (case requestOf False e of None \<Rightarrow> True | Some (ip', c) \<Rightarrow> ip' \<noteq> ip) \<and> untouched ip d"
  by (auto simp: untouched_def)

lemma fleet_simps:
  "f_own exampleFleet t ip = []" "f_transport exampleFleet t ip = Delivered" "f_waiting exampleFleet t = False"
  by (simp_all add: exampleFleet_def)

lemma untouched_agent: "untouched ip t \<Longrightarrow> agentAt exampleFleet t ip = f_start exampleFleet ip"
proof (induction t rule: rev_induct)
  case (snoc e t)
  then show ?case by (auto simp: agentAt_snoc fleet_simps arriving_def split: option.splits)
qed (simp add: agentAt_def)

lemma dump_delivered:
  assumes "untouched ''10.0.0.1'' t" and "fdq_MigrationStrategy q = ''full''"
  shows "\<exists>resp. fleetFinalDump exampleFleet t ''10.0.0.1'' q = Inr resp \<and> PipeInodes resp = []"
  using io_post_at [OF source_dumps [OF assms(2)], of "[]"] untouched_agent [OF assms(1)]
  by (auto simp: fleetFinalDump_def fleetReply_def fleet_simps arriving_def exampleFleet_def hostEnv_def split_beta)

text \<open>No pages are being transferred at an address.\<close>

definition settled :: "string \<Rightarrow> event list \<Rightarrow> bool" where
  "settled ip t \<longleftrightarrow> \<not> lazyPagesActive (fst (agentAt exampleFleet t ip))"

lemma settled_snoc: "settled ip t \<Longrightarrow> requestOf False e = None \<Longrightarrow> settled ip (t @ [e])"
  by (simp add: settled_def agentAt_snoc fleet_simps arriving_def)

lemma restore_delivered:
  assumes "untouched ''10.0.0.2'' t" and "rq_MigrationStrategy q = ''full''" and "rq_PipeInodes q = []"
  shows "\<exists>resp. fleetRestore exampleFleet t ''10.0.0.2'' q = Inr resp \<and> settled ''10.0.0.2'' (t @ [ERestore ''10.0.0.2'' q r])"
  using io_post_at [OF target_restores [OF assms(2,3)], of "[]"] untouched_agent [OF assms(1)]
  by (auto simp: fleetRestore_def fleetReply_def fleet_simps arriving_def exampleFleet_def hostEnv_def split_beta settled_def agentAt_snoc
      performed_def io_simps)

lemma status_delivered:
  assumes "settled ip t"
  shows "\<exists>st. fleetGetStatus exampleFleet t ip = Inr st \<and> \<not> LazyPagesActive st"
proof -
  let ?a = "fst (agentAt exampleFleet t ip)" and ?hl = "snd (agentAt exampleFleet t ip)"
  have "io_post (agentGetStatus (e_host (f_env exampleFleet ip)) ?a) (\<lambda>(r, a') d. LazyPagesActive r = lazyPagesActive ?a)"
    unfolding agentGetStatus_def by (auto intro!: io_rules io_post_mono [OF any_posts(2)])
  from io_post_at [OF this, of ?hl] assms show ?thesis
    by (auto simp: fleetGetStatus_def fleetReply_def fleet_simps arriving_def settled_def io_simps split_beta)
qed

section \<open>Programs from a given log\<close>

definition runs :: "'a prog \<Rightarrow> event list \<Rightarrow> ('a \<Rightarrow> event list \<Rightarrow> bool) \<Rightarrow> bool" where
  "runs m t Q \<longleftrightarrow> (\<exists>d. snd (run_state m t) = t @ d \<and> Q (fst (run_state m t)) d)"

named_theorems runs_rules \<open>rules that compute a postcondition along a program from a given log\<close>

lemma runs_return [runs_rules]: "Q x [] \<Longrightarrow> runs (State_Monad.return x) t Q"
  by (simp add: runs_def run_return)

lemma runs_ask: "Q (ans t) [ev (ans t)] \<Longrightarrow> runs (ask ans ev) t Q"
  by (simp add: runs_def run_ask)

lemma runs_bind [runs_rules]:
  assumes "runs m t (\<lambda>r d. runs (f r) (t @ d) (\<lambda>r' d'. Q r' (d @ d')))"
  shows "runs (State_Monad.bind m f) t Q"
proof -
  from assms obtain d where d: "snd (run_state m t) = t @ d" and f: "runs (f (fst (run_state m t))) (t @ d) (\<lambda>r' d'. Q r' (d @ d'))"
    unfolding runs_def [of m] by blast
  from f obtain d' where "snd (run_state (f (fst (run_state m t))) (t @ d)) = (t @ d) @ d'"
    and "Q (fst (run_state (f (fst (run_state m t))) (t @ d))) (d @ d')"
    unfolding runs_def by blast
  with d show ?thesis unfolding runs_def by (intro exI [of _ "d @ d'"]) (simp only: run_bind append_assoc simp_thms)
qed

lemma runs_cases [runs_rules]:
  "(b \<Longrightarrow> runs m t Q) \<Longrightarrow> (\<not> b \<Longrightarrow> runs m' t Q) \<Longrightarrow> runs (if b then m else m') t Q"
  "(x = None \<Longrightarrow> runs m t Q) \<Longrightarrow> (\<And>y. x = Some y \<Longrightarrow> runs (f y) t Q) \<Longrightarrow> runs (case x of None \<Rightarrow> m | Some y \<Rightarrow> f y) t Q"
  "(\<And>e. s = Inl e \<Longrightarrow> runs (g e) t Q) \<Longrightarrow> (\<And>z. s = Inr z \<Longrightarrow> runs (k z) t Q) \<Longrightarrow> runs (case s of Inl e \<Rightarrow> g e | Inr z \<Rightarrow> k z) t Q"
  "(\<And>a b. p = (a, b) \<Longrightarrow> runs (l a b) t Q) \<Longrightarrow> runs (case p of (a, b) \<Rightarrow> l a b) t Q"
  by (simp, cases x, simp, simp, cases s, simp, simp, cases p, simp)

abbreviation (input) exampleWorld :: world where "exampleWorld \<equiv> fleetWorld exampleFleet"

lemma runs_world [runs_rules]:
  "Qg (Inl (OtherErr ''down'')) [EApiGetMapp k (Inl (OtherErr ''down''))] \<Longrightarrow> runs (apiGetMapp exampleWorld k) t Qg"
  "Qs (Inr x) [EStatusUpdate x (Inr x)] \<Longrightarrow> runs (statusUpdate exampleWorld x) t Qs"
  "Qp (Inr targetPod) [EGetPod k (Inr targetPod)] \<Longrightarrow> runs (getPod exampleWorld k) t Qp"
  "Qp (Inr targetPod) [ECreatePod p (Inr targetPod)] \<Longrightarrow> runs (createPod exampleWorld p) t Qp"
  "Qo None [EDial a None] \<Longrightarrow> runs (dial exampleWorld a) t Qo"
  "Qo (Some (OtherErr ''down'')) [EDeletePod p (Some (OtherErr ''down''))] \<Longrightarrow> runs (deletePod exampleWorld p) t Qo"
  "Qp (Inl (OtherErr ''down'')) [EUpdatePod p (Inl (OtherErr ''down''))] \<Longrightarrow> runs (updatePod exampleWorld p) t Qp"
  "(\<And>n. Qn n [ENow n]) \<Longrightarrow> runs (now exampleWorld) t Qn"
  by (auto intro!: runs_ask simp: request_defs fleetWorld_def exampleFleet_def downWorld_def)

lemma runs_setStage [runs_rules]:
  "(\<And>t1 t2. Q (Inr (stagedStatus m s f (Some t1) (Some t2)))
       [ENow t1, ENow t2, EStatusUpdate (stagedStatus m s f (Some t1) (Some t2)) (Inr (stagedStatus m s f (Some t1) (Some t2)))]) \<Longrightarrow>
   runs (setStage exampleWorld m s f) t Q"
  unfolding setStage_def metav1_Now_def by (auto intro!: runs_rules)

lemma runs_dump:
  assumes "untouched ''10.0.0.1'' t" and "fdq_MigrationStrategy q = ''full''"
    and "\<And>resp. PipeInodes resp = [] \<Longrightarrow> Q (Inr resp) [EFinalDump ''10.0.0.1'' q (Inr resp)]"
  shows "runs (rpcFinalDump exampleWorld ''10.0.0.1'' q) t Q"
  using dump_delivered [OF assms(1,2)] assms(3) by (auto intro!: runs_ask simp: rpcFinalDump_def fleetWorld_def)

lemma runs_restore:
  assumes "untouched ''10.0.0.2'' t" and "rq_MigrationStrategy q = ''full''" and "rq_PipeInodes q = []"
    and "\<And>resp. settled ''10.0.0.2'' (t @ [ERestore ''10.0.0.2'' q (Inr resp)]) \<Longrightarrow> Q (Inr resp) [ERestore ''10.0.0.2'' q (Inr resp)]"
  shows "runs (rpcRestore exampleWorld ''10.0.0.2'' q) t Q"
  using restore_delivered [OF assms(1-3)] assms(4) by (fastforce intro!: runs_ask simp: rpcRestore_def fleetWorld_def)

lemma clock_still: "slept e = 0 \<Longrightarrow> clock exampleWorld (t @ [e]) = clock exampleWorld t"
  by (simp add: clock_snoc fleetWorld_def exampleFleet_def downWorld_def)

text \<open>The two waits end at the first look.\<close>

lemma runs_poll_once:
  assumes "0 < interval" and "clock exampleWorld t < deadline" and "decide s (ans s (t @ [ENow (clock exampleWorld t)])) = Inr a"
    and "Q (Inr a) [ENow (clock exampleWorld t), ev s (ans s (t @ [ENow (clock exampleWorld t)]))]"
  shows "runs (State (poll exampleWorld interval deadline ans ev decide s)) t Q"
  using assms by (simp add: runs_def poll_unfold [of exampleWorld])

lemma runs_waitForPod:
  assumes "0 < timeout" and "\<And>n n' k. Q (None, targetPod) [ENow n, ENow n', EGetPod k (Inr targetPod)]"
  shows "runs (waitForPodRunning exampleWorld p timeout) t Q"
proof -
  have ready: "podDecision p' (Inr targetPod) = Inr (None, targetPod)" "w_getPod exampleWorld t' k = Inr targetPod" for p' t' k
    by (simp_all add: podDecision_def fleetWorld_def exampleFleet_def targetPod_def examplePod_def)
  have "clock exampleWorld (t @ [ENow (clock exampleWorld t)]) < clock exampleWorld t + timeout" using assms(1) by (simp add: clock_still)
  then show ?thesis
    unfolding waitForPodRunning_def now_def
    by (intro runs_bind runs_ask runs_poll_once [where a = "(None, targetPod)"]) (auto intro!: runs_rules assms simp: ready)
qed

lemma runs_waitForPages:
  assumes "settled ip t" and "podIP c = ip" and "0 < timeout" and "\<And>n n' st. Q None [ENow n, ENow n', EGetStatus ip (Inr st)]"
  shows "runs (waitForLazyPagesCompletion exampleWorld c timeout) t Q"
proof -
  let ?t = "t @ [ENow (clock exampleWorld t)]" let ?t' = "?t @ [ENow (clock exampleWorld ?t)]"
  have "settled ip ?t'" using assms(1) by (simp add: settled_snoc flip: append_assoc)
  then obtain st where st: "w_rpcGetStatus exampleWorld ?t' ip = Inr st" "\<not> LazyPagesActive st"
    using status_delivered by (fastforce simp: fleetWorld_def)
  then have ready: "lazyDecision () (w_rpcGetStatus exampleWorld ?t' ip) = Inr ()" by (simp add: lazyDecision_def)
  have "clock exampleWorld ?t < clock exampleWorld t + timeout" using assms(3) by (simp add: clock_still)
  then show ?thesis
    unfolding waitForLazyPagesCompletion_def now_def
    by (intro runs_bind runs_ask runs_poll_once [where a = "()"]) (use ready st in \<open>auto intro!: runs_rules assms simp: assms(2)\<close>)
qed

section \<open>The stages\<close>

definition inStage :: "migrationStage \<Rightarrow> mapp \<Rightarrow> bool" where
  "inStage st m \<longleftrightarrow> mStage m = st \<and> Spec m = Spec fullApp \<and> UploadedPipeInodes (mMigration m) = []"

lemma full_strategy: "inStage st m \<Longrightarrow> effectiveStrategy m = ''full''"
  by (simp add: inStage_def effectiveStrategy_def fullApp_def Let_def)

lemma full_timeout: "inStage st m \<Longrightarrow> 0 < migrationTimeout m"
  by (simp add: inStage_def migrationTimeout_def fullApp_def Let_def exampleSpec_def times_dur_def wrap_def)

lemma stagedStatus_pipes:
  "UploadedPipeInodes (mMigration (stagedStatus m s f t1 t2)) = UploadedPipeInodes (f (mMigration m))"
  by (simp add: stagedStatus_def mapp_defs Let_def)

lemma pod_addresses: "pIP sourcePod = ''10.0.0.1''" "pIP targetPod = ''10.0.0.2''"
  by (simp_all add: sourcePod_def targetPod_def examplePod_def)

lemma runs_dumping:
  assumes "inStage StageDumping m" and "untouched ''10.0.0.1'' t"
  shows "runs (advanceMigrationFSM getenv exampleWorld m sourcePod) t (\<lambda>r d. untouched ''10.0.0.2'' d \<and>
    (\<exists>x. acceptedWrites d = [x] \<and> inStage StageUploaded x))"
  using assms
  by (auto simp: advanceMigrationFSM_def fsmDumpingHandler_def fsmDumpAndRecord_def Let_def full_strategy usesPageServer_def client_defs
      pod_addresses inStage_def stagedStatus_stage stagedStatus_fields stagedStatus_pipes intro!: runs_rules runs_dump)

lemma runs_uploaded:
  assumes "inStage StageUploaded m"
  shows "runs (advanceMigrationFSM getenv exampleWorld m sourcePod) t (\<lambda>r d. untouched ''10.0.0.2'' d \<and>
    (\<exists>x. acceptedWrites d = [x] \<and> inStage StageRestoring x))"
proof -
  have "CredentialsSecret (Storage (Spec m)) = []" using assms by (simp add: inStage_def fullApp_def exampleSpec_def)
  with assms full_timeout [OF assms] show ?thesis
    by (auto simp: advanceMigrationFSM_def fsmUploadedHandler_def fsmCreateTarget_def getAWSCredentials_def
        inStage_def stagedStatus_stage stagedStatus_fields stagedStatus_pipes intro!: runs_rules runs_waitForPod)
qed

lemma runs_restoring:
  assumes "inStage StageRestoring m" and "untouched ''10.0.0.2'' t"
  shows "runs (advanceMigrationFSM getenv exampleWorld m sourcePod) t (\<lambda>r d. list_ex (commits m) d)"
  using assms full_strategy [OF assms(1)]
  by (auto simp: advanceMigrationFSM_def fsmRestoringHandler_def client_defs Let_def pod_addresses inStage_def fsmFinishRestore_def metav1_Now_def
      cleanupSource_def migratedStatus_fields successRecord_def
      intro!: runs_rules runs_restore runs_waitForPages [where ip = "''10.0.0.2''"] settled_snoc)

section \<open>The whole migration\<close>

lemma example_fits: "fitting exampleFleet fullApp sourcePod"
  by (simp add: fitting_def Let_def exampleFleet_def pod_addresses idleAgent_def sourcePod_def examplePod_def fullApp_def exampleApp_def
      setMigration_def setStatus_def exampleStatus_def hostEnv_def storesImages_def directFinal_def directUploadOn_def effectiveStrategy_def)

lemma example_run:
  "\<exists>m t r d. reachable (startsAt fullApp) (journeyStep getenv exampleFleet sourcePod) (m, t) \<and> mStage m = StageRestoring \<and>
     run_state (advanceMigrationFSM getenv exampleWorld m sourcePod) t = (r, t @ d) \<and> list_ex (commits m) d"
proof -
  let ?adv = "\<lambda>m. advanceMigrationFSM getenv exampleWorld m sourcePod" and ?reach = "reachable (startsAt fullApp) (journeyStep getenv exampleFleet sourcePod)"
  have start: "inStage StageDumping fullApp" "?reach (fullApp, [])"
    by (simp add: inStage_def fullApp_def exampleApp_def setMigration_def setStatus_def exampleStatus_def emptyMigration_def)
      (rule reach_init, simp add: startsAt_def later_def fullApp_def exampleApp_def setMigration_def setStatus_def)
  obtain r1 d1 m1 where 1: "run_state (?adv fullApp) [] = (r1, [] @ d1)" "untouched ''10.0.0.2'' d1" "acceptedWrites d1 = [m1]" "inStage StageUploaded m1"
    using runs_dumping [OF start(1), of "[]" getenv] unfolding runs_def by (auto simp: prod_eq_iff)
  have r1: "?reach (m1, d1)" using reach_step [OF start(2) handled [OF 1(1) impI [OF refl]]] 1(3) by (simp add: newest_def)
  obtain r2 d2 m2 where 2: "run_state (?adv m1) d1 = (r2, d1 @ d2)" "untouched ''10.0.0.2'' d2" "acceptedWrites d2 = [m2]" "inStage StageRestoring m2"
    using runs_uploaded [OF 1(4), of getenv d1] unfolding runs_def by (auto simp: prod_eq_iff)
  have r2: "?reach (m2, d1 @ d2)" using reach_step [OF r1 handled [OF 2(1) impI [OF refl]]] 2(3) by (simp add: newest_def)
  obtain r3 d3 where "run_state (?adv m2) (d1 @ d2) = (r3, (d1 @ d2) @ d3)" "list_ex (commits m2) d3"
    using runs_restoring [OF 2(4), of "d1 @ d2" getenv] 1(2) 2(2) unfolding runs_def by (auto simp: prod_eq_iff)
  moreover have "mStage m2 = StageRestoring" using 2(4) by (simp add: inStage_def)
  ultimately show ?thesis using r2 by blast
qed

theorem recorded_dump_is_stored_witness: "\<exists>m t. mStage m = StageRestoring \<and> storedAt exampleFleet sourcePod m t"
proof -
  obtain m t where "reachable (startsAt fullApp) (journeyStep (\<lambda>_. []) exampleFleet sourcePod) (m, t)" "mStage m = StageRestoring"
    using example_run [of "\<lambda>_. []"] by blast
  moreover from this have "storedAt exampleFleet sourcePod m t"
    by (intro recorded_dump_is_stored [OF _ example_fits]) (simp_all add: later_def)
  ultimately show ?thesis by blast
qed

theorem completed_migration_restored_witness:
  "\<exists>m t d target. list_ex (commits m) d \<and> storedAt exampleFleet sourcePod m t \<and> restoredAt exampleFleet target m (t @ d)"
  using example_run [of "\<lambda>_. []"] completed_migration_restored [OF _ example_fits] by metis

end
