(* ===== verification/Flags.thy ===== *)
theory Flags
  imports GoTime
begin

text \<open>
  What the commands use of Go's package \<open>flag\<close>: the command line is read up to the first argument that is not a flag, every value is
  checked when its flag is read, and an error ends the program with the code 2, a request for help with 0.
\<close>

section \<open>Values\<close>

definition parseBool :: "string \<Rightarrow> bool option" where
  "parseBool s =
     (if s \<in> set [''1'', ''t'', ''T'', ''true'', ''TRUE'', ''True''] then Some True
      else if s \<in> set [''0'', ''f'', ''F'', ''false'', ''FALSE'', ''False''] then Some False else None)"

text \<open>\<open>strconv.ParseInt(s, 0, 64)\<close>: a sign, a prefix for the base, digits, and underscores between digits.\<close>

definition lowerOf :: "char \<Rightarrow> char" where
  "lowerOf c = (let n = of_char c :: nat in if 65 \<le> n \<and> n \<le> 90 then char_of (n + 32) else c)"

definition digitOf :: "char \<Rightarrow> nat option" where
  "digitOf c =
     (let n = of_char (lowerOf c) :: nat in
      if 48 \<le> n \<and> n \<le> 57 then Some (n - 48) else if 97 \<le> n \<and> n \<le> 122 then Some (n - 87) else None)"

fun digitsIn :: "nat \<Rightarrow> nat \<Rightarrow> string \<Rightarrow> nat option" where
  "digitsIn b acc [] = Some acc"
| "digitsIn b acc (c # s) =
     (if c = CHR ''_'' then digitsIn b acc s
      else case digitOf c of
        None \<Rightarrow> None
      | Some d \<Rightarrow> if d \<ge> b then None else digitsIn b (acc * b + d) s)"

text \<open>The base and the digits of a literal without its sign.\<close>

definition baseOf :: "string \<Rightarrow> nat \<times> string" where
  "baseOf s =
     (case s of
        [] \<Rightarrow> (10, s)
      | c # rest \<Rightarrow>
          if c \<noteq> CHR ''0'' then (10, s)
          else case rest of
            p # ds \<Rightarrow>
              if ds = [] then (8, rest)
              else if lowerOf p = CHR ''b'' then (2, ds)
              else if lowerOf p = CHR ''o'' then (8, ds)
              else if lowerOf p = CHR ''x'' then (16, ds)
              else (8, rest)
          | [] \<Rightarrow> (8, rest))"

text \<open>Underscores stand between digits or after the prefix only; the state is what was seen last: a digit, an underscore or neither.\<close>

datatype seen = SeenDigit | SeenUnderscore | SeenOther

fun underscores :: "bool \<Rightarrow> seen \<Rightarrow> string \<Rightarrow> bool" where
  "underscores hex st [] \<longleftrightarrow> st \<noteq> SeenUnderscore"
| "underscores hex st (c # s) \<longleftrightarrow>
     (let n = of_char c :: nat; l = of_char (lowerOf c) :: nat in
      if 48 \<le> n \<and> n \<le> 57 \<or> hex \<and> 97 \<le> l \<and> l \<le> 102 then underscores hex SeenDigit s
      else if c = CHR ''_'' then st = SeenDigit \<and> underscores hex SeenUnderscore s
      else st \<noteq> SeenUnderscore \<and> underscores hex SeenOther s)"

definition underscoreOK :: "string \<Rightarrow> bool" where
  "underscoreOK s =
     (case s of
        CHR ''0'' # p # ds \<Rightarrow>
          if lowerOf p \<in> set ''box'' then underscores (lowerOf p = CHR ''x'') SeenDigit ds else underscores False SeenOther s
      | _ \<Rightarrow> underscores False SeenOther s)"

definition parseUint :: "string \<Rightarrow> nat option" where
  "parseUint s =
     (if s = [] then None
      else if CHR ''_'' \<in> set s \<and> \<not> underscoreOK s then None
      else case baseOf s of (b, ds) \<Rightarrow> digitsIn b 0 ds)"

definition parseInt :: "string \<Rightarrow> int option" where
  "parseInt s =
     (let neg = (s \<noteq> [] \<and> hd s = CHR ''-''); body = (if s \<noteq> [] \<and> hd s \<in> set ''+-'' then tl s else s) in
      case parseUint body of
        None \<Rightarrow> None
      | Some n \<Rightarrow> let v = (if neg then - int n else int n) in if int64_min \<le> v \<and> v \<le> int64_max then Some v else None)"

section \<open>The command line\<close>

text \<open>A flag is boolean or takes a value; its \<open>Set\<close> accepts some texts.\<close>

datatype flagKind = FlagBool | FlagValue "string \<Rightarrow> bool"

type_synonym flagSet = "string \<Rightarrow> flagKind option"

datatype flagError = HelpAsked | BadSyntax string | NotDefined string | NeedsArgument string | InvalidValue string string

definition exitCode :: "flagError \<Rightarrow> int" where
  "exitCode e = (if e = HelpAsked then 0 else 2)"

definition accepts :: "flagKind \<Rightarrow> string \<Rightarrow> bool" where
  "accepts k v = (case k of FlagBool \<Rightarrow> parseBool v \<noteq> None | FlagValue ok \<Rightarrow> ok v)"

definition isFlag :: "string \<Rightarrow> bool" where
  "isFlag s \<longleftrightarrow> 2 \<le> length s \<and> hd s = CHR ''-'' \<and> s \<noteq> ''--''"

definition flagBody :: "string \<Rightarrow> string" where
  "flagBody s = (if hasPrefix s ''--'' then drop 2 s else drop 1 s)"

text \<open>The name before the first equals sign, and the value after it if there is one.\<close>

definition flagName :: "string \<Rightarrow> string" where
  "flagName body = takeWhile (\<lambda>c. c \<noteq> CHR ''='') body"

definition flagGiven :: "string \<Rightarrow> string option" where
  "flagGiven body = (case dropWhile (\<lambda>c. c \<noteq> CHR ''='') body of [] \<Rightarrow> None | _ # v \<Rightarrow> Some v)"

fun parseFlags :: "flagSet \<Rightarrow> string list \<Rightarrow> flagError + (string \<times> string) list" where
  "parseFlags fs [] = Inr []"
| "parseFlags fs (s # args) =
     (if \<not> isFlag s then Inr []
      else let body = flagBody s; name = flagName body in
      if body = [] \<or> hd body \<in> set ''-='' then Inl (BadSyntax s)
      else case fs name of
        None \<Rightarrow> Inl (if name = ''help'' \<or> name = ''h'' then HelpAsked else NotDefined name)
      | Some k \<Rightarrow>
          (case flagGiven body of
             Some v \<Rightarrow> if accepts k v then map_sum id ((#) (name, v)) (parseFlags fs args) else Inl (InvalidValue name v)
           | None \<Rightarrow>
               (case k of
                  FlagBool \<Rightarrow> map_sum id ((#) (name, ''true'')) (parseFlags fs args)
                | FlagValue ok \<Rightarrow>
                    (case args of
                       [] \<Rightarrow> Inl (NeedsArgument name)
                     | v # rest \<Rightarrow>
                         if ok v then map_sum id ((#) (name, v)) (parseFlags fs rest) else Inl (InvalidValue name v)))))"

text \<open>The value of a flag: the last one given.\<close>

definition flagOr :: "string \<Rightarrow> (string \<times> string) list \<Rightarrow> string \<Rightarrow> string" where
  "flagOr name given def = (case map_of (rev given) name of None \<Rightarrow> def | Some v \<Rightarrow> v)"

definition flagBool :: "string \<Rightarrow> (string \<times> string) list \<Rightarrow> bool \<Rightarrow> bool" where
  "flagBool name given def = (case map_of (rev given) name of None \<Rightarrow> def | Some v \<Rightarrow> parseBool v = Some True)"

definition flagInt :: "string \<Rightarrow> (string \<times> string) list \<Rightarrow> int \<Rightarrow> int" where
  "flagInt name given def = (case map_of (rev given) name of None \<Rightarrow> def | Some v \<Rightarrow> (case parseInt v of Some n \<Rightarrow> n | None \<Rightarrow> def))"

definition flagDuration :: "string \<Rightarrow> (string \<times> string) list \<Rightarrow> duration \<Rightarrow> duration" where
  "flagDuration name given def =
     (case map_of (rev given) name of None \<Rightarrow> def | Some v \<Rightarrow> (case parseDuration v of Some d \<Rightarrow> d | None \<Rightarrow> def))"

definition stringFlag :: flagKind where "stringFlag = FlagValue (\<lambda>_. True)"

definition intFlag :: flagKind where "intFlag = FlagValue (\<lambda>v. parseInt v \<noteq> None)"

definition durationFlag :: flagKind where "durationFlag = FlagValue (\<lambda>v. parseDuration v \<noteq> None)"

text \<open>Flags that are defined later are added to a set.\<close>

definition withFlags :: "flagSet \<Rightarrow> flagSet \<Rightarrow> flagSet" where
  "withFlags own more = (\<lambda>n. case own n of None \<Rightarrow> more n | Some k \<Rightarrow> Some k)"

section \<open>What reading a command line guarantees\<close>

text \<open>Every value that was read belongs to a flag of the set that accepts it.\<close>

declare parseFlags.simps(2) [simp del]

definition acceptedBy :: "flagSet \<Rightarrow> string \<times> string \<Rightarrow> bool" where
  "acceptedBy fs = (\<lambda>(n, v). case fs n of None \<Rightarrow> False | Some k \<Rightarrow> accepts k v)"

lemma accepted_more:
  assumes "map_sum id ((#) x) r = Inr given" and "acceptedBy fs x" and "\<And>rest. r = Inr rest \<Longrightarrow> list_all (acceptedBy fs) rest"
  shows "list_all (acceptedBy fs) given"
  using assms by (cases r) auto

lemma parseFlags_accepted: "parseFlags fs args = Inr given \<Longrightarrow> list_all (acceptedBy fs) given"
proof (induction fs args arbitrary: given rule: parseFlags.induct)
  case (2 fs s args)
  note step = 2(4) [unfolded parseFlags.simps(2) Let_def]
  let ?n = "flagName (flagBody s)"
  show ?case
  proof (cases "isFlag s \<and> \<not> (flagBody s = [] \<or> hd (flagBody s) \<in> set ''-='')")
    case False
    with step show ?thesis by (auto split: if_splits)
  next
    case True
    then have *: "isFlag s" "\<not> (flagBody s = [] \<or> hd (flagBody s) \<in> set ''-='')" by auto
    with step obtain k where k: "fs ?n = Some k" by (cases "fs ?n") auto
    show ?thesis
    proof (cases "flagGiven (flagBody s)")
      case (Some v)
      with step * k have ok: "accepts k v" and eq: "map_sum id ((#) (?n, v)) (parseFlags fs args) = Inr given" by (auto split: if_splits)
      from ok k have "acceptedBy fs (?n, v)" by (simp add: acceptedBy_def)
      then show ?thesis by (rule accepted_more [OF eq]) (use 2(3) [OF _ refl refl _ k Some ok] * in simp)
    next
      case None
      show ?thesis
      proof (cases k)
        case FlagBool
        with step * k None have eq: "map_sum id ((#) (?n, ''true'')) (parseFlags fs args) = Inr given" by auto
        from FlagBool k have "acceptedBy fs (?n, ''true'')" by (auto simp: acceptedBy_def accepts_def parseBool_def)
        then show ?thesis by (rule accepted_more [OF eq]) (use 2(1) [OF _ refl refl _ k None FlagBool] * in simp)
      next
        case (FlagValue ok)
        with step * k None obtain v rest where args: "args = v # rest" and ok: "ok v"
          and eq: "map_sum id ((#) (?n, v)) (parseFlags fs rest) = Inr given"
          by (cases args) (auto split: if_splits)
        from FlagValue k ok have "acceptedBy fs (?n, v)" by (simp add: acceptedBy_def accepts_def)
        then show ?thesis by (rule accepted_more [OF eq]) (use 2(2) [OF _ refl refl _ k None FlagValue args ok] * in simp)
      qed
    qed
  qed
qed simp

text \<open>Flags in the form with two dashes and an equals sign.\<close>

definition flagText :: "string \<times> string \<Rightarrow> string" where
  "flagText = (\<lambda>(n, v). ''--'' @ n @ ''='' @ v)"

definition plainFlag :: "string \<Rightarrow> bool" where
  "plainFlag n \<longleftrightarrow> n \<noteq> [] \<and> CHR ''='' \<notin> set n \<and> hd n \<noteq> CHR ''-''"

lemma flagText_parts:
  assumes "plainFlag n"
  shows "isFlag (flagText (n, v))" "flagBody (flagText (n, v)) = n @ ''='' @ v" "flagName (n @ ''='' @ v) = n"
    "flagGiven (n @ ''='' @ v) = Some v" "n @ ''='' @ v \<noteq> []" "hd (n @ ''='' @ v) \<notin> set ''-=''"
proof -
  have pass: "\<And>c. c \<in> set n \<Longrightarrow> c \<noteq> CHR ''=''" using assms by (auto simp: plainFlag_def)
  show "isFlag (flagText (n, v))" using assms by (cases n) (auto simp: isFlag_def flagText_def plainFlag_def)
  show "flagBody (flagText (n, v)) = n @ ''='' @ v" by (simp add: flagBody_def flagText_def)
  show "flagName (n @ ''='' @ v) = n" using pass by (simp add: flagName_def takeWhile_append2)
  show "flagGiven (n @ ''='' @ v) = Some v" using pass by (simp add: flagGiven_def dropWhile_append2)
  show "n @ ''='' @ v \<noteq> []" by simp
  show "hd (n @ ''='' @ v) \<notin> set ''-=''" using assms by (cases n) (auto simp: plainFlag_def)
qed

lemma parseFlags_known:
  assumes "plainFlag n" and "fs n = Some k" and "accepts k v"
  shows "parseFlags fs (flagText (n, v) # args) = map_sum id ((#) (n, v)) (parseFlags fs args)"
  using flagText_parts [OF assms(1), of v] assms(2,3) by (simp add: parseFlags.simps(2) Let_def del: append_is_Nil_conv)

lemma parseFlags_unknown:
  assumes "plainFlag n" and "fs n = None" and "n \<noteq> ''help''" and "n \<noteq> ''h''"
  shows "parseFlags fs (flagText (n, v) # args) = Inl (NotDefined n)"
  using flagText_parts [OF assms(1), of v] assms(2-4) by (simp add: parseFlags.simps(2) Let_def del: append_is_Nil_conv)

lemma parseFlags_texts:
  assumes "list_all (\<lambda>(n, v). plainFlag n \<and> acceptedBy fs (n, v)) given"
  shows "parseFlags fs (map flagText given @ args) = map_sum id ((@) given) (parseFlags fs args)"
  using assms
proof (induction given)
  case (Cons x given)
  obtain n v where x: "x = (n, v)" by (cases x)
  from Cons.prems obtain k where "plainFlag n" "fs n = Some k" "accepts k v" by (auto simp: x acceptedBy_def split: option.splits)
  with Cons show ?case
    by (simp add: x parseFlags_known sum.map_comp comp_def)
next
  case Nil
  show ?case by (cases "parseFlags fs args") simp_all
qed

end
