(* ===== verification/Commands.thy ===== *)
theory Commands
  imports Flags WebhookProps Monitor AgentSystem
begin

text \<open>
  The commands: \<open>cmd/controller/main.go\<close>, \<open>cmd/node-monitor/main.go\<close> and the flags of \<open>cmd/agent/main.go\<close>, and the
  metrics that \<open>pkg/monitor/metrics.go\<close> declares. A command ends with an exit code and a message, or runs until it is told to stop. The manager of
  controller-runtime, the configuration of client-go and the flags of its logger are parameters. The log lines and
  the signal handlers, which only cancel the context, are left out.
\<close>

datatype commandEnd = Exited int string | Stopped

section \<open>The node monitor\<close>

definition nodeMonitorFlags :: flagSet where
  "nodeMonitorFlags = map_of
     [(''kubeconfig'', stringFlag), (''cloud-type'', stringFlag), (''enable-imds'', FlagBool), (''check-interval'', durationFlag)]"

text \<open>The first reading knows only the flags of the command; those of the logger, \<open>zap\<close>, are there for the second.\<close>

definition nodeMonitorArgs :: "flagSet \<Rightarrow> string list \<Rightarrow> flagError + (string \<times> string) list" where
  "nodeMonitorArgs zap args =
     (case parseFlags nodeMonitorFlags args of
        Inl e \<Rightarrow> Inl e
      | Inr _ \<Rightarrow> parseFlags (withFlags nodeMonitorFlags zap) args)"

text \<open>
  The client library: the configuration from a file or from the cluster, and the client, each with its error if there is one. The loop of the monitor
  runs for \<open>n\<close> ticks.
\<close>

record clientLib =
  cl_fromFile :: "string \<Rightarrow> string option"
  cl_inCluster :: "string option"
  cl_newForConfig :: "string option"

definition nodeMonitorMain ::
  "world \<Rightarrow> genv \<Rightarrow> clientLib \<Rightarrow> flagSet \<Rightarrow> (string \<Rightarrow> azureEvent list option) \<Rightarrow> bool \<Rightarrow> nat \<Rightarrow> string list \<Rightarrow> commandEnd prog" where
  "nodeMonitorMain w getenv cl zap unmarshal logs n args =
     (case nodeMonitorArgs zap args of
        Inl e \<Rightarrow> State_Monad.return (Exited (exitCode e) [])
      | Inr given \<Rightarrow>
          let kubeconfig = flagOr ''kubeconfig'' given []; node = getenv ''NODE_NAME'';
              config = (if kubeconfig \<noteq> [] then cl_fromFile cl kubeconfig else cl_inCluster cl) in
          if node = [] then State_Monad.return (Exited 1 ''NODE_NAME environment variable is required'')
          else (case config of
             Some e \<Rightarrow> State_Monad.return (Exited 1 (''Failed to create Kubernetes config: '' @ e))
           | None \<Rightarrow>
               (case cl_newForConfig cl of
                  Some e \<Rightarrow> State_Monad.return (Exited 1 (''Failed to create Kubernetes client: '' @ e))
                | None \<Rightarrow> do {
                    _ \<leftarrow> monitorStart w
                      (NewSpotMonitorWithConfig unmarshal logs node (flagOr ''cloud-type'' given [])
                        (flagBool ''enable-imds'' given True) (flagDuration ''check-interval'' given (1 * second))) n;
                    State_Monad.return Stopped
                  })))"

section \<open>The controller\<close>

definition controllerFlags :: flagSet where
  "controllerFlags = map_of
     [(''metrics-bind-address'', stringFlag), (''health-probe-bind-address'', stringFlag), (''leader-elect'', FlagBool),
      (''enable-webhook'', FlagBool), (''webhook-port'', intFlag), (''webhook-cert-dir'', stringFlag)]"

record webhookServer =
  ws_Port :: int
  ws_CertDir :: string

record managerOptions =
  MetricsBindAddress :: string
  HealthProbeBindAddress :: string
  LeaderElection :: bool
  LeaderElectionID :: string
  mo_WebhookServer :: "webhookServer option"

definition managerOptionsOf :: "(string \<times> string) list \<Rightarrow> managerOptions" where
  "managerOptionsOf given =
     \<lparr>MetricsBindAddress = flagOr ''metrics-bind-address'' given '':8080'',
      HealthProbeBindAddress = flagOr ''health-probe-bind-address'' given '':8081'',
      LeaderElection = flagBool ''leader-elect'' given False,
      LeaderElectionID = ''migration-controller.migration.io'',
      mo_WebhookServer =
        (if flagBool ''enable-webhook'' given False
         then Some \<lparr>ws_Port = flagInt ''webhook-port'' given 9443,
                    ws_CertDir = flagOr ''webhook-cert-dir'' given ''/tmp/k8s-webhook-server/serving-certs''\<rparr>
         else None)\<rparr>"

text \<open>The manager: each of its calls with its error if there is one. \<open>ml_start\<close> comes back only when the manager is told to stop.\<close>

record managerLib =
  ml_getConfig :: "string option"
  ml_new :: "managerOptions \<Rightarrow> string option"
  ml_setupController :: "string option"
  ml_healthz :: "string option"
  ml_readyz :: "string option"
  ml_start :: "string option"

text \<open>The configuration of the webhook, read through the client of the manager before the manager is started.\<close>

definition webhookSetup :: "world \<Rightarrow> podMutator prog" where
  "webhookSetup w = do {
     r \<leftarrow> LoadConfigFromConfigMap w;
     State_Monad.return \<lparr>pm_Config = (case r of Inl e \<Rightarrow> DefaultWebhookConfig | Inr cfg \<Rightarrow> cfg)\<rparr>
   }"

text \<open>The registrations that end the setup: the path of the webhook with its handler, and the two checks.\<close>

definition finishSetup :: "managerLib \<Rightarrow> commandEnd" where
  "finishSetup ml =
     (case ml_healthz ml of
        Some e \<Rightarrow> Exited 1 (''unable to set up health check: '' @ e)
      | None \<Rightarrow>
          (case ml_readyz ml of
             Some e \<Rightarrow> Exited 1 (''unable to set up ready check: '' @ e)
           | None \<Rightarrow>
               (case ml_start ml of
                  Some e \<Rightarrow> Exited 1 (''problem running manager: '' @ e)
                | None \<Rightarrow> Stopped)))"

definition webhookPath :: string where "webhookPath = ''/mutate-v1-pod''"

text \<open>\<open>lib\<close> are the flags that the libraries define before the command line is read.\<close>

definition controllerMain ::
  "world \<Rightarrow> managerLib \<Rightarrow> flagSet \<Rightarrow> string list \<Rightarrow> (commandEnd \<times> (string \<times> podMutator) option) prog" where
  "controllerMain w ml lib args =
     (case parseFlags (withFlags controllerFlags lib) args of
        Inl e \<Rightarrow> State_Monad.return (Exited (exitCode e) [], None)
      | Inr given \<Rightarrow>
          (case ml_getConfig ml of
             Some e \<Rightarrow> State_Monad.return (Exited 1 (''unable to get kubeconfig: '' @ e), None)
           | None \<Rightarrow>
               (case ml_new ml (managerOptionsOf given) of
                  Some e \<Rightarrow> State_Monad.return (Exited 1 (''unable to start manager: '' @ e), None)
                | None \<Rightarrow>
                    (case ml_setupController ml of
                       Some e \<Rightarrow> State_Monad.return (Exited 1 (''unable to create controller: '' @ e), None)
                     | None \<Rightarrow>
                         if flagBool ''enable-webhook'' given False
                         then do { pm \<leftarrow> webhookSetup w; State_Monad.return (finishSetup ml, Some (webhookPath, pm)) }
                         else State_Monad.return (finishSetup ml, None)))))"

section \<open>The agent\<close>

definition agentFlags :: flagSet where
  "agentFlags = map_of [(''port'', intFlag), (''work-dir'', stringFlag), (''mode'', stringFlag)]"

text \<open>The end of \<open>Start\<close>: the gRPC server listens on the port until the context ends, or it cannot listen.\<close>

definition serveUntilDone :: "(int \<Rightarrow> string option) \<Rightarrow> int \<Rightarrow> string option" where
  "serveUntilDone listen port = map_option (\<lambda>e. ''failed to listen: '' @ e) (listen port)"

text \<open>The agent with its flags.\<close>

definition agentCommand ::
  "host \<Rightarrow> genv \<Rightarrow> floatLib \<Rightarrow> (awsConfig \<Rightarrow> string option) \<Rightarrow> (int \<Rightarrow> string option) \<Rightarrow> string list \<Rightarrow> commandEnd hprog" where
  "agentCommand h getenv fl newSession listen args =
     (case parseFlags agentFlags args of
        Inl e \<Rightarrow> State_Monad.return (Exited (exitCode e) [])
      | Inr given \<Rightarrow> do {
          r \<leftarrow> agentMain h getenv fl newSession (flagOr ''work-dir'' given ''/checkpoints'') (flagOr ''mode'' given ''normal'');
          State_Monad.return
            (case r of
               Inl e \<Rightarrow> Exited 1 e
             | Inr _ \<Rightarrow>
                 (case serveUntilDone listen (flagInt ''port'' given 8080) of
                    Some e \<Rightarrow> Exited 1 (''Agent failed: '' @ e)
                  | None \<Rightarrow> Stopped))
        })"

section \<open>What the commands do with their flags and their configuration\<close>


definition quietManager :: managerLib where
  "quietManager = \<lparr>ml_getConfig = None, ml_new = (\<lambda>_. None), ml_setupController = None, ml_healthz = None, ml_readyz = None, ml_start = None\<rparr>"


text \<open>
  C40. The node monitor cannot be given the flags of its logger: it reads the command line once before these flags are defined, so
  with any flag that is not one of its own four it exits with the code 2 before it does anything, whatever
  the logger defines.
\<close>

theorem node_monitor_logger_flags:
  assumes "list_all (\<lambda>(n, v). plainFlag n \<and> acceptedBy nodeMonitorFlags (n, v)) given"
    and "plainFlag n" and "nodeMonitorFlags n = None" and "n \<notin> {''help'', ''h''}"
  shows "run_state (nodeMonitorMain w getenv cl zap unmarshal logs k (map flagText given @ flagText (n, v) # args)) t = (Exited 2 [], t)"
proof -
  have "parseFlags nodeMonitorFlags (map flagText given @ flagText (n, v) # args) = Inl (NotDefined n)"
    using assms by (simp add: parseFlags_texts parseFlags_unknown)
  then show ?thesis by (simp add: nodeMonitorMain_def nodeMonitorArgs_def io_simps exitCode_def)
qed

theorem node_monitor_logger_flags_witness:
  "outcome (nodeMonitorMain (downWorld 0) (\<lambda>_. ''node-a'') \<lparr>cl_fromFile = (\<lambda>_. None), cl_inCluster = None, cl_newForConfig = None\<rparr>
     (\<lambda>_. Some stringFlag) (\<lambda>_. None) False 5 [''--cloud-type=aws'', ''--zap-log-level=debug'']) = Exited 2 []"
proof -
  have flags: "[''--cloud-type=aws'', ''--zap-log-level=debug''] = map flagText [(''cloud-type'', ''aws'')] @ flagText (''zap-log-level'', ''debug'') # []"
    by (simp add: flagText_def)
  show ?thesis
    unfolding outcome_def flags
    by (subst node_monitor_logger_flags)
      (simp_all add: plainFlag_def acceptedBy_def nodeMonitorFlags_def accepts_def stringFlag_def)
qed

section \<open>Metrics\<close>

text \<open>The calls of the metrics library: a vector is declared with its labels, and a call gives a value for each of them.\<close>

datatype metricKind = Histogram | CounterKind | Gauge

record metricVec =
  mv_Kind :: metricKind
  mv_Name :: string
  mv_Help :: string
  mv_Labels :: "string list"

datatype metricCall = MetricInc metricVec "string list" | MetricObserve metricVec "string list" rat | MetricSet metricVec "string list" rat

definition SpotDetectionLatency :: metricVec where
  "SpotDetectionLatency = \<lparr>mv_Kind = Histogram, mv_Name = ''spot_interrupt_detection_latency_seconds'',
     mv_Help = ''Latency of spot interrupt detection in seconds'', mv_Labels = [''method'']\<rparr>"

definition SpotDetectionTotal :: metricVec where
  "SpotDetectionTotal = \<lparr>mv_Kind = CounterKind, mv_Name = ''spot_interrupt_detection_total'',
     mv_Help = ''Total number of spot interruption detections'', mv_Labels = [''method'', ''result'']\<rparr>"

definition PodDrainDuration :: metricVec where
  "PodDrainDuration = \<lparr>mv_Kind = Histogram, mv_Name = ''pod_drain_duration_seconds'',
     mv_Help = ''Time to drain pod from detection to new pod running in seconds'', mv_Labels = [''detection_method'']\<rparr>"

definition SpotDetectionAvailability :: metricVec where
  "SpotDetectionAvailability = \<lparr>mv_Kind = Gauge, mv_Name = ''spot_detection_availability'',
     mv_Help = ''Availability of spot detection method (1=available, 0=unavailable)'', mv_Labels = [''method'']\<rparr>"

definition RecordSpotDetectionSuccess :: "string \<Rightarrow> metricCall" where
  "RecordSpotDetectionSuccess m = MetricInc SpotDetectionTotal [m, ''success'']"

definition RecordSpotDetectionFailure :: "string \<Rightarrow> metricCall" where
  "RecordSpotDetectionFailure m = MetricInc SpotDetectionTotal [m, ''failure'']"

definition RecordDetectionLatency :: "string \<Rightarrow> rat \<Rightarrow> metricCall" where
  "RecordDetectionLatency m s = MetricObserve SpotDetectionLatency [m] s"

definition RecordPodDrainDuration :: "string \<Rightarrow> rat \<Rightarrow> metricCall" where
  "RecordPodDrainDuration m s = MetricObserve PodDrainDuration [m] s"

definition SetDetectionMethodAvailability :: "string \<Rightarrow> bool \<Rightarrow> metricCall" where
  "SetDetectionMethodAvailability m available = MetricSet SpotDetectionAvailability [m] (if available then 1 else 0)"

text \<open>A call that does not panic: as many values as labels, on a vector of the kind that has the operation.\<close>

fun callFits :: "metricCall \<Rightarrow> bool" where
  "callFits (MetricInc v ls) \<longleftrightarrow> length ls = length (mv_Labels v) \<and> mv_Kind v \<noteq> Histogram"
| "callFits (MetricObserve v ls x) \<longleftrightarrow> length ls = length (mv_Labels v) \<and> mv_Kind v = Histogram"
| "callFits (MetricSet v ls x) \<longleftrightarrow> length ls = length (mv_Labels v) \<and> mv_Kind v = Gauge"

lemma metric_calls_fit:
  "callFits (RecordSpotDetectionSuccess m)" "callFits (RecordSpotDetectionFailure m)" "callFits (RecordDetectionLatency m s)"
  "callFits (RecordPodDrainDuration m s)" "callFits (SetDetectionMethodAvailability m b)"
  by (simp_all add: RecordSpotDetectionSuccess_def RecordSpotDetectionFailure_def RecordDetectionLatency_def RecordPodDrainDuration_def
      SetDetectionMethodAvailability_def SpotDetectionTotal_def SpotDetectionLatency_def PodDrainDuration_def SpotDetectionAvailability_def)

end
