(* ===== verification/Abi.thy ===== *)
theory Abi
  imports Ptrace
begin

text \<open>
  The numbers of \<open>pkg/profiler/types.go\<close> that the profiler shares with the kernel, and the check that they fit the structures
  the code passes: the number of an \<open>ioctl\<close> holds the direction of the transfer, the size of the structure, the group and the request.
\<close>

section \<open>Numbers\<close>

definition pagemapScan :: u64 where "pagemapScan = 0xC0606610"
definition pmScanWPMatching :: u64 where "pmScanWPMatching = push_bit 0 1"
definition pmScanCheckWPAsync :: u64 where "pmScanCheckWPAsync = push_bit 1 1"
definition pageIsWritten :: u64 where "pageIsWritten = push_bit 1 1"
definition pageIsHuge :: u64 where "pageIsHuge = push_bit 6 1"
definition pageIsSoftDirty :: u64 where "pageIsSoftDirty = push_bit 7 1"
definition uffdFeatureWPAsync :: u64 where "uffdFeatureWPAsync = push_bit 15 1"
definition uffdFeatureWPUnpopulated :: u64 where "uffdFeatureWPUnpopulated = push_bit 13 1"
definition uffdAPI :: u64 where "uffdAPI = 0xAA"
definition uffdioWriteprotectIoctl :: u64 where "uffdioWriteprotectIoctl = 0x4018AA06"
definition uffdioRegisterModeWP :: u64 where "uffdioRegisterModeWP = push_bit 1 1"
definition sysPidfdOpen :: u64 where "sysPidfdOpen = 434"
definition sysPidfdGetfd :: u64 where "sysPidfdGetfd = 438"
definition syscallInsn :: u64 where "syscallInsn = 0x050F"
definition maxScanRegions :: u64 where "maxScanRegions = 65536"

section \<open>Structures\<close>

text \<open>The structures as the words they consist of, in order; the kernel reads each word with the lowest byte first.\<close>

record uffdioAPIStruct =
  API :: u64
  Features :: u64
  Ioctls :: u64

record uffdioRange =
  ur_Start :: u64
  ur_Len :: u64

record uffdioRegisterStruct =
  reg_Range :: uffdioRange
  reg_Mode :: u64
  reg_Ioctls :: u64

record uffdioWriteprotectStruct =
  wp_Range :: uffdioRange
  wp_Mode :: u64

definition wordsBytes :: "u64 list \<Rightarrow> bytes" where
  "wordsBytes ws = concat (map le64 ws)"

definition apiWords :: "uffdioAPIStruct \<Rightarrow> u64 list" where
  "apiWords s = [API s, Features s, Ioctls s]"

definition rangeWords :: "uffdioRange \<Rightarrow> u64 list" where
  "rangeWords r = [ur_Start r, ur_Len r]"

definition registerWords :: "uffdioRegisterStruct \<Rightarrow> u64 list" where
  "registerWords s = rangeWords (reg_Range s) @ [reg_Mode s, reg_Ioctls s]"

definition writeprotectWords :: "uffdioWriteprotectStruct \<Rightarrow> u64 list" where
  "writeprotectWords s = rangeWords (wp_Range s) @ [wp_Mode s]"

text \<open>The words of a scan request, with the address of the vector.\<close>

definition scanWords :: "u64 \<Rightarrow> pmScanArg \<Rightarrow> u64 list" where
  "scanWords vec a =
     [96, ps_Flags a, ps_Start a, ps_End a, 0, vec, ps_VecLen a, ps_MaxPages a, ps_CategoryInverted a, ps_CategoryMask a,
      ps_CategoryAnyofMask a, ps_ReturnMask a]"

lemma length_wordsBytes [simp]: "length (wordsBytes ws) = 8 * length ws"
  by (induction ws) (simp_all add: wordsBytes_def le64_def)

section \<open>The requests\<close>

text \<open>\<open>_IO\<close> of the kernel headers: bit 30 of the direction for data to the kernel, bit 31 for data from it.\<close>

definition toKernel :: nat where "toKernel = 1"

definition fromKernel :: nat where "fromKernel = 2"

definition ioc :: "nat \<Rightarrow> nat \<Rightarrow> nat \<Rightarrow> nat \<Rightarrow> u64" where
  "ioc dir grp nr bytes = of_nat (dir * 2 ^ 30 + bytes * 2 ^ 16 + grp * 2 ^ 8 + nr)"

text \<open>The bytes that the profiler writes for its requests are those of the structures.\<close>

lemma request_bytes:
  "apiBytes = wordsBytes (apiWords \<lparr>API = uffdAPI, Features = uffdFeatureWPAsync OR uffdFeatureWPUnpopulated, Ioctls = 0\<rparr>)"
  "rangeBytes a b = wordsBytes (registerWords \<lparr>reg_Range = \<lparr>ur_Start = of_nat a, ur_Len = of_nat b - of_nat a\<rparr>,
     reg_Mode = uffdioRegisterModeWP, reg_Ioctls = 0\<rparr>)"
  by (simp_all add: apiBytes_def rangeBytes_def wordsBytes_def apiWords_def registerWords_def rangeWords_def uffdAPI_def
      uffdFeatureWPAsync_def uffdFeatureWPUnpopulated_def uffdioRegisterModeWP_def)

text \<open>
  The numbers hold the sizes of the structures, and for three requests both directions. The number for taking an area out has only the direction to
  the kernel, while the kernel defines this request with the direction from the kernel, so no request of the
  profiler takes an area out; the one for write protection, which is not used, lacks a direction too.
\<close>

lemma request_numbers:
  "uffdioAPIIoctl = ioc (toKernel + fromKernel) 0xAA 0x3F (length (wordsBytes (apiWords s)))"
  "uffdioRegisterIoctl = ioc (toKernel + fromKernel) 0xAA 0 (length (wordsBytes (registerWords reg)))"
  "pagemapScan = ioc (toKernel + fromKernel) (of_char (CHR ''f'')) 16 (length (wordsBytes (scanWords vec a)))"
  "uffdioUnregisterIoctl = ioc toKernel 0xAA 1 (length (wordsBytes (rangeWords r)))"
  "uffdioWriteprotectIoctl = ioc toKernel 0xAA 6 (length (wordsBytes (writeprotectWords wp)))"
  "uffdioUnregisterIoctl \<noteq> ioc fromKernel 0xAA 1 (length (wordsBytes (rangeWords r)))"
  by (simp_all add: ioc_def toKernel_def fromKernel_def uffdioAPIIoctl_def uffdioRegisterIoctl_def pagemapScan_def uffdioUnregisterIoctl_def
      uffdioWriteprotectIoctl_def apiWords_def registerWords_def rangeWords_def writeprotectWords_def scanWords_def)

text \<open>The size that a scan request names is the size of its structure.\<close>

lemma scan_size: "hd (scanWords vec a) = of_nat (length (wordsBytes (scanWords vec a)))"
  by (simp add: scanWords_def)

text \<open>The numbers in the requests and in the instruction are the named ones.\<close>

lemma scan_requests:
  "ps_Flags (wpArg v) = pmScanWPMatching" "ps_VecLen (wpArg v) = maxScanRegions"
  "withSyscall code = code[0 := ucast syscallInsn, 1 := ucast (drop_bit 8 syscallInsn)]"
proof -
  have "(ucast syscallInsn :: 8 word) = 0x0F" "(ucast (drop_bit 8 syscallInsn) :: 8 word) = 0x05"
    by (simp_all only: syscallInsn_def) code_simp+
  then show "withSyscall code = code[0 := ucast syscallInsn, 1 := ucast (drop_bit 8 syscallInsn)]"
    by (simp only: withSyscall_def)
qed (simp_all add: wpArg_def pmScanWPMatching_def maxScanRegions_def)

end
