(* ===== verification/Spec2Isabelle.thy ===== *)
theory Spec2Isabelle
  imports ReconcilerProps Scheduler WebhookProps Monitor PodProps AgentProps PtraceProps Maps JourneyRun Commands Abi
begin

text \<open>
  A verification library of the CRIU migration operator: a Kubernetes controller that moves a running process
  from one node to another with checkpoints, with an agent in every pod, an admission webhook, a scheduler of
  checkpoints and a monitor of spot instances.

  \<^bold>\<open>How the parts interact.\<close> The webhook (\<open>pkg/webhook\<close>) injects the agent into a pod and creates the
  \<open>MigratableApp\<close> resource for it. The controller (\<open>pkg/controller\<close>) reconciles the resource: it builds the pods, asks their
  agents for checkpoints, and drives the migration machine (\<open>migration_fsm.go\<close>), whose stage is kept in the status of the resource.
  The monitor (\<open>pkg/monitor\<close>) cordons a node and marks its pods when the cloud provider takes the node back, and the marks start migrations. The
  scheduler (\<open>pkg/scheduler\<close>) takes checkpoints periodically. The agent (\<open>pkg/agent\<close>) starts the user process, profiles its writes
  (\<open>pkg/profiler\<close>), dumps it with CRIU, stores the images, and on the target fetches them and restores the process.

  \<^bold>\<open>Effects.\<close> Everything outside the program is a parameter. A program is a state monad over the log of its
  interactions (\<open>Io\<close>); an interaction is an event with its request and its reply, and the reply is given by a record of answer functions of the log so
  far: \<open>world\<close> for the Kubernetes API, the agents, the storage and the metadata services (\<open>World\<close>), \<open>host\<close> for the
  operating system, CRIU and the storage under an agent (\<open>AgentHost\<close>), \<open>tracer\<close> for the kernel under an injection (\<open>Ptrace\<close>). A theorem quantifies over that
  record, so it holds for every behaviour of the environment, with answers that change in time. The predicate \<open>io_post m Q\<close> says that every run of \<open>m\<close> ends,
  appends some events \<open>d\<close> to the log, and gives a result \<open>r\<close> with \<open>Q r d\<close>. Errors are values of sum and option types; each early return of the code
  is a branch.

  \<^bold>\<open>The theories.\<close>
  \<^item> \<open>Prelude\<close>: string maps, decimal numbers, joining and splitting; the locales \<open>codec\<close> (what is written is read back) and
    \<open>invariant_system\<close> (inductive invariants), with their interpretations. \<open>Io\<close>: the monad and its rules. \<open>GoTime\<close>: durations, their parser, saturating time.
  \<^item> \<open>Types\<close>: \<open>api/v1alpha1/migratableapp_types.go\<close>. \<open>World\<close>: Kubernetes objects, events, the clock.
  \<^item> \<open>PodBuilder\<close>: \<open>pod_builder.go\<close>. \<open>Client\<close>: \<open>client.go\<close> and the polling loop. \<open>Pods\<close>: the choice of the current pod, as the locale \<open>pod_choice\<close>.
  \<^item> \<open>Fsm\<close>: \<open>migration_fsm.go\<close>, a definition per handler. \<open>FsmSpec\<close>: the abstract machine on views of the status, and the refinement
    of every handler. \<open>FsmInv\<close>: the invariant of the machine and its rank. \<open>Migration\<close>: \<open>migration.go\<close>, the older pipeline and its waits.
  \<^item> \<open>Reconciler\<close>: \<open>reconciler.go\<close>. \<open>ReconcilerSpec\<close>: what a reconcile may write. \<open>FsmProps\<close> and \<open>ReconcilerProps\<close>: the properties.
  \<^item> \<open>Scheduler\<close>, \<open>Webhook\<close> with \<open>WebhookProps\<close>, \<open>Monitor\<close>, \<open>PodProps\<close>: the packages of these names and what they promise.
  \<^item> \<open>Scan\<close>, \<open>Heat\<close>, \<open>Profiler\<close>: \<open>pkg/profiler\<close>: dirty pages per chunk, hot and cold chunks, the life of a profiler. \<open>Maps\<close>: \<open>vma.go\<close>, the reader of the
    memory map. \<open>Ptrace\<close> with \<open>PtraceProps\<close>: \<open>ptrace.go\<close>, system calls injected into the target, and the scan requests. \<open>Profiler\<close> takes the memory map, the setup and
    the close of the descriptor as single interactions with the host; \<open>Maps\<close> and \<open>Ptrace\<close> model the code behind them.
  \<^item> \<open>AgentHost\<close>: the host of an agent and its events. \<open>Paths\<close>, \<open>Json\<close>: what the agent uses of \<open>path/filepath\<close> and \<open>encoding/json\<close>.
  \<^item> \<open>S3\<close>: \<open>s3.go\<close>. \<open>Mounts\<close>: \<open>mount_utils.go\<close>. \<open>Checkpoint\<close> with \<open>CheckpointProps\<close>: \<open>checkpoint.go\<close>. \<open>Net\<close>: \<open>aws_instance.go\<close>. \<open>Restore\<close> with \<open>RestoreProps\<close>:
    \<open>restore.go\<close>. \<open>Metrics\<close>: \<open>metrics.go\<close>.
  \<^item> \<open>AgentStart\<close>: the start of the user process (\<open>server.go\<close>, \<open>namespace.go\<close>). \<open>Deadline\<close>: \<open>deadline_scheduler.go\<close>. \<open>AgentServer\<close>: the state of the agent, pre-checkpoints, profiling
    and status requests. \<open>AgentMigrate\<close>: final dump, restore, the start of the agent and \<open>cmd/agent/main.go\<close>. \<open>AgentProps\<close>: sequences of requests, what the agent promises.
  \<^item> \<open>AgentSystem\<close>: every operation on the state of one agent as a datatype, and the well-formedness that all of them keep. \<open>Service\<close>, \<open>Fleet\<close>, \<open>Journey\<close>: the
    controller composed with the modelled agents. \<open>Service\<close> has the locale \<open>agent_service\<close>, the contract of a family of agents that answer requests and keep a log;
    \<open>Fleet\<close> builds the \<open>world\<close> of the controller from one modelled agent per address, each with its own host, and interprets the locale for final dumps and for restores;
    \<open>Journey\<close> runs the handlers of the machine against such a world. \<open>JourneyRun\<close>: a complete migration as an example.
  \<^item> \<open>Flags\<close>: the package \<open>flag\<close> of Go, as far as the commands use it. \<open>Commands\<close>: the three \<open>main.go\<close> files under \<open>cmd\<close>, the ends of the server of the agent, and the
    counters of \<open>pkg/monitor/metrics.go\<close>. \<open>Abi\<close>: the numbers and structures of the kernel in \<open>pkg/profiler/types.go\<close>.
  \<^item> \<open>Examples\<close>: concrete resources, pods and worlds for the witnesses.

  \<^bold>\<open>What is shown.\<close>
  \<^item> The migration machine: each handler is a transition of an abstract machine; a final dump and a target pod
    happen at most once and only behind an uncached look at the stage; the source is cleaned up only after the
    status that ends the migration is stored; the retry policy; every status a reconcile writes is a step of the
    life of the resource; an inductive invariant bounds the retries; a migration ends after at most fifteen transitions.
  \<^item> The controller: which pod is current and which pod the end of a restore deletes; when migrations start; the checkpoint chain; waits end;
    deletions clean up the storage completely and touch nothing else; what conflicts lose.
  \<^item> Webhook, monitor, scheduler and pods: injection happens once, a resource is created once, names of applications, volumes; an
    interruption marks exactly the pods it should and the marks start migrations; the scheduler leaves migrations
    alone; a restore pod avoids its source and carries what its agent reads.
  \<^item> The profiler: chunk counters are exact, the ring of ratios is the history of a chunk, hot regions are sound; the profiler accounts for every
    dirty page; the lines of the memory map are read back as the kernel writes them, with one exception. An injection gives the target back with its registers and its code
    whatever call fails, and a write to its memory changes exactly its bytes.
  \<^item> Dumps: a pre-dump restores the deadline invariant or is tried again; the feasibility score warns exactly when it must; excluded regions are never lost between two
    pre-checkpoints and reach CRIU exactly; the chain of the manager is consistent in every reachable state; a final dump comes once, after the profiler is out of the target, and
    is stored completely before it is reported.
  \<^item> Restores: agent and controller compute the same prefix; every file comes back at its place; pipes and mounts come back; CRIU starts once and, for lazy strategies, after the
    daemon of pages is ready; no dump happens while pages are being transferred; the figures of the log are consistent and the matcher of its lines agrees with its
    expressions.
  \<^item> The composition: in every world made of modelled agents, a final dump that the status records has been stored by the agent of the source under the recorded prefix, and a
    migration that the status reports as completed has restored exactly that dump in the agent of the target. The state of an agent is well-formed after every operation.
  \<^item> The commands: the webhook runs on its built-in defaults; a flag of the logger ends the node monitor.

  \<^bold>\<open>Bounds.\<close> Loops of the code that wait are recursive functions that end because the clock advances with every sleep: a loop until a deadline makes at most as many
  rounds as sleeps fit between the first reading of the clock and the deadline. The endless loops of
  tickers are functions of a number of ticks, and the theorems hold for every number. Integers are unbounded where they count things far below their
  width (bytes, retries, generations are checked where they are parsed); addresses are natural numbers with the wrap-around of \<open>uint64\<close> written out, or words where they
  go to the kernel; chunk counters are 16-bit words. Values of type \<open>float64\<close> are rational numbers, without rounding; the parser and the printer of decimal fractions are
  parameters.

  \<^bold>\<open>What is not modelled.\<close> Deep copies, protocol buffers and the registration of the types (generated or declarative);
  \<open>ToJSON\<close>, which serves logging; the AWS SDK and CRIU, which are parameters. Goroutines are modelled one at a time: a handler
  runs without interference from another, except for the changes that the answers of the environment express. An upload in the background is one event at the place where it is
  started, the end of a lazy transfer is an operation of its own (\<open>lazyPagesCompleted\<close>), which may come between any two requests of \<open>AgentSystem\<close>, and
  a scheduler that the agent has dropped while its loop was busy is kept in \<open>a_loops\<close>, without its later ticks. In \<open>Fleet\<close> every address has one agent, which starts
  in a given state and is not restarted, so a pod that takes over the address of another is outside the composition; in \<open>Journey\<close> the resource changes only through the accepted writes
  of the handlers of the machine, and a handler is given any pod, except that the dump is asked of the pod in question.
\<close>

end
